(* ===== verification/SP_Prelude.thy ===== *)
theory SP_Prelude
  imports Complex_Main "HOL-Library.AList" "HOL-Library.Char_ord" "HOL-Library.List_Lexorder"
    "HOL-Library.Multiset"
begin

text \<open>
  Shared vocabulary of the development: the Go values the components are written over
  (times and durations in nanoseconds, byte strings, maps as association lists with
  distinct keys, slices as lists, \<^verbatim>\<open>any\<close> values of JSON documents), the slice
  idioms the code repeats (truncate a slice to a positive limit, sort by a comparison
  closure, change the rows named by a list of keys), the error values of
  \<^verbatim>\<open>store/errors.go\<close> and the generic lemmas about all of these.
\<close>

section \<open>Lemma collections\<close>

named_theorems store_defs \<open>definitions unfolded in the proofs about repositories\<close>
named_theorems inv_intros \<open>preservation lemmas of the store invariants\<close>
named_theorems step_lookup \<open>what a repository operation does to the row under one key\<close>

section \<open>Go values\<close>

text \<open>
  A \<^verbatim>\<open>time.Time\<close> is the number of nanoseconds since Go's zero time, so that \<open>0\<close> is the
  value \<^verbatim>\<open>IsZero\<close> recognises; a \<^verbatim>\<open>time.Duration\<close> is a number of nanoseconds.
\<close>

type_synonym go_time = int
type_synonym duration = int
type_synonym ident = string
type_synonym ('k, 'v) gomap = "('k \<times> 'v) list"

abbreviation Millisecond :: duration where "Millisecond \<equiv> 1000000"
abbreviation Second :: duration where "Second \<equiv> 1000000000"
abbreviation Minute :: duration where "Minute \<equiv> 60 * 1000000000"
abbreviation Hour :: duration where "Hour \<equiv> 3600 * 1000000000"

datatype anyval = VNil | VBool bool | VNum rat | VStr string | VList "anyval list"
  | VMap "(string \<times> anyval) list"

datatype store_err = ErrNotFound | ErrConflict | ErrInvalid | ErrLeaseLost | ErrReadOnly | ErrClosed

section \<open>Slices\<close>

text \<open>\<^verbatim>\<open>if limit > 0 && len(xs) > limit { xs = xs[:limit] }\<close>\<close>

definition chop :: "int \<Rightarrow> 'a list \<Rightarrow> 'a list" where
  "chop limit xs = (if 0 < limit \<and> limit < int (length xs) then take (nat limit) xs else xs)"

lemma set_chop_subset: "set (chop limit xs) \<subseteq> set xs"
  by (auto simp: chop_def dest: in_set_takeD)

lemma chop_unlimited [simp]: "limit \<le> 0 \<Longrightarrow> chop limit xs = xs"
  by (simp add: chop_def)

lemma distinct_chop [simp]: "distinct xs \<Longrightarrow> distinct (chop limit xs)"
  by (simp add: chop_def)

lemma length_chop: "length (chop limit xs) = (if 0 < limit then min (nat limit) (length xs) else length xs)"
  by (auto simp: chop_def)

lemma chop_length_le: "0 < limit \<Longrightarrow> int (length (chop limit xs)) \<le> limit"
  by (auto simp: length_chop)

lemma chop_all: "int (length (chop limit xs)) < limit \<Longrightarrow> chop limit xs = xs"
  by (auto simp: chop_def split: if_splits)

lemma chop_prefix: "\<exists>rest. xs = chop limit xs @ rest"
  by (rule exI [of _ "drop (length (chop limit xs)) xs"]) (simp add: chop_def min_def)

lemma sorted_wrt_chop: "sorted_wrt P xs \<Longrightarrow> sorted_wrt P (chop limit xs)"
  by (simp add: chop_def sorted_wrt_take)

text \<open>\<^verbatim>\<open>sort.Slice\<close> with a comparison closure, as an insertion sort.\<close>

fun insert_by :: "('a \<Rightarrow> 'a \<Rightarrow> bool) \<Rightarrow> 'a \<Rightarrow> 'a list \<Rightarrow> 'a list" where
  "insert_by lt x [] = [x]"
| "insert_by lt x (y # ys) = (if lt y x then y # insert_by lt x ys else x # y # ys)"

definition sort_slice :: "('a \<Rightarrow> 'a \<Rightarrow> bool) \<Rightarrow> 'a list \<Rightarrow> 'a list" where
  "sort_slice lt xs = foldr (insert_by lt) xs []"

lemma mset_insert_by [simp]: "mset (insert_by lt x xs) = add_mset x (mset xs)"
  by (induction xs) auto

lemma set_insert_by [simp]: "set (insert_by lt x xs) = insert x (set xs)"
  by (induction xs) auto

lemma mset_sort_slice [simp]: "mset (sort_slice lt xs) = mset xs"
  by (induction xs) (auto simp: sort_slice_def)

lemma set_sort_slice [simp]: "set (sort_slice lt xs) = set xs"
  using mset_eq_setD [OF mset_sort_slice] .

lemma length_sort_slice [simp]: "length (sort_slice lt xs) = length xs"
  using mset_eq_length [OF mset_sort_slice] .

lemma distinct_map_sort_slice [simp]: "distinct (map f (sort_slice lt xs)) = distinct (map f xs)"
  by (rule mset_eq_imp_distinct_iff) simp

text \<open>
  What a comparison closure has to promise: a strict order that separates elements with
  different keys.  The order in which Go enumerates a map is unspecified; under this
  contract the sorted slice does not depend on it.
\<close>

locale slice_order =
  fixes lt :: "'a \<Rightarrow> 'a \<Rightarrow> bool" and key :: "'a \<Rightarrow> 'k"
  assumes irrefl: "\<not> lt x x"
    and trans: "lt x y \<Longrightarrow> lt y z \<Longrightarrow> lt x z"
    and total: "key x \<noteq> key y \<Longrightarrow> lt x y \<or> lt y x"
begin

lemma asym: "lt x y \<Longrightarrow> \<not> lt y x"
  using irrefl trans by blast

lemma insert_by_sorted:
  assumes "sorted_wrt lt ys" "key x \<notin> key ` set ys"
  shows "sorted_wrt lt (insert_by lt x ys)"
  using assms
proof (induction ys)
  case (Cons y ys)
  show ?case
  proof (cases "lt y x")
    case True with Cons show ?thesis by simp
  next
    case False
    with Cons.prems have "lt x y" using total [of x y] by simp
    moreover have "lt x z" if "z \<in> set ys" for z
      using trans [OF \<open>lt x y\<close>] that Cons.prems by simp
    ultimately show ?thesis using False Cons.prems by simp
  qed
qed simp

lemma sort_slice_sorted: "distinct (map key xs) \<Longrightarrow> sorted_wrt lt (sort_slice lt xs)"
proof (induction xs)
  case (Cons x xs)
  then have "key x \<notin> key ` set (sort_slice lt xs)" by simp
  with Cons show ?case by (simp add: sort_slice_def insert_by_sorted)
qed (simp add: sort_slice_def)

lemma sorted_unique:
  "sorted_wrt lt xs \<Longrightarrow> sorted_wrt lt ys \<Longrightarrow> mset xs = mset ys \<Longrightarrow> xs = ys"
proof (induction xs arbitrary: ys)
  case (Cons x xs)
  then obtain y ys' where ys: "ys = y # ys'" by (cases ys) auto
  have "x = y"
  proof (rule ccontr)
    assume "x \<noteq> y"
    moreover have "set (x # xs) = set (y # ys')" using Cons.prems(3) ys mset_eq_setD by blast
    ultimately have "x \<in> set ys'" "y \<in> set xs" by auto
    with Cons.prems ys show False using asym by auto
  qed
  with Cons ys show ?case by auto
qed simp

lemma sort_slice_perm:
  "mset xs = mset ys \<Longrightarrow> distinct (map key xs) \<Longrightarrow> sort_slice lt xs = sort_slice lt ys"
  using sorted_unique [of "sort_slice lt xs" "sort_slice lt ys"] sort_slice_sorted
    mset_eq_imp_distinct_iff [of "map key xs" "map key ys"] by simp

end

interpretation string_less: slice_order "(<) :: string \<Rightarrow> string \<Rightarrow> bool" "\<lambda>s. s"
  by unfold_locales (rule less_irrefl, erule (1) less_trans, simp add: neq_iff)

section \<open>Maps\<close>

declare map_of_eq_Some_iff [simp del] Some_eq_map_of_iff [simp del]

text \<open>The rows of a map for which a condition on key and value holds, as their keys.\<close>

definition keys_where :: "('k \<Rightarrow> 'v \<Rightarrow> bool) \<Rightarrow> ('k, 'v) gomap \<Rightarrow> 'k list" where
  "keys_where P m = map fst (filter (\<lambda>(k, v). P k v) m)"

text \<open>A loop over keys that changes the row under each: \<^verbatim>\<open>for _, id := range ids { m[id].f() }\<close>.\<close>

definition alter_rows :: "'k list \<Rightarrow> ('v \<Rightarrow> 'v) \<Rightarrow> ('k, 'v) gomap \<Rightarrow> ('k, 'v) gomap" where
  "alter_rows ks f m = map (\<lambda>(k, v). (k, if k \<in> set ks then f v else v)) m"

lemma keys_where_eq: "distinct (map fst m) \<Longrightarrow> k \<in> set (keys_where P m) \<longleftrightarrow> (\<exists>v. map_of m k = Some v \<and> P k v)"
  by (force simp: keys_where_def map_of_eq_Some_iff)

lemma distinct_keys_where [simp]: "distinct (map fst m) \<Longrightarrow> distinct (keys_where P m)"
  by (simp add: keys_where_def distinct_map_filter)

lemma keys_where_Nil [simp]: "keys_where P [] = []"
  by (simp add: keys_where_def)

lemma keys_where_Cons [simp]:
  "keys_where P ((k, v) # m) = (if P k v then k # keys_where P m else keys_where P m)"
  by (simp add: keys_where_def)

lemma keys_where_mono: "(\<And>k v. P k v \<Longrightarrow> Q k v) \<Longrightarrow> length (keys_where P m) \<le> length (keys_where Q m)"
  by (induction m) (auto simp: le_SucI)

lemma keys_where_shrink:
  assumes "\<And>k v. P k v \<Longrightarrow> Q k v" "x \<in> set (keys_where Q m)" "\<And>v. \<not> P x v"
  shows "length (keys_where P m) < length (keys_where Q m)"
  using assms(2)
proof (induction m)
  case (Cons a m)
  obtain k v where a: "a = (k, v)" by (cases a)
  have "length (keys_where P m) \<le> length (keys_where Q m)" using assms(1) by (rule keys_where_mono)
  then show ?case using Cons assms(1,3) a by (auto split: if_splits)
qed simp

lemma filter_keys_where:
  "filter R (keys_where P m) = keys_where (\<lambda>k v. P k v \<and> R k) m"
  by (induction m) auto

lemma sorted_filter_gt_nth:
  "sorted xs \<Longrightarrow> distinct xs \<Longrightarrow> k < length xs \<Longrightarrow> filter (\<lambda>x. \<not> x \<le> (xs ! k :: 'a::linorder)) xs = drop (Suc k) xs"
proof (induction xs arbitrary: k)
  case (Cons x xs)
  show ?case
  proof (cases k)
    case 0
    with Cons.prems have "\<And>y. y \<in> set xs \<Longrightarrow> \<not> y \<le> x" by (metis antisym distinct.simps(2) sorted_simps(2))
    with 0 show ?thesis by (simp add: filter_id_conv)
  next
    case (Suc j)
    with Cons.prems have "x \<le> xs ! j" by simp
    with Suc Cons show ?thesis by simp
  qed
qed simp

lemma fst_alter_rows [simp]: "map fst (alter_rows ks f m) = map fst m"
  by (simp add: alter_rows_def case_prod_beta comp_def)

lemma map_of_alter_rows [simp, step_lookup]:
  "map_of (alter_rows ks f m) k = (if k \<in> set ks then map_option f (map_of m k) else map_of m k)"
  by (induction m) (auto simp: alter_rows_def)

lemma alter_rows_Nil [simp]: "alter_rows [] f m = m"
  by (simp add: alter_rows_def case_prod_beta)

lemma fst_update [simp]: "distinct (map fst m) \<Longrightarrow> distinct (map fst (AList.update k v m))"
  by (rule distinct_update)

lemma fst_delete [simp]: "distinct (map fst m) \<Longrightarrow> distinct (map fst (AList.delete k m))"
  by (rule distinct_delete)

lemma map_of_update [simp, step_lookup]:
  "map_of (AList.update k v m) k' = (if k' = k then Some v else map_of m k')"
  by (simp add: update_conv')

lemma map_of_delete [simp, step_lookup]:
  "map_of (AList.delete k m) k' = (if k' = k then None else map_of m k')"
  by (simp add: delete_conv')

lemma map_of_filter_rows:
  "distinct (map fst m) \<Longrightarrow>
    map_of (filter (\<lambda>(k, v). P k v) m) k = (case map_of m k of None \<Rightarrow> None | Some v \<Rightarrow> if P k v then Some v else None)"
proof (induction m)
  case (Cons a m)
  moreover have "map_of m (fst a) = None" using Cons.prems by (simp add: map_of_eq_None_iff)
  ultimately show ?case by (cases a) (cases "k = fst a"; simp)
qed simp

lemma distinct_fst_filter [simp]: "distinct (map fst m) \<Longrightarrow> distinct (map fst (filter P m))"
  by (simp add: distinct_map_filter)

lemma keys_where_alter:
  assumes "\<And>k v. k \<in> set ks \<Longrightarrow> (k, v) \<in> set m \<Longrightarrow> \<not> P k (f v)"
  shows "keys_where P (alter_rows ks f m) = filter (\<lambda>k. k \<notin> set ks) (keys_where P m)"
  using assms by (induction m) (auto simp: alter_rows_def)

lemma length_filter_out:
  "distinct ks \<Longrightarrow> distinct xs \<Longrightarrow> set ks \<subseteq> set xs \<Longrightarrow> length (filter (\<lambda>k. k \<notin> set ks) xs) = length xs - length ks"
proof -
  assume "distinct ks" "distinct xs" "set ks \<subseteq> set xs"
  then have "length (filter (\<lambda>k. k \<notin> set ks) xs) = card (set xs - set ks)"
    by (subst distinct_card [symmetric]) (auto intro!: arg_cong [where f = card])
  with \<open>set ks \<subseteq> set xs\<close> \<open>distinct ks\<close> \<open>distinct xs\<close> show ?thesis
    by (simp add: card_Diff_subset distinct_card)
qed

text \<open>Changing the first \<open>limit\<close> rows that match, so that they no longer do.\<close>

lemma chopped_progress:
  assumes "distinct (map fst m)" "ks = chop limit (sort (keys_where P m))" "\<And>k v. k \<in> set ks \<Longrightarrow> (k, v) \<in> set m \<Longrightarrow> \<not> P k (f v)"
  shows "length (keys_where P (alter_rows ks f m)) = length (keys_where P (m :: (string, 'v) gomap)) - length ks"
proof -
  have "keys_where P (alter_rows ks f m) = filter (\<lambda>k. k \<notin> set ks) (keys_where P m)"
    using assms(3) by (rule keys_where_alter)
  then show ?thesis
    using assms(1,2) set_chop_subset [of limit "sort (keys_where P m)"] by (simp add: length_filter_out)
qed

text \<open>
  Two association lists are the same Go map when they are permutations of one another; the
  enumeration order is all that differs.
\<close>

definition same_map :: "('k, 'v) gomap \<Rightarrow> ('k, 'v) gomap \<Rightarrow> bool" where
  "same_map m m' = (mset m = mset m' \<and> distinct (map fst m))"

lemma same_map_distinct: "same_map m m' \<Longrightarrow> distinct (map fst m')"
  using mset_eq_imp_distinct_iff [of "map fst m" "map fst m'"] by (simp add: same_map_def)

lemma same_map_lookup: "same_map m m' \<Longrightarrow> map_of m k = map_of m' k"
  using map_of_inject_set [of m m'] same_map_distinct [of m m'] mset_eq_setD [of m m']
  by (simp add: same_map_def)

lemma same_map_keys_where: "same_map m m' \<Longrightarrow> mset (keys_where P m) = mset (keys_where P m')"
  unfolding same_map_def keys_where_def mset_map mset_filter by simp

lemma sort_keys_where_perm:
  "same_map m m' \<Longrightarrow> sort (keys_where P m) = sort (keys_where (P :: string \<Rightarrow> _) m')"
  by (rule properties_for_sort [symmetric]) (auto dest: same_map_keys_where)

lemma same_map_alter: "same_map m m' \<Longrightarrow> same_map (alter_rows ks f m) (alter_rows ks f m')"
  unfolding same_map_def fst_alter_rows by (simp add: alter_rows_def)

end
