(* ===== verification/Store_Types.thy ===== *)
theory Store_Types
  imports SP_Prelude
begin

text \<open>
  The data of package \<^verbatim>\<open>store\<close>: the enumerations of \<^verbatim>\<open>store/enums.go\<close> with their text
  codec, the stored structs as records (one field per struct field, prefixed by the
  struct's initials), \<^verbatim>\<open>TruncateTime\<close>, \<^verbatim>\<open>Page.Normalize\<close> and the tenant settings helpers.
  Byte slices are strings, \<^verbatim>\<open>float64\<close> is \<open>rat\<close>, a Go string type keeps its string values.
\<close>

section \<open>Enumerations\<close>

datatype DeliveryStatus = DeliveryPending | DeliveryQueued | DeliveryLeased | DeliveryDeferred
  | DeliverySent | DeliveryFailed | DeliveryBounced | DeliveryComplained | DeliverySuppressed
  | DeliveryCancelled

datatype Lane = LaneBulk | LaneTransactional | LaneProbe

datatype ErrorClass = ErrorClassNone | ErrorClassTransient | ErrorClassRateLimited
  | ErrorClassPermanent | ErrorClassPolicy | ErrorClassAuth

datatype CampaignStatus = CampaignDraft | CampaignScheduled | CampaignRunning | CampaignPaused
  | CampaignCompleted | CampaignCancelled

datatype TransportStatus = TransportHealthy | TransportCooldown | TransportUnhealthy

datatype BounceType = BounceUnknown | BounceHard | BounceSoft | BounceComplaint

datatype TrackingKind = TrackingOpen | TrackingClick | TrackingUnsubscribeClicked
  | TrackingUnsubscribed

datatype MailboxStatus = MailboxUnknown | MailboxOK | MailboxError

datatype HealthStatus = HealthUnknown | HealthGreen | HealthYellow | HealthRed

text \<open>The values in the order of their \<^verbatim>\<open>iota\<close> numbers, and the number of a value.\<close>

definition DeliveryStatus_values :: "DeliveryStatus list" where
  "DeliveryStatus_values = [DeliveryPending, DeliveryQueued, DeliveryLeased, DeliveryDeferred,
    DeliverySent, DeliveryFailed, DeliveryBounced, DeliveryComplained, DeliverySuppressed,
    DeliveryCancelled]"

definition HealthStatus_values :: "HealthStatus list" where
  "HealthStatus_values = [HealthUnknown, HealthGreen, HealthYellow, HealthRed]"

fun iota :: "'a list \<Rightarrow> 'a \<Rightarrow> int" where
  "iota [] v = 0"
| "iota (x # xs) v = (if x = v then 0 else 1 + iota xs v)"

definition deliveryStatusNames :: "string list" where
  "deliveryStatusNames = [''pending'', ''queued'', ''leased'', ''deferred'', ''sent'', ''failed'',
    ''bounced'', ''complained'', ''suppressed'', ''cancelled'']"

definition laneNames :: "string list" where
  "laneNames = [''bulk'', ''transactional'', ''probe'']"

definition errorClassNames :: "string list" where
  "errorClassNames = [''none'', ''transient'', ''rate_limited'', ''permanent'', ''policy'', ''auth'']"

definition campaignStatusNames :: "string list" where
  "campaignStatusNames = [''draft'', ''scheduled'', ''running'', ''paused'', ''completed'', ''cancelled'']"

definition transportStatusNames :: "string list" where
  "transportStatusNames = [''healthy'', ''cooldown'', ''unhealthy'']"

definition bounceTypeNames :: "string list" where
  "bounceTypeNames = [''unknown'', ''hard'', ''soft'', ''complaint'']"

definition trackingKindNames :: "string list" where
  "trackingKindNames = [''open'', ''click'', ''unsubscribe_clicked'', ''unsubscribed'']"

definition mailboxStatusNames :: "string list" where
  "mailboxStatusNames = [''unknown'', ''ok'', ''error'']"

definition healthStatusNames :: "string list" where
  "healthStatusNames = [''unknown'', ''green'', ''yellow'', ''red'']"

text \<open>\<^verbatim>\<open>strconv.Itoa\<close>\<close>

fun digits :: "nat \<Rightarrow> string" where
  "digits n = (if n < 10 then [char_of (48 + n)] else digits (n div 10) @ [char_of (48 + n mod 10)])"

definition Itoa :: "int \<Rightarrow> string" where
  "Itoa i = (if i < 0 then CHR ''-'' # digits (nat (- i)) else digits (nat i))"

text \<open>The generic text codec, over the number of an \<^verbatim>\<open>int8\<close> enumeration and its name table.\<close>

definition enumString :: "int \<Rightarrow> string list \<Rightarrow> string" where
  "enumString v names =
    (if 0 \<le> v \<and> v < int (length names) then names ! nat v else ''invalid('' @ Itoa v @ '')'')"

definition enumText :: "int \<Rightarrow> string list \<Rightarrow> store_err + string" where
  "enumText v names =
    (if v < 0 \<or> int (length names) \<le> v then Inl ErrInvalid else Inr (names ! nat v))"

fun enumParse_from :: "int \<Rightarrow> string \<Rightarrow> string list \<Rightarrow> store_err + int" where
  "enumParse_from i s [] = Inl ErrInvalid"
| "enumParse_from i s (n # ns) = (if n = s then Inr i else enumParse_from (i + 1) s ns)"

definition enumParse :: "string \<Rightarrow> string list \<Rightarrow> store_err + int" where
  "enumParse b names = enumParse_from 0 b names"

fun Terminal :: "DeliveryStatus \<Rightarrow> bool" where
  "Terminal DeliverySent = True"
| "Terminal DeliveryFailed = True"
| "Terminal DeliveryBounced = True"
| "Terminal DeliveryComplained = True"
| "Terminal DeliverySuppressed = True"
| "Terminal DeliveryCancelled = True"
| "Terminal _ = False"

section \<open>Times and pages\<close>

definition TruncateTime :: "go_time \<Rightarrow> go_time" where
  "TruncateTime t = (if t = 0 then 0 else t - t mod Millisecond)"

record Page =
  pg_Limit :: int
  pg_Cursor :: string

definition DefaultPageLimit :: int where "DefaultPageLimit = 50"
definition MaxPageLimit :: int where "MaxPageLimit = 1000"

definition Normalize :: "Page \<Rightarrow> Page" where
  "Normalize p =
    (let p = (if pg_Limit p \<le> 0 then p\<lparr>pg_Limit := DefaultPageLimit\<rparr> else p)
     in if MaxPageLimit < pg_Limit p then p\<lparr>pg_Limit := MaxPageLimit\<rparr> else p)"

record 'a Result =
  res_Items :: "'a list"
  res_NextCursor :: string

section \<open>Deliveries\<close>

record Delivery =
  d_ID :: string
  d_TenantID :: string
  d_CampaignID :: string
  d_VersionID :: string
  d_SenderID :: string
  d_Lane :: Lane
  d_Priority :: int
  d_Status :: DeliveryStatus
  d_Email :: string
  d_EmailNorm :: string
  d_Name :: string
  d_Locale :: string
  d_Vars :: "(string, anyval) gomap"
  d_TenantVars :: "(string, anyval) gomap"
  d_UnsubscribeURL :: string
  d_Headers :: "(string, string) gomap"
  d_AttemptCount :: int
  d_RetryGen :: int
  d_NextAttemptAt :: go_time
  d_LeaseOwner :: string
  d_LeaseUntil :: go_time
  d_LastErrorClass :: ErrorClass
  d_LastSMTPCode :: int
  d_LastError :: string
  d_MessageID :: string
  d_SentAt :: go_time
  d_FinishedAt :: go_time
  d_FirstOpenedAt :: go_time
  d_FirstClickedAt :: go_time
  d_UnsubscribedAt :: go_time
  d_CreatedAt :: go_time
  d_UpdatedAt :: go_time

record DeliveryAttempt =
  a_ID :: string
  a_TenantID :: string
  a_DeliveryID :: string
  a_AttemptNo :: int
  a_RetryGen :: int
  a_TransportID :: string
  a_StartedAt :: go_time
  a_FinishedAt :: go_time
  a_SMTPCode :: int
  a_EnhancedCode :: string
  a_ErrorClass :: ErrorClass
  a_Error :: string
  a_CreatedAt :: go_time

record ClaimRequest =
  cr_Lane :: Lane
  cr_CampaignIDs :: "string list option"
  cr_Limit :: int
  cr_LeaseFor :: duration
  cr_WorkerID :: string
  cr_Now :: go_time

record DeliveryResult =
  dr_DeliveryID :: string
  dr_LeaseOwner :: string
  dr_NewStatus :: DeliveryStatus
  dr_NextAttemptAt :: go_time
  dr_ErrorClass :: ErrorClass
  dr_SMTPCode :: int
  dr_Error :: string
  dr_MessageID :: string
  dr_IncrementAttempt :: bool
  dr_Attempt :: "DeliveryAttempt option"

record RetryFilter =
  rf_CampaignID :: string
  rf_DeliveryIDs :: "string list option"
  rf_Statuses :: "DeliveryStatus list"
  rf_ErrorClasses :: "ErrorClass list"
  rf_Now :: go_time

record DeliveryFilter =
  df_Statuses :: "DeliveryStatus list"
  df_ErrorClasses :: "ErrorClass list"
  df_Lanes :: "Lane list"
  df_EmailNorm :: string
  df_CampaignID :: "string option"
  df_Since :: go_time
  df_Until :: go_time

section \<open>Campaigns\<close>

record CampaignStats =
  cs_ByStatus :: "(DeliveryStatus, int) gomap"
  cs_UniqueOpens :: int
  cs_UniqueClicks :: int
  cs_Unsubscribed :: int
  cs_UnsubscribeClicked :: int
  cs_ComputedAt :: go_time

record Campaign =
  c_ID :: string
  c_TenantID :: string
  c_Name :: string
  c_TemplateID :: string
  c_VersionID :: string
  c_SenderID :: string
  c_DefaultLocale :: string
  c_Vars :: "(string, anyval) gomap"
  c_TenantVars :: "(string, anyval) gomap"
  c_Status :: CampaignStatus
  c_ScheduleAt :: go_time
  c_StartedAt :: go_time
  c_CompletedAt :: go_time
  c_Stats :: CampaignStats
  c_Version :: int
  c_CreatedAt :: go_time
  c_UpdatedAt :: go_time

abbreviation ChunkPending :: string where "ChunkPending \<equiv> ''pending''"
abbreviation ChunkCompleted :: string where "ChunkCompleted \<equiv> ''completed''"

record RecipientChunk =
  rc_TenantID :: string
  rc_CampaignID :: string
  rc_Key :: string
  rc_State :: string
  rc_Accepted :: int
  rc_Duplicates :: int
  rc_Invalid :: int
  rc_CreatedAt :: go_time
  rc_UpdatedAt :: go_time

section \<open>Transports, senders, domains, mailboxes\<close>

record Transport =
  tr_ID :: string
  tr_TenantID :: string
  tr_Name :: string
  tr_Host :: string
  tr_Port :: int
  tr_TLS :: string
  tr_Username :: string
  tr_Password :: string
  tr_MaxConns :: int
  tr_RatePerSecond :: rat
  tr_DomainRatePerSecond :: "(string, rat) gomap"
  tr_Shared :: bool
  tr_Status :: TransportStatus
  tr_StatusReason :: string
  tr_StatusChangedAt :: go_time
  tr_StatusUntil :: go_time
  tr_Version :: int
  tr_CreatedAt :: go_time
  tr_UpdatedAt :: go_time

record Sender =
  se_ID :: string
  se_TenantID :: string
  se_Name :: string
  se_FromName :: string
  se_FromEmail :: string
  se_ReplyTo :: string
  se_TransportID :: string
  se_DomainID :: string
  se_Shared :: bool
  se_Health :: HealthStatus
  se_HealthReason :: string
  se_HealthCheckedAt :: go_time
  se_Version :: int
  se_CreatedAt :: go_time
  se_UpdatedAt :: go_time

record SendingDomain =
  sd_ID :: string
  sd_TenantID :: string
  sd_Domain :: string
  sd_DKIMSelector :: string
  sd_DKIMPrivateKey :: string
  sd_ReturnPathDomain :: string
  sd_ExpectedSPF :: string
  sd_OutboundIPs :: "string list"
  sd_Shared :: bool
  sd_Health :: HealthStatus
  sd_HealthReason :: string
  sd_HealthCheckedAt :: go_time
  sd_Version :: int
  sd_CreatedAt :: go_time
  sd_UpdatedAt :: go_time

abbreviation MailboxStageOK :: string where "MailboxStageOK \<equiv> ''ok''"

record MailboxHealth =
  mh_Status :: MailboxStatus
  mh_Stage :: string
  mh_Reason :: string
  mh_CheckedAt :: go_time
  mh_LastOKAt :: go_time
  mh_ConsecutiveFailures :: int

record BounceMailbox =
  bm_ID :: string
  bm_TenantID :: string
  bm_Name :: string
  bm_Address :: string
  bm_Protocol :: string
  bm_Host :: string
  bm_Port :: int
  bm_TLS :: string
  bm_Username :: string
  bm_Password :: string
  bm_Folder :: string
  bm_AfterProcess :: string
  bm_Enabled :: bool
  bm_Shared :: bool
  bm_Health :: MailboxHealth
  bm_Version :: int
  bm_CreatedAt :: go_time
  bm_UpdatedAt :: go_time

record ProbeMailbox =
  pm_ID :: string
  pm_TenantID :: string
  pm_Name :: string
  pm_Kind :: string
  pm_Address :: string
  pm_Host :: string
  pm_Port :: int
  pm_TLS :: string
  pm_Username :: string
  pm_Password :: string
  pm_InboxFolder :: string
  pm_SpamFolder :: string
  pm_AuthServID :: string
  pm_Enabled :: bool
  pm_Shared :: bool
  pm_Health :: MailboxHealth
  pm_Version :: int
  pm_CreatedAt :: go_time
  pm_UpdatedAt :: go_time

record ProbeRun =
  pr_ID :: string
  pr_TenantID :: string
  pr_SenderID :: string
  pr_MailboxID :: string
  pr_DeliveryID :: string
  pr_GroupID :: string
  pr_Pending :: bool
  pr_Status :: HealthStatus
  pr_Reason :: string
  pr_Delivered :: bool
  pr_Folder :: string
  pr_Latency :: duration
  pr_SPF :: string
  pr_DKIM :: string
  pr_DMARC :: string
  pr_DKIMDomain :: string
  pr_DKIMSelector :: string
  pr_DMARCPolicy :: string
  pr_TLS :: bool
  pr_ObservedIP :: string
  pr_PTR :: string
  pr_PTRMatch :: bool
  pr_DNS :: string
  pr_RawHeaders :: string
  pr_StartedAt :: go_time
  pr_ReceivedAt :: go_time
  pr_CreatedAt :: go_time

section \<open>Content\<close>

record I18nBundle =
  i18n_DefaultLocale :: string
  i18n_Locales :: "(string, (string, string) gomap) gomap"

record Layout =
  ly_ID :: string
  ly_TenantID :: string
  ly_Name :: string
  ly_Key :: string
  ly_Shared :: bool
  ly_Mode :: string
  ly_Body :: string
  ly_I18n :: I18nBundle
  ly_Version :: int
  ly_CreatedAt :: go_time
  ly_UpdatedAt :: go_time
  ly_Overridden :: bool

record Template =
  tp_ID :: string
  tp_TenantID :: string
  tp_Name :: string
  tp_LayoutID :: string
  tp_Key :: string
  tp_Shared :: bool
  tp_Uses :: "string list"
  tp_OverriddenFromVersion :: string
  tp_Subject :: string
  tp_Preheader :: string
  tp_Mode :: string
  tp_Body :: string
  tp_Blocks :: string
  tp_Text :: string
  tp_I18n :: I18nBundle
  tp_DefaultLocale :: string
  tp_PublishedVersionID :: string
  tp_Version :: int
  tp_CreatedAt :: go_time
  tp_UpdatedAt :: go_time
  tp_Overridden :: bool
  tp_SharedPublishedVersionID :: string

record MessageVersion =
  mv_ID :: string
  mv_TenantID :: string
  mv_TemplateID :: string
  mv_LayoutID :: string
  mv_SubjectTpl :: string
  mv_HTMLTpl :: string
  mv_TextTpl :: string
  mv_I18n :: I18nBundle
  mv_DefaultLocale :: string
  mv_Links :: "string list"
  mv_Checksum :: string
  mv_CreatedAt :: go_time

section \<open>Bounces, suppressions, tracking, outbox, locks, workers\<close>

record BounceEvent =
  be_ID :: string
  be_TenantID :: string
  be_DeliveryID :: string
  be_Type :: BounceType
  be_Source :: string
  be_Verified :: bool
  be_Recipient :: string
  be_EmailNorm :: string
  be_SMTPStatus :: string
  be_DiagnosticCode :: string
  be_MessageID :: string
  be_Raw :: string
  be_ReceivedAt :: go_time
  be_CreatedAt :: go_time

record Suppression =
  su_TenantID :: string
  su_EmailNorm :: string
  su_Reason :: string
  su_SourceDeliveryID :: string
  su_CreatedAt :: go_time
  su_ExpiresAt :: go_time

record TrackingEvent =
  te_ID :: string
  te_TenantID :: string
  te_DeliveryID :: string
  te_CampaignID :: string
  te_Kind :: TrackingKind
  te_URL :: string
  te_LinkNo :: int
  te_UserAgent :: string
  te_IPHash :: string
  te_SuspectedBot :: bool
  te_CreatedAt :: go_time

record TrackingCounts =
  tc_UniqueOpens :: int
  tc_UniqueClicks :: int
  tc_UnsubscribeClicked :: int
  tc_Unsubscribed :: int

record LinkClick =
  lc_LinkNo :: int
  lc_URL :: string
  lc_Clicks :: int
  lc_UniqueClicks :: int

abbreviation OutboxPending :: string where "OutboxPending \<equiv> ''pending''"
abbreviation OutboxDelivered :: string where "OutboxDelivered \<equiv> ''delivered''"
abbreviation OutboxFailed :: string where "OutboxFailed \<equiv> ''failed''"

record OutboxEvent =
  oe_ID :: string
  oe_TenantID :: string
  oe_Type :: string
  oe_Payload :: string
  oe_Status :: string
  oe_Attempts :: int
  oe_NextAttemptAt :: go_time
  oe_LeaseOwner :: string
  oe_LeaseUntil :: go_time
  oe_LastError :: string
  oe_CreatedAt :: go_time
  oe_DeliveredAt :: go_time

record Lock =
  lk_TenantID :: string
  lk_Name :: string
  lk_Owner :: string
  lk_AcquiredAt :: go_time
  lk_ExpiresAt :: go_time

record Worker =
  wk_ID :: string
  wk_TenantID :: string
  wk_Role :: string
  wk_Lanes :: "Lane list"
  wk_Concurrency :: int
  wk_StartedAt :: go_time
  wk_LastSeenAt :: go_time

section \<open>Tenant settings\<close>

record RetryPolicy =
  rp_Backoff :: "duration list"
  rp_MaxAttempts :: int

record SigningKey =
  sk_KID :: string
  sk_Secret :: string
  sk_CreatedAt :: go_time

record TrackingConfig =
  tk_Domain :: string
  tk_Opens :: bool
  tk_Clicks :: bool
  tk_SigningKeys :: "SigningKey list"

abbreviation UnsubscribeSendplane :: string where "UnsubscribeSendplane \<equiv> ''sendplane''"
abbreviation UnsubscribeHost :: string where "UnsubscribeHost \<equiv> ''host''"
abbreviation UnsubscribeNone :: string where "UnsubscribeNone \<equiv> ''none''"

record TenantSettings =
  ts_TenantID :: string
  ts_Retry :: RetryPolicy
  ts_RetentionDays :: int
  ts_SuppressionEnabled :: bool
  ts_BounceRetainRaw :: bool
  ts_UnsubscribeMode :: string
  ts_UnsubscribeURLTemplate :: string
  ts_UnsubscribeOneClick :: bool
  ts_DefaultLocale :: string
  ts_Tracking :: TrackingConfig
  ts_PlatformDefaults :: "string list"
  ts_EventTypes :: "string list"
  ts_Version :: int
  ts_CreatedAt :: go_time
  ts_UpdatedAt :: go_time

definition DefaultOffEventTypes :: "string list" where
  "DefaultOffEventTypes = [''delivery.sent'', ''delivery.opened'', ''delivery.clicked'']"

definition SubscribedTo :: "TenantSettings option \<Rightarrow> string \<Rightarrow> bool" where
  "SubscribedTo s typ =
    (case s of
       None \<Rightarrow> typ \<notin> set DefaultOffEventTypes
     | Some s \<Rightarrow>
         if length (ts_EventTypes s) = 0 then typ \<notin> set DefaultOffEventTypes
         else typ \<in> set (ts_EventTypes s))"

text \<open>\<^verbatim>\<open>rand\<close> is the 36 bytes \<^verbatim>\<open>crypto/rand\<close> delivers.\<close>

definition hex_digit :: "nat \<Rightarrow> char" where
  "hex_digit n = (if n < 10 then char_of (48 + n) else char_of (87 + n))"

definition EncodeToString :: "string \<Rightarrow> string" where
  "EncodeToString bs =
    concat (map (\<lambda>c. [hex_digit (of_char c div 16), hex_digit (of_char c mod 16)]) bs)"

definition NewSigningKey :: "string \<Rightarrow> go_time \<Rightarrow> SigningKey" where
  "NewSigningKey rand now =
    \<lparr>sk_KID = EncodeToString (drop 32 rand), sk_Secret = take 32 rand, sk_CreatedAt = TruncateTime now\<rparr>"

definition DefaultTenantSettings :: "string \<Rightarrow> string \<Rightarrow> go_time \<Rightarrow> TenantSettings" where
  "DefaultTenantSettings rand tenantID now =
    \<lparr>ts_TenantID = tenantID,
     ts_Retry = \<lparr>rp_Backoff = [Minute, 5 * Minute, 15 * Minute, Hour, 4 * Hour, 12 * Hour],
                 rp_MaxAttempts = 6\<rparr>,
     ts_RetentionDays = 90, ts_SuppressionEnabled = True, ts_BounceRetainRaw = False,
     ts_UnsubscribeMode = UnsubscribeSendplane, ts_UnsubscribeURLTemplate = '''',
     ts_UnsubscribeOneClick = False, ts_DefaultLocale = ''en'',
     ts_Tracking = \<lparr>tk_Domain = '''', tk_Opens = True, tk_Clicks = True,
                    tk_SigningKeys = [NewSigningKey rand now]\<rparr>,
     ts_PlatformDefaults = [], ts_EventTypes = [], ts_Version = 0,
     ts_CreatedAt = now, ts_UpdatedAt = now\<rparr>"

definition FromPlatform :: "TenantSettings option \<Rightarrow> string \<Rightarrow> bool" where
  "FromPlatform s field =
    (case s of None \<Rightarrow> False | Some s \<Rightarrow> field \<in> set (ts_PlatformDefaults s))"

section \<open>Lemmas\<close>

lemma TruncateTime_0 [simp]: "TruncateTime 0 = 0"
  by (simp add: TruncateTime_def)

lemma TruncateTime_idem [simp]: "TruncateTime (TruncateTime t) = TruncateTime t"
  by (simp add: TruncateTime_def mod_diff_left_eq)

lemma TruncateTime_le: "TruncateTime t \<le> t"
  by (simp add: TruncateTime_def)

lemma TruncateTime_gt: "t - Millisecond < TruncateTime t"
  by (simp add: TruncateTime_def)

lemma TruncateTime_mono: "s \<le> t \<Longrightarrow> TruncateTime s \<le> TruncateTime t"
proof -
  assume "s \<le> t"
  then have "Millisecond * (s div Millisecond) \<le> Millisecond * (t div Millisecond)"
    by (intro mult_left_mono zdiv_mono1) auto
  then show ?thesis by (auto simp: TruncateTime_def minus_mod_eq_mult_div)
qed

lemma Normalize_Limit: "0 < pg_Limit (Normalize p)" "pg_Limit (Normalize p) \<le> MaxPageLimit"
  by (auto simp: Normalize_def Let_def DefaultPageLimit_def MaxPageLimit_def)

lemma Normalize_Cursor [simp]: "pg_Cursor (Normalize p) = pg_Cursor p"
  by (simp add: Normalize_def Let_def)

lemma Normalize_idem [simp]: "Normalize (Normalize p) = Normalize p"
  using Normalize_Limit [of p] by (simp add: Normalize_def [of "Normalize p"])

lemma enumParse_from_nth:
  "distinct names \<Longrightarrow> k < length names \<Longrightarrow> enumParse_from i (names ! k) names = Inr (i + int k)"
proof (induction names arbitrary: i k)
  case (Cons n names)
  then show ?case by (cases k) (auto simp: nth_mem)
qed simp

lemma enumParse_from_Inr:
  "enumParse_from i s names = Inr v \<Longrightarrow> i \<le> v \<and> v - i < int (length names) \<and> names ! nat (v - i) = s"
proof (induction names arbitrary: i)
  case (Cons n names)
  show ?case
  proof (cases "n = s")
    case False
    with Cons have *: "i + 1 \<le> v" "v - (i + 1) < int (length names)" "names ! nat (v - (i + 1)) = s" by auto
    then have "nat (v - i) = Suc (nat (v - (i + 1)))" by linarith
    with * show ?thesis by simp
  qed (use Cons in auto)
qed simp

end
