(* ===== verification/Mem_Table.thy ===== *)
theory Mem_Table
  imports Store_Types
begin

text \<open>
  The generic table of the in-memory store, \<^verbatim>\<open>store/memstore/table.go\<close>.  A \<^verbatim>\<open>meta[T]\<close> value,
  whose functions return pointers to fields of a row, is a record of field accessors
  (selector and update function); an absent function is \<^const>\<open>None\<close>.  The table itself is
  the association list of its rows.  \<^verbatim>\<open>env\<close> is what a call reads from its surroundings: whether
  the provider is closed, the tenant the store is bound to, the clock, and the identifiers
  that successive calls of \<^verbatim>\<open>NewID\<close> (package \<^verbatim>\<open>google/uuid\<close>) return.

  The locale \<open>table_meta\<close> is what the table relies on from a meta value; it is interpreted on
  every meta value the store builds.  Under it the lemmas show optimistic concurrency, the
  unique key, and that rows stay filed under their own identifier.
\<close>

record env =
  e_closed :: bool
  e_tenant :: string
  e_clock :: go_time
  e_newid :: "nat \<Rightarrow> string"

definition now :: "env \<Rightarrow> go_time" where
  "now e = TruncateTime (e_clock e)"

text \<open>A pointer to a field of a row, as its reader and its in-place modifier.\<close>

datatype ('a, 'f) fld = Fld (fget: "'a \<Rightarrow> 'f") (fmod: "('f \<Rightarrow> 'f) \<Rightarrow> 'a \<Rightarrow> 'a")

abbreviation fset :: "('a, 'f) fld \<Rightarrow> 'f \<Rightarrow> 'a \<Rightarrow> 'a" where "fset f x v \<equiv> fmod f (\<lambda>_. x) v"

record 'a meta =
  m_id :: "('a, string) fld"
  m_tenant :: "('a, string) fld"
  m_version :: "('a, int) fld option"
  m_created :: "('a, go_time) fld option"
  m_updated :: "('a, go_time) fld option"
  m_times :: "('a, go_time) fld list"
  m_key :: "('a \<Rightarrow> string) option"
  m_scrub :: "('a \<Rightarrow> 'a) option"

section \<open>Operations\<close>

definition keyTaken :: "'a meta \<Rightarrow> (string, 'a) gomap \<Rightarrow> 'a \<Rightarrow> string \<Rightarrow> bool" where
  "keyTaken m rows v i =
    (case m_key m of
       None \<Rightarrow> False
     | Some key \<Rightarrow> if key v = '''' then False else list_ex (\<lambda>(rid, row). rid \<noteq> i \<and> key row = key v) rows)"

definition getByKey :: "'a meta \<Rightarrow> env \<Rightarrow> (string, 'a) gomap \<Rightarrow> string \<Rightarrow> store_err + 'a" where
  "getByKey m e rows k =
    (if e_closed e then Inl ErrClosed
     else case m_key m of
       None \<Rightarrow> Inl ErrNotFound
     | Some key \<Rightarrow>
         if k = '''' then Inl ErrNotFound
         else (case find (\<lambda>(rid, row). key row = k) rows of
                 None \<Rightarrow> Inl ErrNotFound
               | Some (rid, row) \<Rightarrow> Inr row))"

definition truncate_fields :: "('a, go_time) fld list \<Rightarrow> 'a \<Rightarrow> 'a" where
  "truncate_fields ps v = fold (\<lambda>p. fmod p TruncateTime) ps v"

definition truncateRow :: "'a meta \<Rightarrow> 'a \<Rightarrow> 'a" where
  "truncateRow m v =
    (let v = (case m_created m of None \<Rightarrow> v | Some f \<Rightarrow> fmod f TruncateTime v);
         v = (case m_updated m of None \<Rightarrow> v | Some f \<Rightarrow> fmod f TruncateTime v)
     in truncate_fields (m_times m) v)"

text \<open>The copy that is stored: truncated, then scrubbed.\<close>

definition stored_copy :: "'a meta \<Rightarrow> 'a \<Rightarrow> 'a" where
  "stored_copy m v =
    (let cp = truncateRow m v in case m_scrub m of None \<Rightarrow> cp | Some scrub \<Rightarrow> scrub cp)"

text \<open>The bookkeeping fields \<^verbatim>\<open>Create\<close> writes, and those \<^verbatim>\<open>Update\<close> writes over a current row.\<close>

definition stamp_create :: "'a meta \<Rightarrow> env \<Rightarrow> 'a \<Rightarrow> 'a" where
  "stamp_create m e v =
    (let v = fset (m_tenant m) (e_tenant e) v;
         v = (case m_created m of None \<Rightarrow> v | Some f \<Rightarrow> if fget f v = 0 then fset f (now e) v else v);
         v = (case m_updated m of None \<Rightarrow> v | Some f \<Rightarrow> fset f (now e) v)
     in case m_version m of None \<Rightarrow> v | Some f \<Rightarrow> fset f 1 v)"

definition stamp_update :: "'a meta \<Rightarrow> env \<Rightarrow> 'a \<Rightarrow> 'a \<Rightarrow> 'a" where
  "stamp_update m e cur v =
    (let v = (case m_version m of None \<Rightarrow> v | Some f \<Rightarrow> fset f (fget f cur + 1) v);
         v = fset (m_tenant m) (e_tenant e) v;
         v = (case m_created m of None \<Rightarrow> v | Some f \<Rightarrow> fset f (fget f cur) v)
     in case m_updated m of None \<Rightarrow> v | Some f \<Rightarrow> fset f (now e) v)"

text \<open>
  \<^verbatim>\<open>Create\<close> and \<^verbatim>\<open>Update\<close> return the error (\<^const>\<open>None\<close> for \<^verbatim>\<open>nil\<close>), the caller's value as the
  call leaves it, and the rows.
\<close>

definition tbl_Create ::
  "'a meta \<Rightarrow> env \<Rightarrow> (string, 'a) gomap \<Rightarrow> 'a option \<Rightarrow> store_err option \<times> 'a option \<times> (string, 'a) gomap"
where
  "tbl_Create m e rows v =
    (case v of None \<Rightarrow> (Some ErrInvalid, None, rows)
     | Some v \<Rightarrow>
       if e_closed e then (Some ErrClosed, Some v, rows)
       else
         (let v = (if fget (m_id m) v = '''' then fset (m_id m) (e_newid e 0) v else v);
              i = fget (m_id m) v
          in if map_of rows i \<noteq> None then (Some ErrConflict, Some v, rows)
             else if keyTaken m rows v i then (Some ErrConflict, Some v, rows)
             else (let v = stamp_create m e v
                   in (None, Some v, AList.update i (stored_copy m v) rows))))"

definition tbl_Get :: "env \<Rightarrow> (string, 'a) gomap \<Rightarrow> string \<Rightarrow> store_err + 'a" where
  "tbl_Get e rows i =
    (if e_closed e then Inl ErrClosed
     else case map_of rows i of None \<Rightarrow> Inl ErrNotFound | Some cur \<Rightarrow> Inr cur)"

definition tbl_Update ::
  "'a meta \<Rightarrow> env \<Rightarrow> (string, 'a) gomap \<Rightarrow> 'a option \<Rightarrow> store_err option \<times> 'a option \<times> (string, 'a) gomap"
where
  "tbl_Update m e rows v =
    (case v of None \<Rightarrow> (Some ErrInvalid, None, rows)
     | Some v \<Rightarrow>
       if e_closed e then (Some ErrClosed, Some v, rows)
       else
         (let i = fget (m_id m) v
          in case map_of rows i of None \<Rightarrow> (Some ErrNotFound, Some v, rows)
             | Some cur \<Rightarrow>
               if (case m_version m of None \<Rightarrow> False | Some f \<Rightarrow> fget f cur \<noteq> fget f v)
               then (Some ErrConflict, Some v, rows)
               else if keyTaken m rows v i then (Some ErrConflict, Some v, rows)
               else (let v = stamp_update m e cur v
                     in (None, Some v, AList.update i (stored_copy m v) rows))))"

definition tbl_Delete ::
  "env \<Rightarrow> (string, 'a) gomap \<Rightarrow> string \<Rightarrow> store_err option \<times> (string, 'a) gomap" where
  "tbl_Delete e rows i =
    (if e_closed e then (Some ErrClosed, rows)
     else if map_of rows i = None then (Some ErrNotFound, rows)
     else (None, AList.delete i rows))"

definition paginate :: "(string, 'a) gomap \<Rightarrow> Page \<Rightarrow> ('a \<Rightarrow> bool) \<Rightarrow> 'a Result" where
  "paginate rows p keep =
    (let p = Normalize p;
         ids = sort (keys_where (\<lambda>i v. \<not> i \<le> pg_Cursor p \<and> keep v) rows);
         more = pg_Limit p < int (length ids);
         next = (if more then ids ! nat (pg_Limit p - 1) else '''');
         ids = (if more then take (nat (pg_Limit p)) ids else ids)
     in \<lparr>res_Items = map (\<lambda>i. the (map_of rows i)) ids, res_NextCursor = next\<rparr>)"

definition tbl_List :: "env \<Rightarrow> (string, 'a) gomap \<Rightarrow> Page \<Rightarrow> store_err + 'a Result" where
  "tbl_List e rows p = (if e_closed e then Inl ErrClosed else Inr (paginate rows p (\<lambda>_. True)))"

definition listWhere ::
  "env \<Rightarrow> (string, 'a) gomap \<Rightarrow> Page \<Rightarrow> ('a \<Rightarrow> bool) \<Rightarrow> store_err + 'a Result" where
  "listWhere e rows p keep = (if e_closed e then Inl ErrClosed else Inr (paginate rows p keep))"

text \<open>A client that reads page after page until the cursor comes back empty.\<close>

function walk_pages :: "(string, 'a) gomap \<Rightarrow> Page \<Rightarrow> ('a \<Rightarrow> bool) \<Rightarrow> 'a list" where
  "walk_pages rows p keep =
    (let r = paginate rows p keep
     in if res_NextCursor r = '''' then res_Items r
        else res_Items r @ walk_pages rows (p\<lparr>pg_Cursor := res_NextCursor r\<rparr>) keep)"
  by pat_completeness auto

section \<open>Pagination\<close>

text \<open>The identifiers a listing still has to return after a cursor.\<close>

definition page_ids :: "(string, 'a) gomap \<Rightarrow> string \<Rightarrow> ('a \<Rightarrow> bool) \<Rightarrow> string list" where
  "page_ids rows c keep = sort (keys_where (\<lambda>id v. \<not> id \<le> c \<and> keep v) rows)"

abbreviation rows_at :: "(string, 'a) gomap \<Rightarrow> string list \<Rightarrow> 'a list" where
  "rows_at rows ids \<equiv> map (\<lambda>id. the (map_of rows id)) ids"

lemma paginate_last:
  "int (length (page_ids rows (pg_Cursor p) keep)) \<le> pg_Limit (Normalize p) \<Longrightarrow>
    paginate rows p keep = \<lparr>res_Items = rows_at rows (page_ids rows (pg_Cursor p) keep), res_NextCursor = ''''\<rparr>"
  by (simp add: paginate_def page_ids_def Let_def)

lemma paginate_more:
  "pg_Limit (Normalize p) < int (length (page_ids rows (pg_Cursor p) keep)) \<Longrightarrow>
    paginate rows p keep =
      \<lparr>res_Items = rows_at rows (take (nat (pg_Limit (Normalize p))) (page_ids rows (pg_Cursor p) keep)),
       res_NextCursor = page_ids rows (pg_Cursor p) keep ! (nat (pg_Limit (Normalize p)) - 1)\<rparr>"
  using Normalize_Limit(1) [of p] by (simp add: paginate_def page_ids_def Let_def nat_diff_distrib)

lemma page_ids_mem: "i \<in> set (page_ids rows c keep) \<Longrightarrow> c < i \<and> (\<exists>v. (i, v) \<in> set rows \<and> keep v)"
  by (auto simp: page_ids_def keys_where_def)

lemma page_ids_key: "i \<in> set (page_ids rows c keep) \<Longrightarrow> i \<in> set (keys_where (\<lambda>k v. c < k) rows)"
  by (induction rows) (auto simp: page_ids_def not_le split: if_splits)

lemma paginate_cursor:
  assumes "res_NextCursor (paginate rows p keep) \<noteq> ''''"
  defines "L \<equiv> nat (pg_Limit (Normalize p))"
  defines "ids \<equiv> page_ids rows (pg_Cursor p) keep"
  shows "0 < L" "L < length ids" "paginate rows p keep = \<lparr>res_Items = rows_at rows (take L ids), res_NextCursor = ids ! (L - 1)\<rparr>"
    "ids ! (L - 1) \<in> set ids" "pg_Cursor p < ids ! (L - 1)"
proof -
  have more: "pg_Limit (Normalize p) < int (length ids)"
    using assms(1) paginate_last [where rows = rows and p = p and keep = keep] by (force simp: ids_def)
  then show "0 < L" "L < length ids" using Normalize_Limit(1) [of p] by (auto simp: L_def)
  then show m: "ids ! (L - 1) \<in> set ids" by simp
  then show "pg_Cursor p < ids ! (L - 1)" by (auto simp: ids_def dest: page_ids_mem)
  show "paginate rows p keep = \<lparr>res_Items = rows_at rows (take L ids), res_NextCursor = ids ! (L - 1)\<rparr>"
    using paginate_more [OF more [unfolded ids_def]] by (simp add: L_def ids_def)
qed

termination walk_pages
proof (relation "measure (\<lambda>(rows, p, keep). length (keys_where (\<lambda>id v. pg_Cursor p < id) rows))")
  fix rows :: "(string, 'a) gomap" and p keep r
  assume "r = paginate rows p keep" "res_NextCursor r \<noteq> ''''"
  then have "res_NextCursor r \<in> set (page_ids rows (pg_Cursor p) keep)"
    using paginate_cursor [of rows p keep] by simp
  then have "pg_Cursor p < res_NextCursor r" "res_NextCursor r \<in> set (keys_where (\<lambda>id v. pg_Cursor p < id) rows)"
    by (auto dest: page_ids_mem page_ids_key)
  then show "((rows, p\<lparr>pg_Cursor := res_NextCursor r\<rparr>, keep), rows, p, keep)
      \<in> measure (\<lambda>(rows, p, keep). length (keys_where (\<lambda>id v. pg_Cursor p < id) rows))"
    by (auto intro!: keys_where_shrink [of _ _ "res_NextCursor r"] dest: less_trans)
qed simp

lemma page_ids_next:
  assumes "distinct (map fst rows)" "c < n" "n = page_ids rows c keep ! k" "k < length (page_ids rows c keep)"
  shows "page_ids rows n keep = drop (Suc k) (page_ids rows c keep)"
proof -
  have "page_ids rows n keep = filter (\<lambda>x. \<not> x \<le> n) (page_ids rows c keep)"
    using assms(2) unfolding page_ids_def filter_sort filter_keys_where
    by (intro arg_cong [where f = sort] arg_cong2 [where f = keys_where]) (auto simp: fun_eq_iff)
  also have "\<dots> = drop (Suc k) (page_ids rows c keep)"
    unfolding assms(3) by (rule sorted_filter_gt_nth) (use assms in \<open>auto simp: page_ids_def\<close>)
  finally show ?thesis .
qed

declare walk_pages.simps [simp del]

lemma walk_pages_all:
  "distinct (map fst rows) \<Longrightarrow> walk_pages rows p keep = rows_at rows (page_ids rows (pg_Cursor p) keep)"
proof (induction rows p keep rule: walk_pages.induct)
  case (1 rows p keep)
  let ?r = "paginate rows p keep" and ?ids = "page_ids rows (pg_Cursor p) keep"
    and ?L = "nat (pg_Limit (Normalize p))"
  show ?case
  proof (cases "res_NextCursor ?r = ''''")
    case True
    have "\<not> pg_Limit (Normalize p) < int (length ?ids)"
    proof
      assume more: "pg_Limit (Normalize p) < int (length ?ids)"
      then have "?ids ! (?L - 1) \<in> set ?ids" using Normalize_Limit(1) [of p] by simp
      with True paginate_more [OF more] show False by (auto dest!: page_ids_mem)
    qed
    with True show ?thesis
      by (subst walk_pages.simps) (simp add: paginate_last)
  next
    case False
    note pc = paginate_cursor [OF False]
    have "walk_pages rows (p\<lparr>pg_Cursor := res_NextCursor ?r\<rparr>) keep
        = rows_at rows (page_ids rows (res_NextCursor ?r) keep)"
      using "1.IH" [OF refl False "1.prems"] by simp
    also have "page_ids rows (res_NextCursor ?r) keep = drop ?L ?ids"
      using page_ids_next [OF "1.prems" pc(5) refl] pc(1,2,3) by simp
    finally show ?thesis
      using False pc(3) by (subst walk_pages.simps) (simp add: Let_def flip: map_append)
  qed
qed

section \<open>Optimistic concurrency and unique keys\<close>

text \<open>A function of a row that the bookkeeping writes of the table leave alone.\<close>

definition keeps_under :: "'a meta \<Rightarrow> ('a \<Rightarrow> 'b) \<Rightarrow> bool" where
  "keeps_under m g \<longleftrightarrow>
    (\<forall>x v. g (fset (m_tenant m) x v) = g v) \<and>
    (\<forall>f x v. m_created m = Some f \<longrightarrow> g (fset f x v) = g v) \<and>
    (\<forall>f x v. m_updated m = Some f \<longrightarrow> g (fset f x v) = g v) \<and>
    (\<forall>v. g (stored_copy m v) = g v)"

lemma keeps_underD:
  assumes "keeps_under m g"
  shows "g (fset (m_tenant m) x v) = g v" "m_created m = Some f \<Longrightarrow> g (fset f t v) = g v"
    "m_updated m = Some f \<Longrightarrow> g (fset f t v) = g v" "g (stored_copy m v) = g v"
  using assms by (auto simp: keeps_under_def)

text \<open>
  Rows are filed under their own identifier, versions start at one, and no two rows share
  a non-empty key.
\<close>

definition tbl_inv :: "'a meta \<Rightarrow> (string, 'a) gomap \<Rightarrow> bool" where
  "tbl_inv m rows \<longleftrightarrow>
    distinct (map fst rows) \<and>
    (\<forall>i v. map_of rows i = Some v \<longrightarrow> fget (m_id m) v = i) \<and>
    (\<forall>f i v. m_version m = Some f \<longrightarrow> map_of rows i = Some v \<longrightarrow> 1 \<le> fget f v) \<and>
    (\<forall>key i j v w. m_key m = Some key \<longrightarrow> map_of rows i = Some v \<longrightarrow> map_of rows j = Some w \<longrightarrow>
       key v = key w \<longrightarrow> key v \<noteq> '''' \<longrightarrow> i = j)"

lemma keyTaken_iff:
  "distinct (map fst rows) \<Longrightarrow> keyTaken m rows v i \<longleftrightarrow>
    (\<exists>key j w. m_key m = Some key \<and> key v \<noteq> '''' \<and> map_of rows j = Some w \<and> j \<noteq> i \<and> key w = key v)"
  by (force simp: keyTaken_def list_ex_iff split: option.splits dest: map_of_SomeD)

text \<open>A sequence of \<^verbatim>\<open>Update\<close> calls by any number of clients: which of them succeeded, and the rows.\<close>

fun tbl_Updates :: "'a meta \<Rightarrow> (env \<times> 'a) list \<Rightarrow> (string, 'a) gomap \<Rightarrow> bool list \<times> (string, 'a) gomap" where
  "tbl_Updates m [] rows = ([], rows)"
| "tbl_Updates m ((e, v) # us) rows =
    (let (err, _, rows1) = tbl_Update m e rows (Some v);
         (oks, rows2) = tbl_Updates m us rows1
     in ((err = None) # oks, rows2))"

locale table_meta =
  fixes m :: "'a meta"
  assumes id_lens: "fget (m_id m) (fset (m_id m) x v) = x"
    and id_frame: "keeps_under m (fget (m_id m))"
    and id_version: "m_version m = Some f \<Longrightarrow> fget (m_id m) (fset f n v) = fget (m_id m) v"
    and version_lens: "m_version m = Some f \<Longrightarrow> fget f (fset f n v) = n"
    and version_frame: "m_version m = Some f \<Longrightarrow> keeps_under m (fget f)"
    and key_frame: "m_key m = Some key \<Longrightarrow> keeps_under m key"
    and key_version: "m_key m = Some key \<Longrightarrow> m_version m = Some f \<Longrightarrow> key (fset f n v) = key v"
begin

lemmas frames = keeps_underD [OF id_frame] keeps_underD [OF version_frame] keeps_underD [OF key_frame]
  id_version version_lens key_version

lemma stamp_update:
  "fget (m_id m) (stamp_update m e cur v) = fget (m_id m) v"
  "m_key m = Some key \<Longrightarrow> key (stamp_update m e cur v) = key v"
  "m_version m = Some f \<Longrightarrow> fget f (stamp_update m e cur v) = fget f cur + 1"
  by (auto simp: stamp_update_def Let_def frames split: option.splits)

lemma stamp_create:
  "fget (m_id m) (stamp_create m e v) = fget (m_id m) v"
  "m_key m = Some key \<Longrightarrow> key (stamp_create m e v) = key v"
  "m_version m = Some f \<Longrightarrow> fget f (stamp_create m e v) = 1"
  by (auto simp: stamp_create_def Let_def frames split: option.splits)

lemmas stamps = stamp_update stamp_create

lemma Update_ok:
  assumes "tbl_Update m e rows (Some v) = (None, v', rows')"
  obtains cur w where "map_of rows (fget (m_id m) v) = Some cur" "v' = Some w"
    "\<not> keyTaken m rows v (fget (m_id m) v)" "w = stamp_update m e cur v"
    "rows' = AList.update (fget (m_id m) v) (stored_copy m w) rows"
    "\<And>f. m_version m = Some f \<Longrightarrow> fget f v = fget f cur"
  using assms unfolding tbl_Update_def Let_def by (auto split: if_splits option.splits)

lemma Update_fails:
  "tbl_Update m e rows v = (Some err, v', rows') \<Longrightarrow> rows' = rows \<and> v' = v"
  by (auto simp: tbl_Update_def Let_def split: if_splits option.splits)

lemma Update_stale:
  assumes "m_version m = Some f" "map_of rows (fget (m_id m) v) = Some cur" "fget f cur \<noteq> fget f v"
    "\<not> e_closed e"
  shows "tbl_Update m e rows (Some v) = (Some ErrConflict, Some v, rows)"
  using assms by (simp add: tbl_Update_def Let_def)

lemma Create_ok:
  assumes "tbl_Create m e rows (Some v) = (None, v', rows')"
  obtains u w where "v' = Some w" "w = stamp_create m e u" "map_of rows (fget (m_id m) u) = None"
    "\<not> keyTaken m rows u (fget (m_id m) u)"
    "rows' = AList.update (fget (m_id m) u) (stored_copy m w) rows"
  using assms unfolding tbl_Create_def Let_def by (auto split: if_splits option.splits simp: id_lens)

lemma Create_fails: "tbl_Create m e rows v = (Some err, v', rows') \<Longrightarrow> rows' = rows"
  by (auto simp: tbl_Create_def Let_def split: if_splits option.splits)

text \<open>Storing a row under a free or its own identifier, with a key nobody else holds.\<close>

lemma inv_store:
  assumes "tbl_inv m rows" "fget (m_id m) w = i" "\<not> keyTaken m rows w i"
    "\<And>f. m_version m = Some f \<Longrightarrow> 1 \<le> fget f w"
  shows "tbl_inv m (AList.update i (stored_copy m w) rows)"
proof -
  have "i = j" if "m_key m = Some key" "map_of rows j = Some u" "key u = key w" "key w \<noteq> ''''" for key j u
    using assms(1,3) that by (auto simp: tbl_inv_def keyTaken_iff)
  then show ?thesis using assms(1,2,4)
    by (simp add: tbl_inv_def frames) (metis (no_types, opaque_lifting))
qed

lemma keyTaken_cong:
  "(\<And>key. m_key m = Some key \<Longrightarrow> key v = key w) \<Longrightarrow> keyTaken m rows v i = keyTaken m rows w i"
  by (auto simp: keyTaken_def split: option.splits)

lemma Update_inv: "tbl_inv m rows \<Longrightarrow> tbl_Update m e rows v = (err, v', rows') \<Longrightarrow> tbl_inv m rows'"
proof -
  assume inv: "tbl_inv m rows" and u: "tbl_Update m e rows v = (err, v', rows')"
  show "tbl_inv m rows'"
  proof (cases err)
    case (Some x) then show ?thesis using Update_fails inv u by blast
  next
    case None
    then obtain v0 where v: "v = Some v0" using u by (cases v) (auto simp: tbl_Update_def)
    show ?thesis using u [unfolded None v]
    proof (rule Update_ok)
      fix cur w
      assume *: "map_of rows (fget (m_id m) v0) = Some cur" "\<not> keyTaken m rows v0 (fget (m_id m) v0)"
        "w = stamp_update m e cur v0" "rows' = AList.update (fget (m_id m) v0) (stored_copy m w) rows"
      have "\<not> keyTaken m rows w (fget (m_id m) v0)"
        using *(2) keyTaken_cong [of w v0] by (simp add: *(3) stamps)
      moreover have "1 \<le> fget f w" if "m_version m = Some f" for f
        using inv *(1) that by (force simp: tbl_inv_def *(3) stamps)
      ultimately show ?thesis unfolding *(4) by (intro inv_store [OF inv]) (simp_all add: *(3) stamps)
    qed
  qed
qed

lemma Create_inv: "tbl_inv m rows \<Longrightarrow> tbl_Create m e rows v = (err, v', rows') \<Longrightarrow> tbl_inv m rows'"
proof -
  assume inv: "tbl_inv m rows" and u: "tbl_Create m e rows v = (err, v', rows')"
  show "tbl_inv m rows'"
  proof (cases err)
    case (Some x) then show ?thesis using Create_fails inv u by blast
  next
    case None
    then obtain v0 where v: "v = Some v0" using u by (cases v) (auto simp: tbl_Create_def)
    show ?thesis using u [unfolded None v]
    proof (rule Create_ok)
      fix u w
      assume *: "w = stamp_create m e u" "\<not> keyTaken m rows u (fget (m_id m) u)"
        "rows' = AList.update (fget (m_id m) u) (stored_copy m w) rows"
      have "\<not> keyTaken m rows w (fget (m_id m) u)"
        using *(2) keyTaken_cong [of w u] by (simp add: *(1) stamps)
      then show ?thesis unfolding *(3) by (intro inv_store [OF inv]) (simp_all add: *(1) stamps)
    qed
  qed
qed

lemma Delete_inv: "tbl_inv m rows \<Longrightarrow> tbl_Delete e rows i = (err, rows') \<Longrightarrow> tbl_inv m rows'"
  by (auto simp: tbl_inv_def tbl_Delete_def split: if_splits)

lemma Update_version:
  assumes "m_version m = Some f" "map_of rows i = Some cur" "tbl_Update m e rows (Some v) = (err, v', rows')"
  shows "\<exists>cur'. map_of rows' i = Some cur' \<and>
    fget f cur' = fget f cur + (if err = None \<and> fget (m_id m) v = i then 1 else 0)"
proof (cases err)
  case (Some x)
  with Update_fails [OF assms(3) [unfolded Some]] assms(2) show ?thesis by simp
next
  case None
  show ?thesis using assms(3) [unfolded None]
    by (rule Update_ok) (use assms(1,2) None in \<open>auto simp: frames stamps\<close>)
qed

lemma Updates_behind:
  assumes "m_version m = Some f"
  shows "map_of rows i = Some cur \<Longrightarrow> tbl_Updates m us rows = (oks, rows') \<Longrightarrow> k < length us \<Longrightarrow>
    fget (m_id m) (snd (us ! k)) = i \<Longrightarrow> fget f (snd (us ! k)) < fget f cur \<Longrightarrow> \<not> oks ! k"
proof (induction us arbitrary: rows rows' cur oks k)
  case (Cons u us)
  obtain e v where u: "u = (e, v)" by (cases u)
  obtain err v' rows1 where up: "tbl_Update m e rows (Some v) = (err, v', rows1)" by (cases "tbl_Update m e rows (Some v)")
  obtain oks1 rows2 where rest: "tbl_Updates m us rows1 = (oks1, rows2)" by fastforce
  have oks: "oks = (err = None) # oks1" using Cons.prems(2) up rest u by simp
  show ?case
  proof (cases k)
    case 0
    then have "err \<noteq> None" using Cons.prems u up assms by (auto simp: tbl_Update_def Let_def split: if_splits)
    then show ?thesis by (simp add: oks 0)
  next
    case (Suc j)
    obtain cur1 where "map_of rows1 i = Some cur1" "fget f cur \<le> fget f cur1"
      using Update_version [OF assms Cons.prems(1) up] by auto
    with Cons.IH [OF _ rest, of cur1 j] Cons.prems Suc show ?thesis by (simp add: oks)
  qed
qed simp

lemma Updates_once:
  assumes "m_version m = Some f"
  shows "tbl_Updates m us rows = (oks, rows') \<Longrightarrow> j < k \<Longrightarrow> k < length us \<Longrightarrow>
    fget (m_id m) (snd (us ! j)) = fget (m_id m) (snd (us ! k)) \<Longrightarrow>
    fget f (snd (us ! j)) = fget f (snd (us ! k)) \<Longrightarrow> oks ! j \<Longrightarrow> \<not> oks ! k"
proof (induction us arbitrary: rows rows' oks j k)
  case (Cons u us)
  obtain e v where u: "u = (e, v)" by (cases u)
  obtain err v' rows1 where up: "tbl_Update m e rows (Some v) = (err, v', rows1)" by (cases "tbl_Update m e rows (Some v)")
  obtain oks1 rows2 where rest: "tbl_Updates m us rows1 = (oks1, rows2)" by fastforce
  have oks: "oks = (err = None) # oks1" using Cons.prems(1) up rest u by simp
  obtain k' where k: "k = Suc k'" using Cons.prems(2) by (cases k) auto
  show ?case
  proof (cases j)
    case 0
    then have "err = None" using Cons.prems by (simp add: oks)
    then obtain cur where cur: "map_of rows (fget (m_id m) v) = Some cur" "fget f v = fget f cur"
      using Update_ok [OF up [unfolded \<open>err = None\<close>]] assms by metis
    then obtain cur1 where "map_of rows1 (fget (m_id m) v) = Some cur1" "fget f cur1 = fget f cur + 1"
      using Update_version [OF assms cur(1) up] \<open>err = None\<close> by auto
    with Updates_behind [OF assms _ rest, of "fget (m_id m) v" cur1 k'] Cons.prems u 0 k cur(2)
    show ?thesis by (simp add: oks)
  next
    case (Suc j')
    with Cons.IH [OF rest, of j' k'] Cons.prems k show ?thesis by (simp add: oks)
  qed
qed simp

end

end
