(* ===== verification/Mem_Store.thy ===== *)
theory Mem_Store
  imports Mem_Table
begin

text \<open>
  The in-memory provider, \<^verbatim>\<open>store/memstore/memstore.go\<close>: the data of one tenant, the meta value
  of every table with its interpretation of \<open>table_meta\<close>, and the provider operations that
  look across tenants.
\<close>

section \<open>State\<close>

record tenant_data =
  td_settings :: "TenantSettings option"
  td_transports :: "(string, Transport) gomap"
  td_senders :: "(string, Sender) gomap"
  td_domains :: "(string, SendingDomain) gomap"
  td_bounceMailboxes :: "(string, BounceMailbox) gomap"
  td_probeMailboxes :: "(string, ProbeMailbox) gomap"
  td_probeRuns :: "(string, ProbeRun) gomap"
  td_layouts :: "(string, Layout) gomap"
  td_templates :: "(string, Template) gomap"
  td_versions :: "(string, MessageVersion) gomap"
  td_campaigns :: "(string, Campaign) gomap"
  td_deliveries :: "(string, Delivery) gomap"
  td_bounces :: "(string, BounceEvent) gomap"
  td_outbox :: "(string, OutboxEvent) gomap"
  td_campaignEmails :: "(string, string) gomap"
  td_chunks :: "(string, RecipientChunk) gomap"
  td_attempts :: "(string, DeliveryAttempt) gomap"
  td_suppressions :: "(string, Suppression) gomap"
  td_tracking :: "(string, TrackingEvent) gomap"
  td_locks :: "(string, Lock) gomap"
  td_workers :: "(string, Worker) gomap"

definition newTenantData :: tenant_data where
  "newTenantData =
    \<lparr>td_settings = None, td_transports = [], td_senders = [], td_domains = [],
     td_bounceMailboxes = [], td_probeMailboxes = [], td_probeRuns = [], td_layouts = [],
     td_templates = [], td_versions = [], td_campaigns = [], td_deliveries = [], td_bounces = [],
     td_outbox = [], td_campaignEmails = [], td_chunks = [], td_attempts = [],
     td_suppressions = [], td_tracking = [], td_locks = [], td_workers = []\<rparr>"

record Provider =
  p_closed :: bool
  p_tenants :: "(string, tenant_data) gomap"

definition SystemTenantID :: string where "SystemTenantID = ''_system''"

section \<open>Provider operations\<close>

definition ForTenant :: "Provider \<Rightarrow> string \<Rightarrow> (store_err + tenant_data) \<times> Provider" where
  "ForTenant p tenantID =
    (if p_closed p then (Inl ErrClosed, p)
     else case map_of (p_tenants p) tenantID of
       Some d \<Rightarrow> (Inr d, p)
     | None \<Rightarrow> (Inr newTenantData,
                p\<lparr>p_tenants := AList.update tenantID newTenantData (p_tenants p)\<rparr>))"

definition isKnownTenant :: "tenant_data \<Rightarrow> bool" where
  "isKnownTenant d \<longleftrightarrow>
    td_settings d \<noteq> None \<or>
    length (td_transports d) > 0 \<or> length (td_senders d) > 0 \<or> length (td_domains d) > 0 \<or>
    length (td_bounceMailboxes d) > 0 \<or> length (td_probeMailboxes d) > 0 \<or>
    length (td_layouts d) > 0 \<or> length (td_templates d) > 0 \<or> length (td_campaigns d) > 0"

definition hasOpenWork :: "tenant_data \<Rightarrow> bool" where
  "hasOpenWork d \<longleftrightarrow>
    list_ex (\<lambda>(_, dl). \<not> Terminal (d_Status dl)) (td_deliveries d) \<or>
    list_ex (\<lambda>(_, c). c_Status c \<in> {CampaignScheduled, CampaignRunning, CampaignPaused}) (td_campaigns d)"

definition ActiveTenants :: "Provider \<Rightarrow> store_err + string list" where
  "ActiveTenants p =
    (if p_closed p then Inl ErrClosed
     else Inr (sort (keys_where (\<lambda>i d. i \<noteq> SystemTenantID \<and> hasOpenWork d) (p_tenants p))))"

definition Tenants :: "Provider \<Rightarrow> store_err + string list" where
  "Tenants p =
    (if p_closed p then Inl ErrClosed
     else Inr (sort (keys_where (\<lambda>i d. i \<noteq> SystemTenantID \<and> isKnownTenant d) (p_tenants p))))"

text \<open>
  The scan over the tenants stops at the first that has the delivery; the order of the
  association list is the enumeration order of the map.
\<close>

definition LookupDeliveryTenant :: "Provider \<Rightarrow> string \<Rightarrow> store_err + string" where
  "LookupDeliveryTenant p deliveryID =
    (if p_closed p then Inl ErrClosed
     else if deliveryID = '''' then Inl ErrInvalid
     else case find (\<lambda>(i, d). map_of (td_deliveries d) deliveryID \<noteq> None) (p_tenants p) of
       None \<Rightarrow> Inl ErrNotFound
     | Some (i, d) \<Rightarrow> Inr i)"

definition Close :: "Provider \<Rightarrow> Provider" where
  "Close p = p\<lparr>p_closed := True, p_tenants := []\<rparr>"

section \<open>The meta values of \<^verbatim>\<open>newTenantStore\<close>\<close>

definition transport_meta :: "Transport meta" where
  "transport_meta =
    \<lparr>m_id = Fld tr_ID tr_ID_update, m_tenant = Fld tr_TenantID tr_TenantID_update,
     m_version = Some (Fld tr_Version tr_Version_update),
     m_created = Some (Fld tr_CreatedAt tr_CreatedAt_update),
     m_updated = Some (Fld tr_UpdatedAt tr_UpdatedAt_update),
     m_times = [Fld tr_StatusChangedAt tr_StatusChangedAt_update], m_key = None, m_scrub = None\<rparr>"

definition sender_meta :: "Sender meta" where
  "sender_meta =
    \<lparr>m_id = Fld se_ID se_ID_update, m_tenant = Fld se_TenantID se_TenantID_update,
     m_version = Some (Fld se_Version se_Version_update),
     m_created = Some (Fld se_CreatedAt se_CreatedAt_update),
     m_updated = Some (Fld se_UpdatedAt se_UpdatedAt_update),
     m_times = [Fld se_HealthCheckedAt se_HealthCheckedAt_update], m_key = None, m_scrub = None\<rparr>"

definition domain_meta :: "SendingDomain meta" where
  "domain_meta =
    \<lparr>m_id = Fld sd_ID sd_ID_update, m_tenant = Fld sd_TenantID sd_TenantID_update,
     m_version = Some (Fld sd_Version sd_Version_update),
     m_created = Some (Fld sd_CreatedAt sd_CreatedAt_update),
     m_updated = Some (Fld sd_UpdatedAt sd_UpdatedAt_update),
     m_times = [Fld sd_HealthCheckedAt sd_HealthCheckedAt_update], m_key = None, m_scrub = None\<rparr>"

definition bounce_mailbox_meta :: "BounceMailbox meta" where
  "bounce_mailbox_meta =
    \<lparr>m_id = Fld bm_ID bm_ID_update, m_tenant = Fld bm_TenantID bm_TenantID_update,
     m_version = Some (Fld bm_Version bm_Version_update),
     m_created = Some (Fld bm_CreatedAt bm_CreatedAt_update),
     m_updated = Some (Fld bm_UpdatedAt bm_UpdatedAt_update),
     m_times = [Fld (mh_CheckedAt \<circ> bm_Health) (bm_Health_update \<circ> mh_CheckedAt_update),
                Fld (mh_LastOKAt \<circ> bm_Health) (bm_Health_update \<circ> mh_LastOKAt_update)],
     m_key = None, m_scrub = None\<rparr>"

definition probe_mailbox_meta :: "ProbeMailbox meta" where
  "probe_mailbox_meta =
    \<lparr>m_id = Fld pm_ID pm_ID_update, m_tenant = Fld pm_TenantID pm_TenantID_update,
     m_version = Some (Fld pm_Version pm_Version_update),
     m_created = Some (Fld pm_CreatedAt pm_CreatedAt_update),
     m_updated = Some (Fld pm_UpdatedAt pm_UpdatedAt_update),
     m_times = [Fld (mh_CheckedAt \<circ> pm_Health) (pm_Health_update \<circ> mh_CheckedAt_update),
                Fld (mh_LastOKAt \<circ> pm_Health) (pm_Health_update \<circ> mh_LastOKAt_update)],
     m_key = None, m_scrub = None\<rparr>"

definition layout_meta :: "Layout meta" where
  "layout_meta =
    \<lparr>m_id = Fld ly_ID ly_ID_update, m_tenant = Fld ly_TenantID ly_TenantID_update,
     m_version = Some (Fld ly_Version ly_Version_update),
     m_created = Some (Fld ly_CreatedAt ly_CreatedAt_update),
     m_updated = Some (Fld ly_UpdatedAt ly_UpdatedAt_update),
     m_times = [], m_key = Some ly_Key, m_scrub = Some (\<lambda>v. v\<lparr>ly_Overridden := False\<rparr>)\<rparr>"

definition template_meta :: "Template meta" where
  "template_meta =
    \<lparr>m_id = Fld tp_ID tp_ID_update, m_tenant = Fld tp_TenantID tp_TenantID_update,
     m_version = Some (Fld tp_Version tp_Version_update),
     m_created = Some (Fld tp_CreatedAt tp_CreatedAt_update),
     m_updated = Some (Fld tp_UpdatedAt tp_UpdatedAt_update),
     m_times = [], m_key = Some tp_Key,
     m_scrub = Some (\<lambda>v. v\<lparr>tp_Overridden := False, tp_SharedPublishedVersionID := ''''\<rparr>)\<rparr>"

definition probe_run_meta :: "ProbeRun meta" where
  "probe_run_meta =
    \<lparr>m_id = Fld pr_ID pr_ID_update, m_tenant = Fld pr_TenantID pr_TenantID_update,
     m_version = None, m_created = Some (Fld pr_CreatedAt pr_CreatedAt_update), m_updated = None,
     m_times = [Fld pr_StartedAt pr_StartedAt_update, Fld pr_ReceivedAt pr_ReceivedAt_update],
     m_key = None, m_scrub = None\<rparr>"

definition version_meta :: "MessageVersion meta" where
  "version_meta =
    \<lparr>m_id = Fld mv_ID mv_ID_update, m_tenant = Fld mv_TenantID mv_TenantID_update,
     m_version = None, m_created = Some (Fld mv_CreatedAt mv_CreatedAt_update), m_updated = None,
     m_times = [], m_key = None, m_scrub = None\<rparr>"

definition campaign_meta :: "Campaign meta" where
  "campaign_meta =
    \<lparr>m_id = Fld c_ID c_ID_update, m_tenant = Fld c_TenantID c_TenantID_update,
     m_version = Some (Fld c_Version c_Version_update),
     m_created = Some (Fld c_CreatedAt c_CreatedAt_update),
     m_updated = Some (Fld c_UpdatedAt c_UpdatedAt_update),
     m_times = [Fld c_ScheduleAt c_ScheduleAt_update, Fld c_StartedAt c_StartedAt_update,
                Fld c_CompletedAt c_CompletedAt_update],
     m_key = None, m_scrub = None\<rparr>"

definition bounce_meta :: "BounceEvent meta" where
  "bounce_meta =
    \<lparr>m_id = Fld be_ID be_ID_update, m_tenant = Fld be_TenantID be_TenantID_update,
     m_version = None, m_created = Some (Fld be_CreatedAt be_CreatedAt_update), m_updated = None,
     m_times = [Fld be_ReceivedAt be_ReceivedAt_update], m_key = None, m_scrub = None\<rparr>"

lemmas table_unfold = keeps_under_def stored_copy_def truncateRow_def truncate_fields_def Let_def

interpretation transports: table_meta transport_meta
  by unfold_locales (auto simp: transport_meta_def table_unfold)

interpretation senders: table_meta sender_meta
  by unfold_locales (auto simp: sender_meta_def table_unfold)

interpretation domains: table_meta domain_meta
  by unfold_locales (auto simp: domain_meta_def table_unfold)

interpretation bounce_mailboxes: table_meta bounce_mailbox_meta
  by unfold_locales (auto simp: bounce_mailbox_meta_def table_unfold)

interpretation probe_mailboxes: table_meta probe_mailbox_meta
  by unfold_locales (auto simp: probe_mailbox_meta_def table_unfold)

interpretation layouts: table_meta layout_meta
  by unfold_locales (auto simp: layout_meta_def table_unfold)

interpretation templates: table_meta template_meta
  by unfold_locales (auto simp: template_meta_def table_unfold)

interpretation probe_runs: table_meta probe_run_meta
  by unfold_locales (auto simp: probe_run_meta_def table_unfold)

interpretation versions: table_meta version_meta
  by unfold_locales (auto simp: version_meta_def table_unfold)

interpretation campaigns: table_meta campaign_meta
  by unfold_locales (auto simp: campaign_meta_def table_unfold)

interpretation bounces: table_meta bounce_meta
  by unfold_locales (auto simp: bounce_meta_def table_unfold)

end
