(* ===== verification/Mem_Delivery.thy ===== *)
theory Mem_Delivery
  imports Mem_Store
begin

text \<open>
  The delivery queue of the in-memory store, \<^verbatim>\<open>store/memstore/delivery.go\<close>: every method of
  \<^verbatim>\<open>deliveryRepo\<close> and \<^verbatim>\<open>attemptRepo\<close> as a function on the tenant's data.  A method runs under the
  provider's mutex, so one call is one atomic step.  A method that returns a value and an
  error returns a sum, one that returns only an error returns an option.
\<close>

definition emailKey :: "string \<Rightarrow> string \<Rightarrow> string" where
  "emailKey campaignID emailNorm = campaignID @ [CHR 0x00] @ emailNorm"

definition truncateDelivery :: "Delivery \<Rightarrow> Delivery" where
  "truncateDelivery d =
    d\<lparr>d_NextAttemptAt := TruncateTime (d_NextAttemptAt d), d_LeaseUntil := TruncateTime (d_LeaseUntil d),
      d_SentAt := TruncateTime (d_SentAt d), d_FinishedAt := TruncateTime (d_FinishedAt d),
      d_FirstOpenedAt := TruncateTime (d_FirstOpenedAt d),
      d_FirstClickedAt := TruncateTime (d_FirstClickedAt d),
      d_UnsubscribedAt := TruncateTime (d_UnsubscribedAt d),
      d_CreatedAt := TruncateTime (d_CreatedAt d), d_UpdatedAt := TruncateTime (d_UpdatedAt d)\<rparr>"

definition truncateAttempt :: "DeliveryAttempt \<Rightarrow> DeliveryAttempt" where
  "truncateAttempt a =
    a\<lparr>a_StartedAt := TruncateTime (a_StartedAt a), a_FinishedAt := TruncateTime (a_FinishedAt a),
      a_CreatedAt := TruncateTime (a_CreatedAt a)\<rparr>"

section \<open>Insertion\<close>

definition insert_row :: "env \<Rightarrow> Delivery \<Rightarrow> Delivery" where
  "insert_row e d =
    truncateDelivery
      (d\<lparr>d_TenantID := e_tenant e,
         d_CreatedAt := (if d_CreatedAt d = 0 then now e else d_CreatedAt d),
         d_UpdatedAt := now e,
         d_NextAttemptAt := (if d_NextAttemptAt d = 0 then now e else d_NextAttemptAt d)\<rparr>)"

text \<open>\<open>k\<close> counts the identifiers drawn so far, \<open>n\<close> the rows inserted.\<close>

fun insert_loop :: "env \<Rightarrow> nat \<Rightarrow> int \<Rightarrow> Delivery list \<Rightarrow> tenant_data \<Rightarrow> int \<times> tenant_data" where
  "insert_loop e k n [] s = (n, s)"
| "insert_loop e k n (d # ds) s =
    (if d_CampaignID d \<noteq> '''' \<and>
        map_of (td_campaignEmails s) (emailKey (d_CampaignID d) (d_EmailNorm d)) \<noteq> None
     then insert_loop e k n ds s
     else
       (let k' = (if d_ID d = '''' then k + 1 else k);
            d = (if d_ID d = '''' then d\<lparr>d_ID := e_newid e k\<rparr> else d);
            s = (if d_CampaignID d \<noteq> ''''
                 then s\<lparr>td_campaignEmails :=
                        AList.update (emailKey (d_CampaignID d) (d_EmailNorm d)) (d_ID d) (td_campaignEmails s)\<rparr>
                 else s);
            d = insert_row e d
        in insert_loop e k' (n + 1) ds (s\<lparr>td_deliveries := AList.update (d_ID d) d (td_deliveries s)\<rparr>)))"

definition InsertBatch :: "env \<Rightarrow> Delivery list \<Rightarrow> tenant_data \<Rightarrow> (store_err + int) \<times> tenant_data" where
  "InsertBatch e ds s =
    (if list_ex (\<lambda>d. d_EmailNorm d = '''') ds then (Inl ErrInvalid, s)
     else if e_closed e then (Inl ErrClosed, s)
     else (let (n, s) = insert_loop e 0 0 ds s in (Inr n, s)))"

section \<open>Reading\<close>

definition delivery_Get :: "env \<Rightarrow> string \<Rightarrow> tenant_data \<Rightarrow> store_err + Delivery" where
  "delivery_Get e i s =
    (if e_closed e then Inl ErrClosed
     else case map_of (td_deliveries s) i of None \<Rightarrow> Inl ErrNotFound | Some d \<Rightarrow> Inr d)"

definition matchStatus :: "DeliveryStatus list \<Rightarrow> DeliveryStatus \<Rightarrow> bool" where
  "matchStatus statuses s \<longleftrightarrow> (if length statuses = 0 then True else s \<in> set statuses)"

definition matchClass :: "ErrorClass list \<Rightarrow> ErrorClass \<Rightarrow> bool" where
  "matchClass classes c \<longleftrightarrow> (if length classes = 0 then True else c \<in> set classes)"

definition matchLane :: "Lane list \<Rightarrow> Lane \<Rightarrow> bool" where
  "matchLane lanes l \<longleftrightarrow> (if length lanes = 0 then True else l \<in> set lanes)"

definition matchDelivery :: "DeliveryFilter \<Rightarrow> Delivery \<Rightarrow> bool" where
  "matchDelivery f d =
    (if (case df_CampaignID f of None \<Rightarrow> False | Some c \<Rightarrow> d_CampaignID d \<noteq> c) then False
     else if df_EmailNorm f \<noteq> '''' \<and> d_EmailNorm d \<noteq> df_EmailNorm f then False
     else if df_Since f \<noteq> 0 \<and> d_CreatedAt d < TruncateTime (df_Since f) then False
     else if df_Until f \<noteq> 0 \<and> \<not> d_CreatedAt d < TruncateTime (df_Until f) then False
     else matchStatus (df_Statuses f) (d_Status d) \<and>
          matchClass (df_ErrorClasses f) (d_LastErrorClass d) \<and> matchLane (df_Lanes f) (d_Lane d))"

definition delivery_List :: "env \<Rightarrow> DeliveryFilter \<Rightarrow> Page \<Rightarrow> tenant_data \<Rightarrow> store_err + Delivery Result" where
  "delivery_List e f p s =
    (if e_closed e then Inl ErrClosed else Inr (paginate (td_deliveries s) p (matchDelivery f)))"

definition ListByCampaign ::
  "env \<Rightarrow> string \<Rightarrow> DeliveryFilter \<Rightarrow> Page \<Rightarrow> tenant_data \<Rightarrow> store_err + Delivery Result" where
  "ListByCampaign e campaignID f p s = delivery_List e (f\<lparr>df_CampaignID := Some campaignID\<rparr>) p s"

text \<open>\<^verbatim>\<open>out[d.Status]++\<close> over the rows of the campaign.\<close>

definition bump :: "'k \<Rightarrow> ('k, int) gomap \<Rightarrow> ('k, int) gomap" where
  "bump k m = AList.update k ((case map_of m k of None \<Rightarrow> 0 | Some n \<Rightarrow> n) + 1) m"

definition CountByStatus :: "env \<Rightarrow> string \<Rightarrow> tenant_data \<Rightarrow> store_err + (DeliveryStatus, int) gomap" where
  "CountByStatus e campaignID s =
    (if e_closed e then Inl ErrClosed
     else Inr (fold (\<lambda>(_, d) out. if d_CampaignID d \<noteq> campaignID then out else bump (d_Status d) out)
                 (td_deliveries s) []))"

section \<open>Claiming\<close>

definition claimableStatus :: "Delivery \<Rightarrow> string list option \<Rightarrow> bool" where
  "claimableStatus d campaigns =
    (case d_Status d of
       DeliveryQueued \<Rightarrow> True
     | DeliveryDeferred \<Rightarrow> True
     | DeliveryPending \<Rightarrow>
         d_CampaignID d \<noteq> '''' \<and> (case campaigns of None \<Rightarrow> False | Some cs \<Rightarrow> d_CampaignID d \<in> set cs)
     | _ \<Rightarrow> False)"

definition claim_eligible :: "ClaimRequest \<Rightarrow> Delivery \<Rightarrow> bool" where
  "claim_eligible req d =
    (if d_Lane d \<noteq> cr_Lane req then False
     else if \<not> claimableStatus d (cr_CampaignIDs req) then False
     else if TruncateTime (cr_Now req) < d_NextAttemptAt d then False
     else if (case cr_CampaignIDs req of None \<Rightarrow> False
              | Some cs \<Rightarrow> d_CampaignID d \<noteq> '''' \<and> d_CampaignID d \<notin> set cs) then False
     else True)"

definition claim_less :: "Delivery \<Rightarrow> Delivery \<Rightarrow> bool" where
  "claim_less a b =
    (if d_Priority a \<noteq> d_Priority b then d_Priority a > d_Priority b
     else if d_NextAttemptAt a \<noteq> d_NextAttemptAt b then d_NextAttemptAt a < d_NextAttemptAt b
     else d_ID a < d_ID b)"

definition claim_row :: "ClaimRequest \<Rightarrow> Delivery \<Rightarrow> Delivery" where
  "claim_row req d =
    truncateDelivery
      (d\<lparr>d_Status := DeliveryLeased, d_LeaseOwner := cr_WorkerID req,
         d_LeaseUntil := TruncateTime (cr_Now req) + cr_LeaseFor req,
         d_UpdatedAt := TruncateTime (cr_Now req)\<rparr>)"

text \<open>The rows a request takes, with their keys (the pointers the code collects).\<close>

definition claim_cands :: "ClaimRequest \<Rightarrow> (string, Delivery) gomap \<Rightarrow> (string \<times> Delivery) list" where
  "claim_cands req m =
    chop (cr_Limit req)
      (sort_slice (\<lambda>a b. claim_less (snd a) (snd b)) (filter (\<lambda>(k, d). claim_eligible req d) m))"

definition Claim :: "env \<Rightarrow> ClaimRequest \<Rightarrow> tenant_data \<Rightarrow> (store_err + Delivery list) \<times> tenant_data" where
  "Claim e req s =
    (if e_closed e then (Inl ErrClosed, s)
     else (let cands = claim_cands req (td_deliveries s)
           in (Inr (map (\<lambda>(k, d). claim_row req d) cands),
               s\<lparr>td_deliveries := alter_rows (map fst cands) (claim_row req) (td_deliveries s)\<rparr>)))"

section \<open>Results\<close>

definition complete_row :: "env \<Rightarrow> DeliveryResult \<Rightarrow> Delivery \<Rightarrow> Delivery" where
  "complete_row e res d =
    truncateDelivery
      (d\<lparr>d_Status := dr_NewStatus res,
         d_LastErrorClass := dr_ErrorClass res,
         d_LastSMTPCode := dr_SMTPCode res,
         d_LastError := dr_Error res,
         d_MessageID := (if dr_MessageID res \<noteq> '''' then dr_MessageID res else d_MessageID d),
         d_AttemptCount := (if dr_IncrementAttempt res then d_AttemptCount d + 1 else d_AttemptCount d),
         d_NextAttemptAt := (if dr_NextAttemptAt res \<noteq> 0 then dr_NextAttemptAt res else d_NextAttemptAt d),
         d_SentAt := (if dr_NewStatus res = DeliverySent \<and> d_SentAt d = 0 then now e else d_SentAt d),
         d_FinishedAt := (if Terminal (dr_NewStatus res) then now e else d_FinishedAt d),
         d_LeaseOwner := '''', d_LeaseUntil := 0, d_UpdatedAt := now e\<rparr>)"

definition complete_attempt :: "env \<Rightarrow> nat \<Rightarrow> string \<Rightarrow> DeliveryAttempt \<Rightarrow> DeliveryAttempt" where
  "complete_attempt e k deliveryID a =
    truncateAttempt
      (a\<lparr>a_ID := (if a_ID a = '''' then e_newid e k else a_ID a), a_TenantID := e_tenant e,
         a_DeliveryID := deliveryID,
         a_CreatedAt := (if a_CreatedAt a = 0 then now e else a_CreatedAt a)\<rparr>)"

fun complete_loop :: "env \<Rightarrow> nat \<Rightarrow> DeliveryResult list \<Rightarrow> tenant_data \<Rightarrow> tenant_data" where
  "complete_loop e k [] s = s"
| "complete_loop e k (res # rs) s =
    (case map_of (td_deliveries s) (dr_DeliveryID res) of
       None \<Rightarrow> complete_loop e k rs s
     | Some d \<Rightarrow>
         if dr_LeaseOwner res = '''' \<or> d_LeaseOwner d \<noteq> dr_LeaseOwner res then complete_loop e k rs s
         else
           (let s = s\<lparr>td_deliveries := AList.update (dr_DeliveryID res) (complete_row e res d) (td_deliveries s)\<rparr>
            in case dr_Attempt res of
                 None \<Rightarrow> complete_loop e k rs s
               | Some a \<Rightarrow>
                   (let a' = complete_attempt e k (dr_DeliveryID res) a
                    in complete_loop e (if a_ID a = '''' then k + 1 else k) rs
                         (s\<lparr>td_attempts := AList.update (a_ID a') a' (td_attempts s)\<rparr>))))"

definition Complete :: "env \<Rightarrow> DeliveryResult list \<Rightarrow> tenant_data \<Rightarrow> store_err option \<times> tenant_data" where
  "Complete e results s =
    (if e_closed e then (Some ErrClosed, s) else (None, complete_loop e 0 results s))"

definition MarkSent ::
  "env \<Rightarrow> string \<Rightarrow> string \<Rightarrow> string \<Rightarrow> go_time \<Rightarrow> tenant_data \<Rightarrow> store_err option \<times> tenant_data" where
  "MarkSent e i owner messageID tm s =
    (if e_closed e then (Some ErrClosed, s)
     else case map_of (td_deliveries s) i of None \<Rightarrow> (Some ErrNotFound, s)
     | Some d \<Rightarrow>
         if d_Status d \<noteq> DeliveryLeased \<or> owner = '''' \<or> d_LeaseOwner d \<noteq> owner then (Some ErrLeaseLost, s)
         else (None,
               s\<lparr>td_deliveries := AList.update i
                   (truncateDelivery
                     (d\<lparr>d_Status := DeliverySent, d_MessageID := messageID, d_SentAt := tm,
                        d_FinishedAt := tm, d_UpdatedAt := tm\<rparr>))
                   (td_deliveries s)\<rparr>))"

definition markTerminal ::
  "env \<Rightarrow> string \<Rightarrow> DeliveryStatus \<Rightarrow> go_time \<Rightarrow> tenant_data \<Rightarrow> (store_err + bool) \<times> tenant_data" where
  "markTerminal e i to tm s =
    (if e_closed e then (Inl ErrClosed, s)
     else case map_of (td_deliveries s) i of None \<Rightarrow> (Inr False, s)
     | Some d \<Rightarrow>
         if d_Status d \<noteq> DeliverySent then (Inr False, s)
         else (Inr True,
               s\<lparr>td_deliveries := AList.update i
                   (truncateDelivery
                     (d\<lparr>d_Status := to, d_FinishedAt := tm, d_UpdatedAt := tm,
                        d_LeaseOwner := '''', d_LeaseUntil := 0\<rparr>))
                   (td_deliveries s)\<rparr>))"

definition MarkBounced :: "env \<Rightarrow> string \<Rightarrow> go_time \<Rightarrow> tenant_data \<Rightarrow> (store_err + bool) \<times> tenant_data" where
  "MarkBounced e i tm s = markTerminal e i DeliveryBounced tm s"

definition MarkComplained :: "env \<Rightarrow> string \<Rightarrow> go_time \<Rightarrow> tenant_data \<Rightarrow> (store_err + bool) \<times> tenant_data" where
  "MarkComplained e i tm s = markTerminal e i DeliveryComplained tm s"

section \<open>Bulk transitions\<close>

definition release_row :: "go_time \<Rightarrow> Delivery \<Rightarrow> Delivery" where
  "release_row nw d =
    truncateDelivery
      (d\<lparr>d_Status := (if d_AttemptCount d > 0 then DeliveryDeferred else DeliveryQueued),
         d_LeaseOwner := '''', d_LeaseUntil := 0, d_NextAttemptAt := nw, d_UpdatedAt := nw\<rparr>)"

definition lease_expired :: "go_time \<Rightarrow> Delivery \<Rightarrow> bool" where
  "lease_expired nw d \<longleftrightarrow>
    \<not> (d_Status d \<noteq> DeliveryLeased \<or> d_LeaseUntil d = 0 \<or> \<not> d_LeaseUntil d < nw)"

definition ReleaseExpiredLeases ::
  "env \<Rightarrow> go_time \<Rightarrow> int \<Rightarrow> tenant_data \<Rightarrow> (store_err + int) \<times> tenant_data" where
  "ReleaseExpiredLeases e nw limit s =
    (if e_closed e then (Inl ErrClosed, s)
     else (let nw = TruncateTime nw;
               ids = chop limit (sort (keys_where (\<lambda>_ d. lease_expired nw d) (td_deliveries s)))
           in (Inr (int (length ids)),
               s\<lparr>td_deliveries := alter_rows ids (release_row nw) (td_deliveries s)\<rparr>)))"

definition bulk_row :: "env \<Rightarrow> DeliveryStatus \<Rightarrow> Delivery \<Rightarrow> Delivery" where
  "bulk_row e to d =
    truncateDelivery
      (d\<lparr>d_Status := to, d_FinishedAt := (if Terminal to then now e else d_FinishedAt d),
         d_UpdatedAt := now e\<rparr>)"

definition bulk_match :: "string \<Rightarrow> DeliveryStatus list \<Rightarrow> DeliveryStatus \<Rightarrow> Delivery \<Rightarrow> bool" where
  "bulk_match campaignID from to d \<longleftrightarrow>
    \<not> (d_CampaignID d \<noteq> campaignID \<or> \<not> matchStatus from (d_Status d) \<or> d_Status d = to)"

definition BulkTransition ::
  "env \<Rightarrow> string \<Rightarrow> DeliveryStatus list \<Rightarrow> DeliveryStatus \<Rightarrow> int \<Rightarrow> tenant_data \<Rightarrow> (store_err + int) \<times> tenant_data"
where
  "BulkTransition e campaignID from to limit s =
    (if e_closed e then (Inl ErrClosed, s)
     else (let ids = chop limit (sort (keys_where (\<lambda>_ d. bulk_match campaignID from to d) (td_deliveries s)))
           in (Inr (int (length ids)),
               s\<lparr>td_deliveries := alter_rows ids (bulk_row e to) (td_deliveries s)\<rparr>)))"

definition requeue_row :: "go_time \<Rightarrow> Delivery \<Rightarrow> Delivery" where
  "requeue_row tm d =
    truncateDelivery
      (d\<lparr>d_Status := DeliveryQueued, d_RetryGen := d_RetryGen d + 1, d_NextAttemptAt := tm,
         d_LeaseOwner := '''', d_LeaseUntil := 0, d_FinishedAt := 0, d_UpdatedAt := tm\<rparr>)"

definition requeue_match :: "RetryFilter \<Rightarrow> string \<Rightarrow> Delivery \<Rightarrow> bool" where
  "requeue_match f i d \<longleftrightarrow>
    \<not> (d_CampaignID d \<noteq> rf_CampaignID f \<or>
       (case rf_DeliveryIDs f of None \<Rightarrow> False | Some ids \<Rightarrow> i \<notin> set ids)) \<and>
    \<not> (\<not> matchStatus (rf_Statuses f) (d_Status d) \<or> \<not> matchClass (rf_ErrorClasses f) (d_LastErrorClass d))"

definition Requeue :: "env \<Rightarrow> RetryFilter \<Rightarrow> int \<Rightarrow> tenant_data \<Rightarrow> (store_err + int) \<times> tenant_data" where
  "Requeue e f limit s =
    (if e_closed e then (Inl ErrClosed, s)
     else (let tm = TruncateTime (rf_Now f);
               ids = chop limit (sort (keys_where (requeue_match f) (td_deliveries s)))
           in (Inr (int (length ids)),
               s\<lparr>td_deliveries := alter_rows ids (requeue_row tm) (td_deliveries s)\<rparr>)))"

section \<open>First interactions\<close>

definition setFirst ::
  "env \<Rightarrow> string \<Rightarrow> go_time \<Rightarrow> (Delivery, go_time) fld \<Rightarrow> tenant_data \<Rightarrow> (store_err + bool) \<times> tenant_data" where
  "setFirst e i tm field s =
    (if e_closed e then (Inl ErrClosed, s)
     else case map_of (td_deliveries s) i of None \<Rightarrow> (Inr False, s)
     | Some d \<Rightarrow>
         if fget field d \<noteq> 0 then (Inr False, s)
         else (Inr True,
               s\<lparr>td_deliveries := AList.update i
                   (truncateDelivery ((fset field tm d)\<lparr>d_UpdatedAt := tm\<rparr>)) (td_deliveries s)\<rparr>))"

definition SetFirstOpened :: "env \<Rightarrow> string \<Rightarrow> go_time \<Rightarrow> tenant_data \<Rightarrow> (store_err + bool) \<times> tenant_data" where
  "SetFirstOpened e i tm s = setFirst e i tm (Fld d_FirstOpenedAt d_FirstOpenedAt_update) s"

definition SetFirstClicked :: "env \<Rightarrow> string \<Rightarrow> go_time \<Rightarrow> tenant_data \<Rightarrow> (store_err + bool) \<times> tenant_data" where
  "SetFirstClicked e i tm s = setFirst e i tm (Fld d_FirstClickedAt d_FirstClickedAt_update) s"

definition SetUnsubscribed :: "env \<Rightarrow> string \<Rightarrow> go_time \<Rightarrow> tenant_data \<Rightarrow> (store_err + bool) \<times> tenant_data" where
  "SetUnsubscribed e i tm s = setFirst e i tm (Fld d_UnsubscribedAt d_UnsubscribedAt_update) s"

section \<open>Retention\<close>

fun delete_loop :: "string list \<Rightarrow> tenant_data \<Rightarrow> tenant_data" where
  "delete_loop [] s = s"
| "delete_loop (i # ids) s =
    (let s = (case map_of (td_deliveries s) i of None \<Rightarrow> s
              | Some d \<Rightarrow>
                  if d_CampaignID d \<noteq> ''''
                  then s\<lparr>td_campaignEmails :=
                         AList.delete (emailKey (d_CampaignID d) (d_EmailNorm d)) (td_campaignEmails s)\<rparr>
                  else s);
         s = s\<lparr>td_deliveries := AList.delete i (td_deliveries s)\<rparr>;
         s = s\<lparr>td_attempts := filter (\<lambda>(aid, a). \<not> a_DeliveryID a = i) (td_attempts s)\<rparr>
     in delete_loop ids s)"

definition delivery_DeleteBefore ::
  "env \<Rightarrow> string \<Rightarrow> go_time \<Rightarrow> int \<Rightarrow> tenant_data \<Rightarrow> (store_err + int) \<times> tenant_data" where
  "delivery_DeleteBefore e campaignID before limit s =
    (if e_closed e then (Inl ErrClosed, s)
     else (let before = TruncateTime before;
               ids = chop limit (sort (keys_where
                       (\<lambda>_ d. \<not> (d_CampaignID d \<noteq> campaignID \<or> \<not> d_CreatedAt d < before)) (td_deliveries s)))
           in (Inr (int (length ids)), delete_loop ids s)))"

section \<open>Attempts\<close>

definition attempt_row :: "env \<Rightarrow> nat \<Rightarrow> DeliveryAttempt \<Rightarrow> DeliveryAttempt" where
  "attempt_row e k a =
    truncateAttempt
      (a\<lparr>a_ID := (if a_ID a = '''' then e_newid e k else a_ID a), a_TenantID := e_tenant e,
         a_CreatedAt := (if a_CreatedAt a = 0 then now e else a_CreatedAt a)\<rparr>)"

fun attempt_loop :: "env \<Rightarrow> nat \<Rightarrow> DeliveryAttempt list \<Rightarrow> (string, DeliveryAttempt) gomap \<Rightarrow> (string, DeliveryAttempt) gomap" where
  "attempt_loop e k [] m = m"
| "attempt_loop e k (a # as) m =
    (let a' = attempt_row e k a
     in attempt_loop e (if a_ID a = '''' then k + 1 else k) as (AList.update (a_ID a') a' m))"

definition attempt_Insert :: "env \<Rightarrow> DeliveryAttempt list \<Rightarrow> tenant_data \<Rightarrow> store_err option \<times> tenant_data" where
  "attempt_Insert e as s =
    (if e_closed e then (Some ErrClosed, s)
     else (None, s\<lparr>td_attempts := attempt_loop e 0 as (td_attempts s)\<rparr>))"

definition ListByDelivery ::
  "env \<Rightarrow> string \<Rightarrow> Page \<Rightarrow> tenant_data \<Rightarrow> store_err + DeliveryAttempt Result" where
  "ListByDelivery e deliveryID p s =
    (if e_closed e then Inl ErrClosed
     else Inr (paginate (td_attempts s) p (\<lambda>a. a_DeliveryID a = deliveryID)))"

end
