(* ===== verification/Delivery_Props.thy ===== *)
theory Delivery_Props
  imports Mem_Delivery
begin

text \<open>
  What the delivery queue guarantees.  The calls a client can make are values of \<open>dcall\<close>;
  \<open>exec\<close> runs one against the store, \<open>call_ok\<close> is what the callers of the repository observe,
  and \<open>reach\<close> are the states any interleaving of such calls can produce.
\<close>

section \<open>Rows\<close>

lemma truncateDelivery_sel [simp]:
  "d_ID (truncateDelivery d) = d_ID d" "d_CampaignID (truncateDelivery d) = d_CampaignID d"
  "d_EmailNorm (truncateDelivery d) = d_EmailNorm d" "d_Lane (truncateDelivery d) = d_Lane d"
  "d_Status (truncateDelivery d) = d_Status d" "d_LeaseOwner (truncateDelivery d) = d_LeaseOwner d"
  "d_AttemptCount (truncateDelivery d) = d_AttemptCount d" "d_RetryGen (truncateDelivery d) = d_RetryGen d"
  "d_Priority (truncateDelivery d) = d_Priority d"
  "d_LastErrorClass (truncateDelivery d) = d_LastErrorClass d"
  "d_MessageID (truncateDelivery d) = d_MessageID d"
  "d_LeaseUntil (truncateDelivery d) = TruncateTime (d_LeaseUntil d)"
  "d_NextAttemptAt (truncateDelivery d) = TruncateTime (d_NextAttemptAt d)"
  "d_CreatedAt (truncateDelivery d) = TruncateTime (d_CreatedAt d)"
  "d_FinishedAt (truncateDelivery d) = TruncateTime (d_FinishedAt d)"
  "d_SentAt (truncateDelivery d) = TruncateTime (d_SentAt d)"
  "d_FirstOpenedAt (truncateDelivery d) = TruncateTime (d_FirstOpenedAt d)"
  "d_FirstClickedAt (truncateDelivery d) = TruncateTime (d_FirstClickedAt d)"
  "d_UnsubscribedAt (truncateDelivery d) = TruncateTime (d_UnsubscribedAt d)"
  by (simp_all add: truncateDelivery_def)

lemma truncateDelivery_idem [simp]: "truncateDelivery (truncateDelivery d) = truncateDelivery d"
  by (simp add: truncateDelivery_def)

text \<open>Identity of a row: what no transition changes.\<close>

definition same_ident :: "Delivery \<Rightarrow> Delivery \<Rightarrow> bool" where
  "same_ident d d' \<longleftrightarrow>
    d_ID d' = d_ID d \<and> d_CampaignID d' = d_CampaignID d \<and> d_EmailNorm d' = d_EmailNorm d"

text \<open>A leased row has an owner; only leased rows, and sent rows awaiting their result, have one.\<close>

definition lease_ok :: "Delivery \<Rightarrow> bool" where
  "lease_ok d \<longleftrightarrow>
    (d_Status d = DeliveryLeased \<longrightarrow> d_LeaseOwner d \<noteq> '''') \<and>
    (d_LeaseOwner d \<noteq> '''' \<longrightarrow> d_Status d = DeliveryLeased \<or> d_Status d = DeliverySent)"

lemma same_ident_rows [simp]:
  "same_ident d (claim_row req d)" "same_ident d (complete_row e res d)"
  "same_ident d (release_row nw d)" "same_ident d (bulk_row e to d)" "same_ident d (requeue_row tm d)"
  "same_ident d (insert_row e d)"
  by (simp_all add: same_ident_def claim_row_def complete_row_def release_row_def bulk_row_def
      requeue_row_def insert_row_def)

lemma lease_ok_rows [simp]:
  "cr_WorkerID req \<noteq> '''' \<Longrightarrow> lease_ok (claim_row req d)"
  "dr_NewStatus res \<noteq> DeliveryLeased \<Longrightarrow> lease_ok (complete_row e res d)"
  "lease_ok (release_row nw d)" "lease_ok (requeue_row tm d)"
  "lease_ok (insert_row e d) = lease_ok d"
  by (simp_all add: lease_ok_def claim_row_def complete_row_def release_row_def requeue_row_def insert_row_def)

lemma lease_ok_bulk:
  "lease_ok d \<Longrightarrow> d_Status d \<noteq> DeliveryLeased \<Longrightarrow> d_Status d \<noteq> DeliverySent \<Longrightarrow> to \<noteq> DeliveryLeased \<Longrightarrow>
    lease_ok (bulk_row e to d)"
  by (auto simp: lease_ok_def bulk_row_def)

section \<open>Invariant\<close>

text \<open>
  Rows are filed under their identifier and respect the lease discipline; the index of
  campaign addresses names exactly the campaign rows.
\<close>

definition dinv :: "tenant_data \<Rightarrow> bool" where
  "dinv s \<longleftrightarrow>
    distinct (map fst (td_deliveries s)) \<and>
    (\<forall>i d. map_of (td_deliveries s) i = Some d \<longrightarrow> d_ID d = i \<and> lease_ok d) \<and>
    (\<forall>i d. map_of (td_deliveries s) i = Some d \<longrightarrow> d_CampaignID d \<noteq> '''' \<longrightarrow>
       map_of (td_campaignEmails s) (emailKey (d_CampaignID d) (d_EmailNorm d)) = Some i) \<and>
    (\<forall>k i. map_of (td_campaignEmails s) k = Some i \<longrightarrow>
       (\<exists>d. map_of (td_deliveries s) i = Some d \<and> d_CampaignID d \<noteq> '''' \<and>
            emailKey (d_CampaignID d) (d_EmailNorm d) = k))"

lemma dinvD:
  assumes "dinv s"
  shows "distinct (map fst (td_deliveries s))"
    "map_of (td_deliveries s) i = Some d \<Longrightarrow> d_ID d = i"
    "map_of (td_deliveries s) i = Some d \<Longrightarrow> lease_ok d"
    "map_of (td_deliveries s) i = Some d \<Longrightarrow> d_CampaignID d \<noteq> '''' \<Longrightarrow>
       map_of (td_campaignEmails s) (emailKey (d_CampaignID d) (d_EmailNorm d)) = Some i"
    "map_of (td_campaignEmails s) k = Some i \<Longrightarrow>
       \<exists>d. map_of (td_deliveries s) i = Some d \<and> d_CampaignID d \<noteq> '''' \<and>
            emailKey (d_CampaignID d) (d_EmailNorm d) = k"
  using assms unfolding dinv_def by blast+

text \<open>A change of rows in place.\<close>

lemma dinv_rows:
  assumes "dinv s" "distinct (map fst m)"
    and "\<And>i. map_of m i = None \<longleftrightarrow> map_of (td_deliveries s) i = None"
    and "\<And>i d d'. map_of (td_deliveries s) i = Some d \<Longrightarrow> map_of m i = Some d' \<Longrightarrow> same_ident d d' \<and> lease_ok d'"
  shows "dinv (s\<lparr>td_deliveries := m\<rparr>)"
proof -
  have old: "\<exists>d. map_of (td_deliveries s) i = Some d \<and> same_ident d d' \<and> lease_ok d'" if "map_of m i = Some d'" for i d'
    using assms(3) [of i] assms(4) [OF _ that] that by (cases "map_of (td_deliveries s) i") auto
  have fwd: "\<exists>d'. map_of m i = Some d' \<and> same_ident d d'" if "map_of (td_deliveries s) i = Some d" for i d
    using assms(3) [of i] assms(4) [OF that] that by (cases "map_of m i") auto
  have "d_ID d' = i \<and> lease_ok d'" if "map_of m i = Some d'" for i d'
    using old [OF that] dinvD(2) [OF assms(1)] by (auto simp: same_ident_def)
  moreover have "map_of (td_campaignEmails s) (emailKey (d_CampaignID d') (d_EmailNorm d')) = Some i"
    if "map_of m i = Some d'" "d_CampaignID d' \<noteq> ''''" for i d'
    using old [OF that(1)] that(2) dinvD(4) [OF assms(1)] by (fastforce simp: same_ident_def)
  moreover have "\<exists>d. map_of m i = Some d \<and> d_CampaignID d \<noteq> '''' \<and> emailKey (d_CampaignID d) (d_EmailNorm d) = k"
    if "map_of (td_campaignEmails s) k = Some i" for k i
    using dinvD(5) [OF assms(1) that] fwd by (fastforce simp: same_ident_def)
  ultimately show ?thesis using assms(2) unfolding dinv_def by simp
qed

lemma dinv_alter:
  assumes "dinv s" "\<And>i d. i \<in> set ks \<Longrightarrow> map_of (td_deliveries s) i = Some d \<Longrightarrow> same_ident d (f d) \<and> lease_ok (f d)"
  shows "dinv (s\<lparr>td_deliveries := alter_rows ks f (td_deliveries s)\<rparr>)"
  using assms dinvD(1,3) [OF assms(1)]
  by (intro dinv_rows) (auto simp: same_ident_def split: if_splits)

lemma dinv_update:
  assumes "dinv s" "map_of (td_deliveries s) i = Some d" "same_ident d d'" "lease_ok d'"
  shows "dinv (s\<lparr>td_deliveries := AList.update i d' (td_deliveries s)\<rparr>)"
  using assms dinvD(1,3) [OF assms(1)]
  by (intro dinv_rows) (auto simp: same_ident_def split: if_splits)

lemma dinv_other [simp]:
  "dinv (s\<lparr>td_attempts := a\<rparr>) = dinv s"
  by (simp add: dinv_def)

section \<open>Calls\<close>

datatype dcall =
    CallInsert "Delivery list"
  | CallClaim ClaimRequest
  | CallComplete "DeliveryResult list"
  | CallMarkSent string string string go_time
  | CallMarkBounced string go_time
  | CallMarkComplained string go_time
  | CallRelease go_time int
  | CallBulk string "DeliveryStatus list" DeliveryStatus int
  | CallRequeue RetryFilter int
  | CallFirstOpened string go_time
  | CallFirstClicked string go_time
  | CallUnsubscribed string go_time
  | CallDelete string go_time int
  | CallAttempts "DeliveryAttempt list"

fun exec :: "env \<Rightarrow> dcall \<Rightarrow> tenant_data \<Rightarrow> tenant_data" where
  "exec e (CallInsert ds) s = snd (InsertBatch e ds s)"
| "exec e (CallClaim req) s = snd (Claim e req s)"
| "exec e (CallComplete rs) s = snd (Complete e rs s)"
| "exec e (CallMarkSent i owner mid tm) s = snd (MarkSent e i owner mid tm s)"
| "exec e (CallMarkBounced i tm) s = snd (MarkBounced e i tm s)"
| "exec e (CallMarkComplained i tm) s = snd (MarkComplained e i tm s)"
| "exec e (CallRelease nw l) s = snd (ReleaseExpiredLeases e nw l s)"
| "exec e (CallBulk c from to l) s = snd (BulkTransition e c from to l s)"
| "exec e (CallRequeue f l) s = snd (Requeue e f l s)"
| "exec e (CallFirstOpened i tm) s = snd (SetFirstOpened e i tm s)"
| "exec e (CallFirstClicked i tm) s = snd (SetFirstClicked e i tm s)"
| "exec e (CallUnsubscribed i tm) s = snd (SetUnsubscribed e i tm s)"
| "exec e (CallDelete c before l) s = snd (delivery_DeleteBefore e c before l s)"
| "exec e (CallAttempts as) s = snd (attempt_Insert e as s)"

text \<open>
  \<^verbatim>\<open>NewID\<close> mints identifiers that nobody has used: the \<open>k\<close>-th and later ones are not those of
  stored rows nor the ones the caller chose, and the caller does not reuse an identifier.
\<close>

definition given_ids :: "Delivery list \<Rightarrow> string list" where
  "given_ids ds = filter (\<lambda>i. i \<noteq> '''') (map d_ID ds)"

definition fresh_ids :: "env \<Rightarrow> nat \<Rightarrow> Delivery list \<Rightarrow> tenant_data \<Rightarrow> bool" where
  "fresh_ids e k ds s \<longleftrightarrow>
    inj (e_newid e) \<and>
    (\<forall>j \<ge> k. map_of (td_deliveries s) (e_newid e j) = None \<and> e_newid e j \<notin> set (given_ids ds)) \<and>
    distinct (given_ids ds) \<and> (\<forall>i \<in> set (given_ids ds). map_of (td_deliveries s) i = None)"

text \<open>How the callers use the repository.\<close>

fun call_ok :: "env \<Rightarrow> dcall \<Rightarrow> tenant_data \<Rightarrow> bool" where
  "call_ok e (CallInsert ds) s \<longleftrightarrow> fresh_ids e 0 ds s \<and> (\<forall>d \<in> set ds. lease_ok d)"
| "call_ok e (CallClaim req) s \<longleftrightarrow> cr_WorkerID req \<noteq> ''''"
| "call_ok e (CallComplete rs) s \<longleftrightarrow> (\<forall>r \<in> set rs. dr_NewStatus r \<noteq> DeliveryLeased)"
| "call_ok e (CallBulk c from to l) s \<longleftrightarrow>
    from \<noteq> [] \<and> (\<forall>x \<in> set from. \<not> Terminal x \<and> x \<noteq> DeliveryLeased) \<and> to \<noteq> DeliveryLeased"
| "call_ok e c s \<longleftrightarrow> True"

inductive reach :: "tenant_data \<Rightarrow> bool" where
  reach_init: "reach newTenantData"
| reach_step: "reach s \<Longrightarrow> call_ok e c s \<Longrightarrow> reach (exec e c s)"

section \<open>Preservation\<close>

lemma Claim_dinv [inv_intros]: "dinv s \<Longrightarrow> cr_WorkerID req \<noteq> '''' \<Longrightarrow> dinv (snd (Claim e req s))"
  by (auto simp: Claim_def Let_def intro!: dinv_alter)

lemma complete_loop_dinv:
  "dinv s \<Longrightarrow> \<forall>r \<in> set rs. dr_NewStatus r \<noteq> DeliveryLeased \<Longrightarrow> dinv (complete_loop e k rs s)"
proof (induction e k rs s rule: complete_loop.induct)
  case (2 e k res rs s)
  show ?case
  proof (cases "map_of (td_deliveries s) (dr_DeliveryID res)")
    case None then show ?thesis using 2 by simp
  next
    case (Some d)
    let ?s = "s\<lparr>td_deliveries := AList.update (dr_DeliveryID res) (complete_row e res d) (td_deliveries s)\<rparr>"
    have "dinv ?s" using 2 Some by (intro dinv_update) auto
    then show ?thesis using 2 Some by (auto simp: Let_def split: option.splits)
  qed
qed simp

lemma Complete_dinv [inv_intros]:
  "dinv s \<Longrightarrow> \<forall>r \<in> set rs. dr_NewStatus r \<noteq> DeliveryLeased \<Longrightarrow> dinv (snd (Complete e rs s))"
  by (simp add: Complete_def complete_loop_dinv)

lemma MarkSent_dinv [inv_intros]: "dinv s \<Longrightarrow> dinv (snd (MarkSent e i owner mid tm s))"
  by (auto simp: MarkSent_def same_ident_def lease_ok_def split: option.splits intro!: dinv_update)

lemma markTerminal_dinv [inv_intros]:
  "dinv s \<Longrightarrow> to \<noteq> DeliveryLeased \<Longrightarrow> dinv (snd (markTerminal e i to tm s))"
  by (auto simp: markTerminal_def same_ident_def lease_ok_def split: option.splits intro!: dinv_update)

lemma Release_dinv [inv_intros]: "dinv s \<Longrightarrow> dinv (snd (ReleaseExpiredLeases e nw limit s))"
  by (auto simp: ReleaseExpiredLeases_def Let_def intro!: dinv_alter)

lemma Requeue_dinv [inv_intros]: "dinv s \<Longrightarrow> dinv (snd (Requeue e f limit s))"
  by (auto simp: Requeue_def Let_def intro!: dinv_alter)

lemma Bulk_dinv [inv_intros]:
  assumes "dinv s" "from \<noteq> []" "\<forall>x \<in> set from. \<not> Terminal x \<and> x \<noteq> DeliveryLeased" "to \<noteq> DeliveryLeased"
  shows "dinv (snd (BulkTransition e c from to limit s))"
proof -
  have "lease_ok (bulk_row e to d)"
    if "i \<in> set (chop limit (sort (keys_where (\<lambda>_. bulk_match c from to) (td_deliveries s))))"
      "map_of (td_deliveries s) i = Some d" for i d
  proof -
    have "bulk_match c from to d"
      using that set_chop_subset dinvD(1) [OF assms(1)] by (force simp: keys_where_eq)
    then have "d_Status d \<in> set from" using assms(2) by (simp add: bulk_match_def matchStatus_def)
    then show ?thesis using assms that(2) dinvD(3) by (intro lease_ok_bulk) force+
  qed
  then show ?thesis using assms(1) by (auto simp: BulkTransition_def Let_def intro!: dinv_alter)
qed

lemma setFirst_dinv:
  assumes "dinv s" "\<And>d. same_ident d (fset field tm d)"
    "\<And>d. d_Status (fset field tm d) = d_Status d" "\<And>d. d_LeaseOwner (fset field tm d) = d_LeaseOwner d"
  shows "dinv (snd (setFirst e i tm field s))"
  using assms dinvD(3) [OF assms(1)]
  by (auto simp: setFirst_def lease_ok_def same_ident_def split: option.splits intro!: dinv_update)

lemma SetFirst_dinv [inv_intros]:
  assumes "dinv s"
  shows "dinv (snd (SetFirstOpened e i tm s))" "dinv (snd (SetFirstClicked e i tm s))"
    "dinv (snd (SetUnsubscribed e i tm s))"
  using assms by (auto simp: SetFirstOpened_def SetFirstClicked_def SetUnsubscribed_def same_ident_def
      intro!: setFirst_dinv)

text \<open>A new row, under an identifier and an address that are not taken.\<close>

definition put_row :: "tenant_data \<Rightarrow> Delivery \<Rightarrow> tenant_data" where
  "put_row s d =
    s\<lparr>td_campaignEmails :=
        (if d_CampaignID d \<noteq> ''''
         then AList.update (emailKey (d_CampaignID d) (d_EmailNorm d)) (d_ID d) (td_campaignEmails s)
         else td_campaignEmails s),
      td_deliveries := AList.update (d_ID d) d (td_deliveries s)\<rparr>"

lemma dinv_put:
  assumes "dinv s" "map_of (td_deliveries s) (d_ID d) = None" "lease_ok d"
    "d_CampaignID d \<noteq> '''' \<Longrightarrow> map_of (td_campaignEmails s) (emailKey (d_CampaignID d) (d_EmailNorm d)) = None"
  shows "dinv (put_row s d)"
proof -
  have new: "k \<noteq> emailKey (d_CampaignID d) (d_EmailNorm d)"
    if "map_of (td_campaignEmails s) k = Some i" "d_CampaignID d \<noteq> ''''" for k i
    using that assms(4) by auto
  have "j \<noteq> d_ID d" if "map_of (td_deliveries s) j = Some d'" for j d' using that assms(2) by auto
  moreover have "j \<noteq> d_ID d" if "map_of (td_campaignEmails s) k = Some j" for k j
    using dinvD(5) [OF assms(1) that] assms(2) by auto
  ultimately show ?thesis
    using dinvD [OF assms(1)] assms(3) new
    unfolding dinv_def put_row_def by (auto split: if_splits)
qed

text \<open>One turn of the insertion loop, in terms of \<open>put_row\<close>.\<close>

definition row_id :: "env \<Rightarrow> nat \<Rightarrow> Delivery \<Rightarrow> Delivery" where
  "row_id e k d = (if d_ID d = '''' then d\<lparr>d_ID := e_newid e k\<rparr> else d)"

definition is_dup :: "tenant_data \<Rightarrow> Delivery \<Rightarrow> bool" where
  "is_dup s d \<longleftrightarrow> d_CampaignID d \<noteq> '''' \<and>
    map_of (td_campaignEmails s) (emailKey (d_CampaignID d) (d_EmailNorm d)) \<noteq> None"

lemma insert_row_sel [simp]:
  "d_ID (insert_row e d) = d_ID d" "d_CampaignID (insert_row e d) = d_CampaignID d"
  "d_EmailNorm (insert_row e d) = d_EmailNorm d" "d_Status (insert_row e d) = d_Status d"
  by (simp_all add: insert_row_def)

lemma row_id_sel [simp]:
  "d_CampaignID (row_id e k d) = d_CampaignID d" "d_EmailNorm (row_id e k d) = d_EmailNorm d"
  "lease_ok (row_id e k d) = lease_ok d"
  by (simp_all add: row_id_def lease_ok_def)

lemma insert_loop_Cons:
  "insert_loop e k n (d # ds) s =
    (if is_dup s d then insert_loop e k n ds s
     else insert_loop e (if d_ID d = '''' then k + 1 else k) (n + 1) ds (put_row s (insert_row e (row_id e k d))))"
  by (simp add: is_dup_def put_row_def row_id_def Let_def)

declare insert_loop.simps(2) [simp del]

lemma put_row_lookup [simp]:
  "map_of (td_deliveries (put_row s d)) i = (if i = d_ID d then Some d else map_of (td_deliveries s) i)"
  by (simp add: put_row_def)

lemma given_ids_Cons [simp]:
  "given_ids (d # ds) = (if d_ID d = '''' then given_ids ds else d_ID d # given_ids ds)"
  by (simp add: given_ids_def)

lemma fresh_ids_skip: "fresh_ids e k (d # ds) s \<Longrightarrow> fresh_ids e k ds s"
  by (auto simp: fresh_ids_def split: if_splits)

lemma fresh_ids_row: "fresh_ids e k (d # ds) s \<Longrightarrow> map_of (td_deliveries s) (d_ID (row_id e k d)) = None"
  by (auto simp: fresh_ids_def row_id_def split: if_splits)

lemma fresh_ids_put:
  "fresh_ids e k (d # ds) s \<Longrightarrow>
    fresh_ids e (if d_ID d = '''' then k + 1 else k) ds (put_row s (insert_row e (row_id e k d)))"
  by (auto simp: fresh_ids_def row_id_def inj_def split: if_splits) (metis Suc_n_not_le_n)+

lemma insert_loop_dinv:
  "dinv s \<Longrightarrow> fresh_ids e k ds s \<Longrightarrow> \<forall>d \<in> set ds. lease_ok d \<Longrightarrow> dinv (snd (insert_loop e k n ds s))"
proof (induction ds arbitrary: k n s)
  case (Cons d ds)
  show ?case
  proof (cases "is_dup s d")
    case True
    with Cons show ?thesis by (simp add: insert_loop_Cons fresh_ids_skip)
  next
    case False
    have "dinv (put_row s (insert_row e (row_id e k d)))"
      using False Cons.prems fresh_ids_row by (intro dinv_put) (auto simp: is_dup_def)
    with False Cons.IH Cons.prems fresh_ids_put show ?thesis by (simp add: insert_loop_Cons)
  qed
qed simp

lemma InsertBatch_dinv [inv_intros]:
  "dinv s \<Longrightarrow> fresh_ids e 0 ds s \<Longrightarrow> \<forall>d \<in> set ds. lease_ok d \<Longrightarrow> dinv (snd (InsertBatch e ds s))"
  by (auto simp: InsertBatch_def split: prod.splits dest: insert_loop_dinv [where k = 0 and n = 0])

definition drop_row :: "string \<Rightarrow> Delivery \<Rightarrow> tenant_data \<Rightarrow> tenant_data" where
  "drop_row i d s =
    s\<lparr>td_campaignEmails :=
        (if d_CampaignID d \<noteq> '''' then AList.delete (emailKey (d_CampaignID d) (d_EmailNorm d)) (td_campaignEmails s)
         else td_campaignEmails s),
      td_deliveries := AList.delete i (td_deliveries s)\<rparr>"

lemma dinv_drop:
  assumes "dinv s" "map_of (td_deliveries s) i = Some d"
  shows "dinv (drop_row i d s)"
  using dinvD [OF assms(1)] assms(2) unfolding dinv_def drop_row_def
  by (auto split: if_splits) (metis option.inject)+

lemma drop_row_lookup [simp]:
  "map_of (td_deliveries (drop_row i d s)) j = (if j = i then None else map_of (td_deliveries s) j)"
  by (simp add: drop_row_def)

lemma delete_loop_Cons:
  "map_of (td_deliveries s) i = Some d \<Longrightarrow> delete_loop (i # ids) s =
    delete_loop ids ((drop_row i d s)\<lparr>td_attempts := filter (\<lambda>(aid, a). \<not> a_DeliveryID a = i) (td_attempts s)\<rparr>)"
  by (simp add: drop_row_def Let_def)

declare delete_loop.simps(2) [simp del]

lemma delete_loop_dinv:
  "dinv s \<Longrightarrow> distinct ids \<Longrightarrow> \<forall>i \<in> set ids. map_of (td_deliveries s) i \<noteq> None \<Longrightarrow> dinv (delete_loop ids s)"
proof (induction ids arbitrary: s)
  case (Cons i ids)
  then obtain d where d: "map_of (td_deliveries s) i = Some d" by auto
  then have "dinv (drop_row i d s)" using Cons.prems by (simp add: dinv_drop)
  moreover have "j \<noteq> i" if "j \<in> set ids" for j using that Cons.prems by auto
  ultimately show ?case using Cons.prems unfolding delete_loop_Cons [OF d] by (intro Cons.IH) auto
qed simp

lemma DeleteBefore_dinv [inv_intros]:
  assumes "dinv s"
  shows "dinv (snd (delivery_DeleteBefore e c before limit s))"
proof -
  have "\<forall>i \<in> set (chop limit (sort (keys_where P (td_deliveries s)))). map_of (td_deliveries s) i \<noteq> None" for P
    using set_chop_subset dinvD(1) [OF assms] by (force simp: keys_where_eq)
  then show ?thesis using assms dinvD(1)
    by (auto simp: delivery_DeleteBefore_def Let_def intro!: delete_loop_dinv)
qed

lemma newTenantData_dinv: "dinv newTenantData"
  by (simp add: dinv_def newTenantData_def)

lemma exec_dinv: "dinv s \<Longrightarrow> call_ok e c s \<Longrightarrow> dinv (exec e c s)"
  by (cases c) (auto simp: MarkBounced_def MarkComplained_def attempt_Insert_def intro: inv_intros)

lemma reach_dinv: "reach s \<Longrightarrow> dinv s"
  by (induction rule: reach.induct) (auto intro: newTenantData_dinv exec_dinv)

section \<open>Claiming\<close>

interpretation claim_order: slice_order "\<lambda>a b. claim_less (snd a) (snd b)" "\<lambda>a. d_ID (snd a)"
  by unfold_locales (auto simp: claim_less_def split: if_splits)

lemma claim_cands_mem:
  assumes "(k, d) \<in> set (claim_cands req m)"
  shows "(k, d) \<in> set m" "claim_eligible req d"
  using assms set_chop_subset by (fastforce simp: claim_cands_def)+

lemma claim_cands_distinct: "distinct (map f m) \<Longrightarrow> distinct (map f (claim_cands req m))"
  unfolding claim_cands_def chop_def by (simp add: distinct_map_filter flip: take_map)

lemma claim_cands_lookup:
  assumes "dinv s" "(k, d) \<in> set (claim_cands req (td_deliveries s))"
  shows "map_of (td_deliveries s) k = Some d" "d_ID d = k"
  using claim_cands_mem [OF assms(2)] dinvD(1,2) [OF assms(1)] by auto

lemma claim_row_sel [simp]:
  "d_ID (claim_row req d) = d_ID d" "d_Status (claim_row req d) = DeliveryLeased"
  "d_LeaseOwner (claim_row req d) = cr_WorkerID req" "d_AttemptCount (claim_row req d) = d_AttemptCount d"
  "d_LeaseUntil (claim_row req d) = TruncateTime (TruncateTime (cr_Now req) + cr_LeaseFor req)"
  by (simp_all add: claim_row_def)

lemma Claim_ids:
  assumes "dinv s" "Claim e req s = (Inr out, s')"
  shows "map d_ID out = map fst (claim_cands req (td_deliveries s))"
  using assms claim_cands_lookup(2) by (auto simp: Claim_def Let_def split: if_splits)

lemma Claim_state:
  assumes "Claim e req s = (Inr out, s')"
  shows "out = map (\<lambda>(k, d). claim_row req d) (claim_cands req (td_deliveries s))"
    "s' = s\<lparr>td_deliveries := alter_rows (map fst (claim_cands req (td_deliveries s))) (claim_row req) (td_deliveries s)\<rparr>"
  using assms by (auto simp: Claim_def Let_def split: if_splits)

lemma Claim_row_of:
  assumes "dinv s" "Claim e req s = (Inr out, s')" "d \<in> set out"
  obtains d0 where "map_of (td_deliveries s) (d_ID d) = Some d0" "claim_eligible req d0"
    "d = claim_row req d0" "(d_ID d, d0) \<in> set (claim_cands req (td_deliveries s))"
proof -
  from assms(3) obtain k d0 where kd: "(k, d0) \<in> set (claim_cands req (td_deliveries s))" "d = claim_row req d0"
    using Claim_state(1) [OF assms(2)] by auto
  then show ?thesis using claim_cands_lookup [OF assms(1) kd(1)] claim_cands_mem(2) [OF kd(1)] that by auto
qed

lemma not_eligible_leased: "d_Status d = DeliveryLeased \<Longrightarrow> \<not> claim_eligible req d"
  by (simp add: claim_eligible_def claimableStatus_def)

lemma not_eligible_terminal: "Terminal (d_Status d) \<Longrightarrow> \<not> claim_eligible req d"
  by (cases "d_Status d") (simp_all add: claim_eligible_def claimableStatus_def)

text \<open>Successive claims by any number of workers.\<close>

fun claim_all :: "(env \<times> ClaimRequest) list \<Rightarrow> tenant_data \<Rightarrow> Delivery list list \<times> tenant_data" where
  "claim_all [] s = ([], s)"
| "claim_all ((e, req) # rs) s =
    (let (out, s1) = Claim e req s; (outs, s2) = claim_all rs s1
     in ((case out of Inl _ \<Rightarrow> [] | Inr ds \<Rightarrow> ds) # outs, s2))"

lemma claim_all_Cons:
  "fst (claim_all ((e, req) # rs) s) =
    (case fst (Claim e req s) of Inl _ \<Rightarrow> [] | Inr ds \<Rightarrow> ds) # fst (claim_all rs (snd (Claim e req s)))"
  by (simp add: case_prod_beta Let_def)

declare claim_all.simps(2) [simp del]

lemma Claim_keeps_leased:
  assumes "dinv s" "map_of (td_deliveries s) i = Some d" "d_Status d = DeliveryLeased"
  shows "map_of (td_deliveries (snd (Claim e req s))) i = Some d"
proof -
  have "i \<notin> set (map fst (claim_cands req (td_deliveries s)))"
    using claim_cands_lookup(1) [OF assms(1)] claim_cands_mem(2) not_eligible_leased assms(2,3) by fastforce
  then show ?thesis using assms(2) by (simp add: Claim_def Let_def)
qed

lemma claim_all_leased:
  "dinv s \<Longrightarrow> \<forall>(e, req) \<in> set rs. cr_WorkerID req \<noteq> '''' \<Longrightarrow> map_of (td_deliveries s) i = Some d \<Longrightarrow>
    d_Status d = DeliveryLeased \<Longrightarrow> i \<notin> d_ID ` set (concat (fst (claim_all rs s)))"
proof (induction rs arbitrary: s)
  case (Cons r rs)
  obtain e req where r: "r = (e, req)" by (cases r)
  obtain out s1 where c: "Claim e req s = (out, s1)" by fastforce
  have "dinv s1" using Claim_dinv [of s req e] Cons.prems r c by auto
  moreover have "map_of (td_deliveries s1) i = Some d" using Claim_keeps_leased [OF Cons.prems(1,3,4), of e req] c by simp
  ultimately have "i \<notin> d_ID ` set (concat (fst (claim_all rs s1)))" using Cons by simp
  moreover have "i \<notin> d_ID ` set out'" if o: "out = Inr out'" for out'
  proof
    assume "i \<in> d_ID ` set out'"
    then obtain x where x: "x \<in> set out'" "i = d_ID x" by auto
    from Cons.prems(1) c [unfolded o] x(1) obtain d0 where "map_of (td_deliveries s) (d_ID x) = Some d0" "claim_eligible req d0"
      by (rule Claim_row_of)
    then show False using Cons.prems(3,4) x(2) not_eligible_leased by auto
  qed
  ultimately show ?case using c r by (cases out) (auto simp: claim_all_Cons)
qed simp

lemma claim_all_distinct:
  "dinv s \<Longrightarrow> \<forall>(e, req) \<in> set rs. cr_WorkerID req \<noteq> '''' \<Longrightarrow> distinct (map d_ID (concat (fst (claim_all rs s))))"
proof (induction rs arbitrary: s)
  case (Cons r rs)
  obtain e req where r: "r = (e, req)" by (cases r)
  obtain out s1 where c: "Claim e req s = (out, s1)" by fastforce
  have inv: "dinv s1" using Claim_dinv [of s req e] Cons.prems r c by auto
  then have rest: "distinct (map d_ID (concat (fst (claim_all rs s1))))" using Cons by simp
  show ?case
  proof (cases out)
    case (Inl err) then show ?thesis using rest c r by (simp add: claim_all_Cons)
  next
    case (Inr ds)
    note c' = c [unfolded Inr]
    have "distinct (map d_ID ds)"
      using Claim_ids [OF Cons.prems(1) c'] claim_cands_distinct dinvD(1) [OF Cons.prems(1)] by simp
    moreover have "d_ID d \<notin> d_ID ` set (concat (fst (claim_all rs s1)))" if d: "d \<in> set ds" for d
    proof -
      from Cons.prems(1) c' d obtain d0 where *: "map_of (td_deliveries s) (d_ID d) = Some d0" "d = claim_row req d0"
          "(d_ID d, d0) \<in> set (claim_cands req (td_deliveries s))" by (rule Claim_row_of)
      then have "map_of (td_deliveries s1) (d_ID d) = Some d" using Claim_state(2) [OF c'] by (auto simp: image_iff)
      then show ?thesis using claim_all_leased [OF inv, of rs "d_ID d" d] Cons.prems(2) * by simp
    qed
    ultimately show ?thesis using rest c r Inr by (auto simp: claim_all_Cons)
  qed
qed simp

section \<open>Results\<close>

text \<open>A result whose lease has moved on; \<^verbatim>\<open>Complete\<close> skips it.\<close>

definition stale :: "tenant_data \<Rightarrow> DeliveryResult \<Rightarrow> bool" where
  "stale s res \<longleftrightarrow>
    (case map_of (td_deliveries s) (dr_DeliveryID res) of None \<Rightarrow> True
     | Some d \<Rightarrow> dr_LeaseOwner res = '''' \<or> d_LeaseOwner d \<noteq> dr_LeaseOwner res)"

definition apply_result :: "env \<Rightarrow> nat \<Rightarrow> DeliveryResult \<Rightarrow> Delivery \<Rightarrow> tenant_data \<Rightarrow> tenant_data" where
  "apply_result e k res d s =
    (let s = s\<lparr>td_deliveries := AList.update (dr_DeliveryID res) (complete_row e res d) (td_deliveries s)\<rparr>
     in case dr_Attempt res of None \<Rightarrow> s
        | Some a \<Rightarrow> (let a' = complete_attempt e k (dr_DeliveryID res) a
                     in s\<lparr>td_attempts := AList.update (a_ID a') a' (td_attempts s)\<rparr>))"

lemma apply_result_lookup [simp]:
  "map_of (td_deliveries (apply_result e k res d s)) i =
    (if i = dr_DeliveryID res then Some (complete_row e res d) else map_of (td_deliveries s) i)"
  by (simp add: apply_result_def Let_def split: option.splits)

lemma complete_loop_stale: "stale s res \<Longrightarrow> complete_loop e k (res # rs) s = complete_loop e k rs s"
  by (auto simp: stale_def split: option.splits)

lemma complete_loop_apply:
  assumes "map_of (td_deliveries s) (dr_DeliveryID res) = Some d"
    "d_LeaseOwner d = dr_LeaseOwner res" "dr_LeaseOwner res \<noteq> ''''"
  shows "complete_loop e k (res # rs) s =
    complete_loop e (case dr_Attempt res of None \<Rightarrow> k | Some a \<Rightarrow> if a_ID a = '''' then k + 1 else k) rs
      (apply_result e k res d s)"
  using assms by (cases "dr_Attempt res") (simp_all add: apply_result_def Let_def)

lemma complete_loop_live:
  assumes "\<not> stale s res"
  obtains d k' where "map_of (td_deliveries s) (dr_DeliveryID res) = Some d"
    "d_LeaseOwner d = dr_LeaseOwner res" "dr_LeaseOwner res \<noteq> ''''"
    "complete_loop e k (res # rs) s = complete_loop e k' rs (apply_result e k res d s)"
proof -
  from assms obtain d where "map_of (td_deliveries s) (dr_DeliveryID res) = Some d"
    "d_LeaseOwner d = dr_LeaseOwner res" "dr_LeaseOwner res \<noteq> ''''"
    by (auto simp: stale_def split: option.splits)
  then show ?thesis using complete_loop_apply that by blast
qed

declare complete_loop.simps(2) [simp del]

lemma complete_row_sel [simp]:
  "d_LeaseOwner (complete_row e res d) = ''''" "d_Status (complete_row e res d) = dr_NewStatus res"
  by (simp_all add: complete_row_def)

lemma stale_apply: "stale s r \<Longrightarrow> stale (apply_result e k res d s) r"
  by (auto simp: stale_def split: option.splits)

lemma complete_loop_keeps_stale: "stale s r \<Longrightarrow> stale (complete_loop e k rs s) r"
proof (induction rs arbitrary: k s)
  case (Cons res rs)
  show ?case
  proof (cases "stale s res")
    case True then show ?thesis using Cons by (simp add: complete_loop_stale)
  next
    case False
    then show ?thesis by (rule complete_loop_live [where e = e and k = k and rs = rs]) (use Cons stale_apply in auto)
  qed
qed simp

lemma complete_loop_makes_stale: "r \<in> set rs \<Longrightarrow> stale (complete_loop e k rs s) r"
proof (induction rs arbitrary: k s)
  case (Cons res rs)
  show ?case
  proof (cases "stale s res")
    case True then show ?thesis using Cons complete_loop_keeps_stale by (auto simp: complete_loop_stale)
  next
    case False
    then show ?thesis
    proof (rule complete_loop_live [where e = e and k = k and rs = rs])
      fix d k'
      assume "complete_loop e k (res # rs) s = complete_loop e k' rs (apply_result e k res d s)"
      moreover have "stale (apply_result e k res d s) res" by (auto simp: stale_def)
      ultimately show ?thesis using Cons complete_loop_keeps_stale by auto
    qed
  qed
qed simp

lemma complete_loop_all_stale: "\<forall>r \<in> set rs. stale s r \<Longrightarrow> complete_loop e k rs s = s"
  by (induction rs) (auto simp: complete_loop_stale)

lemma complete_loop_unowned:
  "map_of (td_deliveries s) i = Some d \<Longrightarrow> (\<forall>r \<in> set rs. dr_DeliveryID r = i \<longrightarrow> dr_LeaseOwner r = '''' \<or> d_LeaseOwner d \<noteq> dr_LeaseOwner r) \<Longrightarrow>
    map_of (td_deliveries (complete_loop e k rs s)) i = Some d"
proof (induction rs arbitrary: k s)
  case (Cons res rs)
  show ?case
  proof (cases "stale s res")
    case True then show ?thesis using Cons by (simp add: complete_loop_stale)
  next
    case False
    then have "dr_DeliveryID res \<noteq> i" using Cons.prems by (auto simp: stale_def)
    with False Cons show ?thesis
      by - (rule complete_loop_live [where e = e and k = k and rs = rs], auto)
  qed
qed simp

section \<open>Settled deliveries\<close>

definition settled :: "Delivery \<Rightarrow> bool" where
  "settled d \<longleftrightarrow> Terminal (d_Status d) \<and> d_LeaseOwner d = ''''"

text \<open>All that may still happen to a settled delivery: a bounce or a complaint.\<close>

definition settled_step :: "Delivery \<Rightarrow> Delivery \<Rightarrow> bool" where
  "settled_step d d' \<longleftrightarrow>
    settled d' \<and> d_RetryGen d' = d_RetryGen d \<and> d_AttemptCount d' = d_AttemptCount d \<and>
    (d_Status d' = d_Status d \<or>
     d_Status d = DeliverySent \<and> (d_Status d' = DeliveryBounced \<or> d_Status d' = DeliveryComplained))"

lemma settled_step_refl: "settled d \<Longrightarrow> settled_step d d"
  by (simp add: settled_step_def)

lemma settled_step_trans: "settled_step d d' \<Longrightarrow> settled_step d' d'' \<Longrightarrow> settled_step d d''"
  by (auto simp: settled_step_def)

definition keeps_settled :: "tenant_data \<Rightarrow> tenant_data \<Rightarrow> bool" where
  "keeps_settled s s' \<longleftrightarrow> (\<forall>i d. map_of (td_deliveries s) i = Some d \<longrightarrow> settled d \<longrightarrow>
     (\<exists>d'. map_of (td_deliveries s') i = Some d' \<and> settled_step d d'))"

lemma keeps_settled_refl: "keeps_settled s s"
  by (auto simp: keeps_settled_def settled_step_refl)

lemma keeps_settled_attempts [simp]: "keeps_settled s (s'\<lparr>td_attempts := a\<rparr>) = keeps_settled s s'"
  by (simp add: keeps_settled_def)

lemma keeps_settled_trans:
  assumes "keeps_settled s s'" "keeps_settled s' s''"
  shows "keeps_settled s s''"
  unfolding keeps_settled_def
proof (intro allI impI)
  fix i d assume "map_of (td_deliveries s) i = Some d" "settled d"
  with assms(1) obtain d' where d': "map_of (td_deliveries s') i = Some d'" "settled_step d d'"
    unfolding keeps_settled_def by blast
  then have "settled d'" by (simp add: settled_step_def)
  with assms(2) d' show "\<exists>d'. map_of (td_deliveries s'') i = Some d' \<and> settled_step d d'"
    unfolding keeps_settled_def using settled_step_trans by blast
qed

lemma keeps_settled_alter:
  assumes "\<And>i d. i \<in> set ks \<Longrightarrow> map_of (td_deliveries s) i = Some d \<Longrightarrow> \<not> settled d"
  shows "keeps_settled s (s\<lparr>td_deliveries := alter_rows ks f (td_deliveries s)\<rparr>)"
  using assms by (auto simp: keeps_settled_def settled_step_refl)

lemma keeps_settled_update:
  assumes "map_of (td_deliveries s) i = Some d" "settled d \<Longrightarrow> settled_step d d'"
  shows "keeps_settled s (s\<lparr>td_deliveries := AList.update i d' (td_deliveries s)\<rparr>)"
  using assms by (auto simp: keeps_settled_def settled_step_refl)

lemma picked_row:
  assumes "dinv s" "i \<in> set (chop l (sort (keys_where P (td_deliveries s))))" "map_of (td_deliveries s) i = Some d"
  shows "P i d"
  using assms set_chop_subset dinvD(1) [OF assms(1)] by (force simp: keys_where_eq)

lemma insert_loop_keeps:
  "map_of (td_deliveries s) i = Some d \<Longrightarrow> fresh_ids e k ds s \<Longrightarrow>
    map_of (td_deliveries (snd (insert_loop e k n ds s))) i = Some d"
proof (induction ds arbitrary: k n s)
  case (Cons x ds)
  show ?case
  proof (cases "is_dup s x")
    case True then show ?thesis using Cons by (simp add: insert_loop_Cons fresh_ids_skip)
  next
    case False
    have "i \<noteq> d_ID (row_id e k x)" using fresh_ids_row [OF Cons.prems(2)] Cons.prems(1) by auto
    then show ?thesis using False Cons fresh_ids_put [OF Cons.prems(2)] by (simp add: insert_loop_Cons)
  qed
qed simp

lemma Complete_settled: "keeps_settled s (complete_loop e k rs s)"
proof -
  have "map_of (td_deliveries (complete_loop e k rs s)) i = Some d"
    if "map_of (td_deliveries s) i = Some d" "settled d" for i d
    using that by (intro complete_loop_unowned) (auto simp: settled_def)
  then show ?thesis using settled_step_refl by (auto simp: keeps_settled_def)
qed

lemma Insert_settled:
  assumes "fresh_ids e 0 ds s"
  shows "keeps_settled s (snd (InsertBatch e ds s))"
proof -
  have "map_of (td_deliveries (snd (InsertBatch e ds s))) i = Some d" if "map_of (td_deliveries s) i = Some d" for i d
    using insert_loop_keeps [OF that assms, of 0] that by (auto simp: InsertBatch_def split: prod.splits)
  then show ?thesis using settled_step_refl by (auto simp: keeps_settled_def)
qed

lemma exec_settled:
  assumes inv: "dinv s" and ok: "call_ok e c s"
    and other: "\<not> (\<exists>f l. c = CallRequeue f l)" "\<not> (\<exists>cm b l. c = CallDelete cm b l)"
  shows "keeps_settled s (exec e c s)"
proof (cases c)
  case (CallInsert ds)
  then show ?thesis using ok Insert_settled by simp
next
  case (CallClaim req)
  have "\<not> settled d" if "(i, d) \<in> set (claim_cands req (td_deliveries s))" for i d
    using claim_cands_mem(2) [OF that] not_eligible_terminal by (auto simp: settled_def)
  then show ?thesis using CallClaim keeps_settled_refl claim_cands_lookup(1) [OF inv]
    by (auto simp: Claim_def Let_def intro!: keeps_settled_alter)
next
  case (CallRelease nw l)
  then show ?thesis using keeps_settled_refl
    by (auto simp: ReleaseExpiredLeases_def Let_def settled_def lease_expired_def
        intro!: keeps_settled_alter dest: picked_row [OF inv])
next
  case (CallBulk cm fr to l)
  then show ?thesis using keeps_settled_refl ok
    by (auto simp: BulkTransition_def Let_def settled_def bulk_match_def matchStatus_def
        intro!: keeps_settled_alter dest!: picked_row [OF inv])
next
  case (CallComplete rs)
  then show ?thesis using Complete_settled keeps_settled_refl by (simp add: Complete_def)
qed (use other keeps_settled_refl in \<open>auto simp: MarkSent_def MarkBounced_def MarkComplained_def markTerminal_def
    SetFirstOpened_def SetFirstClicked_def SetUnsubscribed_def setFirst_def attempt_Insert_def
    settled_def settled_step_def split: option.splits intro!: keeps_settled_update\<close>)

text \<open>A sequence of calls, each made as \<open>call_ok\<close> demands.\<close>

fun run :: "(env \<times> dcall) list \<Rightarrow> tenant_data \<Rightarrow> tenant_data" where
  "run [] s = s"
| "run ((e, c) # cs) s = run cs (exec e c s)"

fun run_ok :: "(env \<times> dcall) list \<Rightarrow> tenant_data \<Rightarrow> bool" where
  "run_ok [] s = True"
| "run_ok ((e, c) # cs) s = (call_ok e c s \<and> run_ok cs (exec e c s))"

definition no_retry_or_delete :: "(env \<times> dcall) list \<Rightarrow> bool" where
  "no_retry_or_delete cs =
    list_all (\<lambda>(e, c). case c of CallRequeue f l \<Rightarrow> False | CallDelete cm b l \<Rightarrow> False | _ \<Rightarrow> True) cs"

lemma run_settled:
  "dinv s \<Longrightarrow> run_ok cs s \<Longrightarrow> no_retry_or_delete cs \<Longrightarrow> dinv (run cs s) \<and> keeps_settled s (run cs s)"
proof (induction cs arbitrary: s)
  case (Cons x cs)
  obtain e c where x: "x = (e, c)" by (cases x)
  have "keeps_settled s (exec e c s)" "dinv (exec e c s)"
    using Cons.prems x by (auto intro!: exec_settled exec_dinv simp: no_retry_or_delete_def)
  with Cons x show ?case using keeps_settled_trans by (auto simp: no_retry_or_delete_def)
qed (simp add: keeps_settled_refl)

section \<open>Lookups after the bulk calls\<close>

lemma Release_lookup:
  assumes "dinv s" "ReleaseExpiredLeases e nw limit s = (Inr n, s')" "map_of (td_deliveries s) i = Some d"
  shows "map_of (td_deliveries s') i = Some d \<or>
    lease_expired (TruncateTime nw) d \<and> map_of (td_deliveries s') i = Some (release_row (TruncateTime nw) d)"
  using assms picked_row [OF assms(1) _ assms(3)]
  by (auto simp: ReleaseExpiredLeases_def Let_def split: if_splits)

lemma release_not_expired: "\<not> lease_expired nw (release_row nw d)"
  by (simp add: lease_expired_def release_row_def)

lemma CountByStatus_fold:
  fixes m :: "(string, Delivery) gomap"
  shows "map_of (fold (\<lambda>(_, d) out. if d_CampaignID d \<noteq> c then out else bump (d_Status d) out) m acc) st =
    (case map_of acc st of
       None \<Rightarrow> (let n = length (filter (\<lambda>(_, d). d_CampaignID d = c \<and> d_Status d = st) m)
                in if n = 0 then None else Some (int n))
     | Some n0 \<Rightarrow> Some (n0 + int (length (filter (\<lambda>(_, d). d_CampaignID d = c \<and> d_Status d = st) m))))"
proof (induction m arbitrary: acc)
  case (Cons x m)
  then show ?case by (cases x) (auto simp: bump_def Let_def split: option.splits)
qed (auto split: option.splits)

end
