(* ===== verification/Mem_Repos.thy ===== *)
theory Mem_Repos
  imports Mem_Store
begin

text \<open>
  The remaining repositories of the in-memory store, \<^verbatim>\<open>store/memstore/repos.go\<close>, in the order of
  the file: settings, templates and layouts, versions, mailboxes, probe runs, campaigns,
  recipient chunks, suppressions, bounces, tracking, outbox, locks, workers; and
  \<^verbatim>\<open>LoadTenantSettings\<close> of \<^verbatim>\<open>store/tenant.go\<close>, which is written over the settings repository.
\<close>

section \<open>Tenant settings\<close>

definition settings_Get :: "env \<Rightarrow> tenant_data \<Rightarrow> store_err + TenantSettings" where
  "settings_Get e s =
    (if e_closed e then Inl ErrClosed
     else case td_settings s of None \<Rightarrow> Inl ErrNotFound | Some v \<Rightarrow> Inr v)"

definition truncate_settings :: "TenantSettings \<Rightarrow> TenantSettings" where
  "truncate_settings v =
    v\<lparr>ts_CreatedAt := TruncateTime (ts_CreatedAt v), ts_UpdatedAt := TruncateTime (ts_UpdatedAt v)\<rparr>"

definition settings_Create ::
  "env \<Rightarrow> TenantSettings \<Rightarrow> tenant_data \<Rightarrow> store_err option \<times> TenantSettings \<times> tenant_data" where
  "settings_Create e v s =
    (if e_closed e then (Some ErrClosed, v, s)
     else if td_settings s \<noteq> None then (Some ErrConflict, v, s)
     else (let v = v\<lparr>ts_TenantID := e_tenant e,
                     ts_CreatedAt := (if ts_CreatedAt v = 0 then now e else ts_CreatedAt v),
                     ts_UpdatedAt := now e, ts_Version := 1\<rparr>
           in (None, v, s\<lparr>td_settings := Some (truncate_settings v)\<rparr>)))"

definition settings_Update ::
  "env \<Rightarrow> TenantSettings \<Rightarrow> tenant_data \<Rightarrow> store_err option \<times> TenantSettings \<times> tenant_data" where
  "settings_Update e v s =
    (if e_closed e then (Some ErrClosed, v, s)
     else case td_settings s of None \<Rightarrow> (Some ErrNotFound, v, s)
     | Some cur \<Rightarrow>
         if ts_Version cur \<noteq> ts_Version v then (Some ErrConflict, v, s)
         else (let v = v\<lparr>ts_TenantID := e_tenant e, ts_CreatedAt := ts_CreatedAt cur,
                         ts_UpdatedAt := now e, ts_Version := ts_Version cur + 1\<rparr>
               in (None, v, s\<lparr>td_settings := Some (truncate_settings v)\<rparr>)))"

definition LoadTenantSettings ::
  "env \<Rightarrow> string \<Rightarrow> string \<Rightarrow> go_time \<Rightarrow> tenant_data \<Rightarrow> (store_err + TenantSettings) \<times> tenant_data" where
  "LoadTenantSettings e rand tenantID nw s =
    (case settings_Get e s of
       Inr v \<Rightarrow> (Inr v, s)
     | Inl err \<Rightarrow>
         if err \<noteq> ErrNotFound then (Inl err, s)
         else (case settings_Create e (DefaultTenantSettings rand tenantID nw) s of
                 (None, def, s) \<Rightarrow> (Inr def, s)
               | (Some err, def, s) \<Rightarrow>
                   if err \<noteq> ErrConflict then (Inl err, s) else (settings_Get e s, s)))"

section \<open>Tables\<close>

definition template_GetByKey :: "env \<Rightarrow> string \<Rightarrow> tenant_data \<Rightarrow> store_err + Template" where
  "template_GetByKey e k s = getByKey template_meta e (td_templates s) k"

definition layout_GetByKey :: "env \<Rightarrow> string \<Rightarrow> tenant_data \<Rightarrow> store_err + Layout" where
  "layout_GetByKey e k s = getByKey layout_meta e (td_layouts s) k"

definition ListByTemplate :: "env \<Rightarrow> string \<Rightarrow> Page \<Rightarrow> tenant_data \<Rightarrow> store_err + MessageVersion Result" where
  "ListByTemplate e templateID p s = listWhere e (td_versions s) p (\<lambda>v. mv_TemplateID v = templateID)"

definition truncateHealth :: "MailboxHealth \<Rightarrow> MailboxHealth" where
  "truncateHealth h =
    h\<lparr>mh_CheckedAt := TruncateTime (mh_CheckedAt h), mh_LastOKAt := TruncateTime (mh_LastOKAt h)\<rparr>"

definition ListEnabled :: "env \<Rightarrow> tenant_data \<Rightarrow> store_err + BounceMailbox list" where
  "ListEnabled e s =
    (if e_closed e then Inl ErrClosed
     else Inr (map (\<lambda>i. the (map_of (td_bounceMailboxes s) i))
                (sort (keys_where (\<lambda>_ m. bm_Enabled m) (td_bounceMailboxes s)))))"

definition bounceMailbox_UpdateHealth ::
  "env \<Rightarrow> string \<Rightarrow> MailboxHealth \<Rightarrow> tenant_data \<Rightarrow> store_err option \<times> tenant_data" where
  "bounceMailbox_UpdateHealth e i h s =
    (if e_closed e then (Some ErrClosed, s)
     else case map_of (td_bounceMailboxes s) i of None \<Rightarrow> (Some ErrNotFound, s)
     | Some m \<Rightarrow> (None, s\<lparr>td_bounceMailboxes :=
                          AList.update i (m\<lparr>bm_Health := truncateHealth h\<rparr>) (td_bounceMailboxes s)\<rparr>))"

definition probeMailbox_UpdateHealth ::
  "env \<Rightarrow> string \<Rightarrow> MailboxHealth \<Rightarrow> tenant_data \<Rightarrow> store_err option \<times> tenant_data" where
  "probeMailbox_UpdateHealth e i h s =
    (if e_closed e then (Some ErrClosed, s)
     else case map_of (td_probeMailboxes s) i of None \<Rightarrow> (Some ErrNotFound, s)
     | Some m \<Rightarrow> (None, s\<lparr>td_probeMailboxes :=
                          AList.update i (m\<lparr>pm_Health := truncateHealth h\<rparr>) (td_probeMailboxes s)\<rparr>))"

definition ListBySender :: "env \<Rightarrow> string \<Rightarrow> Page \<Rightarrow> tenant_data \<Rightarrow> store_err + ProbeRun Result" where
  "ListBySender e senderID p s = listWhere e (td_probeRuns s) p (\<lambda>v. pr_SenderID v = senderID)"

definition ListPending :: "env \<Rightarrow> Page \<Rightarrow> tenant_data \<Rightarrow> store_err + ProbeRun Result" where
  "ListPending e p s = listWhere e (td_probeRuns s) p pr_Pending"

section \<open>Campaigns\<close>

definition campaign_Get :: "env \<Rightarrow> string \<Rightarrow> tenant_data \<Rightarrow> store_err + Campaign" where
  "campaign_Get e i s = tbl_Get e (td_campaigns s) i"

definition campaign_Update :: "env \<Rightarrow> Campaign \<Rightarrow> tenant_data \<Rightarrow> store_err option \<times> Campaign \<times> tenant_data" where
  "campaign_Update e c s =
    (case tbl_Update campaign_meta e (td_campaigns s) (Some c) of
       (err, c', rows) \<Rightarrow> (err, the c', s\<lparr>td_campaigns := rows\<rparr>))"

definition ListByStatus :: "env \<Rightarrow> CampaignStatus list \<Rightarrow> Page \<Rightarrow> tenant_data \<Rightarrow> store_err + Campaign Result" where
  "ListByStatus e statuses p s = listWhere e (td_campaigns s) p (\<lambda>c. list_ex (\<lambda>st. c_Status c = st) statuses)"

definition UpdateStats :: "env \<Rightarrow> string \<Rightarrow> CampaignStats \<Rightarrow> tenant_data \<Rightarrow> store_err option \<times> tenant_data" where
  "UpdateStats e campaignID st s =
    (if e_closed e then (Some ErrClosed, s)
     else case map_of (td_campaigns s) campaignID of None \<Rightarrow> (Some ErrNotFound, s)
     | Some c \<Rightarrow> (None, s\<lparr>td_campaigns :=
                          AList.update campaignID (c\<lparr>c_Stats := st, c_UpdatedAt := now e\<rparr>) (td_campaigns s)\<rparr>))"

section \<open>Recipient chunks\<close>

definition chunkKey :: "string \<Rightarrow> string \<Rightarrow> string" where
  "chunkKey campaignID k = campaignID @ [CHR 0x00] @ k"

definition chunk_Get :: "env \<Rightarrow> string \<Rightarrow> string \<Rightarrow> tenant_data \<Rightarrow> store_err + RecipientChunk" where
  "chunk_Get e campaignID k s =
    (if e_closed e then Inl ErrClosed
     else case map_of (td_chunks s) (chunkKey campaignID k) of None \<Rightarrow> Inl ErrNotFound | Some c \<Rightarrow> Inr c)"

definition chunk_Put ::
  "env \<Rightarrow> RecipientChunk option \<Rightarrow> tenant_data \<Rightarrow> store_err option \<times> RecipientChunk option \<times> tenant_data" where
  "chunk_Put e c s =
    (case c of None \<Rightarrow> (Some ErrInvalid, None, s)
     | Some c \<Rightarrow>
       if rc_CampaignID c = '''' \<or> rc_Key c = '''' then (Some ErrInvalid, Some c, s)
       else if e_closed e then (Some ErrClosed, Some c, s)
       else
         (let k = chunkKey (rc_CampaignID c) (rc_Key c);
              created = (case map_of (td_chunks s) k of
                           Some prev \<Rightarrow> rc_CreatedAt prev
                         | None \<Rightarrow> if rc_CreatedAt c = 0 then now e else rc_CreatedAt c);
              c = c\<lparr>rc_TenantID := e_tenant e, rc_CreatedAt := created, rc_UpdatedAt := now e\<rparr>;
              cp = c\<lparr>rc_CreatedAt := TruncateTime (rc_CreatedAt c), rc_UpdatedAt := TruncateTime (rc_UpdatedAt c)\<rparr>
          in (None, Some c, s\<lparr>td_chunks := AList.update k cp (td_chunks s)\<rparr>)))"

section \<open>Suppressions\<close>

definition suppression_Upsert ::
  "env \<Rightarrow> Suppression option \<Rightarrow> tenant_data \<Rightarrow> store_err option \<times> Suppression option \<times> tenant_data" where
  "suppression_Upsert e v s =
    (case v of None \<Rightarrow> (Some ErrInvalid, None, s)
     | Some v \<Rightarrow>
       if su_EmailNorm v = '''' then (Some ErrInvalid, Some v, s)
       else if e_closed e then (Some ErrClosed, Some v, s)
       else
         (let v = v\<lparr>su_TenantID := e_tenant e,
                    su_CreatedAt := (if su_CreatedAt v = 0 then now e else su_CreatedAt v)\<rparr>;
              cp = v\<lparr>su_CreatedAt := TruncateTime (su_CreatedAt v), su_ExpiresAt := TruncateTime (su_ExpiresAt v)\<rparr>
          in (None, Some v, s\<lparr>td_suppressions := AList.update (su_EmailNorm v) cp (td_suppressions s)\<rparr>)))"

definition IsSuppressed ::
  "env \<Rightarrow> string \<Rightarrow> go_time \<Rightarrow> tenant_data \<Rightarrow> store_err + bool \<times> Suppression option" where
  "IsSuppressed e emailNorm nw s =
    (if e_closed e then Inl ErrClosed
     else case map_of (td_suppressions s) emailNorm of None \<Rightarrow> Inr (False, None)
     | Some v \<Rightarrow>
         if su_ExpiresAt v \<noteq> 0 \<and> \<not> su_ExpiresAt v > TruncateTime nw then Inr (False, Some v)
         else Inr (True, Some v))"

definition suppression_List :: "env \<Rightarrow> Page \<Rightarrow> tenant_data \<Rightarrow> store_err + Suppression Result" where
  "suppression_List e p s = tbl_List e (td_suppressions s) p"

definition delete_keys :: "'k list \<Rightarrow> ('k, 'v) gomap \<Rightarrow> ('k, 'v) gomap" where
  "delete_keys ks m = fold AList.delete ks m"

definition suppression_DeleteBefore ::
  "env \<Rightarrow> go_time \<Rightarrow> int \<Rightarrow> tenant_data \<Rightarrow> (store_err + int) \<times> tenant_data" where
  "suppression_DeleteBefore e before limit s =
    (if e_closed e then (Inl ErrClosed, s)
     else (let before = TruncateTime before;
               keys = chop limit (sort (keys_where
                        (\<lambda>_ v. \<not> (su_ExpiresAt v = 0 \<or> su_ExpiresAt v > before)) (td_suppressions s)))
           in (Inr (int (length keys)), s\<lparr>td_suppressions := delete_keys keys (td_suppressions s)\<rparr>)))"

definition suppression_Delete :: "env \<Rightarrow> string \<Rightarrow> tenant_data \<Rightarrow> store_err option \<times> tenant_data" where
  "suppression_Delete e emailNorm s =
    (if e_closed e then (Some ErrClosed, s)
     else if map_of (td_suppressions s) emailNorm = None then (Some ErrNotFound, s)
     else (None, s\<lparr>td_suppressions := AList.delete emailNorm (td_suppressions s)\<rparr>))"

section \<open>Shared retention delete\<close>

definition deleteBefore ::
  "(string, 'a) gomap \<Rightarrow> go_time \<Rightarrow> int \<Rightarrow> ('a \<Rightarrow> go_time) \<Rightarrow> ('a \<Rightarrow> bool) \<Rightarrow> int \<times> (string, 'a) gomap" where
  "deleteBefore rows before limit created keep =
    (let ids = chop limit (sort (keys_where (\<lambda>_ v. created v < before \<and> keep v) rows))
     in (int (length ids), delete_keys ids rows))"

section \<open>Bounces\<close>

definition bounce_ListByDelivery :: "env \<Rightarrow> string \<Rightarrow> Page \<Rightarrow> tenant_data \<Rightarrow> store_err + BounceEvent Result" where
  "bounce_ListByDelivery e deliveryID p s = listWhere e (td_bounces s) p (\<lambda>b. be_DeliveryID b = deliveryID)"

definition bounce_DeleteBefore :: "env \<Rightarrow> go_time \<Rightarrow> int \<Rightarrow> tenant_data \<Rightarrow> (store_err + int) \<times> tenant_data" where
  "bounce_DeleteBefore e before limit s =
    (if e_closed e then (Inl ErrClosed, s)
     else (case deleteBefore (td_bounces s) (TruncateTime before) limit be_CreatedAt (\<lambda>_. True) of
             (n, rows) \<Rightarrow> (Inr n, s\<lparr>td_bounces := rows\<rparr>)))"

section \<open>Tracking\<close>

definition tracking_row :: "env \<Rightarrow> nat \<Rightarrow> TrackingEvent \<Rightarrow> TrackingEvent" where
  "tracking_row e k ev =
    ev\<lparr>te_ID := (if te_ID ev = '''' then e_newid e k else te_ID ev), te_TenantID := e_tenant e,
       te_CreatedAt := TruncateTime (if te_CreatedAt ev = 0 then now e else te_CreatedAt ev)\<rparr>"

fun tracking_loop :: "env \<Rightarrow> nat \<Rightarrow> TrackingEvent list \<Rightarrow> (string, TrackingEvent) gomap \<Rightarrow> (string, TrackingEvent) gomap" where
  "tracking_loop e k [] m = m"
| "tracking_loop e k (ev # evs) m =
    (let ev' = tracking_row e k ev
     in tracking_loop e (if te_ID ev = '''' then k + 1 else k) evs (AList.update (te_ID ev') ev' m))"

definition InsertEvents :: "env \<Rightarrow> TrackingEvent list \<Rightarrow> tenant_data \<Rightarrow> store_err option \<times> tenant_data" where
  "InsertEvents e evs s =
    (if e_closed e then (Some ErrClosed, s)
     else (None, s\<lparr>td_tracking := tracking_loop e 0 evs (td_tracking s)\<rparr>))"

text \<open>\<^verbatim>\<open>seen[e.Kind][e.DeliveryID] = true\<close>, the inner set as a list without duplicates.\<close>

definition seen_of :: "(TrackingKind, string list) gomap \<Rightarrow> TrackingKind \<Rightarrow> string list" where
  "seen_of seen k = (case map_of seen k of None \<Rightarrow> [] | Some xs \<Rightarrow> xs)"

definition seen_add :: "string \<Rightarrow> TrackingEvent \<Rightarrow> (TrackingKind, string list) gomap \<Rightarrow> (TrackingKind, string list) gomap" where
  "seen_add campaignID ev seen =
    (if te_CampaignID ev \<noteq> campaignID \<or> te_SuspectedBot ev then seen
     else AList.update (te_Kind ev) (List.insert (te_DeliveryID ev) (seen_of seen (te_Kind ev))) seen)"

definition CountUnique :: "env \<Rightarrow> string \<Rightarrow> tenant_data \<Rightarrow> store_err + TrackingCounts" where
  "CountUnique e campaignID s =
    (if e_closed e then Inl ErrClosed
     else (let seen = fold (\<lambda>(_, ev). seen_add campaignID ev) (td_tracking s) []
           in Inr \<lparr>tc_UniqueOpens = int (length (seen_of seen TrackingOpen)),
                   tc_UniqueClicks = int (length (seen_of seen TrackingClick)),
                   tc_UnsubscribeClicked = int (length (seen_of seen TrackingUnsubscribeClicked)),
                   tc_Unsubscribed = int (length (seen_of seen TrackingUnsubscribed))\<rparr>))"

record link_agg =
  ag_linkNo :: int
  ag_clicks :: int
  ag_uniq :: "string list"

definition link_add :: "string \<Rightarrow> TrackingEvent \<Rightarrow> (string, link_agg) gomap \<Rightarrow> (string, link_agg) gomap" where
  "link_add campaignID ev byURL =
    (if te_CampaignID ev \<noteq> campaignID \<or> te_Kind ev \<noteq> TrackingClick \<or> te_SuspectedBot ev then byURL
     else
       (let a = (case map_of byURL (te_URL ev) of
                   Some a \<Rightarrow> a
                 | None \<Rightarrow> \<lparr>ag_linkNo = te_LinkNo ev, ag_clicks = 0, ag_uniq = []\<rparr>);
            a = a\<lparr>ag_linkNo := (if te_LinkNo ev < ag_linkNo a then te_LinkNo ev else ag_linkNo a),
                  ag_clicks := ag_clicks a + 1,
                  ag_uniq := List.insert (te_DeliveryID ev) (ag_uniq a)\<rparr>
        in AList.update (te_URL ev) a byURL))"

definition link_less :: "LinkClick \<Rightarrow> LinkClick \<Rightarrow> bool" where
  "link_less a b = (if lc_LinkNo a \<noteq> lc_LinkNo b then lc_LinkNo a < lc_LinkNo b else lc_URL a < lc_URL b)"

definition LinkClicks :: "env \<Rightarrow> string \<Rightarrow> tenant_data \<Rightarrow> store_err + LinkClick list" where
  "LinkClicks e campaignID s =
    (if e_closed e then Inl ErrClosed
     else (let byURL = fold (\<lambda>(_, ev). link_add campaignID ev) (td_tracking s) []
           in Inr (sort_slice link_less
                (map (\<lambda>(url, a). \<lparr>lc_LinkNo = ag_linkNo a, lc_URL = url, lc_Clicks = ag_clicks a,
                                  lc_UniqueClicks = int (length (ag_uniq a))\<rparr>) byURL))))"

definition tracking_DeleteBefore :: "env \<Rightarrow> go_time \<Rightarrow> int \<Rightarrow> tenant_data \<Rightarrow> (store_err + int) \<times> tenant_data" where
  "tracking_DeleteBefore e before limit s =
    (if e_closed e then (Inl ErrClosed, s)
     else (case deleteBefore (td_tracking s) (TruncateTime before) limit te_CreatedAt (\<lambda>_. True) of
             (n, rows) \<Rightarrow> (Inr n, s\<lparr>td_tracking := rows\<rparr>)))"

section \<open>Outbox\<close>

definition outbox_row :: "env \<Rightarrow> nat \<Rightarrow> OutboxEvent \<Rightarrow> OutboxEvent" where
  "outbox_row e k ev =
    (let created = (if oe_CreatedAt ev = 0 then now e else oe_CreatedAt ev);
         next = (if oe_NextAttemptAt ev = 0 then created else oe_NextAttemptAt ev)
     in ev\<lparr>oe_ID := (if oe_ID ev = '''' then e_newid e k else oe_ID ev), oe_TenantID := e_tenant e,
           oe_Status := OutboxPending, oe_CreatedAt := TruncateTime created,
           oe_NextAttemptAt := TruncateTime next, oe_LeaseUntil := TruncateTime (oe_LeaseUntil ev),
           oe_DeliveredAt := TruncateTime (oe_DeliveredAt ev)\<rparr>)"

fun outbox_loop :: "env \<Rightarrow> nat \<Rightarrow> OutboxEvent list \<Rightarrow> (string, OutboxEvent) gomap \<Rightarrow> (string, OutboxEvent) gomap" where
  "outbox_loop e k [] m = m"
| "outbox_loop e k (ev # evs) m =
    (let ev' = outbox_row e k ev
     in outbox_loop e (if oe_ID ev = '''' then k + 1 else k) evs (AList.update (oe_ID ev') ev' m))"

definition Enqueue :: "env \<Rightarrow> OutboxEvent list \<Rightarrow> tenant_data \<Rightarrow> store_err option \<times> tenant_data" where
  "Enqueue e evs s =
    (if e_closed e then (Some ErrClosed, s)
     else (None, s\<lparr>td_outbox := outbox_loop e 0 evs (td_outbox s)\<rparr>))"

definition outbox_due :: "go_time \<Rightarrow> OutboxEvent \<Rightarrow> bool" where
  "outbox_due nw ev \<longleftrightarrow>
    \<not> (oe_Status ev \<noteq> OutboxPending \<or> oe_NextAttemptAt ev > nw) \<and>
    \<not> (oe_LeaseOwner ev \<noteq> '''' \<and> oe_LeaseUntil ev > nw)"

definition outbox_lease :: "string \<Rightarrow> go_time \<Rightarrow> OutboxEvent \<Rightarrow> OutboxEvent" where
  "outbox_lease owner until ev = ev\<lparr>oe_LeaseOwner := owner, oe_LeaseUntil := until\<rparr>"

definition ClaimPending ::
  "env \<Rightarrow> int \<Rightarrow> duration \<Rightarrow> string \<Rightarrow> go_time \<Rightarrow> tenant_data \<Rightarrow> (store_err + OutboxEvent list) \<times> tenant_data" where
  "ClaimPending e limit lease owner nw s =
    (if e_closed e then (Inl ErrClosed, s)
     else (let nw = TruncateTime nw;
               ids = chop limit (sort (keys_where (\<lambda>_ ev. outbox_due nw ev) (td_outbox s)));
               f = outbox_lease owner (TruncateTime (nw + lease))
           in (Inr (map (\<lambda>i. f (the (map_of (td_outbox s) i))) ids),
               s\<lparr>td_outbox := alter_rows ids f (td_outbox s)\<rparr>)))"

definition outbox_Get :: "env \<Rightarrow> string \<Rightarrow> tenant_data \<Rightarrow> store_err + OutboxEvent" where
  "outbox_Get e i s =
    (if e_closed e then Inl ErrClosed
     else case map_of (td_outbox s) i of None \<Rightarrow> Inl ErrNotFound | Some ev \<Rightarrow> Inr ev)"

text \<open>The three methods that change one event in place.\<close>

definition outbox_change :: "env \<Rightarrow> string \<Rightarrow> (OutboxEvent \<Rightarrow> OutboxEvent) \<Rightarrow> tenant_data \<Rightarrow> store_err option \<times> tenant_data" where
  "outbox_change e i f s =
    (if e_closed e then (Some ErrClosed, s)
     else case map_of (td_outbox s) i of None \<Rightarrow> (Some ErrNotFound, s)
     | Some ev \<Rightarrow> (None, s\<lparr>td_outbox := AList.update i (f ev) (td_outbox s)\<rparr>))"

definition outbox_Reset :: "env \<Rightarrow> string \<Rightarrow> go_time \<Rightarrow> tenant_data \<Rightarrow> store_err option \<times> tenant_data" where
  "outbox_Reset e i nw s =
    outbox_change e i (\<lambda>ev. ev\<lparr>oe_Status := OutboxPending, oe_Attempts := 0, oe_LastError := '''',
      oe_NextAttemptAt := TruncateTime nw, oe_LeaseOwner := '''', oe_LeaseUntil := 0, oe_DeliveredAt := 0\<rparr>) s"

definition MarkDelivered :: "env \<Rightarrow> string \<Rightarrow> go_time \<Rightarrow> tenant_data \<Rightarrow> store_err option \<times> tenant_data" where
  "MarkDelivered e i tm s =
    outbox_change e i (\<lambda>ev. ev\<lparr>oe_Status := OutboxDelivered, oe_DeliveredAt := TruncateTime tm,
      oe_LeaseOwner := '''', oe_LeaseUntil := 0\<rparr>) s"

definition MarkFailed :: "env \<Rightarrow> string \<Rightarrow> go_time \<Rightarrow> string \<Rightarrow> tenant_data \<Rightarrow> store_err option \<times> tenant_data" where
  "MarkFailed e i nextAttempt errMsg s =
    outbox_change e i (\<lambda>ev.
      (let ev = ev\<lparr>oe_Attempts := oe_Attempts ev + 1, oe_LastError := errMsg, oe_LeaseOwner := '''', oe_LeaseUntil := 0\<rparr>
       in if nextAttempt = 0 then ev\<lparr>oe_Status := OutboxFailed\<rparr>
          else ev\<lparr>oe_Status := OutboxPending, oe_NextAttemptAt := TruncateTime nextAttempt\<rparr>)) s"

definition outbox_List :: "env \<Rightarrow> string \<Rightarrow> Page \<Rightarrow> tenant_data \<Rightarrow> store_err + OutboxEvent Result" where
  "outbox_List e status p s =
    (if e_closed e then Inl ErrClosed
     else Inr (paginate (td_outbox s) p (\<lambda>ev. status = '''' \<or> oe_Status ev = status)))"

definition outbox_DeleteBefore :: "env \<Rightarrow> go_time \<Rightarrow> int \<Rightarrow> tenant_data \<Rightarrow> (store_err + int) \<times> tenant_data" where
  "outbox_DeleteBefore e before limit s =
    (if e_closed e then (Inl ErrClosed, s)
     else (case deleteBefore (td_outbox s) (TruncateTime before) limit oe_CreatedAt
                  (\<lambda>ev. oe_Status ev = OutboxDelivered \<or> oe_Status ev = OutboxFailed) of
             (n, rows) \<Rightarrow> (Inr n, s\<lparr>td_outbox := rows\<rparr>)))"

section \<open>Locks\<close>

definition lock_Acquire ::
  "env \<Rightarrow> string \<Rightarrow> string \<Rightarrow> duration \<Rightarrow> go_time \<Rightarrow> tenant_data \<Rightarrow> (store_err + bool) \<times> tenant_data" where
  "lock_Acquire e name owner ttl nw s =
    (if e_closed e then (Inl ErrClosed, s)
     else
       (let nw = TruncateTime nw;
            cur = map_of (td_locks s) name;
            busy = (case cur of None \<Rightarrow> False | Some c \<Rightarrow> lk_Owner c \<noteq> owner \<and> lk_ExpiresAt c > nw)
        in if busy then (Inr False, s)
           else
             (let l = \<lparr>lk_TenantID = e_tenant e, lk_Name = name, lk_Owner = owner, lk_AcquiredAt = nw,
                       lk_ExpiresAt = TruncateTime (nw + ttl)\<rparr>;
                  l = (case cur of None \<Rightarrow> l
                       | Some c \<Rightarrow> if lk_Owner c = owner then l\<lparr>lk_AcquiredAt := lk_AcquiredAt c\<rparr> else l)
              in (Inr True, s\<lparr>td_locks := AList.update name l (td_locks s)\<rparr>))))"

definition lock_Renew ::
  "env \<Rightarrow> string \<Rightarrow> string \<Rightarrow> duration \<Rightarrow> go_time \<Rightarrow> tenant_data \<Rightarrow> (store_err + bool) \<times> tenant_data" where
  "lock_Renew e name owner ttl nw s =
    (if e_closed e then (Inl ErrClosed, s)
     else
       (let nw = TruncateTime nw
        in case map_of (td_locks s) name of None \<Rightarrow> (Inr False, s)
           | Some cur \<Rightarrow>
               if lk_Owner cur \<noteq> owner \<or> \<not> lk_ExpiresAt cur > nw then (Inr False, s)
               else (Inr True, s\<lparr>td_locks :=
                       AList.update name (cur\<lparr>lk_ExpiresAt := TruncateTime (nw + ttl)\<rparr>) (td_locks s)\<rparr>)))"

definition lock_Release :: "env \<Rightarrow> string \<Rightarrow> string \<Rightarrow> tenant_data \<Rightarrow> store_err option \<times> tenant_data" where
  "lock_Release e name owner s =
    (if e_closed e then (Some ErrClosed, s)
     else case map_of (td_locks s) name of None \<Rightarrow> (None, s)
     | Some cur \<Rightarrow>
         if lk_Owner cur = owner then (None, s\<lparr>td_locks := AList.delete name (td_locks s)\<rparr>) else (None, s))"

definition lock_Get :: "env \<Rightarrow> string \<Rightarrow> tenant_data \<Rightarrow> store_err + Lock" where
  "lock_Get e name s =
    (if e_closed e then Inl ErrClosed
     else case map_of (td_locks s) name of None \<Rightarrow> Inl ErrNotFound | Some cur \<Rightarrow> Inr cur)"

section \<open>Workers\<close>

definition Heartbeat :: "env \<Rightarrow> Worker \<Rightarrow> tenant_data \<Rightarrow> store_err option \<times> tenant_data" where
  "Heartbeat e w s =
    (if wk_ID w = '''' then (Some ErrInvalid, s)
     else if e_closed e then (Some ErrClosed, s)
     else
       (let w = w\<lparr>wk_TenantID := e_tenant e,
                  wk_LastSeenAt := (if wk_LastSeenAt w = 0 then now e else wk_LastSeenAt w)\<rparr>;
            started = (if wk_StartedAt w \<noteq> 0 then wk_StartedAt w
                       else case map_of (td_workers s) (wk_ID w) of
                              Some prev \<Rightarrow> wk_StartedAt prev | None \<Rightarrow> wk_LastSeenAt w);
            w = w\<lparr>wk_StartedAt := TruncateTime started, wk_LastSeenAt := TruncateTime (wk_LastSeenAt w)\<rparr>
        in (None, s\<lparr>td_workers := AList.update (wk_ID w) w (td_workers s)\<rparr>)))"

definition ListActive :: "env \<Rightarrow> go_time \<Rightarrow> tenant_data \<Rightarrow> store_err + Worker list" where
  "ListActive e since s =
    (if e_closed e then Inl ErrClosed
     else Inr (sort_slice (\<lambda>a b. wk_ID a < wk_ID b)
                (filter (\<lambda>w. \<not> wk_LastSeenAt w < TruncateTime since) (map snd (td_workers s)))))"

end
