(* ===== verification/Samples.thy ===== *)
theory Samples
  imports Mem_Repos
begin

text \<open>
  The zero values of the structs, from which the concrete examples of the development build
  their rows.
\<close>

definition zero_delivery :: Delivery where
  "zero_delivery =
    \<lparr>d_ID = '''', d_TenantID = '''', d_CampaignID = '''', d_VersionID = '''', d_SenderID = '''',
     d_Lane = LaneBulk, d_Priority = 0, d_Status = DeliveryPending, d_Email = '''', d_EmailNorm = '''',
     d_Name = '''', d_Locale = '''', d_Vars = [], d_TenantVars = [], d_UnsubscribeURL = '''',
     d_Headers = [], d_AttemptCount = 0, d_RetryGen = 0, d_NextAttemptAt = 0, d_LeaseOwner = '''',
     d_LeaseUntil = 0, d_LastErrorClass = ErrorClassNone, d_LastSMTPCode = 0, d_LastError = '''',
     d_MessageID = '''', d_SentAt = 0, d_FinishedAt = 0, d_FirstOpenedAt = 0, d_FirstClickedAt = 0,
     d_UnsubscribedAt = 0, d_CreatedAt = 0, d_UpdatedAt = 0\<rparr>"

definition zero_stats :: CampaignStats where
  "zero_stats = \<lparr>cs_ByStatus = [], cs_UniqueOpens = 0, cs_UniqueClicks = 0, cs_Unsubscribed = 0,
    cs_UnsubscribeClicked = 0, cs_ComputedAt = 0\<rparr>"

definition zero_campaign :: Campaign where
  "zero_campaign = \<lparr>c_ID = '''', c_TenantID = '''', c_Name = '''', c_TemplateID = '''', c_VersionID = '''',
    c_SenderID = '''', c_DefaultLocale = '''', c_Vars = [], c_TenantVars = [], c_Status = CampaignDraft,
    c_ScheduleAt = 0, c_StartedAt = 0, c_CompletedAt = 0, c_Stats = zero_stats, c_Version = 0,
    c_CreatedAt = 0, c_UpdatedAt = 0\<rparr>"

definition zero_template :: Template where
  "zero_template = \<lparr>tp_ID = '''', tp_TenantID = '''', tp_Name = '''', tp_LayoutID = '''', tp_Key = '''', tp_Shared = False,
    tp_Uses = [], tp_OverriddenFromVersion = '''', tp_Subject = '''', tp_Preheader = '''', tp_Mode = '''', tp_Body = '''',
    tp_Blocks = '''', tp_Text = '''', tp_I18n = \<lparr>i18n_DefaultLocale = '''', i18n_Locales = []\<rparr>, tp_DefaultLocale = '''',
    tp_PublishedVersionID = '''', tp_Version = 0, tp_CreatedAt = 0, tp_UpdatedAt = 0, tp_Overridden = False,
    tp_SharedPublishedVersionID = ''''\<rparr>"

definition zero_event :: OutboxEvent where
  "zero_event = \<lparr>oe_ID = '''', oe_TenantID = '''', oe_Type = '''', oe_Payload = '''', oe_Status = '''', oe_Attempts = 0,
    oe_NextAttemptAt = 0, oe_LeaseOwner = '''', oe_LeaseUntil = 0, oe_LastError = '''', oe_CreatedAt = 0, oe_DeliveredAt = 0\<rparr>"

definition zero_tracking :: TrackingEvent where
  "zero_tracking = \<lparr>te_ID = '''', te_TenantID = '''', te_DeliveryID = '''', te_CampaignID = '''', te_Kind = TrackingOpen,
    te_URL = '''', te_LinkNo = 0, te_UserAgent = '''', te_IPHash = '''', te_SuspectedBot = False, te_CreatedAt = 0\<rparr>"

definition zero_transport :: Transport where
  "zero_transport = \<lparr>tr_ID = '''', tr_TenantID = '''', tr_Name = '''', tr_Host = '''', tr_Port = 0, tr_TLS = '''', tr_Username = '''',
    tr_Password = '''', tr_MaxConns = 0, tr_RatePerSecond = 0, tr_DomainRatePerSecond = [], tr_Shared = False,
    tr_Status = TransportHealthy, tr_StatusReason = '''', tr_StatusChangedAt = 0, tr_StatusUntil = 0,
    tr_Version = 0, tr_CreatedAt = 0, tr_UpdatedAt = 0\<rparr>"

definition zero_sender :: Sender where
  "zero_sender = \<lparr>se_ID = '''', se_TenantID = '''', se_Name = '''', se_FromName = '''', se_FromEmail = '''', se_ReplyTo = '''',
    se_TransportID = '''', se_DomainID = '''', se_Shared = False, se_Health = HealthUnknown, se_HealthReason = '''',
    se_HealthCheckedAt = 0, se_Version = 0, se_CreatedAt = 0, se_UpdatedAt = 0\<rparr>"

definition zero_version :: MessageVersion where
  "zero_version = \<lparr>mv_ID = '''', mv_TenantID = '''', mv_TemplateID = '''', mv_LayoutID = '''', mv_SubjectTpl = '''', mv_HTMLTpl = '''',
    mv_TextTpl = '''', mv_I18n = \<lparr>i18n_DefaultLocale = '''', i18n_Locales = []\<rparr>, mv_DefaultLocale = '''', mv_Links = [],
    mv_Checksum = '''', mv_CreatedAt = 0\<rparr>"

definition zero_suppression :: Suppression where
  "zero_suppression = \<lparr>su_TenantID = '''', su_EmailNorm = '''', su_Reason = '''', su_SourceDeliveryID = '''', su_CreatedAt = 0, su_ExpiresAt = 0\<rparr>"

end
