(* ===== verification/Delivery_Thms.thy ===== *)
theory Delivery_Thms
  imports Delivery_Props Samples
begin

text \<open>
  The properties of the delivery queue, over the calls of \<open>Delivery_Props\<close>, each with a
  concrete run of the queue at which its hypotheses hold.
\<close>

section \<open>A concrete queue\<close>

definition w_env :: env where
  "w_env = \<lparr>e_closed = False, e_tenant = ''t'', e_clock = 5 * Second, e_newid = (\<lambda>n. CHR ''u'' # replicate n (CHR ''x''))\<rparr>"

definition w_d1 :: Delivery where
  "w_d1 = zero_delivery\<lparr>d_ID := ''d1'', d_CampaignID := ''c'', d_EmailNorm := ''a@x''\<rparr>"

definition w_d2 :: Delivery where
  "w_d2 = zero_delivery\<lparr>d_ID := ''d2'', d_CampaignID := ''c'', d_EmailNorm := ''b@x'', d_Priority := 5\<rparr>"

definition w_req :: "string \<Rightarrow> ClaimRequest" where
  "w_req w = \<lparr>cr_Lane = LaneBulk, cr_CampaignIDs = Some [''c''], cr_Limit = 1, cr_LeaseFor = Minute,
             cr_WorkerID = w, cr_Now = 10 * Second\<rparr>"

definition w_res :: "string \<Rightarrow> string \<Rightarrow> DeliveryStatus \<Rightarrow> DeliveryResult" where
  "w_res i w st = \<lparr>dr_DeliveryID = i, dr_LeaseOwner = w, dr_NewStatus = st, dr_NextAttemptAt = 0,
     dr_ErrorClass = ErrorClassNone, dr_SMTPCode = 250, dr_Error = '''', dr_MessageID = ''m'',
     dr_IncrementAttempt = False, dr_Attempt = None\<rparr>"

text \<open>Two deliveries inserted; then the first worker's claim; then its result.\<close>

definition w_s1 :: tenant_data where "w_s1 = exec w_env (CallInsert [w_d1, w_d2]) newTenantData"
definition w_s2 :: tenant_data where "w_s2 = exec w_env (CallClaim (w_req ''w1'')) w_s1"
definition w_s3 :: tenant_data where "w_s3 = exec w_env (CallMarkSent ''d2'' ''w1'' ''m'' (11 * Second)) w_s2"
definition w_s4 :: tenant_data where "w_s4 = exec w_env (CallComplete [w_res ''d2'' ''w1'' DeliverySent]) w_s3"

lemmas w_defs = w_env_def w_d1_def w_d2_def w_req_def w_res_def zero_delivery_def newTenantData_def

abbreviation row :: "tenant_data \<Rightarrow> string \<Rightarrow> Delivery" where
  "row s i \<equiv> the (map_of (td_deliveries s) i)"

lemma w_reach: "reach w_s1" "reach w_s2" "reach w_s3" "reach w_s4"
proof -
  show r1: "reach w_s1" unfolding w_s1_def
    by (intro reach.intros) (simp add: fresh_ids_def inj_def w_defs lease_ok_def given_ids_def)
  show r2: "reach w_s2" unfolding w_s2_def by (intro reach.intros r1) (simp add: w_req_def)
  show r3: "reach w_s3" unfolding w_s3_def by (intro reach.intros r2) simp
  show "reach w_s4" unfolding w_s4_def by (intro reach.intros r3) (simp add: w_res_def)
qed

lemma w_rows:
  "map_of (td_deliveries w_s1) ''d1'' = Some (row w_s1 ''d1'')" "map_of (td_deliveries w_s1) ''d2'' = Some (row w_s1 ''d2'')"
  "map_of (td_deliveries w_s2) ''d2'' = Some (row w_s2 ''d2'')" "map_of (td_deliveries w_s3) ''d2'' = Some (row w_s3 ''d2'')"
  "map_of (td_deliveries w_s4) ''d2'' = Some (row w_s4 ''d2'')" "map_of (td_deliveries w_s2) ''d1'' = Some (row w_s2 ''d1'')"
  by code_simp+

lemma w_claim: "Claim w_env (w_req ''w1'') w_s1 = (Inr [row w_s2 ''d2''], w_s2)"
  unfolding w_s2_def exec.simps by code_simp

section \<open>Invariants of every reachable queue\<close>

text \<open>
  C3.  Lease discipline: in every state that calls of the repository can produce, a row is
  filed under its own identifier, a leased row has an owner, and only a leased row or a
  sent row whose result is still to be recorded has one.
\<close>

theorem lease_discipline:
  assumes "reach s" "map_of (td_deliveries s) i = Some d"
  shows "d_ID d = i \<and> (d_Status d = DeliveryLeased \<longrightarrow> d_LeaseOwner d \<noteq> '''') \<and>
    (d_LeaseOwner d \<noteq> '''' \<longrightarrow> d_Status d \<in> {DeliveryLeased, DeliverySent})"
  using dinvD(2,3) [OF reach_dinv [OF assms(1)] assms(2)] by (auto simp: lease_ok_def)

theorem lease_discipline_witness:
  "d_Status (row w_s2 ''d2'') = DeliveryLeased \<and> d_LeaseOwner (row w_s2 ''d2'') \<noteq> ''''"
proof -
  have "d_Status (row w_s2 ''d2'') = DeliveryLeased" by code_simp
  then show ?thesis using lease_discipline [OF w_reach(2) w_rows(3)] by simp
qed

text \<open>
  C4.  One row per campaign and address: two rows of the same campaign never carry the same
  normalized address, whatever batches were inserted, removed by retention and inserted again.
\<close>

theorem campaign_address_unique:
  assumes "reach s" "map_of (td_deliveries s) i = Some d" "map_of (td_deliveries s) j = Some d'"
    "d_CampaignID d \<noteq> ''''" "d_CampaignID d' = d_CampaignID d" "d_EmailNorm d' = d_EmailNorm d"
  shows "i = j"
  using dinvD(4) [OF reach_dinv [OF assms(1)] assms(2)] dinvD(4) [OF reach_dinv [OF assms(1)] assms(3)] assms(4-6)
  by simp

theorem campaign_address_unique_witness:
  "d_CampaignID (row w_s1 ''d1'') = d_CampaignID (row w_s1 ''d2'') \<and> d_EmailNorm (row w_s1 ''d1'') \<noteq> d_EmailNorm (row w_s1 ''d2'')"
proof -
  have c: "d_CampaignID (row w_s1 ''d1'') = ''c''" "d_CampaignID (row w_s1 ''d2'') = ''c''" by code_simp+
  then show ?thesis using campaign_address_unique [OF w_reach(1) w_rows(2,1)] by auto
qed

section \<open>Claiming\<close>

text \<open>
  What a claim takes: every returned row was eligible (lane, status, due time, campaign
  filter), is returned and stored as leased by the caller until the claim time plus the
  lease duration (in milliseconds), at most \<open>Limit\<close> rows are returned, none twice, and no
  other row changes.
\<close>

theorem Claim_takes_eligible:
  assumes "reach s" "Claim e req s = (Inr out, s')"
  shows "distinct (map d_ID out) \<and> (0 < cr_Limit req \<longrightarrow> int (length out) \<le> cr_Limit req) \<and>
    (\<forall>d \<in> set out. map_of (td_deliveries s') (d_ID d) = Some d \<and> d_Status d = DeliveryLeased \<and>
       d_LeaseOwner d = cr_WorkerID req \<and>
       d_LeaseUntil d = TruncateTime (TruncateTime (cr_Now req) + cr_LeaseFor req) \<and>
       (\<exists>d0. map_of (td_deliveries s) (d_ID d) = Some d0 \<and> claim_eligible req d0)) \<and>
    (\<forall>i. i \<notin> d_ID ` set out \<longrightarrow> map_of (td_deliveries s') i = map_of (td_deliveries s) i)"
proof -
  note inv = reach_dinv [OF assms(1)]
  have ids: "map d_ID out = map fst (claim_cands req (td_deliveries s))" by (rule Claim_ids [OF inv assms(2)])
  have len: "0 < cr_Limit req \<Longrightarrow> int (length out) \<le> cr_Limit req"
    using Claim_state(1) [OF assms(2)] by (simp add: claim_cands_def chop_length_le)
  have lk: "map_of (td_deliveries s') i = (if i \<in> d_ID ` set out then map_option (claim_row req) (map_of (td_deliveries s) i)
      else map_of (td_deliveries s) i)" for i
    using Claim_state(2) [OF assms(2)] arg_cong [OF ids, of set] by simp
  have "distinct (map d_ID out)" using ids claim_cands_distinct dinvD(1) [OF inv] by simp
  then show ?thesis using len lk Claim_row_of [OF inv assms(2)] by (auto simp: image_iff) (metis claim_row_sel)+
qed

theorem Claim_takes_eligible_witness:
  "d_LeaseOwner (row w_s2 ''d2'') = ''w1'' \<and> map_of (td_deliveries w_s2) ''d1'' = map_of (td_deliveries w_s1) ''d1''"
proof -
  have i: "d_ID (row w_s2 ''d2'') = ''d2''" by code_simp
  show ?thesis using Claim_takes_eligible [OF w_reach(1) w_claim] i by (simp add: w_req_def)
qed

text \<open>
  C5.  Claims follow the queue order: an eligible row that a claim leaves behind comes after
  every claimed row (lower priority, or later due, or larger identifier), and a claim that
  is not filled up to its limit leaves no eligible row behind.
\<close>

theorem Claim_by_priority:
  assumes "reach s" "Claim e req s = (Inr out, s')"
    "map_of (td_deliveries s) i = Some d1" "claim_eligible req d1" "i \<notin> d_ID ` set out"
  shows "(\<forall>d \<in> set out. \<exists>d0. map_of (td_deliveries s) (d_ID d) = Some d0 \<and> claim_less d0 d1) \<and>
    0 < cr_Limit req \<and> int (length out) = cr_Limit req"
proof -
  note inv = reach_dinv [OF assms(1)]
  let ?el = "filter (\<lambda>(k, d). claim_eligible req d) (td_deliveries s)"
  let ?sorted = "sort_slice (\<lambda>a b. claim_less (snd a) (snd b)) ?el"
  have keys: "distinct (map (\<lambda>a. d_ID (snd a)) ?el)"
  proof -
    have "map (\<lambda>a. d_ID (snd a)) ?el = map fst ?el" using dinvD(1,2) [OF inv] by auto
    then show ?thesis using dinvD(1) [OF inv] by (metis distinct_fst_filter)
  qed
  have sorted: "sorted_wrt (\<lambda>a b. claim_less (snd a) (snd b)) ?sorted"
    by (rule claim_order.sort_slice_sorted [OF keys])
  obtain rest where rest: "?sorted = claim_cands req (td_deliveries s) @ rest"
    unfolding claim_cands_def using chop_prefix by blast
  have ids: "map d_ID out = map fst (claim_cands req (td_deliveries s))" by (rule Claim_ids [OF inv assms(2)])
  have "(i, d1) \<in> set ?sorted" using assms(3,4) by (auto dest: map_of_SomeD)
  moreover have "(i, d1) \<notin> set (claim_cands req (td_deliveries s))"
    using assms(5) arg_cong [OF ids, of set] by force
  ultimately have left: "(i, d1) \<in> set rest" using rest by simp
  then have "claim_cands req (td_deliveries s) \<noteq> ?sorted" using rest by auto
  then have "0 < cr_Limit req \<and> int (length out) = cr_Limit req"
    using Claim_state(1) [OF assms(2)] by (auto simp: claim_cands_def chop_def split: if_splits)
  moreover have "claim_less d0 d1" if "(k, d0) \<in> set (claim_cands req (td_deliveries s))" for k d0
    using sorted left that unfolding rest by (fastforce simp: sorted_wrt_append)
  ultimately show ?thesis using Claim_row_of [OF inv assms(2)] by metis
qed

theorem Claim_by_priority_witness:
  "claim_eligible (w_req ''w1'') (row w_s1 ''d1'') \<and> claim_less (row w_s1 ''d2'') (row w_s1 ''d1'')"
proof -
  have i: "d_ID (row w_s2 ''d2'') = ''d2''" and el: "claim_eligible (w_req ''w1'') (row w_s1 ''d1'')" by code_simp+
  show ?thesis using Claim_by_priority [OF w_reach(1) w_claim w_rows(1)] i el w_rows(2) by auto
qed

text \<open>
  A claim does not depend on the order in which Go enumerates the map of deliveries: any
  other enumeration of the same rows gives the same slice in the same order.
\<close>

theorem Claim_map_order:
  assumes "reach s" "same_map (td_deliveries s) m"
  shows "fst (Claim e req (s\<lparr>td_deliveries := m\<rparr>)) = fst (Claim e req s)"
proof -
  note inv = reach_dinv [OF assms(1)]
  let ?el = "\<lambda>m. filter (\<lambda>(k, d). claim_eligible req d) m"
  have "map (\<lambda>a. d_ID (snd a)) (?el (td_deliveries s)) = map fst (?el (td_deliveries s))"
    using dinvD(1,2) [OF inv] by auto
  then have "distinct (map (\<lambda>a. d_ID (snd a)) (?el (td_deliveries s)))"
    using dinvD(1) [OF inv] by (metis distinct_fst_filter)
  moreover have "mset (?el (td_deliveries s)) = mset (?el m)" using assms(2) by (simp add: same_map_def)
  ultimately have "claim_cands req (td_deliveries s) = claim_cands req m"
    unfolding claim_cands_def using claim_order.sort_slice_perm by metis
  then show ?thesis by (simp add: Claim_def Let_def)
qed

theorem Claim_map_order_witness:
  "fst (Claim w_env (w_req ''w1'') (w_s1\<lparr>td_deliveries := rev (td_deliveries w_s1)\<rparr>)) = Inr [row w_s2 ''d2'']"
proof -
  have "same_map (td_deliveries w_s1) (rev (td_deliveries w_s1))"
    using dinvD(1) [OF reach_dinv [OF w_reach(1)]] by (simp add: same_map_def)
  then show ?thesis using Claim_map_order [OF w_reach(1)] w_claim by simp
qed

text \<open>
  C2.  No delivery is handed to two workers: over any sequence of claims by any number of
  workers, with no result, expiry or retry in between, the identifiers of all returned rows
  are distinct.
\<close>

theorem Claim_exclusive:
  assumes "reach s" "\<forall>(e, req) \<in> set rs. cr_WorkerID req \<noteq> ''''"
  shows "distinct (map d_ID (concat (fst (claim_all rs s))))"
  using claim_all_distinct [OF reach_dinv [OF assms(1)] assms(2)] .

theorem Claim_exclusive_witness:
  "map d_ID (concat (fst (claim_all [(w_env, w_req ''w1''), (w_env, w_req ''w2''), (w_env, w_req ''w3'')] w_s1))) = [''d2'', ''d1''] \<and>
    distinct (map d_ID (concat (fst (claim_all [(w_env, w_req ''w1''), (w_env, w_req ''w2''), (w_env, w_req ''w3'')] w_s1))))"
proof (rule conjI)
  show "map d_ID (concat (fst (claim_all [(w_env, w_req ''w1''), (w_env, w_req ''w2''), (w_env, w_req ''w3'')] w_s1))) = [''d2'', ''d1'']"
    by code_simp
  show "distinct (map d_ID (concat (fst (claim_all [(w_env, w_req ''w1''), (w_env, w_req ''w2''), (w_env, w_req ''w3'')] w_s1))))"
    by (rule Claim_exclusive [OF w_reach(1)]) (simp add: w_req_def)
qed

section \<open>Results\<close>

text \<open>
  C6.  Recording a batch of results twice is the same as recording it once: the second
  \<^verbatim>\<open>Complete\<close> changes nothing, neither rows nor attempts.
\<close>

theorem Complete_idempotent:
  assumes "Complete e rs s = (None, s1)" "\<not> e_closed e'"
  shows "Complete e' rs s1 = (None, s1)"
proof -
  have "s1 = complete_loop e 0 rs s" using assms(1) by (simp add: Complete_def split: if_splits)
  then have "\<forall>r \<in> set rs. stale s1 r" using complete_loop_makes_stale by simp
  then show ?thesis using assms(2) by (simp add: Complete_def complete_loop_all_stale)
qed

theorem Complete_idempotent_witness:
  "Complete w_env [w_res ''d2'' ''w1'' DeliverySent] w_s4 = (None, w_s4) \<and> w_s3 \<noteq> w_s4"
proof -
  have "Complete w_env [w_res ''d2'' ''w1'' DeliverySent] w_s3 = (None, w_s4)" "\<not> e_closed w_env"
    by (simp_all add: w_s4_def Complete_def w_env_def)
  moreover have "d_LeaseOwner (row w_s3 ''d2'') \<noteq> d_LeaseOwner (row w_s4 ''d2'')" by code_simp
  ultimately show ?thesis using Complete_idempotent by auto
qed

text \<open>
  Only the current lease holder can finish a delivery: a batch of results none of which
  carries the row's lease owner leaves the row alone.
\<close>

theorem Complete_needs_lease:
  assumes "map_of (td_deliveries s) i = Some d"
    "\<forall>r \<in> set rs. dr_DeliveryID r = i \<longrightarrow> dr_LeaseOwner r = '''' \<or> d_LeaseOwner d \<noteq> dr_LeaseOwner r"
  shows "map_of (td_deliveries (snd (Complete e rs s))) i = Some d"
  using complete_loop_unowned [OF assms] assms(1) by (simp add: Complete_def)

theorem Complete_needs_lease_witness:
  "map_of (td_deliveries (snd (Complete w_env [w_res ''d2'' ''w2'' DeliveryFailed] w_s2))) ''d2'' = Some (row w_s2 ''d2'')"
proof -
  have "d_LeaseOwner (row w_s2 ''d2'') = ''w1''" by code_simp
  then show ?thesis by (intro Complete_needs_lease [OF w_rows(3)]) (simp add: w_res_def)
qed



text \<open>
  C7.  A bounce is final against the sender's own late result: once \<^verbatim>\<open>MarkBounced\<close> or
  \<^verbatim>\<open>MarkComplained\<close> has moved a sent row, no later \<^verbatim>\<open>Complete\<close> changes the row, and a
  redelivered report returns false and changes nothing.
\<close>

theorem markTerminal_final:
  assumes "markTerminal e i to tm s = (Inr True, s1)" "to \<noteq> DeliverySent" "\<not> e_closed e'"
  shows "map_of (td_deliveries (snd (Complete e' rs s1))) i = map_of (td_deliveries s1) i \<and>
    map_option d_Status (map_of (td_deliveries s1) i) = Some to \<and>
    markTerminal e' i to' tm' s1 = (Inr False, s1)"
proof -
  obtain d where d: "map_of (td_deliveries s1) i = Some d" "d_LeaseOwner d = ''''" "d_Status d = to"
    using assms(1) by (auto simp: markTerminal_def split: if_splits option.splits)
  then have "map_of (td_deliveries (complete_loop e' 0 rs s1)) i = Some d"
    by (intro complete_loop_unowned) auto
  then show ?thesis using d assms(2,3) by (simp add: Complete_def markTerminal_def)
qed

theorem markTerminal_final_witness:
  "\<exists>s1. markTerminal w_env ''d2'' DeliveryBounced (12 * Second) w_s3 = (Inr True, s1) \<and>
    map_option d_Status (map_of (td_deliveries s1) ''d2'') = Some DeliveryBounced \<and>
    map_of (td_deliveries (snd (Complete w_env [w_res ''d2'' ''w1'' DeliverySent] s1))) ''d2'' = map_of (td_deliveries s1) ''d2''"
proof -
  have "fst (markTerminal w_env ''d2'' DeliveryBounced (12 * Second) w_s3) = Inr True" by code_simp
  then obtain s1 where s1: "markTerminal w_env ''d2'' DeliveryBounced (12 * Second) w_s3 = (Inr True, s1)"
    by (cases "markTerminal w_env ''d2'' DeliveryBounced (12 * Second) w_s3") simp
  then show ?thesis using markTerminal_final [OF s1, of w_env "[w_res ''d2'' ''w1'' DeliverySent]"] by (auto simp: w_env_def)
qed

section \<open>Insertion\<close>

lemma insert_loop_present:
  "map_of (td_campaignEmails s) k \<noteq> None \<Longrightarrow> map_of (td_campaignEmails (snd (insert_loop e j n ds s))) k \<noteq> None"
proof (induction ds arbitrary: j n s)
  case (Cons d ds)
  show ?case
  proof (cases "is_dup s d")
    case False
    have "map_of (td_campaignEmails (put_row s (insert_row e (row_id e j d)))) k \<noteq> None"
      using Cons.prems by (auto simp: put_row_def)
    with Cons.IH False show ?thesis by (simp add: insert_loop_Cons)
  qed (use Cons in \<open>simp add: insert_loop_Cons\<close>)
qed simp

lemma is_dup_mono: "is_dup s d \<Longrightarrow> is_dup (snd (insert_loop e j n ds s)) d"
  using insert_loop_present unfolding is_dup_def by blast

lemma insert_loop_head:
  assumes "d_CampaignID d \<noteq> ''''"
  shows "is_dup (snd (insert_loop e j n (d # ds) s)) d"
proof (cases "is_dup s d")
  case False
  have "is_dup (put_row s (insert_row e (row_id e j d))) d" using assms by (simp add: is_dup_def put_row_def)
  then show ?thesis using False by (simp add: insert_loop_Cons is_dup_mono)
qed (simp add: insert_loop_Cons is_dup_mono)

lemma insert_loop_indexed:
  "d \<in> set ds \<Longrightarrow> d_CampaignID d \<noteq> '''' \<Longrightarrow> is_dup (snd (insert_loop e j n ds s)) d"
proof (induction ds arbitrary: j n s)
  case (Cons x ds)
  show ?case
  proof (cases "d = x")
    case True then show ?thesis using insert_loop_head Cons.prems by simp
  next
    case False then show ?thesis using Cons by (simp add: insert_loop_Cons)
  qed
qed simp

lemma insert_loop_all_dup: "\<forall>d \<in> set ds. is_dup s d \<Longrightarrow> insert_loop e j n ds s = (n, s)"
  by (induction ds) (auto simp: insert_loop_Cons)

text \<open>
  Sending a recipient chunk again is harmless: after a batch of campaign deliveries was
  accepted, inserting the same batch again inserts no row and leaves the store as it is; a
  batch with a row that has no address is refused as a whole.
\<close>

theorem InsertBatch_resend:
  assumes "InsertBatch e ds s = (Inr n, s1)" "\<forall>d \<in> set ds. d_CampaignID d \<noteq> ''''" "\<not> e_closed e'"
  shows "InsertBatch e' ds s1 = (Inr 0, s1) \<and>
    (d_EmailNorm d = '''' \<longrightarrow> InsertBatch e' (ds @ d # ds') s = (Inl ErrInvalid, s))"
proof -
  have s1: "s1 = snd (insert_loop e 0 0 ds s)" and valid: "\<not> list_ex (\<lambda>d. d_EmailNorm d = '''') ds"
    using assms(1) by (auto simp: InsertBatch_def split: if_splits prod.splits)
  have "\<forall>d \<in> set ds. is_dup s1 d" unfolding s1 using assms(2) insert_loop_indexed by blast
  then show ?thesis using valid assms(3) by (simp add: InsertBatch_def insert_loop_all_dup)
qed

theorem InsertBatch_resend_witness:
  "InsertBatch w_env [w_d1, w_d2] newTenantData = (Inr 2, w_s1) \<and> InsertBatch w_env [w_d1, w_d2] w_s1 = (Inr 0, w_s1)"
proof -
  have c: "fst (InsertBatch w_env [w_d1, w_d2] newTenantData) = Inr 2" by code_simp
  then have i: "InsertBatch w_env [w_d1, w_d2] newTenantData = (Inr 2, w_s1)"
    by (simp add: w_s1_def prod_eq_iff)
  show ?thesis using InsertBatch_resend [OF i, of w_env] i by (simp add: w_defs)
qed

section \<open>Maintenance\<close>

text \<open>
  C8.  Lease recovery: \<^verbatim>\<open>ReleaseExpiredLeases\<close> touches only rows whose lease has run out, puts
  each back to deferred or queued according to whether an attempt was made, reports exactly
  how many expired leases it removed, and leaves none when it is not stopped by its limit.
\<close>

theorem Release_expired:
  assumes "reach s" "ReleaseExpiredLeases e nw limit s = (Inr n, s')"
  shows "(\<forall>i d. map_of (td_deliveries s) i = Some d \<longrightarrow>
      map_of (td_deliveries s') i = Some d \<or>
      lease_expired (TruncateTime nw) d \<and>
      (\<exists>d'. map_of (td_deliveries s') i = Some d' \<and> d_LeaseOwner d' = '''' \<and> d_AttemptCount d' = d_AttemptCount d \<and>
         d_Status d' = (if d_AttemptCount d > 0 then DeliveryDeferred else DeliveryQueued))) \<and>
    int (length (keys_where (\<lambda>_ d. lease_expired (TruncateTime nw) d) (td_deliveries s')))
      = int (length (keys_where (\<lambda>_ d. lease_expired (TruncateTime nw) d) (td_deliveries s))) - n \<and>
    (limit \<le> 0 \<or> n < limit \<longrightarrow>
      keys_where (\<lambda>_ d. lease_expired (TruncateTime nw) d) (td_deliveries s') = [])"
proof -
  note inv = reach_dinv [OF assms(1)]
  let ?P = "\<lambda>(_ :: string) d. lease_expired (TruncateTime nw) d"
  let ?ks = "chop limit (sort (keys_where ?P (td_deliveries s)))"
  have s': "td_deliveries s' = alter_rows ?ks (release_row (TruncateTime nw)) (td_deliveries s)" "n = int (length ?ks)"
    using assms(2) by (auto simp: ReleaseExpiredLeases_def Let_def split: if_splits)
  have len: "length (keys_where ?P (td_deliveries s')) = length (keys_where ?P (td_deliveries s)) - length ?ks"
    unfolding s' by (rule chopped_progress [OF dinvD(1) [OF inv] refl]) (simp add: release_not_expired)
  have le: "length ?ks \<le> length (keys_where ?P (td_deliveries s))" by (simp add: length_chop)
  have all: "length (keys_where ?P (td_deliveries s')) = 0" if "limit \<le> 0 \<or> n < limit"
    using that s'(2) len by (auto simp: length_chop split: if_splits)
  have "int (length (keys_where ?P (td_deliveries s'))) = int (length (keys_where ?P (td_deliveries s))) - n"
    using len le s'(2) by linarith
  moreover have "limit \<le> 0 \<or> n < limit \<longrightarrow> keys_where ?P (td_deliveries s') = []"
    using all by blast
  moreover have "map_of (td_deliveries s') i = Some d \<or> lease_expired (TruncateTime nw) d \<and>
      (\<exists>d'. map_of (td_deliveries s') i = Some d' \<and> d_LeaseOwner d' = '''' \<and> d_AttemptCount d' = d_AttemptCount d \<and>
         d_Status d' = (if d_AttemptCount d > 0 then DeliveryDeferred else DeliveryQueued))"
    if "map_of (td_deliveries s) i = Some d" for i d
    using Release_lookup [OF inv assms(2) that] by (auto simp: release_row_def)
  ultimately show ?thesis by blast
qed

theorem Release_expired_witness:
  "\<exists>s'. ReleaseExpiredLeases w_env (71 * Second) 10 w_s2 = (Inr 1, s') \<and>
    keys_where (\<lambda>_ d. lease_expired (71 * Second) d) (td_deliveries s') = []"
proof -
  have "fst (ReleaseExpiredLeases w_env (71 * Second) 10 w_s2) = Inr 1" by code_simp
  then obtain s' where s': "ReleaseExpiredLeases w_env (71 * Second) 10 w_s2 = (Inr 1, s')"
    by (cases "ReleaseExpiredLeases w_env (71 * Second) 10 w_s2") simp
  then show ?thesis using Release_expired [OF w_reach(2) s'] by (auto simp: TruncateTime_def)
qed

lemma sum_update:
  "sum_list (map snd (AList.update k v m)) = sum_list (map snd m) - (case map_of m k of None \<Rightarrow> 0 | Some n \<Rightarrow> n) + (v :: int)"
  by (induction m) auto

lemma CountByStatus_sum:
  "sum_list (map snd (fold (\<lambda>(_, d) out. if d_CampaignID d \<noteq> c then out else bump (d_Status d) out) (m :: (string, Delivery) gomap) acc))
    = sum_list (map snd acc) + int (length (filter (\<lambda>(_, d). d_CampaignID d = c) m))"
proof (induction m arbitrary: acc)
  case (Cons x m)
  then show ?case by (cases x) (auto simp: bump_def sum_update split: option.splits)
qed simp

text \<open>
  The counts a campaign's statistics are computed from are exact: the entry of each
  status is the number of the campaign's rows in that status (a missing entry means none),
  and the entries add up to the number of rows of the campaign.
\<close>

theorem CountByStatus_exact:
  assumes "CountByStatus e c s = Inr out"
  shows "(case map_of out st of None \<Rightarrow> 0 | Some n \<Rightarrow> n)
      = int (length (filter (\<lambda>(_, d). d_CampaignID d = c \<and> d_Status d = st) (td_deliveries s))) \<and>
    sum_list (map snd out) = int (length (filter (\<lambda>(_, d). d_CampaignID d = c) (td_deliveries s)))"
  using assms CountByStatus_fold [where c = c and m = "td_deliveries s" and acc = "[]" and st = st]
    CountByStatus_sum [where c = c and m = "td_deliveries s" and acc = "[]"]
  by (auto simp: CountByStatus_def Let_def split: if_splits)

theorem CountByStatus_exact_witness:
  "CountByStatus w_env ''c'' w_s2 = Inr [(DeliveryPending, 1), (DeliveryLeased, 1)] \<and>
    sum_list (map snd [(DeliveryPending, 1 :: int), (DeliveryLeased, 1)])
      = int (length (filter (\<lambda>(_, d). d_CampaignID d = ''c'') (td_deliveries w_s2)))"
proof -
  have c: "CountByStatus w_env ''c'' w_s2 = Inr [(DeliveryPending, 1), (DeliveryLeased, 1)]" by code_simp
  then show ?thesis using CountByStatus_exact [OF c] by simp
qed

text \<open>
  The first open is recorded once: when \<^verbatim>\<open>SetFirstOpened\<close> reported success, every later call
  for the same delivery reports false and leaves the store unchanged, so the unique counts
  derived from it count a delivery once.
\<close>

theorem SetFirstOpened_once:
  assumes "SetFirstOpened e i tm s = (Inr True, s1)" "TruncateTime tm \<noteq> 0" "\<not> e_closed e'"
  shows "SetFirstOpened e' i tm' s1 = (Inr False, s1) \<and>
    map_option d_FirstOpenedAt (map_of (td_deliveries s1) i) = Some (TruncateTime tm)"
  using assms by (auto simp: SetFirstOpened_def setFirst_def split: if_splits option.splits)

theorem SetFirstOpened_once_witness:
  "\<exists>s1. SetFirstOpened w_env ''d2'' (30 * Second) w_s4 = (Inr True, s1) \<and>
    SetFirstOpened w_env ''d2'' (31 * Second) s1 = (Inr False, s1)"
proof -
  have "fst (SetFirstOpened w_env ''d2'' (30 * Second) w_s4) = Inr True" by code_simp
  then obtain s1 where s1: "SetFirstOpened w_env ''d2'' (30 * Second) w_s4 = (Inr True, s1)"
    by (cases "SetFirstOpened w_env ''d2'' (30 * Second) w_s4") simp
  then show ?thesis using SetFirstOpened_once [OF s1, of w_env] by (simp add: TruncateTime_def w_env_def)
qed

end
