(* ===== verification/Repos_Thms.thy ===== *)
theory Repos_Thms
  imports Samples
begin

text \<open>
  Properties of the table, the provider and the small repositories: optimistic concurrency
  and unique keys of the tables, cursor pagination, the leader lock, the outbox,
  suppressions, tracking counts, settings.
\<close>

section \<open>Tables\<close>

definition w_te :: env where
  "w_te = \<lparr>e_closed = False, e_tenant = ''t'', e_clock = 5 * Second, e_newid = (\<lambda>n. CHR ''u'' # replicate n (CHR ''x''))\<rparr>"

definition w_c :: Campaign where
  "w_c = zero_campaign\<lparr>c_ID := ''c1'', c_Version := 1, c_Name := ''spring''\<rparr>"

text \<open>
  C9.  No lost update on campaigns: of all the clients that read the same version of a campaign
  and write it back, in any interleaving with other writers, at most one succeeds.
\<close>

theorem campaign_update_once:
  assumes "tbl_Updates campaign_meta us rows = (oks, rows')" "j < k" "k < length us"
    "c_ID (snd (us ! j)) = c_ID (snd (us ! k))" "c_Version (snd (us ! j)) = c_Version (snd (us ! k))"
  shows "\<not> (oks ! j \<and> oks ! k)"
  using campaigns.Updates_once [of "Fld c_Version c_Version_update" us rows oks rows' j k] assms
  by (auto simp: campaign_meta_def)

theorem campaign_update_once_witness:
  "fst (tbl_Updates campaign_meta [(w_te, w_c), (w_te, w_c)] [(''c1'', w_c)]) = [True, False] \<and>
    \<not> ([True, False] ! 0 \<and> [True, False] ! (1 :: nat))"
proof -
  have f: "fst (tbl_Updates campaign_meta [(w_te, w_c), (w_te, w_c)] [(''c1'', w_c)]) = [True, False]" by code_simp
  then obtain r where "tbl_Updates campaign_meta [(w_te, w_c), (w_te, w_c)] [(''c1'', w_c)] = ([True, False], r)"
    by (cases "tbl_Updates campaign_meta [(w_te, w_c), (w_te, w_c)] [(''c1'', w_c)]") simp
  from campaign_update_once [OF this, of 0 1] f show ?thesis by simp
qed

text \<open>The states of the template table under its three writing methods.\<close>

inductive template_reach :: "(string, Template) gomap \<Rightarrow> bool" where
  tr_init: "template_reach []"
| tr_create: "template_reach rows \<Longrightarrow> tbl_Create template_meta e rows v = (err, v', rows') \<Longrightarrow> template_reach rows'"
| tr_update: "template_reach rows \<Longrightarrow> tbl_Update template_meta e rows v = (err, v', rows') \<Longrightarrow> template_reach rows'"
| tr_delete: "template_reach rows \<Longrightarrow> tbl_Delete e rows i = (err, rows') \<Longrightarrow> template_reach rows'"

lemma template_reach_inv: "template_reach rows \<Longrightarrow> tbl_inv template_meta rows"
proof (induction rule: template_reach.induct)
  case tr_init show ?case by (simp add: tbl_inv_def)
qed (auto intro: templates.Create_inv templates.Update_inv templates.Delete_inv)

definition w_tpl :: "(string, Template) gomap" where
  "w_tpl = snd (snd (tbl_Create template_meta w_te [] (Some (zero_template\<lparr>tp_ID := ''a'', tp_Key := ''welcome''\<rparr>))))"

text \<open>
  C10.  Template keys are unique within a tenant: whatever creates, updates and deletes happened,
  two templates with the same non-empty key are the same row, every row is filed under its
  own identifier and every version is at least one.
\<close>

theorem template_key_unique:
  assumes "template_reach rows" "map_of rows i = Some v" "map_of rows j = Some w" "tp_Key v = tp_Key w" "tp_Key v \<noteq> ''''"
  shows "i = j \<and> tp_ID v = i \<and> 1 \<le> tp_Version v"
  using template_reach_inv [OF assms(1)] assms(2-5)
  unfolding tbl_inv_def by (simp add: template_meta_def)

theorem template_key_unique_witness:
  "tp_ID (the (map_of w_tpl ''a'')) = ''a'' \<and>
    fst (tbl_Create template_meta w_te w_tpl (Some (zero_template\<lparr>tp_ID := ''b'', tp_Key := ''welcome''\<rparr>))) = Some ErrConflict"
proof -
  have "template_reach w_tpl" unfolding w_tpl_def
    by (rule template_reach.tr_create [OF template_reach.tr_init]) (simp add: prod_eq_iff)
  moreover have "map_of w_tpl ''a'' = Some (the (map_of w_tpl ''a''))" "tp_Key (the (map_of w_tpl ''a'')) \<noteq> ''''" by code_simp+
  ultimately have "tp_ID (the (map_of w_tpl ''a'')) = ''a''" using template_key_unique by blast
  moreover have "fst (tbl_Create template_meta w_te w_tpl (Some (zero_template\<lparr>tp_ID := ''b'', tp_Key := ''welcome''\<rparr>))) = Some ErrConflict"
    by code_simp
  ultimately show ?thesis by simp
qed

text \<open>
  Cursor pagination is complete and repeats nothing: a client that follows the cursor
  until it is empty, with any page size, has read exactly the rows behind its starting cursor
  that pass the filter, each once, in identifier order.
\<close>

theorem walk_pages_complete:
  assumes "distinct (map fst rows)"
  shows "\<exists>ids. walk_pages rows p keep = map (\<lambda>i. the (map_of rows i)) ids \<and> sorted ids \<and> distinct ids \<and>
    set ids = {i. pg_Cursor p < i \<and> (\<exists>v. map_of rows i = Some v \<and> keep v)}"
proof (intro exI conjI)
  show "walk_pages rows p keep = map (\<lambda>i. the (map_of rows i)) (page_ids rows (pg_Cursor p) keep)"
    using walk_pages_all [OF assms] by simp
  show "set (page_ids rows (pg_Cursor p) keep) = {i. pg_Cursor p < i \<and> (\<exists>v. map_of rows i = Some v \<and> keep v)}"
    using assms by (auto simp: page_ids_def keys_where_eq not_le)
qed (use assms in \<open>auto simp: page_ids_def\<close>)

theorem walk_pages_complete_witness:
  "\<exists>ids. walk_pages [(''b'', 2 :: nat), (''a'', 1), (''c'', 3)] \<lparr>pg_Limit = 1, pg_Cursor = ''''\<rparr> odd
      = map (\<lambda>i. the (map_of [(''b'', 2), (''a'', 1), (''c'', 3)] i)) ids \<and> sorted ids"
  using walk_pages_complete [of "[(''b'', 2 :: nat), (''a'', 1), (''c'', 3)]" "\<lparr>pg_Limit = 1, pg_Cursor = ''''\<rparr>" odd] by auto

section \<open>Locks\<close>

text \<open>The calls on one lock, by owner; \<open>lock_exec\<close> also says whether the call was granted.\<close>

datatype lcall = LAcquire string duration go_time | LRenew string duration go_time | LRelease string

fun lc_owner :: "lcall \<Rightarrow> string" where
  "lc_owner (LAcquire ow ttl nw) = ow" | "lc_owner (LRenew ow ttl nw) = ow" | "lc_owner (LRelease ow) = ow"

fun lc_before :: "go_time \<Rightarrow> lcall \<Rightarrow> bool" where
  "lc_before x (LAcquire ow ttl nw) = (TruncateTime nw < x)"
| "lc_before x (LRenew ow ttl nw) = (TruncateTime nw < x)"
| "lc_before x (LRelease ow) = True"

fun lock_exec :: "string \<Rightarrow> env \<Rightarrow> lcall \<Rightarrow> tenant_data \<Rightarrow> bool \<times> tenant_data" where
  "lock_exec n e (LAcquire ow ttl nw) s = (let (r, s') = lock_Acquire e n ow ttl nw s in (r = Inr True, s'))"
| "lock_exec n e (LRenew ow ttl nw) s = (let (r, s') = lock_Renew e n ow ttl nw s in (r = Inr True, s'))"
| "lock_exec n e (LRelease ow) s = (let (r, s') = lock_Release e n ow s in (False, s'))"

fun lock_run :: "string \<Rightarrow> (env \<times> lcall) list \<Rightarrow> tenant_data \<Rightarrow> bool list \<times> tenant_data" where
  "lock_run n [] s = ([], s)"
| "lock_run n ((e, c) # cs) s =
    (let (g, s1) = lock_exec n e c s; (gs, s2) = lock_run n cs s1 in (g # gs, s2))"

lemma lock_exec_other:
  "map_of (td_locks s) n = Some l \<Longrightarrow> lc_owner c \<noteq> lk_Owner l \<Longrightarrow> lc_before (lk_ExpiresAt l) c \<Longrightarrow>
    lock_exec n e c s = (False, s)"
  by (cases c) (auto simp: lock_Acquire_def lock_Renew_def lock_Release_def Let_def)

lemma lock_run_other:
  "map_of (td_locks s) n = Some l \<Longrightarrow> \<forall>(e, c) \<in> set cs. lc_owner c \<noteq> lk_Owner l \<and> lc_before (lk_ExpiresAt l) c \<Longrightarrow>
    lock_run n cs s = (replicate (length cs) False, s)"
proof (induction cs)
  case (Cons x cs)
  then show ?case by (cases x) (auto simp: lock_exec_other)
qed simp

text \<open>
  Leader election is exclusive: once an owner was granted a lock, no other owner is granted
  it, by acquiring or renewing, at any time before the lease expires, in whatever order and
  however often they try, and a release by somebody else does not give it away; the
  holder can renew it until then.
\<close>

theorem lock_exclusive:
  assumes "lock_Acquire e n owner ttl nw s0 = (Inr True, s)"
    "\<forall>(e, c) \<in> set cs. lc_owner c \<noteq> owner \<and> lc_before (TruncateTime (TruncateTime nw + ttl)) c"
  shows "lock_run n cs s = (replicate (length cs) False, s) \<and>
    (\<not> e_closed e' \<and> TruncateTime nw' < TruncateTime (TruncateTime nw + ttl) \<longrightarrow>
      fst (lock_Renew e' n owner ttl' nw' s) = Inr True)"
proof -
  obtain l where l: "map_of (td_locks s) n = Some l" "lk_Owner l = owner" "lk_ExpiresAt l = TruncateTime (TruncateTime nw + ttl)"
    using assms(1) by (auto simp: lock_Acquire_def Let_def split: if_splits option.splits)
  then have "lock_run n cs s = (replicate (length cs) False, s)" using assms(2) by (intro lock_run_other) auto
  then show ?thesis using l by (simp add: lock_Renew_def Let_def)
qed

theorem lock_exclusive_witness:
  "\<exists>s. lock_Acquire w_te ''leader'' ''a'' (30 * Second) (10 * Second) newTenantData = (Inr True, s) \<and>
    lock_run ''leader'' [(w_te, LAcquire ''b'' (30 * Second) (39 * Second)), (w_te, LRelease ''b'')] s = ([False, False], s)"
proof -
  have "fst (lock_Acquire w_te ''leader'' ''a'' (30 * Second) (10 * Second) newTenantData) = Inr True" by code_simp
  then obtain s where s: "lock_Acquire w_te ''leader'' ''a'' (30 * Second) (10 * Second) newTenantData = (Inr True, s)"
    by (cases "lock_Acquire w_te ''leader'' ''a'' (30 * Second) (10 * Second) newTenantData") simp
  show ?thesis
    using lock_exclusive [OF s, of "[(w_te, LAcquire ''b'' (30 * Second) (39 * Second)), (w_te, LRelease ''b'')]"] s
    by (simp add: TruncateTime_def numeral_2_eq_2)
qed

section \<open>Outbox\<close>

definition w_ob :: tenant_data where
  "w_ob = snd (Enqueue w_te [zero_event\<lparr>oe_ID := ''e1''\<rparr>, zero_event\<lparr>oe_ID := ''e2''\<rparr>] newTenantData)"

lemma delete_keys_lookup: "map_of (delete_keys ks m) k = (if k \<in> set ks then None else map_of m k)"
  unfolding delete_keys_def by (induction ks arbitrary: m) auto

lemma delete_keys_distinct [simp]: "distinct (map fst m) \<Longrightarrow> distinct (map fst (delete_keys ks m))"
  unfolding delete_keys_def by (induction ks arbitrary: m) auto

text \<open>
  Two dispatchers do not get the same event: an event one dispatcher claimed is not in
  what any dispatcher claims at a time before the lease ends, while the event is not
  reported back.
\<close>

theorem ClaimPending_exclusive:
  assumes "distinct (map fst (td_outbox s))" "ClaimPending e limit lease owner nw s = (Inr out, s1)"
    "owner \<noteq> ''''" "TruncateTime nw2 < TruncateTime (TruncateTime nw + lease)"
    "ClaimPending e2 limit2 lease2 owner2 nw2 s1 = (Inr out2, s2)"
    "map_of (td_outbox s) i = Some ev" "map_of (td_outbox s1) i \<noteq> Some ev"
  shows "map_of (td_outbox s2) i = map_of (td_outbox s1) i"
proof -
  let ?n = "TruncateTime nw" and ?n2 = "TruncateTime nw2"
  let ?ids = "chop limit (sort (keys_where (\<lambda>_ ev. outbox_due ?n ev) (td_outbox s)))"
  let ?ids2 = "chop limit2 (sort (keys_where (\<lambda>_ ev. outbox_due ?n2 ev) (td_outbox s1)))"
  have s1: "td_outbox s1 = alter_rows ?ids (outbox_lease owner (TruncateTime (?n + lease))) (td_outbox s)"
    and s2: "td_outbox s2 = alter_rows ?ids2 (outbox_lease owner2 (TruncateTime (?n2 + lease2))) (td_outbox s1)"
    using assms(2,5) by (auto simp: ClaimPending_def Let_def split: if_splits)
  have d1: "distinct (map fst (td_outbox s1))" using assms(1) by (simp add: s1)
  have i1: "map_of (td_outbox s1) i = Some (outbox_lease owner (TruncateTime (?n + lease)) ev)"
    using assms(6,7) by (auto simp: s1 split: if_splits)
  then have "\<not> outbox_due ?n2 (outbox_lease owner (TruncateTime (?n + lease)) ev)"
    using assms(3,4) by (simp add: outbox_due_def outbox_lease_def)
  then have "i \<notin> set ?ids2" using i1 d1 set_chop_subset by (force simp: keys_where_eq)
  then show ?thesis by (simp add: s2)
qed

theorem ClaimPending_exclusive_witness:
  "\<exists>out s1 out2 s2. ClaimPending w_te 1 Minute ''a'' (10 * Second) w_ob = (Inr out, s1) \<and>
    ClaimPending w_te 2 Minute ''b'' (20 * Second) s1 = (Inr out2, s2) \<and>
    map_of (td_outbox s2) ''e1'' = map_of (td_outbox s1) ''e1'' \<and> map oe_ID out = [''e1''] \<and> map oe_ID out2 = [''e2'']"
proof -
  let ?c1 = "ClaimPending w_te 1 Minute ''a'' (10 * Second) w_ob"
  let ?c2 = "ClaimPending w_te 2 Minute ''b'' (20 * Second) (snd ?c1)"
  have o1: "map_sum id (map oe_ID) (fst ?c1) = Inr [''e1'']" and o2: "map_sum id (map oe_ID) (fst ?c2) = Inr [''e2'']"
    by code_simp+
  obtain out s1 where c1: "?c1 = (Inr out, s1)" "map oe_ID out = [''e1'']" using o1 by (cases ?c1) (auto simp: map_sum_def split: sum.splits)
  obtain out2 s2 where c2: "?c2 = (Inr out2, s2)" "map oe_ID out2 = [''e2'']" using o2 by (cases ?c2) (auto simp: map_sum_def split: sum.splits)
  have ev: "map_of (td_outbox w_ob) ''e1'' = Some (the (map_of (td_outbox w_ob) ''e1''))"
    "map_of (td_outbox (snd ?c1)) ''e1'' \<noteq> Some (the (map_of (td_outbox w_ob) ''e1''))" by code_simp+
  have "distinct (map fst (td_outbox w_ob))" by code_simp
  from ClaimPending_exclusive [OF this c1(1), of "20 * Second" w_te 2 Minute "''b''" out2 s2, OF _ _ _ ev(1)] c1 c2 ev(2)
  show ?thesis by (auto simp: TruncateTime_def)
qed

text \<open>
  Retention never drops an event the host has not seen: \<^verbatim>\<open>DeleteBefore\<close> of the outbox removes
  no pending event, however old, and removes only events created before the cutoff.
\<close>

theorem outbox_pending_kept:
  assumes "distinct (map fst (td_outbox s))" "outbox_DeleteBefore e before limit s = (Inr n, s')"
    "map_of (td_outbox s) i = Some ev" "oe_Status ev = OutboxPending \<or> \<not> oe_CreatedAt ev < TruncateTime before"
  shows "map_of (td_outbox s') i = Some ev"
proof -
  let ?P = "\<lambda>(_ :: string) ev. oe_CreatedAt ev < TruncateTime before \<and> (oe_Status ev = OutboxDelivered \<or> oe_Status ev = OutboxFailed)"
  have s': "td_outbox s' = delete_keys (chop limit (sort (keys_where ?P (td_outbox s)))) (td_outbox s)"
    using assms(2) by (auto simp: outbox_DeleteBefore_def deleteBefore_def Let_def split: if_splits)
  have "i \<notin> set (keys_where ?P (td_outbox s))" using assms(1,3,4) by (auto simp: keys_where_eq)
  then have "i \<notin> set (chop limit (sort (keys_where ?P (td_outbox s))))" using set_chop_subset by fastforce
  then show ?thesis using assms(3) by (simp add: s' delete_keys_lookup)
qed

theorem outbox_pending_kept_witness:
  "\<exists>n s'. outbox_DeleteBefore w_te (1000 * Second) 0 w_ob = (Inr n, s') \<and>
    map_of (td_outbox s') ''e1'' = Some (the (map_of (td_outbox w_ob) ''e1''))"
proof -
  have "fst (outbox_DeleteBefore w_te (1000 * Second) 0 w_ob) = Inr 0" by code_simp
  then obtain s' where d: "outbox_DeleteBefore w_te (1000 * Second) 0 w_ob = (Inr 0, s')"
    by (cases "outbox_DeleteBefore w_te (1000 * Second) 0 w_ob") simp
  have ev: "map_of (td_outbox w_ob) ''e1'' = Some (the (map_of (td_outbox w_ob) ''e1''))"
    "oe_Status (the (map_of (td_outbox w_ob) ''e1'')) = OutboxPending" "distinct (map fst (td_outbox w_ob))" by code_simp+
  show ?thesis using outbox_pending_kept [OF ev(3) d ev(1)] ev(2) d by auto
qed

section \<open>Suppressions\<close>

definition w_su :: tenant_data where
  "w_su = snd (snd (suppression_Upsert w_te (Some \<lparr>su_TenantID = '''', su_EmailNorm = ''a@x'', su_Reason = ''hard_bounce'',
      su_SourceDeliveryID = '''', su_CreatedAt = 0, su_ExpiresAt = 20 * Second\<rparr>)
      (snd (snd (suppression_Upsert w_te (Some \<lparr>su_TenantID = '''', su_EmailNorm = ''b@x'', su_Reason = ''manual'',
      su_SourceDeliveryID = '''', su_CreatedAt = 0, su_ExpiresAt = 0\<rparr>) newTenantData)))))"

text \<open>
  C11.  Cleaning up expired suppressions never changes who is suppressed: for a cutoff in the past,
  \<^verbatim>\<open>IsSuppressed\<close> answers the same for every address before and after \<^verbatim>\<open>DeleteBefore\<close>; an entry
  without an expiry time survives every cutoff.
\<close>

theorem suppression_cleanup_neutral:
  assumes "distinct (map fst (td_suppressions s))" "suppression_DeleteBefore e before limit s = (Inr n, s')"
    "before \<le> nw"
  shows "map_sum id fst (IsSuppressed e2 a nw s') = map_sum id fst (IsSuppressed e2 a nw s) \<and>
    (\<forall>v. map_of (td_suppressions s) a = Some v \<and> su_ExpiresAt v = 0 \<longrightarrow> map_of (td_suppressions s') a = Some v)"
proof -
  let ?P = "\<lambda>(_ :: string) v. \<not> (su_ExpiresAt v = 0 \<or> su_ExpiresAt v > TruncateTime before)"
  have s': "td_suppressions s' = delete_keys (chop limit (sort (keys_where ?P (td_suppressions s)))) (td_suppressions s)"
    using assms(2) by (auto simp: suppression_DeleteBefore_def Let_def split: if_splits)
  have gone: "?P a v" if "a \<in> set (chop limit (sort (keys_where ?P (td_suppressions s))))" "map_of (td_suppressions s) a = Some v" for v
    using that set_chop_subset assms(1) by (force simp: keys_where_eq)
  have le: "TruncateTime before \<le> TruncateTime nw" using assms(3) by (rule TruncateTime_mono)
  show ?thesis
  proof (cases "a \<in> set (chop limit (sort (keys_where ?P (td_suppressions s))))")
    case False
    then have "map_of (td_suppressions s') a = map_of (td_suppressions s) a" by (simp add: s' delete_keys_lookup)
    then show ?thesis by (simp add: IsSuppressed_def)
  next
    case True
    then have "map_of (td_suppressions s') a = None" by (simp add: s' delete_keys_lookup)
    moreover have "\<not> (su_ExpiresAt v = 0 \<or> su_ExpiresAt v > TruncateTime nw)" if "map_of (td_suppressions s) a = Some v" for v
      using gone [OF True that] le by auto
    ultimately show ?thesis by (cases "map_of (td_suppressions s) a") (auto simp: IsSuppressed_def)
  qed
qed

theorem suppression_cleanup_neutral_witness:
  "\<exists>s'. suppression_DeleteBefore w_te (25 * Second) 0 w_su = (Inr 1, s') \<and>
    map_sum id fst (IsSuppressed w_te ''b@x'' (30 * Second) s') = map_sum id fst (IsSuppressed w_te ''b@x'' (30 * Second) w_su)"
proof -
  have "fst (suppression_DeleteBefore w_te (25 * Second) 0 w_su) = Inr 1" "distinct (map fst (td_suppressions w_su))" by code_simp+
  then obtain s' where s': "suppression_DeleteBefore w_te (25 * Second) 0 w_su = (Inr 1, s')" "distinct (map fst (td_suppressions w_su))"
    by (cases "suppression_DeleteBefore w_te (25 * Second) 0 w_su") simp
  from suppression_cleanup_neutral [OF s'(2,1), of "30 * Second" w_te "''b@x''"] s'(1) show ?thesis by auto
qed

section \<open>Tracking counts\<close>

lemma seen_of_add:
  "seen_of (seen_add c ev seen) k =
    (if te_CampaignID ev = c \<and> \<not> te_SuspectedBot ev \<and> te_Kind ev = k then List.insert (te_DeliveryID ev) (seen_of seen k) else seen_of seen k)"
  by (auto simp: seen_add_def seen_of_def split: option.splits)

lemma seen_fold:
  "distinct (seen_of acc k) \<Longrightarrow>
    distinct (seen_of (fold (\<lambda>(_, ev). seen_add c ev) m acc) k) \<and>
    set (seen_of (fold (\<lambda>(_, ev). seen_add c ev) m acc) k) =
      set (seen_of acc k) \<union> te_DeliveryID ` {ev \<in> snd ` set m. te_CampaignID ev = c \<and> \<not> te_SuspectedBot ev \<and> te_Kind ev = k}"
proof (induction m arbitrary: acc)
  case (Cons x m)
  obtain i ev where x: "x = (i, ev)" by (cases x)
  have "distinct (seen_of (seen_add c ev acc) k)" using Cons.prems by (simp add: seen_of_add)
  from Cons.IH [OF this] show ?case by (auto simp: x seen_of_add)
qed auto

text \<open>The deliveries of a campaign with an interaction of a kind that no bot is suspected of.\<close>

definition interacted :: "string \<Rightarrow> TrackingKind \<Rightarrow> tenant_data \<Rightarrow> string set" where
  "interacted c k s =
    te_DeliveryID ` {ev \<in> snd ` set (td_tracking s). te_CampaignID ev = c \<and> \<not> te_SuspectedBot ev \<and> te_Kind ev = k}"

definition w_tk :: tenant_data where
  "w_tk = snd (InsertEvents w_te [zero_tracking\<lparr>te_DeliveryID := ''d'', te_CampaignID := ''c''\<rparr>,
     zero_tracking\<lparr>te_DeliveryID := ''d'', te_CampaignID := ''c''\<rparr>,
     zero_tracking\<lparr>te_DeliveryID := ''b'', te_CampaignID := ''c'', te_SuspectedBot := True\<rparr>] newTenantData)"

text \<open>
  C12.  The unique tracking counts of a campaign count deliveries, not events: each is the number
  of distinct deliveries with at least one interaction of that kind that is not a suspected
  bot, whatever the enumeration order of the event map.
\<close>

theorem CountUnique_exact:
  assumes "CountUnique e c s = Inr tc"
  shows "tc_UniqueOpens tc = int (card (interacted c TrackingOpen s)) \<and>
    tc_UniqueClicks tc = int (card (interacted c TrackingClick s)) \<and>
    tc_UnsubscribeClicked tc = int (card (interacted c TrackingUnsubscribeClicked s)) \<and>
    tc_Unsubscribed tc = int (card (interacted c TrackingUnsubscribed s))"
proof -
  let ?seen = "fold (\<lambda>(_, ev). seen_add c ev) (td_tracking s) []"
  have "length (seen_of ?seen k) = card (interacted c k s)" for k
    using seen_fold [of "[]" k c "td_tracking s"] distinct_card [of "seen_of ?seen k"]
    by (simp add: interacted_def seen_of_def)
  then show ?thesis using assms by (auto simp: CountUnique_def Let_def split: if_splits)
qed

theorem CountUnique_exact_witness:
  "CountUnique w_te ''c'' w_tk = Inr \<lparr>tc_UniqueOpens = 1, tc_UniqueClicks = 0, tc_UnsubscribeClicked = 0, tc_Unsubscribed = 0\<rparr> \<and>
    card (interacted ''c'' TrackingOpen w_tk) = 1"
proof -
  have c: "CountUnique w_te ''c'' w_tk = Inr \<lparr>tc_UniqueOpens = 1, tc_UniqueClicks = 0, tc_UnsubscribeClicked = 0, tc_Unsubscribed = 0\<rparr>"
    by code_simp
  then show ?thesis using CountUnique_exact [OF c] by simp
qed

section \<open>Provider and settings\<close>

text \<open>
  The tenant listings: \<^verbatim>\<open>ActiveTenants\<close> names, sorted and without repetition, exactly the
  tenants other than the system tenant that have a delivery that is not finished or a
  campaign that is scheduled, running or paused.
\<close>

theorem ActiveTenants_exact:
  assumes "ActiveTenants p = Inr ts" "distinct (map fst (p_tenants p))"
  shows "sorted ts \<and> distinct ts \<and>
    (\<forall>t. t \<in> set ts \<longleftrightarrow> t \<noteq> SystemTenantID \<and> (\<exists>d. map_of (p_tenants p) t = Some d \<and>
      ((\<exists>dl \<in> snd ` set (td_deliveries d). \<not> Terminal (d_Status dl)) \<or>
       (\<exists>c \<in> snd ` set (td_campaigns d). c_Status c \<in> {CampaignScheduled, CampaignRunning, CampaignPaused}))))"
proof -
  have hw: "hasOpenWork d \<longleftrightarrow> (\<exists>dl \<in> snd ` set (td_deliveries d). \<not> Terminal (d_Status dl)) \<or>
       (\<exists>c \<in> snd ` set (td_campaigns d). c_Status c \<in> {CampaignScheduled, CampaignRunning, CampaignPaused})" for d
    by (force simp: hasOpenWork_def list_ex_iff)
  show ?thesis unfolding hw [symmetric] using assms by (auto simp: ActiveTenants_def keys_where_eq split: if_splits)
qed

definition w_prov :: Provider where
  "w_prov = \<lparr>p_closed = False, p_tenants = [(''b'', newTenantData\<lparr>td_campaigns := [(''c1'', w_c\<lparr>c_Status := CampaignPaused\<rparr>)]\<rparr>),
     (''a'', newTenantData), (SystemTenantID, newTenantData\<lparr>td_campaigns := [(''c1'', w_c\<lparr>c_Status := CampaignRunning\<rparr>)]\<rparr>)]\<rparr>"

theorem ActiveTenants_exact_witness: "ActiveTenants w_prov = Inr [''b''] \<and> SystemTenantID \<notin> set [''b'']"
proof -
  have a: "ActiveTenants w_prov = Inr [''b'']" "distinct (map fst (p_tenants w_prov))" by code_simp+
  from ActiveTenants_exact [OF a] a show ?thesis by auto
qed

text \<open>
  Settings appear on first use and are stable from then on: \<^verbatim>\<open>LoadTenantSettings\<close> on an open
  store returns settings of the tenant, and a second load, by whatever process and with
  whatever fresh key material, returns the row the first one stored and changes nothing.
\<close>

theorem LoadTenantSettings_stable:
  assumes "LoadTenantSettings e rand t nw s = (Inr v, s1)" "\<not> e_closed e2"
  shows "\<exists>v1. td_settings s1 = Some v1 \<and> ts_Tracking v1 = ts_Tracking v \<and> ts_Version v1 = ts_Version v \<and>
    LoadTenantSettings e2 rand2 t2 nw2 s1 = (Inr v1, s1) \<and> (td_settings s \<noteq> None \<longrightarrow> s1 = s)"
  using assms
  by (auto simp: LoadTenantSettings_def settings_Get_def settings_Create_def truncate_settings_def Let_def
      split: if_splits option.splits)

theorem LoadTenantSettings_stable_witness:
  "\<exists>v s1 v1. LoadTenantSettings w_te (replicate 36 (CHR ''k'')) ''t'' (7 * Second) newTenantData = (Inr v, s1) \<and>
    LoadTenantSettings w_te (replicate 36 (CHR ''z'')) ''t'' (9 * Second) s1 = (Inr v1, s1) \<and> ts_Tracking v1 = ts_Tracking v"
proof -
  obtain v s1 where l: "LoadTenantSettings w_te (replicate 36 (CHR ''k'')) ''t'' (7 * Second) newTenantData = (Inr v, s1)"
    by (auto simp: LoadTenantSettings_def settings_Get_def settings_Create_def newTenantData_def w_te_def Let_def)
  from LoadTenantSettings_stable [OF l, of w_te "replicate 36 (CHR ''z'')" "''t''" "9 * Second"] l
  show ?thesis by (auto simp: w_te_def)
qed

text \<open>
  The table stores times in milliseconds, with one exception: a created transport comes
  back with its status change time truncated but with \<^verbatim>\<open>StatusUntil\<close> exactly as the caller gave
  it, because the meta value of transports does not list that field.
\<close>

theorem transport_StatusUntil_untruncated:
  assumes "tbl_Create transport_meta e rows (Some v) = (None, v', rows')" "tr_ID v \<noteq> ''''"
  shows "\<exists>w. map_of rows' (tr_ID v) = Some w \<and> tr_StatusChangedAt w = TruncateTime (tr_StatusChangedAt v) \<and>
    tr_StatusUntil w = tr_StatusUntil v"
  using assms
  by (auto simp: tbl_Create_def stamp_create_def stored_copy_def truncateRow_def truncate_fields_def transport_meta_def
      Let_def split: if_splits)

definition w_transport :: Transport where
  "w_transport = \<lparr>tr_ID = ''x'', tr_TenantID = '''', tr_Name = '''', tr_Host = '''', tr_Port = 25, tr_TLS = '''', tr_Username = '''',
    tr_Password = '''', tr_MaxConns = 1, tr_RatePerSecond = 0, tr_DomainRatePerSecond = [], tr_Shared = False,
    tr_Status = TransportHealthy, tr_StatusReason = '''', tr_StatusChangedAt = 1500000, tr_StatusUntil = 1500000,
    tr_Version = 0, tr_CreatedAt = 0, tr_UpdatedAt = 0\<rparr>"

theorem transport_StatusUntil_untruncated_witness:
  "\<exists>v' rows' w. tbl_Create transport_meta w_te [] (Some w_transport) = (None, v', rows') \<and> map_of rows' ''x'' = Some w \<and>
    tr_StatusChangedAt w = 1000000 \<and> tr_StatusUntil w = 1500000"
proof -
  obtain v' rows' where c: "tbl_Create transport_meta w_te [] (Some w_transport) = (None, v', rows')"
    by (simp add: tbl_Create_def Let_def keyTaken_def w_te_def transport_meta_def)
  have i: "tr_ID w_transport = ''x''" "tr_ID w_transport \<noteq> ''''" by (simp_all add: w_transport_def)
  from transport_StatusUntil_untruncated [OF c i(2)] c show ?thesis
    by (auto simp: i(1)) (auto simp: w_transport_def TruncateTime_def)
qed

end
