(* ===== verification/Sender_Policy.thy ===== *)
theory Sender_Policy
  imports Mem_Delivery Go_Strings
begin

text \<open>
  What the sender makes of one attempt: the classification table of
  \<^verbatim>\<open>internal/sender/classify.go\<close>, the retry policy of \<^verbatim>\<open>internal/sender/policy.go\<close> and the results
  \<^verbatim>\<open>internal/sender/process.go\<close> builds from them.  A Go error is what the code asks of it: whether
  \<^verbatim>\<open>errors.As\<close> finds a TLS error, a network timeout, a closed connection, an operation error or
  an SMTP reply in its chain, and its text.  \<^verbatim>\<open>float64\<close> is \<open>rat\<close>; the random source is an argument.
\<close>

section \<open>Classification\<close>

record send_error =
  er_tls :: bool
  er_timeout :: bool
  er_closed :: bool
  er_op :: bool
  er_reply :: "(int \<times> string) option"
  er_text :: string

record Failure =
  f_Class :: ErrorClass
  f_Code :: int
  f_Enhanced :: string
  f_Message :: string
  f_Rule :: string

definition zero_failure :: Failure where
  "zero_failure = \<lparr>f_Class = ErrorClassNone, f_Code = 0, f_Enhanced = '''', f_Message = '''', f_Rule = ''''\<rparr>"

record rule =
  r_name :: string
  r_codes :: "int list"
  r_codeMin :: int
  r_codeMax :: int
  r_enhanced :: "string list"
  r_contains :: "string list"
  r_class :: ErrorClass

definition rules :: "rule list" where
  "rules = [
    \<lparr>r_name = ''auth.code'', r_codes = [530, 534, 535, 538], r_codeMin = 0, r_codeMax = 0,
     r_enhanced = [], r_contains = [], r_class = ErrorClassAuth\<rparr>,
    \<lparr>r_name = ''auth.enhanced'', r_codes = [], r_codeMin = 0, r_codeMax = 0,
     r_enhanced = [''5.7.8'', ''5.7.9'', ''4.7.8''], r_contains = [], r_class = ErrorClassAuth\<rparr>,
    \<lparr>r_name = ''ratelimit.421'', r_codes = [421], r_codeMin = 0, r_codeMax = 0,
     r_enhanced = [], r_contains = [], r_class = ErrorClassRateLimited\<rparr>,
    \<lparr>r_name = ''ratelimit.4xx.text'', r_codes = [450, 451, 452], r_codeMin = 0, r_codeMax = 0,
     r_enhanced = [],
     r_contains = [''rate'', ''too many'', ''too quickly'', ''throttl'', ''slow down'', ''deferred due to''],
     r_class = ErrorClassRateLimited\<rparr>,
    \<lparr>r_name = ''ratelimit.enhanced'', r_codes = [], r_codeMin = 0, r_codeMax = 0,
     r_enhanced = [''4.7.0'', ''4.7.28'', ''4.2.1''], r_contains = [], r_class = ErrorClassRateLimited\<rparr>,
    \<lparr>r_name = ''policy.enhanced'', r_codes = [], r_codeMin = 0, r_codeMax = 0,
     r_enhanced = [''5.7.''], r_contains = [], r_class = ErrorClassPolicy\<rparr>,
    \<lparr>r_name = ''policy.text'', r_codes = [], r_codeMin = 500, r_codeMax = 599,
     r_enhanced = [],
     r_contains = [''spam'', ''blocked'', ''blacklist'', ''blocklist'', ''reputation'', ''policy'', ''abuse''],
     r_class = ErrorClassPolicy\<rparr>,
    \<lparr>r_name = ''permanent.5xx'', r_codes = [], r_codeMin = 500, r_codeMax = 599,
     r_enhanced = [], r_contains = [], r_class = ErrorClassPermanent\<rparr>,
    \<lparr>r_name = ''transient.4xx'', r_codes = [], r_codeMin = 400, r_codeMax = 499,
     r_enhanced = [], r_contains = [], r_class = ErrorClassTransient\<rparr>]"

definition rule_match :: "rule \<Rightarrow> int \<Rightarrow> string \<Rightarrow> string \<Rightarrow> bool" where
  "rule_match r code enhanced lowerMsg =
    (if (if length (r_codes r) > 0 then \<not> containsInt (r_codes r) code
         else r_codeMin r > 0 \<and> (code < r_codeMin r \<or> code > r_codeMax r)) then False
     else if length (r_enhanced r) > 0 \<and> (enhanced = '''' \<or> \<not> hasAnyPrefix enhanced (r_enhanced r)) then False
     else if length (r_contains r) > 0 \<and> \<not> containsAny lowerMsg (r_contains r) then False
     else True)"

text \<open>
  \<^verbatim>\<open>^([245])\.([0-9]{1,3})\.([0-9]{1,3})\b\<close>: the digits of a group are a maximal run, since a
  shorter one is followed by a digit, neither a dot nor a word boundary.
\<close>

definition enhancedRE_find :: "string \<Rightarrow> string" where
  "enhancedRE_find s =
    (case s of
       c # d # rest \<Rightarrow>
         if c \<in> {CHR ''2'', CHR ''4'', CHR ''5''} \<and> d = CHR ''.'' then
           (let g2 = takeWhile is_digit rest; r2 = dropWhile is_digit rest in
            if 1 \<le> length g2 \<and> length g2 \<le> 3 \<and> r2 \<noteq> [] \<and> hd r2 = CHR ''.'' then
              (let g3 = takeWhile is_digit (tl r2); r3 = dropWhile is_digit (tl r2) in
               if 1 \<le> length g3 \<and> length g3 \<le> 3 \<and> (r3 = [] \<or> \<not> is_word (hd r3))
               then c # CHR ''.'' # g2 @ CHR ''.'' # g3 else '''')
            else '''')
         else ''''
     | _ \<Rightarrow> '''')"

definition enhancedOf :: "string \<Rightarrow> string" where
  "enhancedOf msg = enhancedRE_find (TrimSpace (takeWhile (\<lambda>c. c \<noteq> CHR 0x0A) msg))"

definition classifyNetwork :: "send_error \<Rightarrow> Failure option" where
  "classifyNetwork err =
    (if er_tls err then
       Some (zero_failure\<lparr>f_Class := ErrorClassAuth, f_Message := er_text err, f_Rule := ''auth.tls''\<rparr>)
     else if er_timeout err then
       Some (zero_failure\<lparr>f_Class := ErrorClassTransient, f_Message := er_text err, f_Rule := ''transient.timeout''\<rparr>)
     else if er_closed err then
       Some (zero_failure\<lparr>f_Class := ErrorClassTransient, f_Message := er_text err, f_Rule := ''transient.connection''\<rparr>)
     else if er_op err then
       Some (zero_failure\<lparr>f_Class := ErrorClassTransient, f_Message := er_text err, f_Rule := ''transient.connection''\<rparr>)
     else None)"

definition Classify :: "send_error option \<Rightarrow> Failure" where
  "Classify err =
    (case err of None \<Rightarrow> zero_failure
     | Some err \<Rightarrow>
       (case classifyNetwork err of Some f \<Rightarrow> f
        | None \<Rightarrow>
          (case er_reply err of
             None \<Rightarrow> zero_failure\<lparr>f_Class := ErrorClassTransient, f_Message := er_text err,
                                  f_Rule := ''transient.unknown''\<rparr>
           | Some (code, msg) \<Rightarrow>
               (let f = zero_failure\<lparr>f_Code := code, f_Message := msg, f_Enhanced := enhancedOf msg\<rparr>
                in case find (\<lambda>r. rule_match r code (f_Enhanced f) (ToLower msg)) rules of
                     Some r \<Rightarrow> f\<lparr>f_Class := r_class r, f_Rule := r_name r\<rparr>
                   | None \<Rightarrow> f\<lparr>f_Class := ErrorClassTransient, f_Rule := ''transient.default''\<rparr>))))"

section \<open>Retry policy\<close>

record Decision =
  dc_Status :: DeliveryStatus
  dc_NextAttemptAt :: go_time
  dc_IncrementAttempt :: bool
  dc_RecordAttempt :: bool

record Policy =
  po_Retry :: RetryPolicy
  po_RateLimitCap :: duration
  po_AuthRetryAfter :: duration
  po_Jitter :: rat

definition DefaultPolicy :: "RetryPolicy \<Rightarrow> Policy" where
  "DefaultPolicy retry =
    \<lparr>po_Retry = retry, po_RateLimitCap = 5 * Minute, po_AuthRetryAfter = Minute, po_Jitter = 1 / 5\<rparr>"

definition backoff :: "Policy \<Rightarrow> int \<Rightarrow> duration" where
  "backoff p n =
    (let b = rp_Backoff (po_Retry p)
     in if length b = 0 then Minute
        else (let i = n - 1;
                  i = (if i < 0 then 0 else i);
                  i = (if i \<ge> int (length b) then int (length b) - 1 else i)
              in b ! nat i))"

text \<open>\<open>rnd\<close> is what \<^verbatim>\<open>Rand\<close> returns, in the half-open unit interval; the conversion of a float to a
  duration truncates towards zero.\<close>

definition trunc_rat :: "rat \<Rightarrow> int" where
  "trunc_rat x = (if x < 0 then - \<lfloor>- x\<rfloor> else \<lfloor>x\<rfloor>)"

definition jittered :: "Policy \<Rightarrow> rat \<Rightarrow> duration \<Rightarrow> duration" where
  "jittered p rnd d =
    (if po_Jitter p \<le> 0 \<or> d \<le> 0 then d
     else (let factor = 1 + po_Jitter p * (2 * rnd - 1);
               out = trunc_rat (rat_of_int d * factor)
           in if out < 0 then 0 else out))"

definition Decide :: "Policy \<Rightarrow> rat \<Rightarrow> ErrorClass \<Rightarrow> int \<Rightarrow> go_time \<Rightarrow> Decision" where
  "Decide p rnd class attemptCount nw =
    (case class of
       ErrorClassNone \<Rightarrow>
         \<lparr>dc_Status = DeliverySent, dc_NextAttemptAt = 0, dc_IncrementAttempt = False, dc_RecordAttempt = True\<rparr>
     | ErrorClassPermanent \<Rightarrow>
         \<lparr>dc_Status = DeliveryFailed, dc_NextAttemptAt = 0, dc_IncrementAttempt = False, dc_RecordAttempt = True\<rparr>
     | ErrorClassPolicy \<Rightarrow>
         \<lparr>dc_Status = DeliveryFailed, dc_NextAttemptAt = 0, dc_IncrementAttempt = False, dc_RecordAttempt = True\<rparr>
     | ErrorClassAuth \<Rightarrow>
         \<lparr>dc_Status = DeliveryQueued, dc_NextAttemptAt = nw + po_AuthRetryAfter p, dc_IncrementAttempt = False,
          dc_RecordAttempt = True\<rparr>
     | _ \<Rightarrow>
         (let consumed = attemptCount + 1;
              mx = rp_MaxAttempts (po_Retry p);
              mx = (if mx \<le> 0 then 1 else mx)
          in if consumed \<ge> mx then
               \<lparr>dc_Status = DeliveryFailed, dc_NextAttemptAt = 0, dc_IncrementAttempt = True, dc_RecordAttempt = True\<rparr>
             else
               (let d = backoff p consumed;
                    d = (if class = ErrorClassRateLimited \<and> po_RateLimitCap p > 0 \<and> d > po_RateLimitCap p
                         then po_RateLimitCap p else d)
                in \<lparr>dc_Status = DeliveryDeferred, dc_NextAttemptAt = nw + jittered p rnd d,
                    dc_IncrementAttempt = True, dc_RecordAttempt = True\<rparr>)))"

section \<open>Results\<close>

definition zero_result :: DeliveryResult where
  "zero_result = \<lparr>dr_DeliveryID = '''', dr_LeaseOwner = '''', dr_NewStatus = DeliveryPending, dr_NextAttemptAt = 0,
    dr_ErrorClass = ErrorClassNone, dr_SMTPCode = 0, dr_Error = '''', dr_MessageID = '''',
    dr_IncrementAttempt = False, dr_Attempt = None\<rparr>"

definition zero_attempt :: DeliveryAttempt where
  "zero_attempt = \<lparr>a_ID = '''', a_TenantID = '''', a_DeliveryID = '''', a_AttemptNo = 0, a_RetryGen = 0,
    a_TransportID = '''', a_StartedAt = 0, a_FinishedAt = 0, a_SMTPCode = 0, a_EnhancedCode = '''',
    a_ErrorClass = ErrorClassNone, a_Error = '''', a_CreatedAt = 0\<rparr>"

definition decide :: "string \<Rightarrow> Delivery \<Rightarrow> Policy \<Rightarrow> rat \<Rightarrow> Failure \<Rightarrow> go_time \<Rightarrow> string \<Rightarrow> DeliveryResult" where
  "decide worker d pol rnd f nw transportID =
    (let dec = Decide pol rnd (f_Class f) (d_AttemptCount d) nw;
         res = zero_result\<lparr>dr_DeliveryID := d_ID d, dr_LeaseOwner := worker, dr_NewStatus := dc_Status dec,
                 dr_NextAttemptAt := dc_NextAttemptAt dec, dr_ErrorClass := f_Class f, dr_SMTPCode := f_Code f,
                 dr_Error := f_Message f, dr_IncrementAttempt := dc_IncrementAttempt dec\<rparr>
     in if \<not> dc_RecordAttempt dec then res
        else (let no = (if dc_IncrementAttempt dec then d_AttemptCount d + 1 else d_AttemptCount d)
              in res\<lparr>dr_Attempt := Some (zero_attempt\<lparr>a_TenantID := d_TenantID d, a_DeliveryID := d_ID d,
                   a_AttemptNo := no, a_RetryGen := d_RetryGen d, a_TransportID := transportID,
                   a_StartedAt := nw, a_FinishedAt := nw, a_SMTPCode := f_Code f, a_EnhancedCode := f_Enhanced f,
                   a_ErrorClass := f_Class f, a_Error := f_Message f\<rparr>)\<rparr>))"

definition failResult :: "string \<Rightarrow> Delivery \<Rightarrow> ErrorClass \<Rightarrow> int \<Rightarrow> string \<Rightarrow> go_time \<Rightarrow> DeliveryResult" where
  "failResult worker d class code msg nw =
    zero_result\<lparr>dr_DeliveryID := d_ID d, dr_LeaseOwner := worker, dr_NewStatus := DeliveryFailed,
      dr_ErrorClass := class, dr_SMTPCode := code, dr_Error := msg,
      dr_Attempt := Some (zero_attempt\<lparr>a_TenantID := d_TenantID d, a_DeliveryID := d_ID d,
        a_AttemptNo := d_AttemptCount d, a_RetryGen := d_RetryGen d, a_StartedAt := nw, a_FinishedAt := nw,
        a_ErrorClass := class, a_Error := msg, a_SMTPCode := code\<rparr>)\<rparr>"

definition internalRetryAfter :: duration where "internalRetryAfter = 30 * Second"

definition internalDefer :: "string \<Rightarrow> Delivery \<Rightarrow> string \<Rightarrow> string \<Rightarrow> go_time \<Rightarrow> DeliveryResult" where
  "internalDefer worker d what err nw =
    zero_result\<lparr>dr_DeliveryID := d_ID d, dr_LeaseOwner := worker, dr_NewStatus := DeliveryQueued,
      dr_NextAttemptAt := nw + internalRetryAfter, dr_Error := what @ '': '' @ err\<rparr>"

text \<open>An error of a configuration lookup: whether it is \<^verbatim>\<open>ErrNotFound\<close>, and its text.\<close>

definition configResult :: "string \<Rightarrow> Delivery \<Rightarrow> string \<Rightarrow> bool \<times> string \<Rightarrow> go_time \<Rightarrow> DeliveryResult" where
  "configResult worker d what err nw =
    (if \<not> fst err then internalDefer worker d what (snd err) nw
     else failResult worker d ErrorClassPermanent 0 (what @ '' not found: '' @ snd err) nw)"

end
