(* ===== verification/Sender_Limiter.thy ===== *)
theory Sender_Limiter
  imports Sender_Policy
begin

text \<open>
  The token buckets of \<^verbatim>\<open>internal/sender/ratelimit.go\<close>.  The bucket map is the state, a pointer to
  a bucket is its name; the clock and the replica count are arguments.  \<^verbatim>\<open>float64\<close> is \<open>rat\<close>, so
  the arithmetic is exact; the conversion of a wait to nanoseconds truncates as in the code.
\<close>

record Key =
  k_Name :: string
  k_Rate :: rat

record bucket =
  bk_share :: rat
  bk_rate :: rat
  bk_tokens :: rat
  bk_last :: go_time
  bk_penalized :: bool
  bk_started :: bool

type_synonym buckets = "(string, bucket) gomap"

definition recoveryPerMinute :: rat where "recoveryPerMinute = 1 / 10"

definition minShareFraction :: rat where "minShareFraction = 1 / 64"

definition Seconds :: "duration \<Rightarrow> rat" where "Seconds d = rat_of_int d / rat_of_int Second"

definition burst :: "bucket \<Rightarrow> rat" where
  "burst b = (if bk_rate b < 1 then 1 else bk_rate b)"

definition setShare :: "rat \<Rightarrow> bucket \<Rightarrow> bucket" where
  "setShare share b =
    (let b = b\<lparr>bk_share := share\<rparr>
     in if \<not> bk_started b then
          (let b = b\<lparr>bk_rate := share, bk_started := True\<rparr> in b\<lparr>bk_tokens := burst b\<rparr>)
        else if \<not> bk_penalized b then b\<lparr>bk_rate := share\<rparr>
        else if bk_rate b \<ge> share then b\<lparr>bk_rate := share, bk_penalized := False\<rparr>
        else b)"

text \<open>\<^verbatim>\<open>advance\<close>: the recovery of a penalized rate, then the tokens earned.\<close>

definition recover_rate :: "rat \<Rightarrow> bucket \<Rightarrow> bucket" where
  "recover_rate elapsed b =
    (if bk_penalized b \<and> bk_rate b < bk_share b then
       (let r = bk_rate b * (1 + recoveryPerMinute * (elapsed / 60))
        in if r \<ge> bk_share b then b\<lparr>bk_rate := bk_share b, bk_penalized := False\<rparr> else b\<lparr>bk_rate := r\<rparr>)
     else b)"

definition earn_tokens :: "rat \<Rightarrow> bucket \<Rightarrow> bucket" where
  "earn_tokens elapsed b =
    (let t = bk_tokens b + bk_rate b * elapsed
     in b\<lparr>bk_tokens := (if t > burst b then burst b else t)\<rparr>)"

definition advance :: "go_time \<Rightarrow> bucket \<Rightarrow> bucket" where
  "advance nw b =
    (if nw < bk_last b then b
     else
       (let elapsed = Seconds (nw - bk_last b);
            b = b\<lparr>bk_last := nw\<rparr>
        in if elapsed \<le> 0 then b else earn_tokens elapsed (recover_rate elapsed b)))"

definition waitFor :: "bucket \<Rightarrow> duration" where
  "waitFor b =
    (if bk_tokens b \<ge> 1 \<or> bk_rate b \<le> 0 then 0
     else trunc_rat ((1 - bk_tokens b) / bk_rate b * rat_of_int Second))"

definition new_bucket :: "go_time \<Rightarrow> bucket" where
  "new_bucket nw = \<lparr>bk_share = 0, bk_rate = 0, bk_tokens = 0, bk_last = nw, bk_penalized = False, bk_started = False\<rparr>"

definition bucketLocked :: "string \<Rightarrow> go_time \<Rightarrow> buckets \<Rightarrow> buckets" where
  "bucketLocked name nw bs =
    (case map_of bs name of Some b \<Rightarrow> bs | None \<Rightarrow> AList.update name (new_bucket nw) bs)"

definition on_bucket :: "string \<Rightarrow> (bucket \<Rightarrow> bucket) \<Rightarrow> buckets \<Rightarrow> buckets" where
  "on_bucket name f bs = (case map_of bs name of Some b \<Rightarrow> AList.update name (f b) bs | None \<Rightarrow> bs)"

text \<open>The two loops of \<^verbatim>\<open>reserve\<close>: the wait so far and the active buckets; then one token from each.\<close>

fun reserve_scan :: "int \<Rightarrow> go_time \<Rightarrow> Key list \<Rightarrow> duration \<Rightarrow> string list \<Rightarrow> buckets \<Rightarrow> duration \<times> string list \<times> buckets" where
  "reserve_scan workers nw [] wait active bs = (wait, active, bs)"
| "reserve_scan workers nw (k # ks) wait active bs =
    (if k_Rate k \<le> 0 \<or> k_Name k = '''' then reserve_scan workers nw ks wait active bs
     else
       (let bs = bucketLocked (k_Name k) nw bs;
            b = advance nw (setShare (k_Rate k / rat_of_int workers) (the (map_of bs (k_Name k))));
            w = waitFor b
        in reserve_scan workers nw ks (if w > wait then w else wait) (active @ [k_Name k])
             (AList.update (k_Name k) b bs)))"

definition take_token :: "go_time \<Rightarrow> bucket \<Rightarrow> bucket" where
  "take_token tm b = (let b = advance tm b in b\<lparr>bk_tokens := bk_tokens b - 1\<rparr>)"

definition reserve :: "int \<Rightarrow> go_time \<Rightarrow> Key list \<Rightarrow> buckets \<Rightarrow> duration \<times> buckets" where
  "reserve n nw keys bs =
    (let workers = (if n > 1 then n else 1);
         (wait, active, bs) = reserve_scan workers nw keys 0 [] bs
     in (wait, fold (\<lambda>name. on_bucket name (take_token (nw + wait))) active bs))"

definition penalize :: "go_time \<Rightarrow> bucket \<Rightarrow> bucket" where
  "penalize nw b =
    (let b = advance nw b;
         floor = bk_share b * minShareFraction;
         b = b\<lparr>bk_rate := max (bk_rate b / 2) floor, bk_penalized := True\<rparr>
     in if bk_tokens b > 1 then b\<lparr>bk_tokens := 1\<rparr> else b)"

definition Penalize :: "go_time \<Rightarrow> string list \<Rightarrow> buckets \<Rightarrow> buckets" where
  "Penalize nw names bs = fold (\<lambda>n. on_bucket n (penalize nw)) names bs"

definition Limiter_Rate :: "go_time \<Rightarrow> string \<Rightarrow> buckets \<Rightarrow> rat \<times> buckets" where
  "Limiter_Rate nw name bs =
    (case map_of bs name of None \<Rightarrow> (0, bs)
     | Some b \<Rightarrow> (let b = advance nw b in (bk_rate b, AList.update name b bs)))"

text \<open>\<^verbatim>\<open>Wait\<close>: \<open>ctx_err\<close> is what the context reports when no sleep is needed, \<open>sleep\<close> the outcome
  of sleeping for the given time.\<close>

definition Wait :: "int \<Rightarrow> go_time \<Rightarrow> string option \<Rightarrow> (duration \<Rightarrow> string option) \<Rightarrow> Key list \<Rightarrow> buckets
    \<Rightarrow> (duration \<times> string option) \<times> buckets" where
  "Wait n nw ctx_err sleep keys bs =
    (let (d, bs) = reserve n nw keys bs
     in if d \<le> 0 then ((0, ctx_err), bs) else ((d, sleep d), bs))"

end
