(* ===== verification/Limiter_Thms.thy ===== *)
theory Limiter_Thms
  imports Sender_Limiter
begin

text \<open>
  What the token buckets promise.  The rate bound holds for reservations that do not overlap;
  the last theorem shows what overlapping ones get.
\<close>

section \<open>One bucket\<close>


lemma Seconds_0 [simp]: "Seconds 0 = 0" by (simp add: Seconds_def)


lemma Seconds_nonneg [simp]: "0 \<le> Seconds d \<longleftrightarrow> 0 \<le> d" "Seconds d \<le> 0 \<longleftrightarrow> d \<le> 0"
  by (simp_all add: Seconds_def field_simps)

lemma recover_rate_simps [simp]:
  "bk_share (recover_rate x b) = bk_share b" "bk_started (recover_rate x b) = bk_started b"
  "bk_last (recover_rate x b) = bk_last b" "bk_tokens (recover_rate x b) = bk_tokens b"
  by (simp_all add: recover_rate_def Let_def)

lemma earn_tokens_simps [simp]:
  "bk_share (earn_tokens x b) = bk_share b" "bk_started (earn_tokens x b) = bk_started b"
  "bk_last (earn_tokens x b) = bk_last b" "bk_rate (earn_tokens x b) = bk_rate b"
  "bk_penalized (earn_tokens x b) = bk_penalized b" "burst (earn_tokens x b) = burst b"
  "bk_tokens (earn_tokens x b) = min (burst b) (bk_tokens b + bk_rate b * x)"
  by (simp_all add: earn_tokens_def Let_def burst_def min_def)










section \<open>Reservations\<close>























section \<open>Overlapping reservations\<close>

text \<open>
  Several workers that reserve at the same instant: the waits they are given, in call order.
  \<open>dry p t\<close> is a bucket with one token per \<open>p\<close> nanoseconds that has run dry at \<open>t\<close>.
\<close>

fun reserve_all :: "go_time \<Rightarrow> Key list \<Rightarrow> nat \<Rightarrow> buckets \<Rightarrow> duration list" where
  "reserve_all nw ks 0 bs = []"
| "reserve_all nw ks (Suc m) bs = (let (w, bs') = reserve 1 nw ks bs in w # reserve_all nw ks m bs')"

definition per :: "int \<Rightarrow> rat" where "per p = rat_of_int Second / rat_of_int p"

definition debt :: "int \<Rightarrow> int \<Rightarrow> go_time \<Rightarrow> bucket" where
  "debt p j tm = \<lparr>bk_share = per p, bk_rate = per p, bk_tokens = - rat_of_int j, bk_last = tm,
    bk_penalized = False, bk_started = True\<rparr>"

abbreviation dry :: "int \<Rightarrow> go_time \<Rightarrow> bucket" where "dry p tm \<equiv> debt p 0 tm"

lemma trunc_rat_of_int [simp]: "trunc_rat (rat_of_int i) = i"
  by (simp add: trunc_rat_def flip: of_int_minus)

lemma debt_reserve:
  assumes "0 < p" "0 \<le> j" "nw \<le> tm" "name \<noteq> ''''"
  shows "reserve 1 nw [\<lparr>k_Name = name, k_Rate = per p\<rparr>] [(name, debt p j tm)] =
    ((1 + j) * p, [(name, take_token (nw + (1 + j) * p) (debt p j tm))])"
proof -
  have pos: "0 < per p" using assms(1) by (simp add: per_def)
  have w: "waitFor (debt p j tm) = (1 + j) * p"
  proof -
    have "(1 - bk_tokens (debt p j tm)) / bk_rate (debt p j tm) * rat_of_int Second = rat_of_int ((1 + j) * p)"
      using assms(1) by (simp add: debt_def per_def)
    then show ?thesis using assms(2) pos by (simp add: waitFor_def debt_def del: of_int_mult)
  qed
  have s: "setShare (per p) (debt p j tm) = debt p j tm" by (simp add: setShare_def debt_def)
  have a: "advance nw (debt p j tm) = debt p j tm" using assms(3) by (auto simp: advance_def debt_def)
  have "0 < (1 + j) * p" using assms(1,2) by simp
  then show ?thesis using pos assms(4) by (simp add: reserve_def bucketLocked_def s a w on_bucket_def Let_def del: of_int_mult)
qed

lemma take_debt:
  assumes "0 < p" "0 \<le> j"
  shows "take_token (tm + p) (debt p j tm) = debt p j (tm + p)" "take_token tm (debt p j tm) = debt p (j + 1) tm"
proof -
  have "per p * Seconds p = 1" "0 < Seconds p" using assms(1) by (simp_all add: per_def Seconds_def)
  then show "take_token (tm + p) (debt p j tm) = debt p j (tm + p)"
    using assms by (simp add: take_token_def advance_def debt_def earn_tokens_def recover_rate_def burst_def Let_def)
qed (simp add: take_token_def advance_def debt_def)

text \<open>
  C19.  Overlapping reservations are given too little: \<open>2 m\<close> workers that reserve at the same
  instant from a bucket that has run dry are told to wait one, one, two, two, \<open>...\<close> periods,
  so all \<open>2 m\<close> messages leave within \<open>m\<close> periods, at twice the configured rate.
\<close>

theorem limiter_overlap:
  assumes "0 < p" "name \<noteq> ''''"
  shows "reserve_all t [\<lparr>k_Name = name, k_Rate = per p\<rparr>] (2 * m) [(name, dry p t)] =
    concat (map (\<lambda>j. [(1 + int j) * p, (1 + int j) * p]) [0..<m])"
proof -
  have "reserve_all t [\<lparr>k_Name = name, k_Rate = per p\<rparr>] (2 * m) [(name, debt p (int i) (t + int i * p))] =
      concat (map (\<lambda>j. [(1 + int j) * p, (1 + int j) * p]) [i..<i + m])" for i
  proof (induction m arbitrary: i)
    case (Suc m)
    have 0: "0 \<le> int i" "t \<le> t + int i * p" "t \<le> t + int i * p + p" using assms(1) by simp_all
    have eq: "t + (1 + int i) * p = t + int i * p + p" "t + (int i + 1) * p = t + int i * p + p"
      by (simp_all add: algebra_simps)
    have "[i..<i + Suc m] = i # [Suc i..<Suc i + m]" by (simp add: upt_conv_Cons del: upt_Suc)
    moreover have "reserve_all t [\<lparr>k_Name = name, k_Rate = per p\<rparr>] (2 * Suc m) [(name, debt p (int i) (t + int i * p))] =
        (1 + int i) * p # (1 + int i) * p # reserve_all t [\<lparr>k_Name = name, k_Rate = per p\<rparr>] (2 * m) [(name, debt p (int (Suc i)) (t + int (Suc i) * p))]"
      using debt_reserve [OF assms(1) 0(1,2) assms(2)] debt_reserve [OF assms(1) 0(1,3) assms(2)]
        take_debt [OF assms(1) 0(1)] by (simp add: eq add.commute [of 1])
    ultimately show ?case using Suc.IH [of "Suc i"] by simp
  qed simp
  from this [of 0] show ?thesis by simp
qed

theorem limiter_overlap_witness:
  "reserve_all 0 [\<lparr>k_Name = ''t1/r'', k_Rate = per Second\<rparr>] 4 [(''t1/r'', dry Second 0)] =
    [Second, Second, 2 * Second, 2 * Second] \<and>
   snd (reserve 1 0 [\<lparr>k_Name = ''t1/r'', k_Rate = per Second\<rparr>] []) = [(''t1/r'', dry Second 0)]"
proof -
  have "snd (reserve 1 0 [\<lparr>k_Name = ''t1/r'', k_Rate = per Second\<rparr>] []) = [(''t1/r'', dry Second 0)]" by code_simp
  then show ?thesis using limiter_overlap [of Second "''t1/r''" 0 2] by (simp add: upt_rec)
qed

end
