(* ===== verification/Go_Encoding.thy ===== *)
theory Go_Encoding
  imports Go_Strings
begin

text \<open>
  The encodings of the Go standard library the tokens use: the variable-length integers of
  \<^verbatim>\<open>encoding/binary\<close> and \<^verbatim>\<open>base64.RawURLEncoding\<close>, with their round trips.  A decoder returns
  the value and the rest of its input, so that decoders compose like the encoders.
\<close>

section \<open>Variable-length integers\<close>

function AppendUvarint :: "nat \<Rightarrow> string" where
  "AppendUvarint n =
    (if n < 128 then [char_of n] else char_of (n mod 128 + 128) # AppendUvarint (n div 128))"
  by pat_completeness auto
termination by (relation "measure id") auto

declare AppendUvarint.simps [simp del]

text \<open>
  \<^verbatim>\<open>binary.Uvarint\<close>: \<open>i\<close> bytes read so far, with value \<open>x\<close>.  At most ten bytes are read and the
  tenth must not exceed one.  The bits or-ed in are disjoint, so the sum is the disjunction.
\<close>

fun uvarint_at :: "nat \<Rightarrow> nat \<Rightarrow> string \<Rightarrow> (nat \<times> string) option" where
  "uvarint_at i x [] = None"
| "uvarint_at i x (b # bs) =
    (if i = 10 then None
     else if byte b < 0x80 then
       (if i = 9 \<and> byte b > 1 then None else Some (x + byte b * 2 ^ (7 * i), bs))
     else uvarint_at (i + 1) (x + (byte b - 0x80) * 2 ^ (7 * i)) bs)"

definition Uvarint :: "string \<Rightarrow> (nat \<times> string) option" where
  "Uvarint bs = uvarint_at 0 0 bs"

definition zigzag :: "int \<Rightarrow> nat" where
  "zigzag x = (if x < 0 then nat (- 2 * x - 1) else nat (2 * x))"

definition AppendVarint :: "int \<Rightarrow> string" where
  "AppendVarint x = AppendUvarint (zigzag x)"

definition Varint :: "string \<Rightarrow> (int \<times> string) option" where
  "Varint bs =
    (case Uvarint bs of None \<Rightarrow> None
     | Some (ux, rest) \<Rightarrow> Some (if odd ux then - int (ux div 2) - 1 else int (ux div 2), rest))"

lemma byte_char_of [simp]: "byte (char_of n) = n mod 256"
  by (simp add: byte_def)

lemma uvarint_at_Append:
  assumes "n < 2 ^ (64 - 7 * i)" "i \<le> 9"
  shows "uvarint_at i x (AppendUvarint n @ rest) = Some (x + n * 2 ^ (7 * i), rest)"
  using assms
proof (induction n arbitrary: i x rule: AppendUvarint.induct)
  case (1 n)
  show ?case
  proof (cases "n < 128")
    case True
    have "n \<le> 1" if "i = 9" using 1(2) that by simp
    then show ?thesis using True 1(3) by (auto simp: AppendUvarint.simps [of n])
  next
    case False
    have i: "i < 9"
    proof (rule ccontr)
      assume "\<not> i < 9"
      then have "i = 9" using 1(3) by simp
      then show False using 1(2) False by simp
    qed
    have "64 - 7 * i = 7 + (64 - 7 * (i + 1))" using i by simp
    then have p: "2 ^ (64 - 7 * i) = (128 :: nat) * 2 ^ (64 - 7 * (i + 1))" by (simp only: power_add) simp
    have "n div 128 < 2 ^ (64 - 7 * (i + 1))"
      using 1(2) unfolding p by (simp add: less_mult_imp_div_less mult.commute)
    from 1(1) [OF False this] i
    have "uvarint_at (i + 1) (x + n mod 128 * 2 ^ (7 * i)) (AppendUvarint (n div 128) @ rest) =
        Some (x + n mod 128 * 2 ^ (7 * i) + n div 128 * 2 ^ (7 * (i + 1)), rest)" by simp
    moreover have "n mod 128 * 2 ^ (7 * i) + n div 128 * 2 ^ (7 * (i + 1)) = n * 2 ^ (7 * i)"
    proof -
      have "(2 :: nat) ^ (7 * (i + 1)) = 128 * 2 ^ (7 * i)" by (simp add: power_add)
      then have "n mod 128 * 2 ^ (7 * i) + n div 128 * 2 ^ (7 * (i + 1)) = (n mod 128 + n div 128 * 128) * 2 ^ (7 * i)"
        by (simp only: distrib_right mult.assoc)
      then show ?thesis by simp
    qed
    moreover have "(n mod 128 + 128) mod 256 = n mod 128 + 128" by simp
    ultimately show ?thesis using False i by (simp add: AppendUvarint.simps [of n])
  qed
qed

lemma Uvarint_Append: "n < 2 ^ 64 \<Longrightarrow> Uvarint (AppendUvarint n @ rest) = Some (n, rest)"
  using uvarint_at_Append [of n 0 0 rest] by (simp add: Uvarint_def)

definition int64 :: "int \<Rightarrow> bool" where "int64 x \<longleftrightarrow> - (2 ^ 63) \<le> x \<and> x < 2 ^ 63"

lemma Varint_Append:
  assumes "int64 x"
  shows "Varint (AppendVarint x @ rest) = Some (x, rest)"
proof -
  have "zigzag x < 2 ^ 64" using assms by (auto simp: zigzag_def int64_def)
  moreover have "odd (zigzag x) \<longleftrightarrow> x < 0" by (auto simp: zigzag_def even_nat_iff)
  moreover have "x < 0 \<Longrightarrow> int (zigzag x div 2) = - x - 1" "0 \<le> x \<Longrightarrow> int (zigzag x div 2) = x"
    by (simp_all add: zigzag_def zdiv_int)
  ultimately show ?thesis by (auto simp: Varint_def AppendVarint_def Uvarint_Append)
qed

section \<open>base64\<close>

definition b64_alphabet :: string where
  "b64_alphabet = ''ABCDEFGHIJKLMNOPQRSTUVWXYZabcdefghijklmnopqrstuvwxyz0123456789-_''"

definition b64_char :: "nat \<Rightarrow> char" where "b64_char n = b64_alphabet ! n"

definition b64_val :: "char \<Rightarrow> nat option" where
  "b64_val c = find (\<lambda>i. b64_char i = c) [0..<64]"

definition b64_group :: "nat \<Rightarrow> nat \<Rightarrow> nat \<Rightarrow> nat" where "b64_group a b c = a * 2 ^ 16 + b * 2 ^ 8 + c"

definition b64_sextets :: "nat \<Rightarrow> nat list" where
  "b64_sextets v = [v div 2 ^ 18 mod 64, v div 2 ^ 12 mod 64, v div 2 ^ 6 mod 64, v mod 64]"

fun b64_encode :: "string \<Rightarrow> string" where
  "b64_encode [] = []"
| "b64_encode [a] = map b64_char (take 2 (b64_sextets (b64_group (byte a) 0 0)))"
| "b64_encode [a, b] = map b64_char (take 3 (b64_sextets (b64_group (byte a) (byte b) 0)))"
| "b64_encode (a # b # c # bs) = map b64_char (b64_sextets (b64_group (byte a) (byte b) (byte c))) @ b64_encode bs"

text \<open>
  \<^verbatim>\<open>DecodeString\<close> skips carriage returns and line feeds; without padding a last group of two or
  three characters gives one or two bytes, its unused bits are not checked.
\<close>

definition b64_join :: "nat \<Rightarrow> nat \<Rightarrow> nat \<Rightarrow> nat \<Rightarrow> nat" where
  "b64_join a b c d = a * 2 ^ 18 + b * 2 ^ 12 + c * 2 ^ 6 + d"

definition b64_bytes :: "nat \<Rightarrow> string" where
  "b64_bytes v = [char_of (v div 2 ^ 16), char_of (v div 2 ^ 8), char_of v]"

fun b64_quanta :: "nat list \<Rightarrow> string option" where
  "b64_quanta [] = Some []"
| "b64_quanta [a] = None"
| "b64_quanta [a, b] = Some (take 1 (b64_bytes (b64_join a b 0 0)))"
| "b64_quanta [a, b, c] = Some (take 2 (b64_bytes (b64_join a b c 0)))"
| "b64_quanta (a # b # c # d # vs) = map_option (\<lambda>r. b64_bytes (b64_join a b c d) @ r) (b64_quanta vs)"

definition b64_decode :: "string \<Rightarrow> string option" where
  "b64_decode s =
    (let vs = map b64_val (filter (\<lambda>c. c \<noteq> CHR 0x0A \<and> c \<noteq> CHR 0x0D) s)
     in if None \<in> set vs then None else b64_quanta (map the vs))"

lemma b64_all: "list_all (\<lambda>i. b64_val (b64_char i) = Some i \<and> b64_char i \<notin> {CHR 0x0A, CHR 0x0D, CHR ''.''}) [0..<64]"
  by code_simp

lemma b64_char_val [simp]:
  assumes "i < 64"
  shows "b64_val (b64_char i) = Some i" "b64_char i \<noteq> CHR 0x0A" "b64_char i \<noteq> CHR 0x0D" "b64_char i \<noteq> CHR ''.''"
  using b64_all assms by (simp_all add: list_all_iff)

lemma byte_less [simp]: "byte c < 256" "char_of (byte c) = c"
  by (simp_all add: byte_def)

text \<open>The four sextets of a 24 bit number give it back, and so do its three bytes.\<close>

lemma sextets_of_join:
  assumes "v < 2 ^ 24"
  shows "\<exists>a b c d. b64_sextets v = [a, b, c, d] \<and> b64_join a b c d = v \<and> a < 64 \<and> b < 64 \<and> c < 64 \<and> d < 64 \<and>
    d = v mod 64 \<and> c = v div 64 mod 64"
proof -
  define x y z where "x = v div 64" "y = x div 64" "z = y div 64"
  have d: "v div 4096 = y" "v div 262144 = z" by (simp_all add: x_y_z_def div_mult2_eq [symmetric])
  have "z < 64" using assms by (simp add: x_y_z_def div_mult2_eq [symmetric])
  moreover have "v = x * 64 + v mod 64" "x = y * 64 + x mod 64" "y = z * 64 + y mod 64" by (simp_all add: x_y_z_def)
  ultimately have "b64_join (z mod 64) (y mod 64) (x mod 64) (v mod 64) = v" by (simp add: b64_join_def)
  then show ?thesis by (simp add: b64_sextets_def d x_y_z_def(1) [symmetric])
qed

lemma group_less: "a < 256 \<Longrightarrow> b < 256 \<Longrightarrow> c < 256 \<Longrightarrow> b64_group a b c < 2 ^ 24"
  by (simp add: b64_group_def)

lemma bytes_of_group: "b64_bytes (b64_group (byte a) (byte b) (byte c)) = [a, b, c]"
proof -
  define x y z where "x = byte a" "y = byte b" "z = byte c"
  have l: "x < 256" "y < 256" "z < 256" by (simp_all add: x_y_z_def)
  have "(x * 65536 + y * 256 + z) div 65536 = x" "(x * 65536 + y * 256 + z) div 256 = x * 256 + y" using l by simp_all
  moreover have "(x * 256 + y) mod 256 = y" using l by simp
  moreover have "(x * 65536 + y * 256 + z) mod 256 = z"
    using l mod_mult_self1 [of z "x * 256 + y" 256] by (simp add: algebra_simps)
  moreover have "char_of n = c \<longleftrightarrow> n mod 256 = byte c" for n c by (metis byte_char_of byte_less(2) char_of_mod_256)
  ultimately show ?thesis using l by (simp add: b64_bytes_def b64_group_def x_y_z_def)
qed

lemma group_low: "b64_group a 0 0 mod 64 = 0" "b64_group a 0 0 div 64 mod 64 = 0" "b64_group a b 0 mod 64 = 0"
  unfolding b64_group_def by simp_all

lemma byte_zero: "byte CHR 0x00 = 0"
  by (simp add: byte_def)

lemma b64_encode_vals:
  "\<exists>vs. b64_encode bs = map b64_char vs \<and> (\<forall>v \<in> set vs. v < 64) \<and> b64_quanta vs = Some bs"
proof (induction bs rule: b64_encode.induct)
  case (2 x)
  obtain a b c d where s: "b64_sextets (b64_group (byte x) 0 0) = [a, b, c, d]" "b64_join a b c d = b64_group (byte x) 0 0"
    "a < 64" "b < 64" "d = 0" "c = 0"
    using sextets_of_join [OF group_less [of "byte x" 0 0]] group_low by auto
  then show ?case using bytes_of_group [of x "CHR 0x00" "CHR 0x00"] by (intro exI [of _ "[a, b]"]) (simp add: byte_zero)
next
  case (3 x y)
  obtain a b c d where s: "b64_sextets (b64_group (byte x) (byte y) 0) = [a, b, c, d]" "b64_join a b c d = b64_group (byte x) (byte y) 0"
    "a < 64" "b < 64" "c < 64" "d = 0"
    using sextets_of_join [OF group_less [of "byte x" "byte y" 0]] group_low by auto
  then show ?case using bytes_of_group [of x y "CHR 0x00"] by (intro exI [of _ "[a, b, c]"]) (simp add: byte_zero)
next
  case (4 x y z bs)
  obtain a b c d where s: "b64_sextets (b64_group (byte x) (byte y) (byte z)) = [a, b, c, d]"
    "b64_join a b c d = b64_group (byte x) (byte y) (byte z)" "a < 64" "b < 64" "c < 64" "d < 64"
    using sextets_of_join [OF group_less [of "byte x" "byte y" "byte z"]] by auto
  from 4 obtain vs where "b64_encode bs = map b64_char vs" "\<forall>v \<in> set vs. v < 64" "b64_quanta vs = Some bs" by blast
  then show ?case using bytes_of_group [of x y z] s by (intro exI [of _ "[a, b, c, d] @ vs"]) simp
qed simp

lemma b64_decode_encode [simp]: "b64_decode (b64_encode bs) = Some bs"
proof -
  obtain vs where vs: "b64_encode bs = map b64_char vs" "\<forall>v \<in> set vs. v < 64" "b64_quanta vs = Some bs"
    using b64_encode_vals by blast
  have f: "filter (\<lambda>c. c \<noteq> CHR 0x0A \<and> c \<noteq> CHR 0x0D) (map b64_char vs) = map b64_char vs"
    using vs(2) by (induction vs) auto
  have m: "map b64_val (map b64_char vs) = map Some vs" using vs(2) by (induction vs) auto
  show ?thesis unfolding b64_decode_def vs(1) f m Let_def using vs(3) by (simp add: comp_def image_iff)
qed

lemma b64_encode_no_dot: "CHR ''.'' \<notin> set (b64_encode bs)"
proof -
  obtain vs where "b64_encode bs = map b64_char vs" "\<forall>v \<in> set vs. v < 64" using b64_encode_vals by blast
  then show ?thesis by (auto dest: b64_char_val(4) [symmetric])
qed

lemma b64_encode_Nil [simp]: "b64_encode bs = [] \<longleftrightarrow> bs = []"
  by (cases bs rule: b64_encode.cases) (simp_all add: b64_sextets_def)

end
