(* ===== verification/Go_Crypto.thy ===== *)
theory Go_Crypto
  imports Go_Strings "HOL-Library.Word"
begin

text \<open>
  The part of the Go standard library the signing code calls: \<^verbatim>\<open>crypto/sha256\<close>,
  \<^verbatim>\<open>crypto/hmac\<close> and \<^verbatim>\<open>encoding/hex\<close>, over byte strings.
\<close>

unbundle bit_operations_syntax

section \<open>SHA-256\<close>

definition sha_K :: "32 word list" where
  "sha_K = [
     1116352408, 1899447441, 3049323471, 3921009573, 961987163, 1508970993,
     2453635748, 2870763221, 3624381080, 310598401, 607225278, 1426881987,
     1925078388, 2162078206, 2614888103, 3248222580, 3835390401, 4022224774,
     264347078, 604807628, 770255983, 1249150122, 1555081692, 1996064986,
     2554220882, 2821834349, 2952996808, 3210313671, 3336571891, 3584528711,
     113926993, 338241895, 666307205, 773529912, 1294757372, 1396182291,
     1695183700, 1986661051, 2177026350, 2456956037, 2730485921, 2820302411,
     3259730800, 3345764771, 3516065817, 3600352804, 4094571909, 275423344,
     430227734, 506948616, 659060556, 883997877, 958139571, 1322822218,
     1537002063, 1747873779, 1955562222, 2024104815, 2227730452, 2361852424,
     2428436474, 2756734187, 3204031479, 3329325298]"

definition sha_H :: "32 word list" where
  "sha_H = [1779033703, 3144134277, 1013904242, 2773480762, 1359893119, 2600822924, 528734635, 1541459225]"

definition word_of_bytes :: "string \<Rightarrow> 32 word" where
  "word_of_bytes bs = of_nat (foldl (\<lambda>a b. a * 256 + byte b) 0 bs)"

definition bytes_of_word :: "32 word \<Rightarrow> string" where
  "bytes_of_word w = (let n = unat w in map char_of [n div 0x1000000, n div 0x10000, n div 0x100, n])"

fun chunks :: "nat \<Rightarrow> nat \<Rightarrow> 'a list \<Rightarrow> 'a list list" where
  "chunks 0 n xs = []"
| "chunks (Suc k) n xs = take n xs # chunks k n (drop n xs)"

text \<open>One more word of the message schedule, the list kept newest first.\<close>

definition sched_step :: "32 word list \<Rightarrow> 32 word list" where
  "sched_step ws =
    (let w2 = ws ! 1; w7 = ws ! 6; w15 = ws ! 14; w16 = ws ! 15;
         s0 = word_rotr 7 w15 XOR word_rotr 18 w15 XOR drop_bit 3 w15;
         s1 = word_rotr 17 w2 XOR word_rotr 19 w2 XOR drop_bit 10 w2
     in (w16 + s0 + w7 + s1) # ws)"

definition schedule :: "string \<Rightarrow> 32 word list" where
  "schedule block = rev ((sched_step ^^ 48) (rev (map word_of_bytes (chunks 16 4 block))))"

definition sha_round :: "32 word \<times> 32 word \<Rightarrow> 32 word list \<Rightarrow> 32 word list" where
  "sha_round kw st =
    (case st of [a, b, c, d, e, f, g, h] \<Rightarrow>
       (let S1 = word_rotr 6 e XOR word_rotr 11 e XOR word_rotr 25 e;
            ch = (e AND f) XOR (NOT e AND g);
            t1 = h + S1 + ch + fst kw + snd kw;
            S0 = word_rotr 2 a XOR word_rotr 13 a XOR word_rotr 22 a;
            maj = (a AND b) XOR (a AND c) XOR (b AND c);
            t2 = S0 + maj
        in [t1 + t2, a, b, c, d + t1, e, f, g])
     | _ \<Rightarrow> st)"

definition sha_block :: "string \<Rightarrow> 32 word list \<Rightarrow> 32 word list" where
  "sha_block block hs = map2 (+) hs (fold sha_round (zip sha_K (schedule block)) hs)"

definition sha_pad :: "string \<Rightarrow> string" where
  "sha_pad m =
    (let l = length m; z = (119 - l mod 64) mod 64; bits = 8 * l
     in m @ char_of (0x80 :: nat) # replicate z (char_of (0 :: nat)) @
        map (\<lambda>i. char_of (bits div 256 ^ i)) [7, 6, 5, 4, 3, 2, 1, 0])"

definition Sum256 :: "string \<Rightarrow> string" where
  "Sum256 m =
    (let p = sha_pad m
     in concat (map bytes_of_word (fold sha_block (chunks (length p div 64) 64 p) sha_H)))"

section \<open>HMAC and hex\<close>

definition xor_byte :: "nat \<Rightarrow> char \<Rightarrow> char" where
  "xor_byte k c = char_of (byte c XOR k)"

definition hmac_sha256 :: "string \<Rightarrow> string \<Rightarrow> string" where
  "hmac_sha256 secret m =
    (let key = (if length secret > 64 then Sum256 secret else secret);
         key = key @ replicate (64 - length key) (char_of (0 :: nat))
     in Sum256 (map (xor_byte 0x5c) key @ Sum256 (map (xor_byte 0x36) key @ m)))"

definition hex_digit :: "nat \<Rightarrow> char" where
  "hex_digit n = ''0123456789abcdef'' ! n"

definition hex_EncodeToString :: "string \<Rightarrow> string" where
  "hex_EncodeToString bs = concat (map (\<lambda>b. [hex_digit (byte b div 16), hex_digit (byte b mod 16)]) bs)"

lemma sha_round_length [simp]: "length st = 8 \<Longrightarrow> length (sha_round kw st) = 8"
  by (auto simp: sha_round_def Let_def length_Suc_conv numeral_eq_Suc)

lemma sha_rounds_length: "length st = 8 \<Longrightarrow> length (fold sha_round kws st) = 8"
  by (induction kws arbitrary: st) simp_all

lemma sha_blocks_length: "length st = 8 \<Longrightarrow> length (fold sha_block bls st) = 8"
  by (induction bls arbitrary: st) (simp_all add: sha_block_def sha_rounds_length)

lemma Sum256_length [simp]: "length (Sum256 m) = 32"
proof -
  have "length (concat (map bytes_of_word ws)) = 4 * length ws" for ws
    by (induction ws) (simp_all add: bytes_of_word_def Let_def)
  then show ?thesis by (simp add: Sum256_def Let_def sha_blocks_length sha_H_def)
qed

lemma hmac_length [simp]: "length (hmac_sha256 secret m) = 32"
  by (simp add: hmac_sha256_def Let_def)

lemma hex_length [simp]: "length (hex_EncodeToString bs) = 2 * length bs"
  by (induction bs) (simp_all add: hex_EncodeToString_def)

end
