(* ===== verification/Tracking_Token.thy ===== *)
theory Tracking_Token
  imports Store_Types Go_Encoding Go_Crypto
begin

text \<open>
  The signed links of \<^verbatim>\<open>internal/tracking\<close>: the token codec, signing and verification, the
  route URLs of \<^verbatim>\<open>tracking.go\<close>, and the bounce addresses of \<^verbatim>\<open>verp.go\<close>.  Errors are the sentinel
  values the callers distinguish; their texts are left out.
\<close>

section \<open>Tokens\<close>

datatype tok_err = ErrMalformedToken | ErrUnknownKID | ErrBadSignature | ErrNoKey

type_synonym Kind = nat

abbreviation KindOpen :: Kind where "KindOpen \<equiv> 1"
abbreviation KindClick :: Kind where "KindClick \<equiv> 2"
abbreviation KindUnsubscribe :: Kind where "KindUnsubscribe \<equiv> 3"

definition kind_Valid :: "Kind \<Rightarrow> bool" where "kind_Valid k \<longleftrightarrow> k \<in> {KindOpen, KindClick, KindUnsubscribe}"

definition embedsDest :: "Kind \<Rightarrow> bool" where "embedsDest k \<longleftrightarrow> k = KindUnsubscribe"

record TokenPayload =
  pl_TenantID :: string
  pl_DeliveryID :: string
  pl_Kind :: Kind
  pl_LinkNo :: int
  pl_Dest :: string

definition macSize :: nat where "macSize = 16"

definition macContext :: string where "macContext = ''sendplane/tracking/v1'' @ [CHR 0x00]"

definition maxTokenFieldLen :: nat where "maxTokenFieldLen = 2 ^ 20"

definition appendString :: "string \<Rightarrow> string" where
  "appendString s = AppendUvarint (length s) @ s"

definition takeString :: "string \<Rightarrow> (string \<times> string) option" where
  "takeString b =
    (case Uvarint b of None \<Rightarrow> None
     | Some (n, rest) \<Rightarrow>
         if n > maxTokenFieldLen then None
         else if n > length rest then None
         else Some (take n rest, drop n rest))"

definition encodeBody :: "TokenPayload \<Rightarrow> string" where
  "encodeBody p =
    appendString (pl_TenantID p) @ appendString (pl_DeliveryID p) @ [char_of (pl_Kind p)] @
    AppendVarint (pl_LinkNo p) @ (if embedsDest (pl_Kind p) then appendString (pl_Dest p) else [])"

definition decodeBody :: "string \<Rightarrow> TokenPayload option" where
  "decodeBody body =
    (case takeString body of None \<Rightarrow> None
     | Some (tenant, rest) \<Rightarrow>
    (case takeString rest of None \<Rightarrow> None
     | Some (i, rest) \<Rightarrow>
    (case rest of [] \<Rightarrow> None
     | k # rest \<Rightarrow>
    (case Varint rest of None \<Rightarrow> None
     | Some (n, rest) \<Rightarrow>
       (let p = \<lparr>pl_TenantID = tenant, pl_DeliveryID = i, pl_Kind = byte k, pl_LinkNo = n, pl_Dest = ''''\<rparr>
        in if \<not> kind_Valid (pl_Kind p) then None
           else if embedsDest (pl_Kind p) then
             (case takeString rest of None \<Rightarrow> None
              | Some (dest, rest) \<Rightarrow> if rest \<noteq> [] then None else Some (p\<lparr>pl_Dest := dest\<rparr>))
           else if rest \<noteq> [] then None else Some p)))))"

text \<open>What the MAC covers behind the domain separator.\<close>

definition macInput :: "TokenPayload \<Rightarrow> string" where
  "macInput p =
    appendString (pl_TenantID p) @ appendString (pl_DeliveryID p) @ [char_of (pl_Kind p)] @
    AppendVarint (pl_LinkNo p) @ appendString (pl_Dest p)"

definition computeMAC :: "string \<Rightarrow> TokenPayload \<Rightarrow> string" where
  "computeMAC secret p = take macSize (hmac_sha256 secret (macContext @ macInput p))"

definition signToken :: "string \<Rightarrow> string \<Rightarrow> TokenPayload \<Rightarrow> tok_err + string" where
  "signToken kid secret p =
    (if kid = '''' \<or> CHR ''.'' \<in> set kid then Inl ErrNoKey
     else if length secret = 0 then Inl ErrNoKey
     else if \<not> kind_Valid (pl_Kind p) then Inl ErrNoKey
     else if pl_DeliveryID p = '''' then Inl ErrNoKey
     else if pl_TenantID p = '''' then Inl ErrNoKey
     else Inr (kid @ ''.'' @ b64_encode (encodeBody p @ computeMAC secret p)))"

definition Sign :: "string \<Rightarrow> string \<Rightarrow> TokenPayload \<Rightarrow> string" where
  "Sign kid secret p = (case signToken kid secret p of Inl _ \<Rightarrow> '''' | Inr tok \<Rightarrow> tok)"

definition keyByID :: "SigningKey list \<Rightarrow> string \<Rightarrow> SigningKey option" where
  "keyByID keys kid = find (\<lambda>k. sk_KID k = kid \<and> length (sk_Secret k) > 0) keys"

text \<open>The common front of \<^verbatim>\<open>VerifyDest\<close> and \<^verbatim>\<open>TenantOf\<close>: body and MAC of the second half of a token.\<close>

definition split_raw :: "string \<Rightarrow> (string \<times> string) option" where
  "split_raw rest =
    (case b64_decode rest of None \<Rightarrow> None
     | Some raw \<Rightarrow> if length raw \<le> macSize then None
                  else Some (take (length raw - macSize) raw, drop (length raw - macSize) raw))"

definition VerifyDest :: "SigningKey list \<Rightarrow> string \<Rightarrow> string \<Rightarrow> tok_err + TokenPayload" where
  "VerifyDest keys token dest =
    (case split_first CHR ''.'' token of None \<Rightarrow> Inl ErrMalformedToken
     | Some (kid, rest) \<Rightarrow>
       if kid = '''' \<or> rest = '''' then Inl ErrMalformedToken
       else case split_raw rest of None \<Rightarrow> Inl ErrMalformedToken
       | Some (body, mac) \<Rightarrow>
         (case decodeBody body of None \<Rightarrow> Inl ErrMalformedToken
          | Some p \<Rightarrow>
            if embedsDest (pl_Kind p) \<and> dest \<noteq> '''' \<and> dest \<noteq> pl_Dest p then Inl ErrBadSignature
            else
              (let p = (if embedsDest (pl_Kind p) then p else p\<lparr>pl_Dest := dest\<rparr>)
               in case keyByID keys kid of None \<Rightarrow> Inl ErrUnknownKID
                  | Some key \<Rightarrow> if mac \<noteq> computeMAC (sk_Secret key) p then Inl ErrBadSignature else Inr p)))"

definition Verify :: "SigningKey list \<Rightarrow> string \<Rightarrow> tok_err + TokenPayload" where
  "Verify keys token = VerifyDest keys token ''''"

definition TenantOf :: "string \<Rightarrow> tok_err + string" where
  "TenantOf token =
    (case split_first CHR ''.'' token of None \<Rightarrow> Inl ErrMalformedToken
     | Some (kid, rest) \<Rightarrow>
       if rest = '''' then Inl ErrMalformedToken
       else case split_raw rest of None \<Rightarrow> Inl ErrMalformedToken
       | Some (body, mac) \<Rightarrow>
         (case decodeBody body of None \<Rightarrow> Inl ErrMalformedToken
          | Some p \<Rightarrow> if pl_TenantID p = '''' then Inl ErrMalformedToken else Inr (pl_TenantID p)))"

definition key_usable :: "SigningKey \<Rightarrow> bool" where
  "key_usable k \<longleftrightarrow> sk_KID k \<noteq> '''' \<and> length (sk_Secret k) \<noteq> 0"

definition key_newer :: "SigningKey \<Rightarrow> SigningKey \<Rightarrow> bool" where
  "key_newer best k \<longleftrightarrow> sk_CreatedAt k > sk_CreatedAt best \<or> sk_CreatedAt k = sk_CreatedAt best \<and> sk_KID k > sk_KID best"

definition SelectKey :: "SigningKey list \<Rightarrow> SigningKey option" where
  "SelectKey keys =
    foldl (\<lambda>best k. if \<not> key_usable k then best
             else case best of None \<Rightarrow> Some k | Some b \<Rightarrow> if key_newer b k then Some k else best) None keys"

section \<open>URLs\<close>

definition unreserved :: "char \<Rightarrow> bool" where
  "unreserved c \<longleftrightarrow> is_digit c \<or> is_upper c \<or> is_lower c \<or> c \<in> {CHR ''-'', CHR ''_'', CHR ''.'', CHR ''~''}"

definition upper_hex :: "nat \<Rightarrow> char" where "upper_hex n = ''0123456789ABCDEF'' ! n"

definition percent :: "char \<Rightarrow> string" where
  "percent c = [CHR ''%'', upper_hex (byte c div 16), upper_hex (byte c mod 16)]"

definition QueryEscape :: "string \<Rightarrow> string" where
  "QueryEscape s = concat (map (\<lambda>c. if c = CHR '' '' then ''+'' else if unreserved c then [c] else percent c) s)"

definition PathEscape :: "string \<Rightarrow> string" where
  "PathEscape s = concat (map (\<lambda>c. if unreserved c \<or> c \<in> set ''$&+:=@'' then [c] else percent c) s)"

definition base :: "string \<Rightarrow> string" where
  "base domain =
    (let d = TrimSpace domain
     in if d = '''' then ''''
        else (let d = (if \<not> Contains d ''://'' then ''https://'' @ d else d)
              in rev (dropWhile (\<lambda>c. c = CHR ''/'') (rev d))))"

definition OpenURL :: "string \<Rightarrow> string \<Rightarrow> string" where
  "OpenURL domain token = (let b = base domain in if b = '''' \<or> token = '''' then '''' else b @ ''/t/o/'' @ PathEscape token)"

definition ClickURL :: "string \<Rightarrow> string \<Rightarrow> string \<Rightarrow> string" where
  "ClickURL domain token dest =
    (let b = base domain
     in if b = '''' \<or> token = '''' then '''' else b @ ''/t/c/'' @ PathEscape token @ ''?u='' @ QueryEscape dest)"

definition UnsubscribeURL :: "string \<Rightarrow> string \<Rightarrow> string" where
  "UnsubscribeURL domain token = (let b = base domain in if b = '''' \<or> token = '''' then '''' else b @ ''/t/u/'' @ PathEscape token)"

section \<open>Bounce addresses\<close>

definition VERPPrefix :: string where "VERPPrefix = ''bounce+''"

definition verpContext :: string where "verpContext = ''sendplane/verp/v1'' @ [CHR 0x00]"

definition verpMAC :: "string \<Rightarrow> string \<Rightarrow> string" where
  "verpMAC secret deliveryID = take 8 (hex_EncodeToString (hmac_sha256 secret (verpContext @ deliveryID)))"

definition VERPAddress :: "string \<Rightarrow> string \<Rightarrow> string \<Rightarrow> string" where
  "VERPAddress bounceDomain deliveryID secret =
    (if bounceDomain = '''' \<or> deliveryID = '''' \<or> length secret = 0 then ''''
     else VERPPrefix @ deliveryID @ ''.'' @ verpMAC secret deliveryID @ ''@'' @ bounceDomain)"

definition ParseVERP :: "string \<Rightarrow> SigningKey list \<Rightarrow> string \<times> bool" where
  "ParseVERP addr keys =
    (let local = (case split_first CHR ''@'' addr of Some (l, _) \<Rightarrow> l | None \<Rightarrow> addr)
     in if \<not> HasPrefix local VERPPrefix then ('''', False)
        else case split_last CHR ''.'' (drop (length VERPPrefix) local) of
            None \<Rightarrow> ('''', False)
          | Some (i, mac) \<Rightarrow>
              if i = '''' \<or> mac = '''' then ('''', False)
              else (i, list_ex (\<lambda>k. length (sk_Secret k) \<noteq> 0 \<and> mac = verpMAC (sk_Secret k) i) keys))"

end
