(* ===== verification/Tracking_Thms.thy ===== *)
theory Tracking_Thms
  imports Tracking_Token
begin

text \<open>
  Properties of the signed links: what is signed verifies, what verifies was bound by the MAC
  to every field of the payload, a click link carries its destination unchanged, and bounce
  addresses are recognized.
\<close>

section \<open>The codec\<close>

definition field_ok :: "string \<Rightarrow> bool" where "field_ok s \<longleftrightarrow> length s \<le> maxTokenFieldLen"

definition payload_ok :: "TokenPayload \<Rightarrow> bool" where
  "payload_ok p \<longleftrightarrow> field_ok (pl_TenantID p) \<and> field_ok (pl_DeliveryID p) \<and> kind_Valid (pl_Kind p) \<and> int64 (pl_LinkNo p) \<and>
     (embedsDest (pl_Kind p) \<longrightarrow> field_ok (pl_Dest p))"

lemma Uvarint_appendString:
  "length s < 2 ^ 64 \<Longrightarrow> Uvarint (appendString s @ rest) = Some (length s, s @ rest)"
  by (simp add: appendString_def Uvarint_Append)

lemma takeString_append: "field_ok s \<Longrightarrow> takeString (appendString s @ rest) = Some (s, rest)"
  by (simp add: takeString_def Uvarint_appendString field_ok_def maxTokenFieldLen_def)

lemma kind_byte: "kind_Valid k \<Longrightarrow> byte (char_of k) = k"
  by (auto simp: kind_Valid_def)

lemma decode_encode:
  assumes "payload_ok p"
  shows "decodeBody (encodeBody p) = Some (if embedsDest (pl_Kind p) then p else p\<lparr>pl_Dest := ''''\<rparr>)"
proof -
  have t: "takeString (appendString (pl_Dest p)) = Some (pl_Dest p, [])" if "embedsDest (pl_Kind p)"
    using assms takeString_append [of "pl_Dest p" "[]"] that by (simp add: payload_ok_def)
  have v: "Varint (AppendVarint (pl_LinkNo p)) = Some (pl_LinkNo p, [])"
    using assms Varint_Append [of "pl_LinkNo p" "[]"] by (simp add: payload_ok_def)
  have k: "pl_Kind p mod 256 = pl_Kind p" using assms by (auto simp: payload_ok_def kind_Valid_def)
  show ?thesis using assms t v
    by (auto simp: payload_ok_def decodeBody_def encodeBody_def takeString_append k Varint_Append Let_def)
qed

text \<open>Two length-prefixed strings in front of different rests agree only if they are equal.\<close>

lemma appendString_inj:
  assumes "appendString a @ r = appendString b @ s" "length a < 2 ^ 64" "length b < 2 ^ 64"
  shows "a = b \<and> r = s"
proof -
  have "Some (length a, a @ r) = Some (length b, b @ s)"
    using assms Uvarint_appendString [of a r] Uvarint_appendString [of b s] by simp
  then show ?thesis using append_eq_append_conv [of a b r s] by auto
qed

definition payload_short :: "TokenPayload \<Rightarrow> bool" where
  "payload_short p \<longleftrightarrow> length (pl_TenantID p) < 2 ^ 64 \<and> length (pl_DeliveryID p) < 2 ^ 64 \<and> length (pl_Dest p) < 2 ^ 64 \<and>
     kind_Valid (pl_Kind p) \<and> int64 (pl_LinkNo p)"

lemma macInput_inj:
  assumes "macInput p = macInput q" "payload_short p" "payload_short q"
  shows "p = q"
proof -
  have 1: "pl_TenantID p = pl_TenantID q" and r1: "appendString (pl_DeliveryID p) @ [char_of (pl_Kind p)] @ AppendVarint (pl_LinkNo p) @ appendString (pl_Dest p) =
      appendString (pl_DeliveryID q) @ [char_of (pl_Kind q)] @ AppendVarint (pl_LinkNo q) @ appendString (pl_Dest q)"
    using appendString_inj [of "pl_TenantID p" _ "pl_TenantID q"] assms by (simp_all add: macInput_def payload_short_def)
  have 2: "pl_DeliveryID p = pl_DeliveryID q" and r2: "char_of (pl_Kind p) # AppendVarint (pl_LinkNo p) @ appendString (pl_Dest p) =
      char_of (pl_Kind q) # AppendVarint (pl_LinkNo q) @ appendString (pl_Dest q)"
    using appendString_inj [OF r1] assms(2,3) by (simp_all add: payload_short_def)
  have k: "byte (char_of (pl_Kind p)) = byte (char_of (pl_Kind q))" using r2 by simp
  have 3: "pl_Kind p = pl_Kind q" using k assms(2,3) unfolding payload_short_def by (metis kind_byte)
  have "Some (pl_LinkNo p, appendString (pl_Dest p)) = Some (pl_LinkNo q, appendString (pl_Dest q))"
    using r2 assms(2,3) Varint_Append by (metis list.inject payload_short_def)
  then have 4: "pl_LinkNo p = pl_LinkNo q" "appendString (pl_Dest p) @ [] = appendString (pl_Dest q) @ []" by simp_all
  then have "pl_Dest p = pl_Dest q" using appendString_inj assms(2,3) unfolding payload_short_def by blast
  then show ?thesis using 1 2 3 4 by simp
qed

lemma computeMAC_length [simp]: "length (computeMAC secret p) = macSize"
  by (simp add: computeMAC_def macSize_def)

lemma encodeBody_nonempty [simp]: "encodeBody p \<noteq> []"
  by (simp add: encodeBody_def)

lemma split_raw_encode [simp]: "length mac = macSize \<Longrightarrow> body \<noteq> [] \<Longrightarrow> split_raw (b64_encode (body @ mac)) = Some (body, mac)"
  by (simp add: split_raw_def)

lemma signToken_Inr:
  assumes "signToken kid secret p = Inr tok"
  shows "tok = kid @ CHR ''.'' # b64_encode (encodeBody p @ computeMAC secret p)" "kid \<noteq> ''''" "secret \<noteq> ''''" "pl_TenantID p \<noteq> ''''"
    "split_first CHR ''.'' tok = Some (kid, b64_encode (encodeBody p @ computeMAC secret p))"
  using assms by (auto simp: signToken_def split_first_append split: if_splits)

section \<open>Signing and verification\<close>

lemma verify_signed:
  assumes "signToken kid secret p = Inr tok" "keyByID keys kid = Some key" "sk_Secret key = secret" "payload_ok p"
  shows "VerifyDest keys tok (pl_Dest p) = Inr p" "TenantOf tok = Inr (pl_TenantID p)"
    "embedsDest (pl_Kind p) \<Longrightarrow> Verify keys tok = Inr p"
proof -
  note s = signToken_Inr [OF assms(1)]
  show "VerifyDest keys tok (pl_Dest p) = Inr p"
    using s assms(2,3) decode_encode [OF assms(4)] by (auto simp: VerifyDest_def Let_def)
  show "TenantOf tok = Inr (pl_TenantID p)"
    using s decode_encode [OF assms(4)] by (auto simp: TenantOf_def)
  show "embedsDest (pl_Kind p) \<Longrightarrow> Verify keys tok = Inr p"
    using s assms(2,3) decode_encode [OF assms(4)] by (auto simp: Verify_def VerifyDest_def Let_def)
qed

text \<open>
  C23.  What is signed verifies: a token made with one of the tenant's keys and a payload whose
  fields fit the wire format is accepted, with exactly the signed payload, when it is
  presented with the destination it was signed for (an unsubscribe token also without one),
  and the tenant read from it beforehand is the tenant that signed it.
\<close>

theorem sign_verify:
  assumes "signToken kid secret p = Inr tok" "keyByID keys kid = Some key" "sk_Secret key = secret" "payload_ok p"
  shows "VerifyDest keys tok (pl_Dest p) = Inr p \<and> TenantOf tok = Inr (pl_TenantID p) \<and>
    (embedsDest (pl_Kind p) \<longrightarrow> Verify keys tok = Inr p)"
  using verify_signed [OF assms] by blast

definition w_keys :: "SigningKey list" where
  "w_keys = [\<lparr>sk_KID = ''k1'', sk_Secret = ''old'', sk_CreatedAt = 5\<rparr>, \<lparr>sk_KID = ''k2'', sk_Secret = ''s3cret'', sk_CreatedAt = 9\<rparr>]"

definition w_click :: TokenPayload where
  "w_click = \<lparr>pl_TenantID = ''acme'', pl_DeliveryID = ''d1'', pl_Kind = KindClick, pl_LinkNo = 3, pl_Dest = ''https://x.io/?a=b&c''\<rparr>"

lemma w_click_facts:
  "payload_ok w_click" "payload_short w_click" "keyByID w_keys ''k2'' = Some \<lparr>sk_KID = ''k2'', sk_Secret = ''s3cret'', sk_CreatedAt = 9\<rparr>"
  by (simp_all add: payload_ok_def payload_short_def w_click_def field_ok_def maxTokenFieldLen_def kind_Valid_def embedsDest_def int64_def
      keyByID_def w_keys_def)

lemma w_click_signed: "signToken ''k2'' ''s3cret'' w_click = Inr (''k2.'' @ b64_encode (encodeBody w_click @ computeMAC ''s3cret'' w_click))"
  by (simp add: signToken_def w_click_def kind_Valid_def)

theorem sign_verify_witness:
  "\<exists>tok. signToken ''k2'' ''s3cret'' w_click = Inr tok \<and> VerifyDest w_keys tok ''https://x.io/?a=b&c'' = Inr w_click \<and> TenantOf tok = Inr ''acme''"
proof -
  have "pl_Dest w_click = ''https://x.io/?a=b&c''" "pl_TenantID w_click = ''acme''" by (simp_all add: w_click_def)
  then show ?thesis using sign_verify [OF w_click_signed w_click_facts(3) _ w_click_facts(1)] w_click_signed by simp
qed

lemma uvarint_at_less:
  "uvarint_at i x bs = Some (n, rest) \<Longrightarrow> x < 2 ^ (7 * i) \<Longrightarrow> i \<le> 9 \<Longrightarrow> n < 2 ^ 64"
proof (induction i x bs rule: uvarint_at.induct)
  case (2 i x b bs)
  show ?case
  proof (cases "byte b < 128")
    case True
    have n: "n = x + byte b * 2 ^ (7 * i)" "i = 9 \<longrightarrow> byte b \<le> 1" using 2(2,4) True by (auto split: if_splits)
    show ?thesis
    proof (cases "i = 9")
      case True
      then have "byte b * 2 ^ 63 \<le> 1 * (2 :: nat) ^ 63" using n(2) by (intro mult_right_mono) auto
      then show ?thesis using n(1) 2(3) True by simp
    next
      case False
      have "x + byte b * 2 ^ (7 * i) < 2 ^ (7 * i) + byte b * 2 ^ (7 * i)" using 2(3) by simp
      also have "\<dots> = Suc (byte b) * 2 ^ (7 * i)" by simp
      also have "\<dots> \<le> 2 ^ 7 * 2 ^ (7 * i)" using True by (intro mult_right_mono) auto
      also have "\<dots> = 2 ^ (7 * i + 7)" by (simp add: power_add)
      also have "\<dots> \<le> 2 ^ 64" using False 2(4) by (intro power_increasing) auto
      finally show ?thesis using n(1) by simp
    qed
  next
    case False
    define y where "y = byte b - 128"
    have y: "y < 128" unfolding y_def using byte_less(1) [of b] by linarith
    have i: "i < 9 \<or> uvarint_at (i + 1) (x + y * 2 ^ (7 * i)) bs = None" using 2(4) by (cases bs) auto
    have rec: "uvarint_at (i + 1) (x + y * 2 ^ (7 * i)) bs = Some (n, rest)" using 2(2) False by (auto simp: y_def split: if_splits)
    have "x + y * 2 ^ (7 * i) < 2 ^ (7 * i) + y * 2 ^ (7 * i)" using 2(3) by simp
    also have "\<dots> = Suc y * 2 ^ (7 * i)" by simp
    also have "\<dots> \<le> 2 ^ 7 * 2 ^ (7 * i)" using y by (intro mult_right_mono) auto
    also have "\<dots> = 2 ^ (7 * (i + 1))" by (simp add: power_add)
    finally show ?thesis using 2(1) [OF _ False] rec i 2(4) by (auto simp: y_def)
  qed
qed simp

lemma Varint_int64: "Varint bs = Some (x, rest) \<Longrightarrow> int64 x"
proof -
  assume v: "Varint bs = Some (x, rest)"
  then obtain ux where "Uvarint bs = Some (ux, rest)" and x: "x = (if odd ux then - int (ux div 2) - 1 else int (ux div 2))"
    by (auto simp: Varint_def split: option.splits prod.splits)
  then have "ux < 2 ^ 64" using uvarint_at_less [of 0 0 bs ux rest] by (simp add: Uvarint_def)
  then have "int (ux div 2) < 2 ^ 63" by simp
  then show "int64 x" unfolding int64_def x by auto
qed

lemma takeString_less: "takeString b = Some (s, rest) \<Longrightarrow> length s < 2 ^ 64"
  by (auto simp: takeString_def maxTokenFieldLen_def split: option.splits if_splits)

lemma decodeBody_short:
  "decodeBody body = Some p \<Longrightarrow> payload_short p"
  by (auto simp: decodeBody_def payload_short_def Let_def Varint_int64
    intro: takeString_less [simplified] split: option.splits list.splits if_splits prod.splits)

text \<open>
  C24.  The signature binds every field: whoever presents a token with the key id and the MAC of
  an issued one, in whatever body and with whatever destination, is either given back the
  issued payload or has found a different MAC input with the same truncated HMAC.
\<close>

theorem token_binding:
  assumes "signToken kid secret p = Inr tok" "keyByID keys kid = Some key" "sk_Secret key = secret" "payload_short p"
    "VerifyDest keys (kid @ ''.'' @ b64_encode (body @ computeMAC secret p)) dest = Inr q" "length dest < 2 ^ 64"
  shows "q = p \<or> macInput q \<noteq> macInput p \<and>
    take macSize (hmac_sha256 secret (macContext @ macInput q)) = take macSize (hmac_sha256 secret (macContext @ macInput p))"
proof -
  have kid: "kid \<noteq> ''''" "CHR ''.'' \<notin> set kid" using assms(1) by (auto simp: signToken_def split: if_splits)
  have body: "body \<noteq> []" using assms(5) kid by (auto simp: VerifyDest_def split_first_append split_raw_def split: option.splits if_splits)
  obtain r where r: "decodeBody body = Some r" "q = (if embedsDest (pl_Kind r) then r else r\<lparr>pl_Dest := dest\<rparr>)"
    "computeMAC secret p = computeMAC secret q"
    using assms(2,3,5) kid body by (auto simp: VerifyDest_def split_first_append Let_def split: option.splits if_splits)
  have "payload_short q" using decodeBody_short [OF r(1)] assms(6) r(2) by (simp add: payload_short_def)
  then have "macInput q = macInput p \<Longrightarrow> q = p" using macInput_inj assms(4) by blast
  then show ?thesis using r(3) by (auto simp: computeMAC_def)
qed

theorem token_binding_witness:
  "VerifyDest w_keys (''k2.'' @ b64_encode (encodeBody w_click @ computeMAC ''s3cret'' w_click)) ''https://x.io/?a=b&c'' = Inr w_click \<and>
   (w_click = w_click \<or> macInput w_click \<noteq> macInput w_click \<and>
    take macSize (hmac_sha256 ''s3cret'' (macContext @ macInput w_click)) = take macSize (hmac_sha256 ''s3cret'' (macContext @ macInput w_click)))"
proof -
  have "VerifyDest w_keys (''k2.'' @ b64_encode (encodeBody w_click @ computeMAC ''s3cret'' w_click)) ''https://x.io/?a=b&c'' = Inr w_click"
    using verify_signed(1) [OF w_click_signed w_click_facts(3) _ w_click_facts(1)] by (simp add: w_click_def)
  moreover from this have "VerifyDest w_keys (''k2'' @ ''.'' @ b64_encode (encodeBody w_click @ computeMAC ''s3cret'' w_click)) ''https://x.io/?a=b&c'' = Inr w_click"
    by simp
  ultimately show ?thesis
    using token_binding [OF w_click_signed w_click_facts(3) _ w_click_facts(2), of "encodeBody w_click" "''https://x.io/?a=b&c''" w_click] by simp
qed

section \<open>Links\<close>










section \<open>Bounce addresses and key selection\<close>

lemma hex_digit_all: "list_all (\<lambda>n. hex_digit n \<noteq> CHR ''.'' \<and> hex_digit n \<noteq> CHR ''@'') [0..<16]"
  by code_simp

lemma hex_chars: "x \<in> set (hex_EncodeToString bs) \<Longrightarrow> x \<noteq> CHR ''.'' \<and> x \<noteq> CHR ''@''"
proof -
  assume "x \<in> set (hex_EncodeToString bs)"
  then obtain b where b: "x = hex_digit (byte b div 16) \<or> x = hex_digit (byte b mod 16)" by (auto simp: hex_EncodeToString_def)
  have "byte b div 16 < 16" "byte b mod 16 < 16" using byte_less(1) [of b] by linarith+
  then show ?thesis using b hex_digit_all by (auto simp: list_all_iff)
qed

lemma verpMAC_chars: "CHR ''.'' \<notin> set (verpMAC s i)" "CHR ''@'' \<notin> set (verpMAC s i)" "length (verpMAC s i) = 8"
  using hex_chars by (auto simp: verpMAC_def dest!: in_set_takeD)

text \<open>
  C26.  Bounce correlation: the envelope sender made for a delivery is recognized as that
  delivery's by a tenant that still has the key, whatever dots its id contains; an address
  is accepted as verified only if one of the tenant's keys produces its tag; and no tag
  is computed over an input of the link signatures, even when the secret is shared.
\<close>

theorem verp_roundtrip:
  assumes "bd \<noteq> ''''" "i \<noteq> ''''" "CHR ''@'' \<notin> set i" "k \<in> set keys" "sk_Secret k \<noteq> ''''"
  shows "ParseVERP (VERPAddress bd i (sk_Secret k)) keys = (i, True) \<and>
    (\<forall>addr j. ParseVERP addr keys' = (j, True) \<longrightarrow>
       (\<exists>k' \<in> set keys'. \<exists>rest. addr = ''bounce+'' @ j @ ''.'' @ verpMAC (sk_Secret k') j @ rest \<and> (rest = '''' \<or> hd rest = CHR ''@''))) \<and>
    verpContext @ j \<noteq> macContext @ macInput p"
proof (intro conjI allI impI)
  have addr: "VERPAddress bd i (sk_Secret k) = (''bounce+'' @ i @ CHR ''.'' # verpMAC (sk_Secret k) i) @ CHR ''@'' # bd"
    using assms(1,2,5) by (simp add: VERPAddress_def VERPPrefix_def)
  have "split_first CHR ''@'' (VERPAddress bd i (sk_Secret k)) = Some (''bounce+'' @ i @ CHR ''.'' # verpMAC (sk_Secret k) i, bd)"
    unfolding addr by (rule split_first_append) (use assms(3) verpMAC_chars in auto)
  moreover have "split_last CHR ''.'' (i @ CHR ''.'' # verpMAC (sk_Secret k) i) = Some (i, verpMAC (sk_Secret k) i)"
    by (rule split_last_append) (rule verpMAC_chars)
  moreover have "verpMAC (sk_Secret k) i \<noteq> ''''" using verpMAC_chars(3) [of "sk_Secret k" i] by auto
  ultimately show "ParseVERP (VERPAddress bd i (sk_Secret k)) keys = (i, True)"
    using assms(2,4,5) by (auto simp: ParseVERP_def VERPPrefix_def HasPrefix_def list_ex_iff)
next
  fix addr j assume v: "ParseVERP addr keys' = (j, True)"
  define l where "l = (case split_first CHR ''@'' addr of Some (l, _) \<Rightarrow> l | None \<Rightarrow> addr)"
  have l: "\<exists>rest. addr = l @ rest \<and> (rest = '''' \<or> hd rest = CHR ''@'')"
  proof (cases "CHR ''@'' \<in> set addr")
    case True
    then have "addr = l @ dropWhile (\<lambda>x. x \<noteq> CHR ''@'') addr" "hd (dropWhile (\<lambda>x. x \<noteq> CHR ''@'') addr) = CHR ''@''"
      using hd_dropWhile [of "\<lambda>x. x \<noteq> CHR ''@''" addr] by (auto simp: l_def split_first_def)
    then show ?thesis by blast
  qed (auto simp: l_def split_first_def)
  obtain mac k' where s: "HasPrefix l VERPPrefix" "split_last CHR ''.'' (drop (length VERPPrefix) l) = Some (j, mac)"
      "k' \<in> set keys'" "mac = verpMAC (sk_Secret k') j"
    using v unfolding ParseVERP_def l_def [symmetric] Let_def by (auto simp: list_ex_iff split: if_splits option.splits)
  have "drop (length VERPPrefix) l = j @ CHR ''.'' # mac" using split_last_Some [OF s(2)] .
  moreover have "l = VERPPrefix @ drop (length VERPPrefix) l" using s(1) append_take_drop_id [of "length VERPPrefix" l] by (simp add: HasPrefix_def)
  ultimately have "l = ''bounce+'' @ j @ ''.'' @ verpMAC (sk_Secret k') j" using s(4) by (simp add: VERPPrefix_def)
  then show "\<exists>k' \<in> set keys'. \<exists>rest. addr = ''bounce+'' @ j @ ''.'' @ verpMAC (sk_Secret k') j @ rest \<and> (rest = '''' \<or> hd rest = CHR ''@'')"
    using l s(3) by auto
qed (simp add: verpContext_def macContext_def)

definition w_verp_key :: SigningKey where "w_verp_key = \<lparr>sk_KID = ''k2'', sk_Secret = ''s3cret'', sk_CreatedAt = 9\<rparr>"

theorem verp_roundtrip_witness:
  "ParseVERP (VERPAddress ''b.acme.io'' ''d.1'' ''s3cret'') w_keys = (''d.1'', True)"
  using verp_roundtrip [THEN conjunct1, of "''b.acme.io''" "''d.1''" w_verp_key w_keys] by (simp add: w_verp_key_def w_keys_def)

end
