(* ===== verification/Sender_Health.thy ===== *)
theory Sender_Health
  imports Sender_Policy
begin

text \<open>
  The transport circuit of \<^verbatim>\<open>internal/sender/health.go\<close> and the configuration cache of
  \<^verbatim>\<open>internal/sender/cache.go\<close>.  A reported transition (status, true) is \<open>Some status\<close>, no
  transition is \<open>None\<close>.  A pointer to a \<^verbatim>\<open>transportHealth\<close> is its key in the map.
\<close>

section \<open>Cache\<close>

record 'a cache =
  ca_ttl :: duration
  ca_m :: "(string, 'a \<times> go_time) gomap"

definition newCache :: "duration \<Rightarrow> 'a cache" where
  "newCache ttl = \<lparr>ca_ttl = ttl, ca_m = []\<rparr>"

text \<open>The loader is run on the state of the store it reads, only when the entry is missing or old.\<close>

definition cache_get ::
  "string \<Rightarrow> go_time \<Rightarrow> ('s \<Rightarrow> ('e + 'a) \<times> 's) \<Rightarrow> 'a cache \<Rightarrow> 's \<Rightarrow> ('e + 'a) \<times> 'a cache \<times> 's" where
  "cache_get key nw load c s =
    (case map_of (ca_m c) key of
       Some (v, tm) \<Rightarrow>
         if ca_ttl c \<le> 0 \<or> nw - tm < ca_ttl c then (Inr v, c, s)
         else (case load s of (Inl err, s) \<Rightarrow> (Inl err, c, s)
               | (Inr v, s) \<Rightarrow> (Inr v, c\<lparr>ca_m := AList.update key (v, nw) (ca_m c)\<rparr>, s))
     | None \<Rightarrow>
         (case load s of (Inl err, s) \<Rightarrow> (Inl err, c, s)
          | (Inr v, s) \<Rightarrow> (Inr v, c\<lparr>ca_m := AList.update key (v, nw) (ca_m c)\<rparr>, s)))"

definition invalidate :: "string \<Rightarrow> 'a cache \<Rightarrow> 'a cache" where
  "invalidate key c = c\<lparr>ca_m := AList.delete key (ca_m c)\<rparr>"

section \<open>Circuit\<close>

record transportHealth =
  th_tenantID :: string
  th_transportID :: string
  th_failures :: int
  th_status :: TransportStatus
  th_nextProbe :: go_time
  th_rateLimits :: "go_time list"

record healthTracker =
  ht_threshold :: int
  ht_probeEvery :: duration
  ht_rateLimitThreshold :: int
  ht_rateLimitWindow :: duration
  ht_m :: "(string, transportHealth) gomap"

definition newHealthTracker :: "int \<Rightarrow> duration \<Rightarrow> healthTracker" where
  "newHealthTracker threshold probeEvery =
    \<lparr>ht_threshold = threshold, ht_probeEvery = probeEvery, ht_rateLimitThreshold = 3,
     ht_rateLimitWindow = Minute, ht_m = []\<rparr>"

definition healthKey :: "string \<Rightarrow> string \<Rightarrow> string" where
  "healthKey tenantID transportID = tenantID @ ''/'' @ transportID"

definition new_health :: "string \<Rightarrow> string \<Rightarrow> transportHealth" where
  "new_health tenantID transportID =
    \<lparr>th_tenantID = tenantID, th_transportID = transportID, th_failures = 0, th_status = TransportHealthy,
     th_nextProbe = 0, th_rateLimits = []\<rparr>"

text \<open>\<^verbatim>\<open>state\<close>: the entry of a transport, and the map with that entry in it.\<close>

definition health_state :: "healthTracker \<Rightarrow> string \<Rightarrow> string \<Rightarrow> transportHealth \<times> healthTracker" where
  "health_state h tenantID transportID =
    (let k = healthKey tenantID transportID
     in case map_of (ht_m h) k of Some th \<Rightarrow> (th, h)
        | None \<Rightarrow> (let th = new_health tenantID transportID in (th, h\<lparr>ht_m := AList.update k th (ht_m h)\<rparr>)))"

definition put_health :: "string \<Rightarrow> string \<Rightarrow> transportHealth \<Rightarrow> healthTracker \<Rightarrow> healthTracker" where
  "put_health tenantID transportID th h = h\<lparr>ht_m := AList.update (healthKey tenantID transportID) th (ht_m h)\<rparr>"

definition pruneRateLimits :: "go_time list \<Rightarrow> go_time \<Rightarrow> duration \<Rightarrow> go_time list" where
  "pruneRateLimits ts nw window = (let cutoff = nw - window in filter (\<lambda>t. \<not> t < cutoff) ts)"

definition health_usable :: "string \<Rightarrow> string \<Rightarrow> go_time \<Rightarrow> healthTracker \<Rightarrow> bool \<times> healthTracker" where
  "health_usable tenantID transportID nw h =
    (let (th, h) = health_state h tenantID transportID
     in (th_status th \<noteq> TransportUnhealthy \<or> \<not> nw < th_nextProbe th, h))"

definition fail_state ::
  "healthTracker \<Rightarrow> ErrorClass \<Rightarrow> go_time \<Rightarrow> transportHealth \<Rightarrow> TransportStatus option \<times> transportHealth" where
  "fail_state h cl nw th =
    (case cl of
       ErrorClassAuth \<Rightarrow>
         (let th = th\<lparr>th_failures := th_failures th + 1\<rparr>
          in if th_failures th < ht_threshold h \<or> th_status th = TransportUnhealthy then
               (None, if th_status th = TransportUnhealthy then th\<lparr>th_nextProbe := nw + ht_probeEvery h\<rparr> else th)
             else (Some TransportUnhealthy,
                   th\<lparr>th_status := TransportUnhealthy, th_nextProbe := nw + ht_probeEvery h\<rparr>))
     | ErrorClassRateLimited \<Rightarrow>
         (let th = th\<lparr>th_rateLimits := pruneRateLimits (th_rateLimits th) nw (ht_rateLimitWindow h) @ [nw]\<rparr>
          in if th_status th = TransportHealthy \<and> int (length (th_rateLimits th)) \<ge> ht_rateLimitThreshold h then
               (Some TransportCooldown, th\<lparr>th_status := TransportCooldown\<rparr>)
             else (None, th))
     | _ \<Rightarrow> (None, th))"

definition health_fail ::
  "string \<Rightarrow> string \<Rightarrow> ErrorClass \<Rightarrow> go_time \<Rightarrow> healthTracker \<Rightarrow> TransportStatus option \<times> healthTracker" where
  "health_fail tenantID transportID cl nw h =
    (let (th, h) = health_state h tenantID transportID;
         (r, th) = fail_state h cl nw th
     in (r, put_health tenantID transportID th h))"

definition success_state ::
  "healthTracker \<Rightarrow> go_time \<Rightarrow> transportHealth \<Rightarrow> TransportStatus option \<times> transportHealth" where
  "success_state h nw th =
    (let th = th\<lparr>th_failures := 0\<rparr>
     in case th_status th of
          TransportHealthy \<Rightarrow> (None, th)
        | TransportCooldown \<Rightarrow>
            (let th = th\<lparr>th_rateLimits := pruneRateLimits (th_rateLimits th) nw (ht_rateLimitWindow h)\<rparr>
             in if length (th_rateLimits th) > 0 then (None, th)
                else (Some TransportHealthy, th\<lparr>th_status := TransportHealthy\<rparr>))
        | TransportUnhealthy \<Rightarrow> (Some TransportHealthy, th\<lparr>th_status := TransportHealthy\<rparr>))"

definition health_success :: "string \<Rightarrow> string \<Rightarrow> go_time \<Rightarrow> healthTracker \<Rightarrow> TransportStatus option \<times> healthTracker" where
  "health_success tenantID transportID nw h =
    (let (th, h) = health_state h tenantID transportID;
         (r, th) = success_state h nw th
     in (r, put_health tenantID transportID th h))"

definition probe_due :: "go_time \<Rightarrow> transportHealth \<Rightarrow> bool" where
  "probe_due nw th \<longleftrightarrow> th_status th = TransportUnhealthy \<and> \<not> nw < th_nextProbe th"

text \<open>\<^verbatim>\<open>due\<close>: the transports to probe, as (tenant, transport), in the order of the map.\<close>

definition health_due :: "go_time \<Rightarrow> healthTracker \<Rightarrow> (string \<times> string) list \<times> healthTracker" where
  "health_due nw h =
    (map (\<lambda>(k, th). (th_tenantID th, th_transportID th)) (filter (\<lambda>(k, th). probe_due nw th) (ht_m h)),
     h\<lparr>ht_m := map (\<lambda>(k, th). (k, if probe_due nw th then th\<lparr>th_nextProbe := nw + ht_probeEvery h\<rparr> else th)) (ht_m h)\<rparr>)"

section \<open>Persisted status\<close>

definition limitScope :: "string \<Rightarrow> Transport \<Rightarrow> string" where
  "limitScope tenantID tr = (if tr_Shared tr then SystemTenantID else tenantID)"

definition transportUsable :: "string \<Rightarrow> Transport \<Rightarrow> go_time \<Rightarrow> healthTracker \<Rightarrow> bool \<times> healthTracker" where
  "transportUsable tenantID tr nw h =
    (if tr_Status tr \<noteq> TransportHealthy \<and> tr_StatusUntil tr \<noteq> 0 \<and> nw > tr_StatusUntil tr then (True, h)
     else if tr_Status tr = TransportUnhealthy then (False, h)
     else health_usable (limitScope tenantID tr) (tr_ID tr) nw h)"

definition statusUntil :: "duration \<Rightarrow> TransportStatus \<Rightarrow> go_time \<Rightarrow> go_time" where
  "statusUntil probeInterval status nw = (if status = TransportHealthy then 0 else nw + probeInterval)"

text \<open>
  \<^verbatim>\<open>setTransportStatus\<close> on the transport table: read, compare, write, and once more if another
  writer got in between.  \<open>other n\<close> is what other writers do to the table between the read and
  the write of attempt \<open>n\<close>; \<open>clock\<close> is the sender's clock at that attempt.  The result says
  whether the row was written, which is when the caches are invalidated and, for an
  unhealthy transport, its pooled connections are closed.
\<close>

fun set_status_loop ::
  "nat \<Rightarrow> nat \<Rightarrow> env \<Rightarrow> (nat \<Rightarrow> (string, Transport) gomap \<Rightarrow> (string, Transport) gomap) \<Rightarrow> (nat \<Rightarrow> go_time) \<Rightarrow>
   string \<Rightarrow> TransportStatus \<Rightarrow> string \<Rightarrow> go_time \<Rightarrow> (string, Transport) gomap \<Rightarrow> bool \<times> (string, Transport) gomap" where
  "set_status_loop 0 n e other clock i status reason until rows = (False, rows)"
| "set_status_loop (Suc m) n e other clock i status reason until rows =
    (case tbl_Get e rows i of Inl _ \<Rightarrow> (False, rows)
     | Inr tr \<Rightarrow>
         (let until = TruncateTime until
          in if tr_Status tr = status \<and> tr_StatusUntil tr = until then (False, rows)
             else
               (let tr = tr\<lparr>tr_Status := status, tr_StatusReason := reason, tr_StatusChangedAt := clock n,
                            tr_StatusUntil := until\<rparr>
                in case tbl_Update transport_meta e (other n rows) (Some tr) of
                     (None, _, rows) \<Rightarrow> (True, rows)
                   | (Some _, _, rows) \<Rightarrow> set_status_loop m (n + 1) e other clock i status reason until rows)))"

definition setTransportStatus ::
  "env \<Rightarrow> (nat \<Rightarrow> (string, Transport) gomap \<Rightarrow> (string, Transport) gomap) \<Rightarrow> (nat \<Rightarrow> go_time) \<Rightarrow>
   string \<Rightarrow> TransportStatus \<Rightarrow> string \<Rightarrow> go_time \<Rightarrow> (string, Transport) gomap \<Rightarrow> bool \<times> (string, Transport) gomap" where
  "setTransportStatus e other clock i status reason until rows =
    set_status_loop 2 0 e other clock i status reason until rows"

end
