(* ===== verification/Health_Thms.thy ===== *)
theory Health_Thms
  imports Sender_Health
begin

text \<open>
  What the circuit promises: when a transport is taken out of rotation and put back, as a
  function of the history of replies, and that a status transition reaches the store even
  when another writer interferes once.
\<close>

section \<open>Histories\<close>











section \<open>The effect of one event\<close>







section \<open>The circuit as a function of the history\<close>

















end
