(* ===== verification/Sender_Message.thy ===== *)
theory Sender_Message
  imports Sender_Health Tracking_Token
begin

text \<open>
  From a delivery to the bytes on the wire: \<^verbatim>\<open>renderMessage\<close> and the unsubscribe links of
  \<^verbatim>\<open>internal/sender/process.go\<close>, the header checks of \<^verbatim>\<open>internal/sender/message.go\<close> and the parts of
  \<^verbatim>\<open>platform.go\<close> they use.  What the template engine, the HTML rewriter, the host's hooks, the
  address parser and the MIME and DKIM libraries return are fields of the record \<open>ext\<close>.
\<close>

section \<open>Messages\<close>

record RecipientContext =
  rx_TenantID :: string
  rx_CampaignID :: string
  rx_DeliveryID :: string
  rx_Email :: string
  rx_EmailNorm :: string
  rx_Name :: string
  rx_Locale :: string
  rx_Vars :: "(string, anyval) gomap"

record OutboundMessage =
  om_TenantID :: string
  om_DeliveryID :: string
  om_CampaignID :: string
  om_VersionID :: string
  om_SenderID :: string
  om_Lane :: Lane
  om_Recipient :: RecipientContext
  om_FromName :: string
  om_From :: string
  om_ReplyTo :: string
  om_Subject :: string
  om_HTML :: string
  om_Text :: string
  om_Headers :: "(string, string) gomap"
  om_UnsubscribeURL :: string

record unsubscribe_links =
  ul_body :: string
  ul_header :: string
  ul_oneClick :: bool

definition no_links :: unsubscribe_links where
  "no_links = \<lparr>ul_body = '''', ul_header = '''', ul_oneClick = False\<rparr>"

record dkimKey =
  dk_domain :: string
  dk_selector :: string
  dk_signer :: string

record messageInput =
  mi_msg :: OutboundMessage
  mi_messageID :: string
  mi_attemptNo :: int
  mi_date :: go_time
  mi_listUnsubscribe :: string
  mi_oneClick :: bool
  mi_dkim :: "dkimKey option"

record platform_From =
  pf_Name :: string
  pf_Email :: string
  pf_ReplyTo :: string

record Bindings =
  bi_Email :: string
  bi_Name :: string
  bi_Locale :: string
  bi_RecipientVars :: "(string, anyval) gomap"
  bi_TenantVars :: "(string, anyval) gomap"
  bi_UnsubscribeURL :: string
  bi_Vars :: "(string, anyval) gomap"
  bi_CampaignID :: string
  bi_CampaignName :: string

text \<open>An error is its text; for \<^verbatim>\<open>BeforeSend\<close> also whether it is \<^verbatim>\<open>host.ErrSkip\<close>.\<close>

record ext =
  x_Resolve :: "(string \<Rightarrow> (string, anyval) gomap \<Rightarrow> string + platform_From) option"
  x_ProbeVars :: "string \<Rightarrow> (string, anyval) gomap"
  x_Render :: "MessageVersion \<Rightarrow> string list \<Rightarrow> Bindings \<Rightarrow> string + string \<times> string \<times> string"
  x_RewriteLinks :: "string \<Rightarrow> (int \<Rightarrow> string \<Rightarrow> string) \<Rightarrow> string + string"
  x_InsertPixel :: "string \<Rightarrow> string \<Rightarrow> string"
  x_RenderURL :: "string \<Rightarrow> Delivery \<Rightarrow> Campaign option \<Rightarrow> string + string"
  x_UnsubscribeURL :: "(RecipientContext \<Rightarrow> string + string) option"
  x_BeforeSend :: "(OutboundMessage \<Rightarrow> OutboundMessage \<times> (bool \<times> string) option) option"
  x_ParseAddress :: "string \<Rightarrow> bool"
  x_Compose :: "messageInput \<Rightarrow> string + string"
  x_DKIMSigner :: "SendingDomain \<Rightarrow> string option"
  x_Decrypt :: "string \<Rightarrow> string + string"

section \<open>Headers\<close>

abbreviation CRLF :: string where "CRLF \<equiv> [CHR 0x0D, CHR 0x0A]"

definition ContainsAnyChar :: "string \<Rightarrow> string \<Rightarrow> bool" where
  "ContainsAnyChar s cs = list_ex (\<lambda>c. c \<in> set cs) s"

definition allowedCustomHeaders :: "string list" where
  "allowedCustomHeaders = [''in-reply-to'', ''references'', ''auto-submitted'', ''precedence'', ''list-id'', ''list-help'',
    ''list-post'', ''list-owner'', ''list-archive'', ''importance'', ''priority'']"

definition headersSetBySender :: "string list" where
  "headersSetBySender = [''from'', ''to'', ''cc'', ''bcc'', ''subject'', ''date'', ''message-id'', ''mime-version'',
    ''content-type'', ''content-transfer-encoding'', ''return-path'', ''reply-to'', ''list-unsubscribe'',
    ''list-unsubscribe-post'', ''x-sendplane-id'', ''x-sendplane-attempt'']"

datatype msg_err = ErrHeaderInjection string | ErrHeaderNotAllowed string | ErrNoBody | ErrCompose string

definition ValidateCustomHeader :: "string \<Rightarrow> string \<Rightarrow> msg_err option" where
  "ValidateCustomHeader name value =
    (if ContainsAnyChar value CRLF then Some (ErrHeaderInjection name)
     else (let lower = ToLower (TrimSpace name)
           in if lower = '''' \<or> lower \<noteq> name \<and> ContainsAnyChar name (CRLF @ '': '') then Some (ErrHeaderInjection name)
              else if ContainsAnyChar name (CRLF @ '':'') \<or> ContainsAnyChar name ('' '' @ [CHR 0x09]) then Some (ErrHeaderInjection name)
              else if lower \<in> set headersSetBySender then Some (ErrHeaderNotAllowed name)
              else if HasPrefix lower ''x-'' \<or> lower \<in> set allowedCustomHeaders then None
              else Some (ErrHeaderNotAllowed name)))"

definition check_text :: "string \<Rightarrow> string \<Rightarrow> msg_err option" where
  "check_text name value = (if ContainsAnyChar value CRLF then Some (ErrHeaderInjection name) else None)"

definition check_addr :: "ext \<Rightarrow> string \<Rightarrow> string \<Rightarrow> msg_err option" where
  "check_addr x name value =
    (if value = '''' then (if name = ''from'' \<or> name = ''to'' then Some (ErrHeaderInjection name) else None)
     else if ContainsAnyChar value CRLF then Some (ErrHeaderInjection name)
     else if \<not> x_ParseAddress x value then Some (ErrHeaderInjection name)
     else None)"

text \<open>The first error of a list of checks.\<close>

fun first_err :: "'e option list \<Rightarrow> 'e option" where
  "first_err [] = None"
| "first_err (None # es) = first_err es"
| "first_err (Some e # es) = Some e"

definition validateOutbound :: "ext \<Rightarrow> OutboundMessage \<Rightarrow> msg_err option" where
  "validateOutbound x m =
    first_err
      ([check_text ''subject'' (om_Subject m), check_text ''from name'' (om_FromName m),
        check_text ''recipient name'' (rx_Name (om_Recipient m)), check_text ''unsubscribe url'' (om_UnsubscribeURL m),
        check_addr x ''from'' (om_From m), check_addr x ''reply-to'' (om_ReplyTo m), check_addr x ''to'' (rx_Email (om_Recipient m))]
       @ map (\<lambda>(name, value). ValidateCustomHeader name value) (om_Headers m))"

definition buildMessage :: "ext \<Rightarrow> messageInput \<Rightarrow> msg_err + string" where
  "buildMessage x inp =
    (let m = mi_msg inp
     in if TrimSpace (om_HTML m) = '''' \<and> TrimSpace (om_Text m) = '''' then Inl ErrNoBody
        else case validateOutbound x m of Some e \<Rightarrow> Inl e
        | None \<Rightarrow> (case x_Compose x inp of Inl e \<Rightarrow> Inl (ErrCompose e) | Inr raw \<Rightarrow> Inr raw))"

section \<open>Platform resources\<close>

definition resolveFrom :: "ext \<Rightarrow> Sender \<Rightarrow> (string, anyval) gomap \<Rightarrow> string + platform_From" where
  "resolveFrom x sn tenantVars =
    (if \<not> se_Shared sn then Inr \<lparr>pf_Name = se_FromName sn, pf_Email = se_FromEmail sn, pf_ReplyTo = se_ReplyTo sn\<rparr>
     else case x_Resolve x of
         None \<Rightarrow> Inl (''sender: '' @ se_ID sn @ '' is a shared sender but this process has no platform configuration'')
       | Some resolve \<Rightarrow> resolve (se_ID sn) tenantVars)"

definition tenantVarsFor :: "Delivery \<Rightarrow> Campaign option \<Rightarrow> (string, anyval) gomap" where
  "tenantVarsFor d c =
    (if length (d_TenantVars d) > 0 then d_TenantVars d
     else case c of Some c \<Rightarrow> c_TenantVars c | None \<Rightarrow> [])"

definition sharedSenderReason :: string where "sharedSenderReason = ''shared sender unavailable''"

definition FailureReason :: "bool \<Rightarrow> string \<Rightarrow> string" where
  "FailureReason shared reason = (if \<not> shared then reason else sharedSenderReason)"

definition tenantBucket :: "string \<Rightarrow> string \<Rightarrow> string" where
  "tenantBucket transportKey tenantID = transportKey @ ''|tenant|'' @ tenantID"

definition sharedTransportKey :: "string \<Rightarrow> Transport \<Rightarrow> string" where
  "sharedTransportKey tenantID tr = healthKey (limitScope tenantID tr) (tr_ID tr)"

section \<open>Rendering\<close>

definition str_var :: "(string, anyval) gomap \<Rightarrow> string \<Rightarrow> string option" where
  "str_var vars k = (case map_of vars k of Some (VStr v) \<Rightarrow> if v \<noteq> '''' then Some v else None | _ \<Rightarrow> None)"

definition outboundHeaders :: "Delivery \<Rightarrow> (string, string) gomap" where
  "outboundHeaders d =
    (case str_var (d_Vars d) ''probe_token'' of
       Some tok \<Rightarrow> AList.update ''X-Sendplane-Probe'' tok (d_Headers d)
     | None \<Rightarrow> d_Headers d)"

definition unsubscribeLinks ::
  "TenantSettings \<Rightarrow> string \<Rightarrow> string \<Rightarrow> string \<Rightarrow> SigningKey option \<Rightarrow> string \<Rightarrow> unsubscribe_links" where
  "unsubscribeLinks settings tenantID deliveryID dest key domain =
    (if ts_UnsubscribeMode settings = UnsubscribeSendplane then
       (if dest = '''' then no_links
        else
          (let plain = \<lparr>ul_body = dest, ul_header = dest, ul_oneClick = False\<rparr>
           in case key of
                Some key \<Rightarrow>
                  if domain \<noteq> '''' then
                    (let token = Sign (sk_KID key) (sk_Secret key)
                           \<lparr>pl_TenantID = tenantID, pl_DeliveryID = deliveryID, pl_Kind = KindUnsubscribe, pl_LinkNo = 0, pl_Dest = dest\<rparr>;
                         u = UnsubscribeURL domain token
                     in if u \<noteq> '''' then \<lparr>ul_body = u, ul_header = u, ul_oneClick = HasPrefix u ''https://''\<rparr> else plain)
                  else plain
              | None \<Rightarrow> plain))
     else if ts_UnsubscribeMode settings = UnsubscribeHost then
       (if dest = '''' then no_links
        else \<lparr>ul_body = dest, ul_header = dest,
              ul_oneClick = (ts_UnsubscribeOneClick settings \<and> HasPrefix dest ''https://'')\<rparr>)
     else no_links)"

definition renderUnsubscribeTemplate :: "ext \<Rightarrow> string \<Rightarrow> Delivery \<Rightarrow> Campaign option \<Rightarrow> string + string" where
  "renderUnsubscribeTemplate x tpl d campaign =
    (case x_RenderURL x tpl d campaign of Inl err \<Rightarrow> Inl (''sender: unsubscribe url template: '' @ err)
     | Inr out \<Rightarrow> (let url = TrimSpace out
                  in if ContainsAnyChar url CRLF then Inl ''sender: header injection: unsubscribe url'' else Inr url))"

definition unsubscribeDest ::
  "ext \<Rightarrow> TenantSettings \<Rightarrow> Delivery \<Rightarrow> Campaign option \<Rightarrow> RecipientContext \<Rightarrow> string + string" where
  "unsubscribeDest x settings d campaign rc =
    (if ts_UnsubscribeMode settings = UnsubscribeNone then Inr ''''
     else if d_UnsubscribeURL d \<noteq> '''' then Inr (d_UnsubscribeURL d)
     else case str_var (d_Vars d) ''unsubscribe_url'' of Some v \<Rightarrow> Inr v
     | None \<Rightarrow>
         (let hook = (case x_UnsubscribeURL x of Some f \<Rightarrow> f rc | None \<Rightarrow> Inr '''');
              tpl = TrimSpace (ts_UnsubscribeURLTemplate settings)
          in if tpl \<noteq> '''' then
               (case renderUnsubscribeTemplate x tpl d campaign of Inl err \<Rightarrow> Inl err
                | Inr url \<Rightarrow> if url \<noteq> '''' then Inr url else hook)
             else hook))"

text \<open>The tracking transforms: links first, then the pixel.\<close>

definition track_link :: "string \<Rightarrow> string \<Rightarrow> SigningKey \<Rightarrow> string \<Rightarrow> int \<Rightarrow> string \<Rightarrow> string" where
  "track_link tenantID deliveryID key domain linkNo href =
    (let token = Sign (sk_KID key) (sk_Secret key)
           \<lparr>pl_TenantID = tenantID, pl_DeliveryID = deliveryID, pl_Kind = KindClick, pl_LinkNo = linkNo, pl_Dest = href\<rparr>;
         u = ClickURL domain token href
     in if u \<noteq> '''' then u else href)"

definition track_html :: "ext \<Rightarrow> TrackingConfig \<Rightarrow> string \<Rightarrow> string \<Rightarrow> SigningKey \<Rightarrow> string \<Rightarrow> string + string" where
  "track_html x cfg tenantID deliveryID key html =
    (let domain = tk_Domain cfg
     in case (if tk_Clicks cfg then x_RewriteLinks x html (track_link tenantID deliveryID key domain) else Inr html) of
          Inl err \<Rightarrow> Inl err
        | Inr html \<Rightarrow>
            if tk_Opens cfg then
              Inr (x_InsertPixel x html (OpenURL domain (Sign (sk_KID key) (sk_Secret key)
                \<lparr>pl_TenantID = tenantID, pl_DeliveryID = deliveryID, pl_Kind = KindOpen, pl_LinkNo = 0, pl_Dest = ''''\<rparr>)))
            else Inr html)"

definition renderMessage ::
  "ext \<Rightarrow> string \<Rightarrow> TenantSettings \<Rightarrow> Campaign option \<Rightarrow> MessageVersion \<Rightarrow> Sender \<Rightarrow> Delivery
    \<Rightarrow> string + OutboundMessage \<times> unsubscribe_links" where
  "renderMessage x tenantID settings campaign version sn d =
    (let rc = \<lparr>rx_TenantID = tenantID, rx_CampaignID = d_CampaignID d, rx_DeliveryID = d_ID d, rx_Email = d_Email d,
               rx_EmailNorm = d_EmailNorm d, rx_Name = d_Name d, rx_Locale = d_Locale d, rx_Vars = d_Vars d\<rparr>;
         tenantVars = tenantVarsFor d campaign;
         tenantVars = (if d_Lane d = LaneProbe \<and> length tenantVars = 0 then x_ProbeVars x (se_ID sn) else tenantVars)
     in case resolveFrom x sn tenantVars of Inl err \<Rightarrow> Inl err
     | Inr fr \<Rightarrow>
       (let tracked = (d_Lane d \<noteq> LaneProbe);
            key = (if tracked then SelectKey (tk_SigningKeys (ts_Tracking settings)) else None);
            domain = tk_Domain (ts_Tracking settings)
        in case (if tracked then
                   (case unsubscribeDest x settings d campaign rc of Inl err \<Rightarrow> Inl err
                    | Inr dest \<Rightarrow> Inr (unsubscribeLinks settings tenantID (d_ID d) dest key domain))
                 else Inr no_links) of Inl err \<Rightarrow> Inl err
        | Inr unsub \<Rightarrow>
          (let locales = d_Locale d # (case campaign of Some c \<Rightarrow> [c_DefaultLocale c] | None \<Rightarrow> []);
               b = \<lparr>bi_Email = d_Email d, bi_Name = d_Name d, bi_Locale = d_Locale d, bi_RecipientVars = d_Vars d,
                    bi_TenantVars = tenantVars, bi_UnsubscribeURL = ul_body unsub,
                    bi_Vars = (case campaign of Some c \<Rightarrow> c_Vars c | None \<Rightarrow> []),
                    bi_CampaignID = (case campaign of Some c \<Rightarrow> c_ID c | None \<Rightarrow> ''''),
                    bi_CampaignName = (case campaign of Some c \<Rightarrow> c_Name c | None \<Rightarrow> '''')\<rparr>
           in case x_Render x version locales b of Inl err \<Rightarrow> Inl err
           | Inr (subject, html, txt) \<Rightarrow>
             (case (case key of
                      Some key \<Rightarrow> if domain \<noteq> '''' then track_html x (ts_Tracking settings) tenantID (d_ID d) key html else Inr html
                    | None \<Rightarrow> Inr html) of Inl err \<Rightarrow> Inl err
              | Inr html \<Rightarrow>
                Inr (\<lparr>om_TenantID = tenantID, om_DeliveryID = d_ID d, om_CampaignID = d_CampaignID d,
                      om_VersionID = mv_ID version, om_SenderID = d_SenderID d, om_Lane = d_Lane d, om_Recipient = rc,
                      om_FromName = pf_Name fr, om_From = pf_Email fr, om_ReplyTo = pf_ReplyTo fr,
                      om_Subject = subject, om_HTML = html, om_Text = txt,
                      om_Headers = outboundHeaders d, om_UnsubscribeURL = ul_body unsub\<rparr>, unsub)))))"

end
