(* ===== verification/Sender_Process.thy ===== *)
theory Sender_Process
  imports Sender_Message Sender_Limiter Mem_Repos
begin

text \<open>
  \<^verbatim>\<open>Sender.process\<close> of \<^verbatim>\<open>internal/sender/process.go\<close>: one claimed delivery end to end.  The state is
  the health tracker, the rate buckets and the data of the tenant and of the system tenant;
  what the configuration caches answer is the record \<open>reads\<close>, what the network and the clock
  do during the call is the record \<open>run_env\<close>.  The trace lists the effects on the connection
  pool in order.
\<close>

section \<open>Inputs\<close>

record sender_cfg =
  sc_WorkerID :: string
  sc_DefaultRatePerSecond :: rat
  sc_RateLimitCap :: duration
  sc_AuthRetryAfter :: duration
  sc_ProbeInterval :: duration
  sc_PerTenantRate :: "string \<Rightarrow> rat option"

text \<open>A failed configuration read: whether the error is \<^verbatim>\<open>ErrNotFound\<close>, and its text.\<close>

type_synonym read_err = "bool \<times> string"

record reads =
  rd_settings :: "string + TenantSettings"
  rd_campaign :: "string \<Rightarrow> read_err + Campaign"
  rd_version :: "string \<Rightarrow> read_err + MessageVersion"
  rd_sender :: "string \<Rightarrow> read_err + Sender"
  rd_transport :: "string \<Rightarrow> read_err + Transport"
  rd_domain :: "string \<Rightarrow> read_err + SendingDomain option"

text \<open>
  The clock readings of the call, the context at the two points where it is consulted, the
  outcome of the limiter's sleep, of connecting and of the SMTP transaction, the random
  value, the replica count, and the writers that interfere with a status update.
\<close>

record run_env =
  re_started :: go_time
  re_sendStart :: go_time
  re_finished :: go_time
  re_deferClock :: go_time
  re_limiterNow :: go_time
  re_penaltyNow :: go_time
  re_statusClock :: "nat \<Rightarrow> go_time"
  re_other :: "nat \<Rightarrow> (string, Transport) gomap \<Rightarrow> (string, Transport) gomap"
  re_ctxRender :: bool
  re_ctxLimiter :: "string option"
  re_sleep :: "duration \<Rightarrow> string option"
  re_ctxConnect :: bool
  re_connect :: "Transport \<Rightarrow> string \<Rightarrow> send_error option"
  re_smtp :: "string \<Rightarrow> string \<Rightarrow> string \<Rightarrow> send_error option"
  re_rand :: rat
  re_workers :: int

record sstate =
  ss_health :: healthTracker
  ss_buckets :: buckets
  ss_tenant :: tenant_data
  ss_system :: "store_err + tenant_data"

datatype effect = Connect string | Transact string string string | Put string bool | CloseTransport string

section \<open>Parts of the loop\<close>

definition policy :: "sender_cfg \<Rightarrow> TenantSettings \<Rightarrow> Policy" where
  "policy cfg settings =
    (let p = DefaultPolicy (ts_Retry settings);
         p = (if sc_RateLimitCap cfg > 0 then p\<lparr>po_RateLimitCap := sc_RateLimitCap cfg\<rparr> else p)
     in if sc_AuthRetryAfter cfg > 0 then p\<lparr>po_AuthRetryAfter := sc_AuthRetryAfter cfg\<rparr> else p)"

definition domainOf :: "string \<Rightarrow> string" where
  "domainOf addr =
    (case split_last CHR ''@'' addr of Some (_, d) \<Rightarrow> if d \<noteq> '''' then ToLower d else '''' | None \<Rightarrow> '''')"

definition Reusable :: "Failure \<Rightarrow> bool" where
  "Reusable f =
    (if f_Class f = ErrorClassNone then True
     else if f_Code f = 0 \<or> f_Code f = 421 then False
     else f_Code f \<ge> 400 \<and> f_Code f < 600)"

definition perTenantRate :: "sender_cfg \<Rightarrow> Transport \<Rightarrow> rat" where
  "perTenantRate cfg tr =
    (if \<not> tr_Shared tr then 0 else case sc_PerTenantRate cfg (tr_ID tr) of Some r \<Rightarrow> r | None \<Rightarrow> 0)"

definition password :: "ext \<Rightarrow> Transport \<Rightarrow> string + string" where
  "password x tr = (if length (tr_Password tr) = 0 then Inr '''' else x_Decrypt x (tr_Password tr))"

definition dkimFor :: "ext \<Rightarrow> SendingDomain option \<Rightarrow> dkimKey option" where
  "dkimFor x dm =
    (case dm of None \<Rightarrow> None
     | Some dm \<Rightarrow>
         if sd_DKIMSelector dm = '''' \<or> length (sd_DKIMPrivateKey dm) = 0 then None
         else map_option (\<lambda>s. \<lparr>dk_domain = sd_Domain dm, dk_selector = sd_DKIMSelector dm, dk_signer = s\<rparr>) (x_DKIMSigner x dm))"

definition IsPlatformID :: "string \<Rightarrow> bool" where "IsPlatformID i = HasPrefix i ''sys:''"

definition err_text :: "store_err \<Rightarrow> string" where
  "err_text e = (case e of ErrNotFound \<Rightarrow> ''not found'' | ErrConflict \<Rightarrow> ''conflict'' | ErrInvalid \<Rightarrow> ''invalid''
     | ErrLeaseLost \<Rightarrow> ''lease lost'' | ErrReadOnly \<Rightarrow> ''read only'' | ErrClosed \<Rightarrow> ''closed'')"

definition platformSuppressed :: "env \<Rightarrow> Transport \<Rightarrow> string \<Rightarrow> go_time \<Rightarrow> sstate \<Rightarrow> string + bool" where
  "platformSuppressed e tr emailNorm nw s =
    (if \<not> tr_Shared tr then Inr False
     else case ss_system s of Inl err \<Rightarrow> Inl (err_text err)
     | Inr sys \<Rightarrow> (case IsSuppressed e emailNorm nw sys of Inl err \<Rightarrow> Inl (err_text err) | Inr (ok, _) \<Rightarrow> Inr ok))"

text \<open>Whether the address is suppressed, by the tenant's list or, on a shared transport, by the platform's.\<close>

definition check_suppression ::
  "env \<Rightarrow> string \<Rightarrow> Delivery \<Rightarrow> TenantSettings \<Rightarrow> Transport \<Rightarrow> run_env \<Rightarrow> sstate \<Rightarrow> DeliveryResult + bool" where
  "check_suppression e worker d settings tr re s =
    (if \<not> (ts_SuppressionEnabled settings \<and> d_Lane d \<noteq> LaneProbe) then Inr False
     else case IsSuppressed e (d_EmailNorm d) (re_started re) (ss_tenant s) of
         Inl err \<Rightarrow> Inl (internalDefer worker d ''suppression lookup'' (err_text err) (re_deferClock re))
       | Inr (True, _) \<Rightarrow> Inr True
       | Inr (False, _) \<Rightarrow>
           (case platformSuppressed e tr (d_EmailNorm d) (re_started re) s of
              Inl err \<Rightarrow> Inl (internalDefer worker d ''platform suppression lookup'' err (re_deferClock re))
            | Inr b \<Rightarrow> Inr b))"

text \<open>The rows a delivery is sent with, or the result of a failed read.\<close>

record rows =
  ro_settings :: TenantSettings
  ro_campaign :: "Campaign option"
  ro_version :: MessageVersion
  ro_sender :: Sender
  ro_transport :: Transport
  ro_domain :: "SendingDomain option"

definition load_rows :: "string \<Rightarrow> reads \<Rightarrow> Delivery \<Rightarrow> go_time \<Rightarrow> DeliveryResult + rows" where
  "load_rows worker rd d nw =
    (case rd_settings rd of Inl err \<Rightarrow> Inl (internalDefer worker d ''tenant settings'' err nw)
     | Inr settings \<Rightarrow>
    (case (if d_CampaignID d \<noteq> '''' then map_sum id Some (rd_campaign rd (d_CampaignID d)) else Inr None) of
       Inl err \<Rightarrow> Inl (configResult worker d ''campaign'' err nw)
     | Inr campaign \<Rightarrow>
    (let versionID = (if d_VersionID d = '''' then (case campaign of Some c \<Rightarrow> c_VersionID c | None \<Rightarrow> '''') else d_VersionID d)
     in case rd_version rd versionID of Inl err \<Rightarrow> Inl (configResult worker d ''message version'' err nw)
     | Inr version \<Rightarrow>
    (case rd_sender rd (d_SenderID d) of Inl err \<Rightarrow> Inl (configResult worker d ''sender'' err nw)
     | Inr sn \<Rightarrow>
    (case rd_transport rd (se_TransportID sn) of Inl err \<Rightarrow> Inl (configResult worker d ''transport'' err nw)
     | Inr tr \<Rightarrow>
    (case rd_domain rd (se_DomainID sn) of
       Inl (nf, err) \<Rightarrow>
         if \<not> nf then Inl (internalDefer worker d ''sending domain'' err nw)
         else Inr \<lparr>ro_settings = settings, ro_campaign = campaign, ro_version = version, ro_sender = sn, ro_transport = tr, ro_domain = None\<rparr>
     | Inr dm \<Rightarrow>
         Inr \<lparr>ro_settings = settings, ro_campaign = campaign, ro_version = version, ro_sender = sn, ro_transport = tr, ro_domain = dm\<rparr>))))))"

definition return_path :: "TenantSettings \<Rightarrow> SendingDomain option \<Rightarrow> string \<Rightarrow> string \<Rightarrow> string" where
  "return_path settings dm deliveryID fr =
    (case (SelectKey (tk_SigningKeys (ts_Tracking settings)), dm) of
       (Some key, Some dm) \<Rightarrow>
         (let v = VERPAddress (sd_ReturnPathDomain dm) deliveryID (sk_Secret key) in if v \<noteq> '''' then v else fr)
     | _ \<Rightarrow> fr)"

definition limiter_keys :: "sender_cfg \<Rightarrow> string \<Rightarrow> Transport \<Rightarrow> string \<Rightarrow> Key list" where
  "limiter_keys cfg tenantID tr rcptDomain =
    (let rate = (if tr_RatePerSecond tr \<le> 0 then sc_DefaultRatePerSecond cfg else tr_RatePerSecond tr);
         transportKey = sharedTransportKey tenantID tr;
         perTenant = perTenantRate cfg tr
     in [\<lparr>k_Name = transportKey, k_Rate = rate\<rparr>,
         \<lparr>k_Name = transportKey @ ''|'' @ rcptDomain,
          k_Rate = (case map_of (tr_DomainRatePerSecond tr) rcptDomain of Some r \<Rightarrow> r | None \<Rightarrow> 0)\<rparr>]
        @ (if perTenant > 0 then [\<lparr>k_Name = tenantBucket transportKey tenantID, k_Rate = perTenant\<rparr>] else []))"

text \<open>A status transition written to the tables the transport's configuration is read from.\<close>

definition persist_status ::
  "sender_cfg \<Rightarrow> env \<Rightarrow> string \<Rightarrow> Transport \<Rightarrow> run_env \<Rightarrow> TransportStatus \<Rightarrow> string \<Rightarrow> sstate \<Rightarrow> sstate \<times> effect list" where
  "persist_status cfg e tenantID tr re status reason s =
    (let set = setTransportStatus e (re_other re) (re_statusClock re) (tr_ID tr) status reason
                 (statusUntil (sc_ProbeInterval cfg) status (re_finished re));
         closed = (\<lambda>w. if w \<and> status = TransportUnhealthy then [CloseTransport (tr_ID tr)] else [])
     in if \<not> IsPlatformID (tr_ID tr) \<or> tenantID = SystemTenantID then
          (case set (td_transports (ss_tenant s)) of (w, ts) \<Rightarrow>
             (s\<lparr>ss_tenant := (ss_tenant s)\<lparr>td_transports := ts\<rparr>\<rparr>, closed w))
        else case ss_system s of Inl _ \<Rightarrow> (s, [])
        | Inr sys \<Rightarrow>
            (case set (td_transports sys) of (w, ts) \<Rightarrow>
               (s\<lparr>ss_system := Inr (sys\<lparr>td_transports := ts\<rparr>)\<rparr>, closed w)))"

text \<open>What a classified outcome does to the circuit and the buckets.\<close>

definition record_health ::
  "sender_cfg \<Rightarrow> env \<Rightarrow> string \<Rightarrow> Transport \<Rightarrow> string \<Rightarrow> run_env \<Rightarrow> Failure \<Rightarrow> sstate \<Rightarrow> sstate \<times> effect list" where
  "record_health cfg e tenantID tr rcptDomain re f s =
    (let scope = limitScope tenantID tr;
         transportKey = sharedTransportKey tenantID tr;
         failed = (\<lambda>s. case health_fail scope (tr_ID tr) (f_Class f) (re_finished re) (ss_health s) of
                         (None, h) \<Rightarrow> (s\<lparr>ss_health := h\<rparr>, [])
                       | (Some status, h) \<Rightarrow> persist_status cfg e tenantID tr re status (f_Message f) (s\<lparr>ss_health := h\<rparr>))
     in case f_Class f of
          ErrorClassNone \<Rightarrow>
            (case health_success scope (tr_ID tr) (re_finished re) (ss_health s) of
               (None, h) \<Rightarrow> (s\<lparr>ss_health := h\<rparr>, [])
             | (Some status, h) \<Rightarrow> persist_status cfg e tenantID tr re status ''delivery succeeded'' (s\<lparr>ss_health := h\<rparr>))
        | ErrorClassRateLimited \<Rightarrow>
            failed (s\<lparr>ss_buckets := Penalize (re_penaltyNow re) [transportKey, transportKey @ ''|'' @ rcptDomain] (ss_buckets s)\<rparr>)
        | ErrorClassAuth \<Rightarrow> failed s
        | _ \<Rightarrow> (s, []))"

text \<open>The SMTP transaction: connect, send, return the connection.\<close>

definition transact :: "ext \<Rightarrow> Transport \<Rightarrow> string \<Rightarrow> string \<Rightarrow> Delivery \<Rightarrow> string \<Rightarrow> run_env \<Rightarrow> string + Failure \<times> effect list" where
  "transact x tr pw returnPath d raw re =
    (case re_connect re tr pw of
       Some err \<Rightarrow> if re_ctxConnect re then Inl (er_text err) else Inr (Classify (Some err), [Connect (tr_ID tr)])
     | None \<Rightarrow>
         (let f = Classify (re_smtp re returnPath (d_Email d) raw)
          in Inr (f, [Connect (tr_ID tr), Transact returnPath (d_Email d) raw, Put (tr_ID tr) (Reusable f)])))"

definition with_times :: "string \<Rightarrow> run_env \<Rightarrow> DeliveryResult \<Rightarrow> DeliveryResult" where
  "with_times messageID re res =
    res\<lparr>dr_MessageID := messageID,
        dr_Attempt := map_option (\<lambda>a. a\<lparr>a_StartedAt := re_sendStart re, a_FinishedAt := re_finished re\<rparr>) (dr_Attempt res)\<rparr>"

text \<open>After the transaction: circuit, result, and \<^verbatim>\<open>MarkSent\<close> for an accepted message.\<close>

definition finish ::
  "sender_cfg \<Rightarrow> env \<Rightarrow> string \<Rightarrow> Transport \<Rightarrow> Policy \<Rightarrow> Delivery \<Rightarrow> string \<Rightarrow> run_env \<Rightarrow> Failure \<Rightarrow> sstate
    \<Rightarrow> DeliveryResult \<times> sstate \<times> effect list" where
  "finish cfg e tenantID tr pol d messageID re f s =
    (let (s, es) = record_health cfg e tenantID tr (domainOf (d_Email d)) re f s;
         res = with_times messageID re (decide (sc_WorkerID cfg) d pol (re_rand re) f (re_finished re) (tr_ID tr))
     in if f_Class f = ErrorClassNone then
          (case MarkSent e (d_ID d) (sc_WorkerID cfg) messageID (re_finished re) (ss_tenant s) of
             (Some ErrLeaseLost, td) \<Rightarrow> (zero_result, s\<lparr>ss_tenant := td\<rparr>, es)
           | (_, td) \<Rightarrow> (res, s\<lparr>ss_tenant := td\<rparr>, es))
        else (res, s, es))"

definition suppressed_result :: "string \<Rightarrow> Delivery \<Rightarrow> string \<Rightarrow> DeliveryResult" where
  "suppressed_result worker d msg =
    zero_result\<lparr>dr_DeliveryID := d_ID d, dr_LeaseOwner := worker, dr_NewStatus := DeliverySuppressed, dr_Error := msg\<rparr>"

definition unusable_result :: "string \<Rightarrow> Delivery \<Rightarrow> Policy \<Rightarrow> Transport \<Rightarrow> go_time \<Rightarrow> DeliveryResult" where
  "unusable_result worker d pol tr nw =
    zero_result\<lparr>dr_DeliveryID := d_ID d, dr_LeaseOwner := worker, dr_NewStatus := DeliveryQueued,
      dr_NextAttemptAt := nw + po_AuthRetryAfter pol, dr_ErrorClass := ErrorClassAuth,
      dr_Error := FailureReason (tr_Shared tr) ''transport is unhealthy''\<rparr>"

definition msg_err_text :: "msg_err \<Rightarrow> string" where
  "msg_err_text e = (case e of ErrHeaderInjection n \<Rightarrow> ''sender: header injection: '' @ n
     | ErrHeaderNotAllowed n \<Rightarrow> ''sender: header not allowed: '' @ n
     | ErrNoBody \<Rightarrow> ''sender: message has no body'' | ErrCompose t \<Rightarrow> t)"

text \<open>The hook: the message it leaves, or the result it ends the delivery with.\<close>

definition before_send :: "ext \<Rightarrow> string \<Rightarrow> Delivery \<Rightarrow> Policy \<Rightarrow> Transport \<Rightarrow> run_env \<Rightarrow> OutboundMessage \<Rightarrow> DeliveryResult + OutboundMessage" where
  "before_send x worker d pol tr re msg =
    (case x_BeforeSend x of None \<Rightarrow> Inr msg
     | Some hook \<Rightarrow>
         (case hook msg of
            (msg, None) \<Rightarrow> Inr msg
          | (msg, Some (True, _)) \<Rightarrow> Inl (suppressed_result worker d ''skipped by BeforeSend'')
          | (msg, Some (False, err)) \<Rightarrow>
              Inl (decide worker d pol (re_rand re)
                    (zero_failure\<lparr>f_Class := ErrorClassTransient, f_Message := ''BeforeSend: '' @ err\<rparr>) (re_started re) (tr_ID tr))))"

section \<open>process\<close>

text \<open>From the built message on: limiter, password, transaction.\<close>

definition deliver ::
  "sender_cfg \<Rightarrow> ext \<Rightarrow> env \<Rightarrow> string \<Rightarrow> Delivery \<Rightarrow> rows \<Rightarrow> Policy \<Rightarrow> string \<Rightarrow> string \<Rightarrow> string \<Rightarrow> run_env \<Rightarrow> sstate
    \<Rightarrow> DeliveryResult \<times> sstate \<times> effect list" where
  "deliver cfg x e tenantID d ro pol messageID returnPath raw re s =
    (let tr = ro_transport ro; worker = sc_WorkerID cfg;
         ((waited, lim_err), bs) = Wait (re_workers re) (re_limiterNow re) (re_ctxLimiter re) (re_sleep re)
            (limiter_keys cfg tenantID tr (domainOf (d_Email d))) (ss_buckets s);
         s = s\<lparr>ss_buckets := bs\<rparr>
     in case lim_err of Some err \<Rightarrow> (internalDefer worker d ''rate limiter'' err (re_deferClock re), s, [])
     | None \<Rightarrow>
    (case password x tr of Inl err \<Rightarrow> (internalDefer worker d ''transport password'' err (re_deferClock re), s, [])
     | Inr pw \<Rightarrow>
    (case transact x tr pw returnPath d raw re of
       Inl err \<Rightarrow> (internalDefer worker d ''connect'' err (re_deferClock re), s, [Connect (tr_ID tr)])
     | Inr (f, es) \<Rightarrow>
         (case finish cfg e tenantID tr pol d messageID re f s of (res, s, es') \<Rightarrow> (res, s, es @ es')))))"

definition process ::
  "sender_cfg \<Rightarrow> ext \<Rightarrow> env \<Rightarrow> reads \<Rightarrow> string \<Rightarrow> run_env \<Rightarrow> Delivery \<Rightarrow> sstate \<Rightarrow> DeliveryResult \<times> sstate \<times> effect list" where
  "process cfg x e rd tenantID re d s =
    (let worker = sc_WorkerID cfg
     in case load_rows worker rd d (re_deferClock re) of Inl res \<Rightarrow> (res, s, [])
     | Inr ro \<Rightarrow>
    (let settings = ro_settings ro; tr = ro_transport ro; pol = policy cfg settings
     in case check_suppression e worker d settings tr re s of
       Inl res \<Rightarrow> (res, s, [])
     | Inr True \<Rightarrow> (suppressed_result worker d ''address is suppressed'', s, [])
     | Inr False \<Rightarrow>
    (let (usable, h) = transportUsable tenantID tr (re_started re) (ss_health s);
         s = s\<lparr>ss_health := h\<rparr>
     in if \<not> usable then (unusable_result worker d pol tr (re_started re), s, [])
        else
    (case renderMessage x tenantID settings (ro_campaign ro) (ro_version ro) (ro_sender ro) d of
       Inl err \<Rightarrow> if re_ctxRender re then (internalDefer worker d ''render'' err (re_deferClock re), s, [])
                  else (failResult worker d ErrorClassPermanent 0 err (re_started re), s, [])
     | Inr (msg, unsub) \<Rightarrow>
    (case before_send x worker d pol tr re msg of Inl res \<Rightarrow> (res, s, [])
     | Inr msg \<Rightarrow>
    (let messageID = d_ID d @ ''@'' @ domainOf (om_From msg)
     in case buildMessage x \<lparr>mi_msg = msg, mi_messageID = messageID, mi_attemptNo = d_AttemptCount d + 1, mi_date = re_started re,
               mi_listUnsubscribe = ul_header unsub, mi_oneClick = ul_oneClick unsub, mi_dkim = dkimFor x (ro_domain ro)\<rparr> of
       Inl err \<Rightarrow> (failResult worker d ErrorClassPermanent 0 (msg_err_text err) (re_started re), s, [])
     | Inr raw \<Rightarrow>
         deliver cfg x e tenantID d ro pol messageID (return_path settings (ro_domain ro) (d_ID d) (om_From msg)) raw re s))))))"

end
