(* ===== verification/Process_Thms.thy ===== *)
theory Process_Thms
  imports Sender_Process Samples
begin

text \<open>
  Properties of processing one delivery: who is never contacted, what leaves the process when
  somebody is, and that an accepted message is on record before its result is committed.
\<close>

section \<open>Case analysis\<close>

text \<open>A result that names the delivery and the worker and does not claim the message was sent.\<close>

definition unsent_result :: "string \<Rightarrow> Delivery \<Rightarrow> DeliveryResult \<Rightarrow> bool" where
  "unsent_result worker d res \<longleftrightarrow> dr_DeliveryID res = d_ID d \<and> dr_LeaseOwner res = worker \<and> dr_NewStatus res \<noteq> DeliverySent"

lemma unsent_results [simp]:
  "unsent_result w d (internalDefer w d a b t)" "unsent_result w d (configResult w d a err t)"
  "unsent_result w d (failResult w d c n m t)" "unsent_result w d (suppressed_result w d m)"
  "unsent_result w d (unusable_result w d pol tr t)"
  by (simp_all add: unsent_result_def internalDefer_def configResult_def failResult_def suppressed_result_def unusable_result_def zero_result_def)

lemma decide_fields [simp]:
  "dr_DeliveryID (decide w d pol r f t i) = d_ID d" "dr_LeaseOwner (decide w d pol r f t i) = w"
  "dr_NewStatus (decide w d pol r f t i) = dc_Status (Decide pol r (f_Class f) (d_AttemptCount d) t)"
  by (simp_all add: decide_def Let_def)

lemma Decide_Sent: "dc_Status (Decide pol r c n t) = DeliverySent \<longleftrightarrow> c = ErrorClassNone"
  by (cases c) (auto simp: Decide_def Let_def)

lemma Classify_error: "f_Class (Classify (Some err)) \<noteq> ErrorClassNone"
proof -
  have "\<forall>r \<in> set rules. r_class r \<noteq> ErrorClassNone" by (simp add: rules_def)
  then have "find P rules = Some r \<Longrightarrow> r_class r \<noteq> ErrorClassNone" for P r by (auto simp: find_Some_iff)
  then show ?thesis by (auto simp: Classify_def classifyNetwork_def zero_failure_def Let_def split: option.splits prod.splits)
qed

lemma buildMessage_Inr: "buildMessage x inp = Inr raw \<Longrightarrow> validateOutbound x (mi_msg inp) = None \<and> x_Compose x inp = Inr raw"
  by (auto simp: buildMessage_def Let_def split: if_splits option.splits sum.splits)

lemma load_rows_Inl: "load_rows w rd d t = Inl res \<Longrightarrow> unsent_result w d res"
  by (auto simp: load_rows_def Let_def split: sum.splits if_splits)

lemma check_suppression_Inl: "check_suppression e w d st tr re s = Inl res \<Longrightarrow> unsent_result w d res"
  by (auto simp: check_suppression_def split: sum.splits if_splits prod.splits bool.splits)

lemma before_send_Inl: "before_send x w d pol tr re msg = Inl res \<Longrightarrow> unsent_result w d res"
  by (auto simp: before_send_def unsent_result_def Decide_Sent split: option.splits prod.splits bool.splits)
    (auto simp: suppressed_result_def zero_result_def)

text \<open>Either the delivery ends before anybody is contacted, or everything was in order up to the built message.\<close>

lemma process_cases:
  assumes "process cfg x e rd tenantID re d s = (res, s', es)"
  obtains (early) "es = []" "unsent_result (sc_WorkerID cfg) d res" "ss_tenant s' = ss_tenant s" "ss_buckets s' = ss_buckets s"
  | (deliver) ro msg msg' unsub raw h where
      "load_rows (sc_WorkerID cfg) rd d (re_deferClock re) = Inr ro"
      "check_suppression e (sc_WorkerID cfg) d (ro_settings ro) (ro_transport ro) re s = Inr False"
      "transportUsable tenantID (ro_transport ro) (re_started re) (ss_health s) = (True, h)"
      "renderMessage x tenantID (ro_settings ro) (ro_campaign ro) (ro_version ro) (ro_sender ro) d = Inr (msg', unsub)"
      "before_send x (sc_WorkerID cfg) d (policy cfg (ro_settings ro)) (ro_transport ro) re msg' = Inr msg"
      "buildMessage x \<lparr>mi_msg = msg, mi_messageID = d_ID d @ ''@'' @ domainOf (om_From msg), mi_attemptNo = d_AttemptCount d + 1,
         mi_date = re_started re, mi_listUnsubscribe = ul_header unsub, mi_oneClick = ul_oneClick unsub,
         mi_dkim = dkimFor x (ro_domain ro)\<rparr> = Inr raw"
      "deliver cfg x e tenantID d ro (policy cfg (ro_settings ro)) (d_ID d @ ''@'' @ domainOf (om_From msg))
         (return_path (ro_settings ro) (ro_domain ro) (d_ID d) (om_From msg)) raw re (s\<lparr>ss_health := h\<rparr>) = (res, s', es)"
proof (cases "load_rows (sc_WorkerID cfg) rd d (re_deferClock re)")
  case (Inl r)
  then show ?thesis using assms early load_rows_Inl [OF Inl] by (simp add: process_def)
next
  case (Inr ro)
  note p1 = assms [unfolded process_def Let_def Inr sum.case]
  show ?thesis
  proof (cases "check_suppression e (sc_WorkerID cfg) d (ro_settings ro) (ro_transport ro) re s")
    case (Inl r)
    then show ?thesis using p1 early check_suppression_Inl [OF Inl] by simp
  next
    case sup: (Inr b)
    obtain u h where u: "transportUsable tenantID (ro_transport ro) (re_started re) (ss_health s) = (u, h)" by fastforce
    show ?thesis
    proof (cases "b \<or> \<not> u")
      case True then show ?thesis using p1 sup u early by (auto split: bool.splits)
    next
      case False
      then have b: "b = False" "u = True" by simp_all
      note p2 = p1 [unfolded sup b sum.case bool.case u prod.case if_not_P simp_thms if_True if_False]
      show ?thesis
      proof (cases "renderMessage x tenantID (ro_settings ro) (ro_campaign ro) (ro_version ro) (ro_sender ro) d")
        case (Inl err) then show ?thesis using p2 early by (auto split: if_splits)
      next
        case ren: (Inr mu)
        obtain msg' unsub where mu: "mu = (msg', unsub)" by (cases mu)
        note p3 = p2 [unfolded ren mu sum.case prod.case]
        show ?thesis
        proof (cases "before_send x (sc_WorkerID cfg) d (policy cfg (ro_settings ro)) (ro_transport ro) re msg'")
          case (Inl r) then show ?thesis using p3 early before_send_Inl [OF Inl] by auto
        next
          case bs: (Inr msg)
          note p4 = p3 [unfolded bs sum.case]
          then show ?thesis using early deliver [OF Inr sup [unfolded b] u [unfolded b] ren [unfolded mu] bs]
            by (auto split: sum.splits)
        qed
      qed
    qed
  qed
qed

lemma finish_facts:
  assumes "finish cfg e tid tr pol d mid re f s = (res, s', es)"
  shows "\<forall>a b c. Transact a b c \<notin> set es"
    "res = zero_result \<or> (dr_DeliveryID res = d_ID d \<and> dr_LeaseOwner res = sc_WorkerID cfg \<and>
       (dr_NewStatus res = DeliverySent \<longleftrightarrow> f_Class f = ErrorClassNone))"
proof -
  have p: "\<forall>a b c. Transact a b c \<notin> set (snd (persist_status cfg e tid tr re st rs s))" for st rs s
    by (auto simp: persist_status_def Let_def split: sum.splits prod.splits)
  have "\<forall>a b c. Transact a b c \<notin> set (snd (record_health cfg e tid tr rd re f s))" for rd
    using p by (cases "f_Class f") (auto simp: record_health_def Let_def split: prod.splits option.splits)
  moreover have "es = snd (record_health cfg e tid tr (domainOf (d_Email d)) re f s)"
    using assms by (auto simp: finish_def Let_def split: prod.splits if_splits option.splits store_err.splits)
  ultimately show "\<forall>a b c. Transact a b c \<notin> set es" by simp
  show "res = zero_result \<or> (dr_DeliveryID res = d_ID d \<and> dr_LeaseOwner res = sc_WorkerID cfg \<and>
       (dr_NewStatus res = DeliverySent \<longleftrightarrow> f_Class f = ErrorClassNone))"
    using assms by (auto simp: finish_def Let_def with_times_def Decide_Sent split: prod.splits if_splits option.splits store_err.splits)
qed

section \<open>Contact\<close>

definition is_transact :: "effect \<Rightarrow> bool" where
  "is_transact ef = (case ef of Transact _ _ _ \<Rightarrow> True | _ \<Rightarrow> False)"

lemma no_transact: "\<forall>a b c. Transact a b c \<notin> set es \<Longrightarrow> filter is_transact es = []"
  by (induction es) (auto simp: is_transact_def split: effect.splits)

lemma deliver_cases:
  assumes "deliver cfg x e tid d ro pol mid rp raw re s = (res, s', es)"
  obtains (quiet) "filter is_transact es = []" "unsent_result (sc_WorkerID cfg) d res" "ss_tenant s' = ss_tenant s \<or> es \<noteq> []"
  | (sent) bs f es' where "es = [Connect (tr_ID (ro_transport ro)), Transact rp (d_Email d) raw, Put (tr_ID (ro_transport ro)) (Reusable f)] @ es'"
      "filter is_transact es' = []" "f = Classify (re_smtp re rp (d_Email d) raw)"
      "finish cfg e tid (ro_transport ro) pol d mid re f (s\<lparr>ss_buckets := bs\<rparr>) = (res, s', es')"
proof -
  let ?tr = "ro_transport ro"
  obtain w le bs where wt: "Wait (re_workers re) (re_limiterNow re) (re_ctxLimiter re) (re_sleep re)
      (limiter_keys cfg tid ?tr (domainOf (d_Email d))) (ss_buckets s) = ((w, le), bs)" by (metis surj_pair)
  note p1 = assms [unfolded deliver_def Let_def wt prod.case]
  show ?thesis
  proof (cases le)
    case (Some err) then show ?thesis using p1 quiet by auto
  next
    case None
    note p2 = p1 [unfolded None option.case]
    show ?thesis
    proof (cases "password x ?tr")
      case (Inl err) then show ?thesis using p2 quiet by auto
    next
      case (Inr pw)
      note p3 = p2 [unfolded Inr sum.case]
      show ?thesis
      proof (cases "re_connect re ?tr pw")
        case None
        obtain res1 s1 es1 where f: "finish cfg e tid ?tr pol d mid re (Classify (re_smtp re rp (d_Email d) raw)) (s\<lparr>ss_buckets := bs\<rparr>) = (res1, s1, es1)"
          by (metis surj_pair)
        then show ?thesis using p3 None sent no_transact [OF finish_facts(1) [OF f]] by (auto simp: transact_def Let_def)
      next
        case (Some err)
        show ?thesis
        proof (cases "re_ctxConnect re")
          case True then show ?thesis using p3 Some quiet by (auto simp: transact_def is_transact_def)
        next
          case False
          obtain res1 s1 es1 where f: "finish cfg e tid ?tr pol d mid re (Classify (Some err)) (s\<lparr>ss_buckets := bs\<rparr>) = (res1, s1, es1)"
            by (metis surj_pair)
          have c: "f_Class (Classify (Some err)) \<noteq> ErrorClassNone" by (rule Classify_error)
          then have "unsent_result (sc_WorkerID cfg) d res1"
            using f by (auto simp: finish_def unsent_result_def with_times_def Decide_Sent Let_def split: prod.splits)
          then show ?thesis using p3 Some False f quiet no_transact [OF finish_facts(1) [OF f]]
            by (auto simp: transact_def is_transact_def)
        qed
      qed
    qed
  qed
qed

text \<open>No suppression list that applies to the delivery has its address.\<close>

definition not_suppressed :: "env \<Rightarrow> Delivery \<Rightarrow> rows \<Rightarrow> go_time \<Rightarrow> sstate \<Rightarrow> bool" where
  "not_suppressed e d ro nw s \<longleftrightarrow>
    (ts_SuppressionEnabled (ro_settings ro) \<and> d_Lane d \<noteq> LaneProbe \<longrightarrow>
      (\<exists>v. IsSuppressed e (d_EmailNorm d) nw (ss_tenant s) = Inr (False, v)) \<and>
      (tr_Shared (ro_transport ro) \<longrightarrow> (\<exists>sys v. ss_system s = Inr sys \<and> IsSuppressed e (d_EmailNorm d) nw sys = Inr (False, v))))"

lemma check_suppression_False:
  "check_suppression e w d (ro_settings ro) (ro_transport ro) re s = Inr False \<Longrightarrow> not_suppressed e d ro (re_started re) s"
  by (auto simp: check_suppression_def platformSuppressed_def not_suppressed_def split: sum.splits prod.splits bool.splits if_splits)

text \<open>
  C13.  Who is contacted: if processing a delivery starts an SMTP transaction, it is the only one
  and goes to the delivery's address alone; the address was on no suppression list that
  applies (the tenant's, and the platform's on a shared transport) unless the delivery is a
  probe or the tenant turned suppression off; the transport was usable; and the bytes are
  those of a message that passed the header checks after the host's hook had run.  A result
  reports the message as sent only if the server accepted exactly that transaction.
\<close>

theorem process_contact:
  assumes "process cfg x e rd tenantID re d s = (res, s', es)"
  shows "(filter is_transact es = [] \<longrightarrow> dr_NewStatus res \<noteq> DeliverySent) \<and>
    (filter is_transact es \<noteq> [] \<longrightarrow>
      (\<exists>ro rp raw inp. filter is_transact es = [Transact rp (d_Email d) raw] \<and>
        load_rows (sc_WorkerID cfg) rd d (re_deferClock re) = Inr ro \<and>
        not_suppressed e d ro (re_started re) s \<and>
        fst (transportUsable tenantID (ro_transport ro) (re_started re) (ss_health s)) \<and>
        validateOutbound x (mi_msg inp) = None \<and> x_Compose x inp = Inr raw \<and>
        (dr_NewStatus res = DeliverySent \<longrightarrow> re_smtp re rp (d_Email d) raw = None)))"
  using assms
proof (cases rule: process_cases)
  case early then show ?thesis by (simp add: unsent_result_def)
next
  case (deliver ro msg msg' unsub raw h)
  from deliver(7) show ?thesis
  proof (cases rule: deliver_cases)
    case quiet then show ?thesis by (simp add: unsent_result_def)
  next
    case (sent bs f es')
    let ?rp = "return_path (ro_settings ro) (ro_domain ro) (d_ID d) (om_From msg)"
    have acc: "dr_NewStatus res = DeliverySent \<longrightarrow> re_smtp re ?rp (d_Email d) raw = None"
      using finish_facts(2) [OF sent(4)] sent(3) Classify_error
      by (cases "re_smtp re ?rp (d_Email d) raw") (auto simp: zero_result_def)
    have tr: "filter is_transact es = [Transact ?rp (d_Email d) raw]" using sent(1,2) by (simp add: is_transact_def)
    have us: "fst (transportUsable tenantID (ro_transport ro) (re_started re) (ss_health s))" using deliver(3) by simp
    note built = buildMessage_Inr [OF deliver(6)]
    show ?thesis using tr deliver(1) check_suppression_False [OF deliver(2)] us built acc by (intro conjI impI) (simp, blast)
  qed
qed

definition w_scfg :: sender_cfg where
  "w_scfg = \<lparr>sc_WorkerID = ''w1'', sc_DefaultRatePerSecond = 0, sc_RateLimitCap = 0, sc_AuthRetryAfter = 0,
     sc_ProbeInterval = Minute, sc_PerTenantRate = (\<lambda>_. None)\<rparr>"

definition w_ext :: ext where
  "w_ext = \<lparr>x_Resolve = None, x_ProbeVars = (\<lambda>_. []), x_Render = (\<lambda>v l b. Inr (''Hello'', '''', ''Hi '' @ bi_Name b)),
     x_RewriteLinks = (\<lambda>h f. Inr h), x_InsertPixel = (\<lambda>h u. h), x_RenderURL = (\<lambda>t d c. Inr ''''), x_UnsubscribeURL = None,
     x_BeforeSend = None, x_ParseAddress = (\<lambda>a. CHR ''@'' \<in> set a), x_Compose = (\<lambda>i. Inr (om_Subject (mi_msg i) @ om_Text (mi_msg i))),
     x_DKIMSigner = (\<lambda>_. None), x_Decrypt = Inr\<rparr>"

definition w_reads :: reads where
  "w_reads = \<lparr>rd_settings = Inr ((DefaultTenantSettings '''' ''t'' 0)\<lparr>ts_Tracking := \<lparr>tk_Domain = '''', tk_Opens = True, tk_Clicks = True, tk_SigningKeys = []\<rparr>\<rparr>),
     rd_campaign = (\<lambda>i. Inr (zero_campaign\<lparr>c_ID := i, c_VersionID := ''v''\<rparr>)), rd_version = (\<lambda>i. Inr (zero_version\<lparr>mv_ID := i\<rparr>)),
     rd_sender = (\<lambda>i. Inr (zero_sender\<lparr>se_ID := i, se_FromEmail := ''news@Acme.io'', se_TransportID := ''r''\<rparr>)),
     rd_transport = (\<lambda>i. Inr (zero_transport\<lparr>tr_ID := i\<rparr>)), rd_domain = (\<lambda>i. Inr None)\<rparr>"

definition w_renv :: run_env where
  "w_renv = \<lparr>re_started = 10 * Second, re_sendStart = 11 * Second, re_finished = 12 * Second, re_deferClock = 10 * Second,
     re_limiterNow = 10 * Second, re_penaltyNow = 12 * Second, re_statusClock = (\<lambda>_. 12 * Second), re_other = (\<lambda>_ r. r),
     re_ctxRender = False, re_ctxLimiter = None, re_sleep = (\<lambda>_. None), re_ctxConnect = False, re_connect = (\<lambda>_ _. None),
     re_smtp = (\<lambda>_ _ _. None), re_rand = 0, re_workers = 1\<rparr>"

definition w_penv :: env where
  "w_penv = \<lparr>e_closed = False, e_tenant = ''t'', e_clock = 10 * Second, e_newid = (\<lambda>n. replicate n CHR ''x'')\<rparr>"

definition w_leased :: Delivery where
  "w_leased = zero_delivery\<lparr>d_ID := ''d9'', d_CampaignID := ''c'', d_Email := ''ann@x.io'', d_EmailNorm := ''ann@x.io'', d_Name := ''Ann'',
     d_Status := DeliveryLeased, d_LeaseOwner := ''w1''\<rparr>"

definition w_sst :: sstate where
  "w_sst = \<lparr>ss_health = newHealthTracker 3 Minute, ss_buckets = [], ss_tenant = newTenantData\<lparr>td_deliveries := [(''d9'', w_leased)]\<rparr>,
     ss_system = Inr newTenantData\<rparr>"

definition w_run :: "DeliveryResult \<times> sstate \<times> effect list" where
  "w_run = process w_scfg w_ext w_penv w_reads ''t'' w_renv w_leased w_sst"

lemma w_run_effects: "snd (snd w_run) = [Connect ''r'', Transact ''news@Acme.io'' ''ann@x.io'' ''HelloHi Ann'', Put ''r'' True]"
  by code_simp

lemma w_run_eq: "process w_scfg w_ext w_penv w_reads ''t'' w_renv w_leased w_sst =
    (fst w_run, fst (snd w_run), [Connect ''r'', Transact ''news@Acme.io'' ''ann@x.io'' ''HelloHi Ann'', Put ''r'' True])"
  using w_run_effects by (metis prod.collapse w_run_def)

theorem process_contact_witness:
  "dr_NewStatus (fst w_run) = DeliverySent \<and>
   (\<exists>ro rp raw inp. [Transact ''news@Acme.io'' ''ann@x.io'' ''HelloHi Ann''] = [Transact rp (d_Email w_leased) raw] \<and>
      load_rows ''w1'' w_reads w_leased (10 * Second) = Inr ro \<and> not_suppressed w_penv w_leased ro (10 * Second) w_sst \<and>
      validateOutbound w_ext (mi_msg inp) = None \<and> x_Compose w_ext inp = Inr raw)"
proof -
  have st: "dr_NewStatus (fst w_run) = DeliverySent" by code_simp
  have f: "filter is_transact [Connect ''r'', Transact ''news@Acme.io'' ''ann@x.io'' ''HelloHi Ann'', Put ''r'' True] =
    [Transact ''news@Acme.io'' ''ann@x.io'' ''HelloHi Ann'']" by (simp add: is_transact_def)
  have "sc_WorkerID w_scfg = ''w1''" "re_deferClock w_renv = 10 * Second" "re_started w_renv = 10 * Second"
    by (simp_all add: w_scfg_def w_renv_def)
  then show ?thesis using process_contact [OF w_run_eq] st unfolding f by auto
qed

section \<open>Accepted messages\<close>

lemma record_health_deliveries:
  assumes "record_health cfg e tid tr dm re f s = (s', es)"
  shows "td_deliveries (ss_tenant s') = td_deliveries (ss_tenant s)"
proof -
  have p: "td_deliveries (ss_tenant (fst (persist_status cfg e tid tr re st rs s))) = td_deliveries (ss_tenant s)" for st rs s
    by (auto simp: persist_status_def Let_def split: sum.splits prod.splits)
  have "td_deliveries (ss_tenant (fst (record_health cfg e tid tr dm re f s))) = td_deliveries (ss_tenant s)"
    using p by (cases "f_Class f") (simp_all add: record_health_def Let_def split: prod.splits option.splits)
  then show ?thesis using assms by simp
qed

text \<open>
  C14.  An accepted message is on record at once: if the server accepted the transaction and the
  worker still holds the lease, then before the result is even committed the stored row is
  sent, with the message id that went out, and the result says so too; if the lease was lost
  meanwhile, the row is left alone and nothing is committed.
\<close>

theorem process_recorded:
  assumes "process cfg x e rd tenantID re d s = (res, s', es)" "Transact rp rcpt raw \<in> set es" "re_smtp re rp rcpt raw = None"
    "map_of (td_deliveries (ss_tenant s)) (d_ID d) = Some row" "\<not> e_closed e" "sc_WorkerID cfg \<noteq> ''''"
  shows "if d_Status row = DeliveryLeased \<and> d_LeaseOwner row = sc_WorkerID cfg
    then \<exists>row' fr. map_of (td_deliveries (ss_tenant s')) (d_ID d) = Some row' \<and> d_Status row' = DeliverySent \<and>
        d_MessageID row' = d_ID d @ ''@'' @ domainOf fr \<and> dr_MessageID res = d_MessageID row' \<and>
        dr_NewStatus res = DeliverySent \<and> dr_DeliveryID res = d_ID d
    else res = zero_result \<and> td_deliveries (ss_tenant s') = td_deliveries (ss_tenant s)"
  using assms(1)
proof (cases rule: process_cases)
  case early then show ?thesis using assms(2) by simp
next
  case (deliver ro msg msg' unsub raw' h)
  from deliver(7) show ?thesis
  proof (cases rule: deliver_cases)
    case quiet
    then have "\<not> is_transact (Transact rp rcpt raw)" using assms(2) by (metis filter_empty_conv)
    then show ?thesis by (simp add: is_transact_def)
  next
    case (sent bs f es')
    have "Transact rp rcpt raw \<in> set (filter is_transact es)" using assms(2) by (simp add: is_transact_def)
    then have "f = Classify None" using sent(1,2,3) assms(3) by (auto simp: is_transact_def)
    then have f: "f_Class f = ErrorClassNone" by (simp add: Classify_def zero_failure_def)
    obtain s1 es1 where rh: "record_health cfg e tenantID (ro_transport ro) (domainOf (d_Email d)) re f (s\<lparr>ss_health := h, ss_buckets := bs\<rparr>) = (s1, es1)"
      by (metis surj_pair)
    have row: "map_of (td_deliveries (ss_tenant s1)) (d_ID d) = Some row" "td_deliveries (ss_tenant s1) = td_deliveries (ss_tenant s)"
      using record_health_deliveries [OF rh] assms(4) by simp_all
    show ?thesis
    proof (cases "d_Status row = DeliveryLeased \<and> d_LeaseOwner row = sc_WorkerID cfg")
      case True
      then show ?thesis using sent(4) rh f row assms(5,6)
        by (auto simp: finish_def MarkSent_def truncateDelivery_def with_times_def Decide_Sent update_conv' intro!: exI [of _ "om_From msg"])
    next
      case False
      then show ?thesis using sent(4) rh f row assms(5,6) by (auto simp: finish_def MarkSent_def split: if_splits)
    qed
  qed
qed

theorem process_recorded_witness:
  "\<exists>row' fr. map_of (td_deliveries (ss_tenant (fst (snd w_run)))) ''d9'' = Some row' \<and> d_Status row' = DeliverySent \<and>
     d_MessageID row' = ''d9@'' @ domainOf fr \<and> dr_MessageID (fst w_run) = d_MessageID row'"
proof -
  have "map_of (td_deliveries (ss_tenant w_sst)) (d_ID w_leased) = Some w_leased" "\<not> e_closed w_penv" "sc_WorkerID w_scfg = ''w1''"
    "d_Status w_leased = DeliveryLeased" "d_LeaseOwner w_leased = ''w1''" "d_ID w_leased = ''d9''"
    "re_smtp w_renv ''news@Acme.io'' ''ann@x.io'' ''HelloHi Ann'' = None"
    by (simp_all add: w_sst_def w_leased_def zero_delivery_def w_penv_def w_scfg_def w_renv_def)
  then show ?thesis
    using process_recorded [OF w_run_eq, where rp = "''news@Acme.io''" and rcpt = "''ann@x.io''" and raw = "''HelloHi Ann''" and row = w_leased]
    by auto
qed

section \<open>Headers\<close>








text \<open>
  The check does not reach the \<^verbatim>\<open>List-Unsubscribe\<close> header: it is built from the links resolved before
  the hook, while the check looks at the message the hook leaves.  With a hook that replaces
  the unsubscribe URL, a destination with a line break passes into the header.
\<close>

definition w_hook :: "OutboundMessage \<Rightarrow> OutboundMessage \<times> (bool \<times> string) option" where
  "w_hook m = (m\<lparr>om_UnsubscribeURL := ''https://ok''\<rparr>, None)"

definition w_leak :: "DeliveryResult \<times> sstate \<times> effect list" where
  "w_leak = process w_scfg (w_ext\<lparr>x_BeforeSend := Some w_hook, x_Compose := (\<lambda>i. Inr (mi_listUnsubscribe i))\<rparr>) w_penv
     (w_reads\<lparr>rd_settings := map_sum id (\<lambda>t. t\<lparr>ts_UnsubscribeMode := UnsubscribeHost\<rparr>) (rd_settings w_reads)\<rparr>) ''t'' w_renv
     (w_leased\<lparr>d_UnsubscribeURL := ''https://u'' @ CRLF @ ''Bcc: all@x.io''\<rparr>) w_sst"

lemma list_unsubscribe_unchecked:
  "snd (snd w_leak) = [Connect ''r'', Transact ''news@Acme.io'' ''ann@x.io'' (''https://u'' @ CRLF @ ''Bcc: all@x.io''), Put ''r'' True]"
  by code_simp

end
