(* ===== verification/Sender_Loop.thy ===== *)
theory Sender_Loop
  imports Sender_Process
begin

text \<open>
  One sender replica around \<^verbatim>\<open>process\<close>: the claim loop, the worker pools and the heartbeat of
  \<^verbatim>\<open>internal/sender/sender.go\<close> and the result batcher of \<^verbatim>\<open>internal/sender/results.go\<close>.  The loop and
  the workers are goroutines; each of their steps on the shared counters and channels is a
  function here, and the step relation interleaves them in every order.
\<close>

section \<open>Configuration\<close>

record Config =
  cf_WorkerID :: string
  cf_Lanes :: "(Lane, int) gomap"
  cf_ClaimBatch :: int
  cf_LeaseFor :: duration
  cf_PollInterval :: duration
  cf_CampaignRefresh :: duration
  cf_TenantConcurrency :: int
  cf_TenantCacheTTL :: duration
  cf_HeartbeatInterval :: duration
  cf_WorkerTTL :: duration
  cf_ResultBatchSize :: int
  cf_ResultFlushInterval :: duration
  cf_RenderTimeout :: duration
  cf_TransportFailThreshold :: int
  cf_TransportProbeInterval :: duration

definition default_to :: "int \<Rightarrow> int \<Rightarrow> int" where
  "default_to v d = (if v \<le> 0 then d else v)"

definition withDefaults :: "Config \<Rightarrow> Config" where
  "withDefaults c =
    c\<lparr>cf_Lanes := (if length (cf_Lanes c) = 0 then [(LaneTransactional, 8), (LaneBulk, 32)] else cf_Lanes c),
      cf_ClaimBatch := default_to (cf_ClaimBatch c) 64,
      cf_LeaseFor := default_to (cf_LeaseFor c) (2 * Minute),
      cf_PollInterval := default_to (cf_PollInterval c) (200 * Millisecond),
      cf_CampaignRefresh := default_to (cf_CampaignRefresh c) (3 * Second),
      cf_TenantConcurrency := default_to (cf_TenantConcurrency c) 64,
      cf_TenantCacheTTL := default_to (cf_TenantCacheTTL c) (5 * Second),
      cf_HeartbeatInterval := default_to (cf_HeartbeatInterval c) (10 * Second),
      cf_WorkerTTL := default_to (cf_WorkerTTL c) (30 * Second),
      cf_ResultBatchSize := default_to (cf_ResultBatchSize c) 100,
      cf_ResultFlushInterval := default_to (cf_ResultFlushInterval c) Second,
      cf_RenderTimeout := default_to (cf_RenderTimeout c) (10 * Second),
      cf_TransportFailThreshold := default_to (cf_TransportFailThreshold c) 3,
      cf_TransportProbeInterval := default_to (cf_TransportProbeInterval c) Minute\<rparr>"

section \<open>State\<close>

record lane =
  ln_kind :: Lane
  ln_size :: int
  ln_inflight :: int
  ln_jobs :: "(string \<times> Delivery) list"
  ln_running :: "(string \<times> Delivery) list"

text \<open>The counters of a tenant; \<open>None\<close> as running set is the zero time of \<^verbatim>\<open>runningAt\<close>.\<close>

record tenantState =
  tn_running :: "(string list \<times> go_time) option"
  tn_inflight :: int
  tn_workers :: int

text \<open>Where the loop goroutine is: idle, holding a reservation, or handing out claimed deliveries.\<close>

datatype pc = Idle | Reserved nat string int | Sending nat string "Delivery list"

record replica =
  rp_lanes :: "lane list"
  rp_tenants :: "(string, tenantState) gomap"
  rp_order :: "string list"
  rp_cursor :: nat
  rp_workers :: int
  rp_pc :: pc

definition new_tenant :: tenantState where
  "new_tenant = \<lparr>tn_running = None, tn_inflight = 0, tn_workers = 0\<rparr>"

definition new_lanes :: "Config \<Rightarrow> lane list" where
  "new_lanes cfg =
    concat (map (\<lambda>kind. case map_of (cf_Lanes cfg) kind of
                 Some n \<Rightarrow> if n \<le> 0 then [] else [\<lparr>ln_kind = kind, ln_size = n, ln_inflight = 0, ln_jobs = [], ln_running = []\<rparr>]
               | None \<Rightarrow> []) [LaneTransactional, LaneBulk, LaneProbe])"

definition New :: "Config \<Rightarrow> string + replica" where
  "New cfg =
    (if cf_WorkerID cfg = '''' then Inl ''sender: WorkerID is required''
     else (let lanes = new_lanes (withDefaults cfg)
           in if length lanes = 0 then Inl ''sender: no lane has a worker pool''
              else Inr \<lparr>rp_lanes = lanes, rp_tenants = [], rp_order = [], rp_cursor = 0, rp_workers = 1, rp_pc = Idle\<rparr>))"

section \<open>Claiming\<close>

definition lane_add :: "nat \<Rightarrow> int \<Rightarrow> replica \<Rightarrow> replica" where
  "lane_add l n s = s\<lparr>rp_lanes := (rp_lanes s)[l := (rp_lanes s ! l)\<lparr>ln_inflight := ln_inflight (rp_lanes s ! l) + n\<rparr>]\<rparr>"

definition tenant_of :: "string \<Rightarrow> replica \<Rightarrow> tenantState" where
  "tenant_of t s = (case map_of (rp_tenants s) t of Some ts \<Rightarrow> ts | None \<Rightarrow> new_tenant)"

definition tenant_add :: "string \<Rightarrow> int \<Rightarrow> replica \<Rightarrow> replica" where
  "tenant_add t n s = s\<lparr>rp_tenants := AList.update t ((tenant_of t s)\<lparr>tn_inflight := tn_inflight (tenant_of t s) + n\<rparr>) (rp_tenants s)\<rparr>"

definition inflight_add :: "nat \<Rightarrow> string \<Rightarrow> int \<Rightarrow> replica \<Rightarrow> replica" where
  "inflight_add l t n s = tenant_add t n (lane_add l n s)"

definition claim_limit :: "Config \<Rightarrow> nat \<Rightarrow> string \<Rightarrow> replica \<Rightarrow> int" where
  "claim_limit cfg l t s =
    (let laneFree = ln_size (rp_lanes s ! l) - ln_inflight (rp_lanes s ! l);
         tenantFree = cf_TenantConcurrency cfg - tn_inflight (tenant_of t s)
     in min (min laneFree tenantFree) (cf_ClaimBatch cfg))"

definition claim_reserve :: "Config \<Rightarrow> nat \<Rightarrow> string \<Rightarrow> replica \<Rightarrow> replica option" where
  "claim_reserve cfg l t s =
    (let limit = claim_limit cfg l t s
     in if limit \<le> 0 then None else Some ((inflight_add l t limit s)\<lparr>rp_pc := Reserved l t limit\<rparr>))"

definition claim_request :: "Config \<Rightarrow> Lane \<Rightarrow> string list \<Rightarrow> int \<Rightarrow> go_time \<Rightarrow> ClaimRequest" where
  "claim_request cfg kind campaigns limit nw =
    \<lparr>cr_Lane = kind, cr_CampaignIDs = Some campaigns, cr_Limit = limit, cr_LeaseFor = cf_LeaseFor cfg,
     cr_WorkerID = cf_WorkerID cfg, cr_Now = nw\<rparr>"

text \<open>After the claim: the reservation is given back where it was not used, all of it after an error.\<close>

definition claim_result :: "(store_err + Delivery list) \<Rightarrow> nat \<Rightarrow> string \<Rightarrow> int \<Rightarrow> replica \<Rightarrow> replica" where
  "claim_result r l t limit s =
    (case r of Inl _ \<Rightarrow> (inflight_add l t (- limit) s)\<lparr>rp_pc := Idle\<rparr>
     | Inr ds \<Rightarrow>
         (let unused = limit - int (length ds);
              s = (if unused > 0 then inflight_add l t (- unused) s else s)
          in s\<lparr>rp_pc := (if ds = [] then Idle else Sending l t ds)\<rparr>))"

text \<open>One turn of the dispatch loop: the job is queued, or, on shutdown, dropped.\<close>

definition after_job :: "nat \<Rightarrow> string \<Rightarrow> Delivery list \<Rightarrow> pc" where
  "after_job l t ds = (if ds = [] then Idle else Sending l t ds)"

definition send_job :: "nat \<Rightarrow> string \<Rightarrow> Delivery \<Rightarrow> Delivery list \<Rightarrow> replica \<Rightarrow> replica" where
  "send_job l t d ds s =
    s\<lparr>rp_lanes := (rp_lanes s)[l := (rp_lanes s ! l)\<lparr>ln_jobs := ln_jobs (rp_lanes s ! l) @ [(t, d)]\<rparr>], rp_pc := after_job l t ds\<rparr>"

definition drop_job :: "nat \<Rightarrow> string \<Rightarrow> Delivery list \<Rightarrow> replica \<Rightarrow> replica" where
  "drop_job l t ds s = (inflight_add l t (- 1) s)\<lparr>rp_pc := after_job l t ds\<rparr>"

section \<open>Workers\<close>

definition take_job :: "nat \<Rightarrow> (string \<times> Delivery) \<Rightarrow> (string \<times> Delivery) list \<Rightarrow> replica \<Rightarrow> replica" where
  "take_job l j js s =
    s\<lparr>rp_lanes := (rp_lanes s)[l := (rp_lanes s ! l)\<lparr>ln_jobs := js, ln_running := j # ln_running (rp_lanes s ! l)\<rparr>]\<rparr>"

definition done_job :: "nat \<Rightarrow> (string \<times> Delivery) \<Rightarrow> replica \<Rightarrow> replica" where
  "done_job l j s =
    inflight_add l (fst j) (- 1)
      (s\<lparr>rp_lanes := (rp_lanes s)[l := (rp_lanes s ! l)\<lparr>ln_running := remove1 j (ln_running (rp_lanes s ! l))\<rparr>]\<rparr>)"

text \<open>
  The steps of a replica.  A send on a full channel blocks, so \<^verbatim>\<open>send\<close> needs room; a worker
  takes a job when the channel has one and one of the lane's \<^verbatim>\<open>size\<close> workers is free.  Reading the
  free capacity and adding the reservation is one step: only the loop adds to the counters, and
  what a worker gives back in between leaves more room than was read.
\<close>

inductive rstep :: "Config \<Rightarrow> replica \<Rightarrow> replica \<Rightarrow> bool" for cfg where
  reserve: "rp_pc s = Idle \<Longrightarrow> l < length (rp_lanes s) \<Longrightarrow> claim_reserve cfg l t s = Some s' \<Longrightarrow> rstep cfg s s'"
| claimed: "rp_pc s = Reserved l t limit \<Longrightarrow>
    fst (Claim e (claim_request cfg (ln_kind (rp_lanes s ! l)) campaigns limit nw) td) = r \<Longrightarrow> rstep cfg s (claim_result r l t limit s)"
| send: "rp_pc s = Sending l t (d # ds) \<Longrightarrow> int (length (ln_jobs (rp_lanes s ! l))) < ln_size (rp_lanes s ! l) \<Longrightarrow>
    rstep cfg s (send_job l t d ds s)"
| shutdown: "rp_pc s = Sending l t (d # ds) \<Longrightarrow> rstep cfg s (drop_job l t ds s)"
| work: "l < length (rp_lanes s) \<Longrightarrow> ln_jobs (rp_lanes s ! l) = j # js \<Longrightarrow>
    int (length (ln_running (rp_lanes s ! l))) < ln_size (rp_lanes s ! l) \<Longrightarrow> rstep cfg s (take_job l j js s)"
| finished: "l < length (rp_lanes s) \<Longrightarrow> j \<in> set (ln_running (rp_lanes s ! l)) \<Longrightarrow> rstep cfg s (done_job l j s)"

inductive_cases rstep_elim: "rstep cfg s s'"

inductive rreach :: "Config \<Rightarrow> replica \<Rightarrow> bool" for cfg where
  start: "New cfg = Inr s \<Longrightarrow> rreach cfg s"
| step: "rreach cfg s \<Longrightarrow> rstep (withDefaults cfg) s s' \<Longrightarrow> rreach cfg s'"

section \<open>The round\<close>

definition pass_order :: "replica \<Rightarrow> string list" where
  "pass_order s = (let n = length (rp_order s) in map (\<lambda>i. rp_order s ! ((rp_cursor s + i) mod n)) [0..<n])"

definition pass_cursor :: "replica \<Rightarrow> replica" where
  "pass_cursor s = (if length (rp_order s) > 0 then s\<lparr>rp_cursor := (rp_cursor s + 1) mod length (rp_order s)\<rparr> else s)"

definition refreshTenants :: "bool \<Rightarrow> (store_err + string list) \<Rightarrow> replica \<Rightarrow> replica" where
  "refreshTenants platformSenders active s =
    (case active of Inl _ \<Rightarrow> s
     | Inr ids \<Rightarrow>
         (let ids = (if platformSenders then ids @ [SystemTenantID] else ids)
          in s\<lparr>rp_order := ids, rp_cursor := (if length ids > 0 then rp_cursor s mod length ids else 0)\<rparr>))"

definition runningCampaigns ::
  "Config \<Rightarrow> env \<Rightarrow> go_time \<Rightarrow> tenant_data \<Rightarrow> tenantState \<Rightarrow> (store_err + string list) \<times> tenantState" where
  "runningCampaigns cfg e nw td t =
    (let load = (if e_closed e then (Inl ErrClosed, t)
                 else (let ids = map c_ID (walk_pages (td_campaigns td) \<lparr>pg_Limit = MaxPageLimit, pg_Cursor = ''''\<rparr>
                                   (\<lambda>c. c_Status c = CampaignRunning))
                       in (Inr ids, t\<lparr>tn_running := Some (ids, nw)\<rparr>)))
     in case tn_running t of
          Some (ids, tm) \<Rightarrow> if nw - tm < cf_CampaignRefresh cfg then (Inr ids, t) else load
        | None \<Rightarrow> load)"

section \<open>Heartbeat\<close>

text \<open>One tenant of the heartbeat: its data and the replica count seen there, 0 after an error.\<close>

definition heartbeat_tenant :: "Config \<Rightarrow> lane list \<Rightarrow> env \<Rightarrow> go_time \<Rightarrow> tenant_data \<Rightarrow> int \<times> tenant_data" where
  "heartbeat_tenant cfg lanes e nw td =
    (let w = \<lparr>wk_ID = cf_WorkerID cfg, wk_TenantID = '''', wk_Role = ''sender'', wk_Lanes = map ln_kind lanes,
              wk_Concurrency = sum_list (map ln_size lanes), wk_StartedAt = 0, wk_LastSeenAt = nw\<rparr>
     in case Heartbeat e w td of (Some _, td) \<Rightarrow> (0, td)
        | (None, td) \<Rightarrow>
            (case ListActive e (nw - cf_WorkerTTL cfg) td of Inl _ \<Rightarrow> (0, td)
             | Inr active \<Rightarrow>
                 (let n = int (length (filter (\<lambda>w. wk_Role w = ''sender'') active)) in (if n < 1 then 1 else n, td))))"

definition heartbeat_workers :: "int list \<Rightarrow> int" where
  "heartbeat_workers ns = foldl (\<lambda>m n. if n > m then n else m) 1 ns"

section \<open>Results\<close>

record deliveryRef =
  df_CampaignID :: string
  df_SenderID :: string
  df_Email :: string
  df_EmailNorm :: string
  df_Lane :: Lane
  df_AttemptNo :: int

record completion =
  cp_res :: DeliveryResult
  cp_d :: deliveryRef

definition ref_of :: "DeliveryResult \<Rightarrow> Delivery \<Rightarrow> deliveryRef" where
  "ref_of r d =
    \<lparr>df_CampaignID = d_CampaignID d, df_SenderID = d_SenderID d, df_Email = d_Email d, df_EmailNorm = d_EmailNorm d,
     df_Lane = d_Lane d, df_AttemptNo = (if dr_IncrementAttempt r then d_AttemptCount d + 1 else d_AttemptCount d)\<rparr>"

text \<open>\<^verbatim>\<open>add\<close>: the new buffer and whether the flusher is woken.\<close>

definition batcher_add :: "int \<Rightarrow> DeliveryResult \<Rightarrow> Delivery \<Rightarrow> completion list \<Rightarrow> completion list \<times> bool" where
  "batcher_add sz r d buf =
    (if dr_DeliveryID r = '''' then (buf, False)
     else (let buf = buf @ [\<lparr>cp_res = r, cp_d = ref_of r d\<rparr>] in (buf, int (length buf) \<ge> sz)))"

definition eventTypeFor :: "DeliveryStatus \<Rightarrow> string" where
  "eventTypeFor status =
    (case status of DeliverySent \<Rightarrow> ''delivery.sent'' | DeliveryFailed \<Rightarrow> ''delivery.failed'' | _ \<Rightarrow> '''')"

text \<open>The body of a delivery event; \<open>marshal\<close> is its JSON encoding, \<open>None\<close> if it fails.\<close>

record deliveryEventPayload =
  ep_DeliveryID :: string
  ep_CampaignID :: string
  ep_SenderID :: string
  ep_Status :: DeliveryStatus
  ep_Email :: string
  ep_EmailNorm :: string
  ep_Lane :: Lane
  ep_OccurredAt :: go_time
  ep_MessageID :: string
  ep_AttemptNo :: int
  ep_ErrorClass :: ErrorClass
  ep_SMTPCode :: int
  ep_Error :: string

definition event_payload :: "go_time \<Rightarrow> completion \<Rightarrow> deliveryEventPayload" where
  "event_payload nw c =
    \<lparr>ep_DeliveryID = dr_DeliveryID (cp_res c), ep_CampaignID = df_CampaignID (cp_d c), ep_SenderID = df_SenderID (cp_d c),
     ep_Status = dr_NewStatus (cp_res c), ep_Email = df_Email (cp_d c), ep_EmailNorm = df_EmailNorm (cp_d c),
     ep_Lane = df_Lane (cp_d c), ep_OccurredAt = nw, ep_MessageID = dr_MessageID (cp_res c), ep_AttemptNo = df_AttemptNo (cp_d c),
     ep_ErrorClass = dr_ErrorClass (cp_res c), ep_SMTPCode = dr_SMTPCode (cp_res c), ep_Error = dr_Error (cp_res c)\<rparr>"

definition completion_event ::
  "(deliveryEventPayload \<Rightarrow> string option) \<Rightarrow> TenantSettings \<Rightarrow> go_time \<Rightarrow> completion \<Rightarrow> OutboxEvent list" where
  "completion_event marshal settings nw c =
    (let typ = eventTypeFor (dr_NewStatus (cp_res c))
     in if \<not> SubscribedTo (Some settings) typ then []
        else case marshal (event_payload nw c) of None \<Rightarrow> []
        | Some payload \<Rightarrow>
            [\<lparr>oe_ID = '''', oe_TenantID = '''', oe_Type = typ, oe_Payload = payload, oe_Status = OutboxPending, oe_Attempts = 0,
              oe_NextAttemptAt = nw, oe_LeaseOwner = '''', oe_LeaseUntil = 0, oe_LastError = '''', oe_CreatedAt = nw, oe_DeliveredAt = 0\<rparr>])"

definition enqueueEvents ::
  "(deliveryEventPayload \<Rightarrow> string option) \<Rightarrow> (string + TenantSettings) \<Rightarrow> env \<Rightarrow> go_time \<Rightarrow> completion list \<Rightarrow> tenant_data \<Rightarrow> tenant_data" where
  "enqueueEvents marshal settings e clock batch td =
    (let candidates = filter (\<lambda>c. eventTypeFor (dr_NewStatus (cp_res c)) \<noteq> '''') batch
     in if length candidates = 0 then td
        else (let nw = TruncateTime clock
              in case settings of Inl _ \<Rightarrow> td
              | Inr settings \<Rightarrow>
                  (let evs = concat (map (completion_event marshal settings nw) candidates)
                   in if length evs = 0 then td else snd (Enqueue e evs td))))"

text \<open>\<^verbatim>\<open>flush\<close> empties the buffer first: after a failed commit its results are gone.\<close>

definition flush ::
  "(deliveryEventPayload \<Rightarrow> string option) \<Rightarrow> (string + TenantSettings) \<Rightarrow> env \<Rightarrow> go_time \<Rightarrow> completion list \<Rightarrow> tenant_data
    \<Rightarrow> completion list \<times> tenant_data" where
  "flush marshal settings e clock buf td =
    (if length buf = 0 then ([], td)
     else case Complete e (map cp_res buf) td of
         (Some _, td) \<Rightarrow> ([], td)
       | (None, td) \<Rightarrow> ([], enqueueEvents marshal settings e clock buf td))"

end
