(* ===== verification/Loop_Thms.thy ===== *)
theory Loop_Thms
  imports Sender_Loop Delivery_Props Samples
begin

text \<open>
  What a replica promises under every interleaving of its goroutines: worker pools and tenants
  are never oversubscribed and the dispatch never blocks; every tenant gets its turn; and a
  flushed batch is reflected in the store and the outbox.
\<close>

section \<open>Capacity\<close>

definition owned :: "string \<Rightarrow> lane \<Rightarrow> int" where
  "owned t la = int (length (filter (\<lambda>j. fst j = t) (ln_jobs la))) + int (length (filter (\<lambda>j. fst j = t) (ln_running la)))"

fun pending_lane :: "pc \<Rightarrow> nat \<Rightarrow> int" where
  "pending_lane Idle l = 0"
| "pending_lane (Reserved k t n) l = (if k = l then n else 0)"
| "pending_lane (Sending k t ds) l = (if k = l then int (length ds) else 0)"

fun pending_tenant :: "pc \<Rightarrow> string \<Rightarrow> int" where
  "pending_tenant Idle u = 0"
| "pending_tenant (Reserved k t n) u = (if t = u then n else 0)"
| "pending_tenant (Sending k t ds) u = (if t = u then int (length ds) else 0)"

fun pc_ok :: "nat \<Rightarrow> pc \<Rightarrow> bool" where
  "pc_ok n Idle = True"
| "pc_ok n (Reserved k t m) = (k < n \<and> 0 < m)"
| "pc_ok n (Sending k t ds) = (k < n \<and> ds \<noteq> [])"

definition lane_ok :: "pc \<Rightarrow> lane list \<Rightarrow> nat \<Rightarrow> bool" where
  "lane_ok p ls l \<longleftrightarrow> ln_inflight (ls ! l) = int (length (ln_jobs (ls ! l))) + int (length (ln_running (ls ! l))) + pending_lane p l \<and>
     ln_inflight (ls ! l) \<le> ln_size (ls ! l)"

definition tenant_ok :: "Config \<Rightarrow> replica \<Rightarrow> string \<Rightarrow> bool" where
  "tenant_ok cfg s t \<longleftrightarrow> tn_inflight (tenant_of t s) = sum_list (map (owned t) (rp_lanes s)) + pending_tenant (rp_pc s) t \<and>
     tn_inflight (tenant_of t s) \<le> cf_TenantConcurrency cfg"

definition rinv :: "Config \<Rightarrow> replica \<Rightarrow> bool" where
  "rinv cfg s \<longleftrightarrow> pc_ok (length (rp_lanes s)) (rp_pc s) \<and>
     (\<forall>l < length (rp_lanes s). lane_ok (rp_pc s) (rp_lanes s) l) \<and> (\<forall>t. tenant_ok cfg s t)"

lemma sum_list_upd: "l < length xs \<Longrightarrow> sum_list (map f (xs[l := x])) = sum_list (map f xs) + f x - (f (xs ! l) :: int)"
  by (induction xs arbitrary: l) (auto split: nat.split)

lemma inflight_add_facts:
  "rp_lanes (inflight_add l t n s) = (rp_lanes s)[l := (rp_lanes s ! l)\<lparr>ln_inflight := ln_inflight (rp_lanes s ! l) + n\<rparr>]"
  "rp_pc (inflight_add l t n s) = rp_pc s"
  "tn_inflight (tenant_of u (inflight_add l t n s)) = tn_inflight (tenant_of u s) + (if u = t then n else 0)"
  by (auto simp: inflight_add_def tenant_add_def lane_add_def tenant_of_def update_conv' split: option.splits)

lemma tenant_of_lanes [simp]: "tenant_of u (s\<lparr>rp_lanes := ls\<rparr>) = tenant_of u s" "tenant_of u (s\<lparr>rp_pc := p\<rparr>) = tenant_of u s"
  by (simp_all add: tenant_of_def)

lemma owned_inflight [simp]: "owned t (la\<lparr>ln_inflight := n\<rparr>) = owned t la"
  by (simp add: owned_def)

text \<open>A change of one lane, one tenant and the program counter that keeps the accounts.\<close>

lemma rinv_change:
  assumes "rinv cfg s" "l < length (rp_lanes s)" "pc_ok (length (rp_lanes s)) (rp_pc s')"
    "rp_lanes s' = (rp_lanes s)[l := la]" "ln_size la = ln_size (rp_lanes s ! l)"
    "\<forall>k. k \<noteq> l \<longrightarrow> pending_lane (rp_pc s') k = pending_lane (rp_pc s) k"
    "ln_inflight la = int (length (ln_jobs la)) + int (length (ln_running la)) + pending_lane (rp_pc s') l" "ln_inflight la \<le> ln_size la"
    "\<forall>u. tn_inflight (tenant_of u s') = tn_inflight (tenant_of u s) + owned u la - owned u (rp_lanes s ! l)
        + pending_tenant (rp_pc s') u - pending_tenant (rp_pc s) u"
    "\<forall>u. tn_inflight (tenant_of u s') \<le> cf_TenantConcurrency cfg"
  shows "rinv cfg s'"
  unfolding rinv_def
proof (intro conjI allI impI)
  show "pc_ok (length (rp_lanes s')) (rp_pc s')" using assms(3,4) by simp
next
  fix k assume "k < length (rp_lanes s')"
  then show "lane_ok (rp_pc s') (rp_lanes s') k"
    using assms(1,2,4-8) by (cases "k = l") (auto simp: rinv_def lane_ok_def)
next
  fix u
  show "tenant_ok cfg s' u"
    using assms(1,2,4,9,10) sum_list_upd [OF assms(2), of "owned u" la] by (simp add: rinv_def tenant_ok_def)
qed

lemma rinv_facts:
  assumes "rinv cfg s"
  shows "pc_ok (length (rp_lanes s)) (rp_pc s)" "l < length (rp_lanes s) \<Longrightarrow> lane_ok (rp_pc s) (rp_lanes s) l"
    "\<forall>u. tn_inflight (tenant_of u s) \<le> cf_TenantConcurrency cfg"
  using assms unfolding rinv_def tenant_ok_def by blast+

lemma rinv_add:
  assumes "rinv cfg s" "l < length (rp_lanes s)" "pc_ok (length (rp_lanes s)) p"
    "\<forall>k. pending_lane p k = pending_lane (rp_pc s) k + (if k = l then n else 0)"
    "\<forall>u. pending_tenant p u = pending_tenant (rp_pc s) u + (if u = t then n else 0)"
    "n \<le> ln_size (rp_lanes s ! l) - ln_inflight (rp_lanes s ! l)" "n \<le> cf_TenantConcurrency cfg - tn_inflight (tenant_of t s)"
  shows "rinv cfg ((inflight_add l t n s)\<lparr>rp_pc := p\<rparr>)"
  by (rule rinv_change [OF assms(1,2), where la = "(rp_lanes s ! l)\<lparr>ln_inflight := ln_inflight (rp_lanes s ! l) + n\<rparr>"])
    (use assms rinv_facts(2) [OF assms(1,2)] rinv_facts(3) [OF assms(1)] in \<open>auto simp: inflight_add_facts lane_ok_def\<close>)

lemma Claim_length: "fst (Claim e req td) = Inr ds \<Longrightarrow> 0 < cr_Limit req \<Longrightarrow> int (length ds) \<le> cr_Limit req"
  by (auto simp: Claim_def claim_cands_def Let_def length_chop split: if_splits)

lemma rinv_reserve:
  assumes I: "rinv cfg s" and p: "rp_pc s = Idle" and l: "l < length (rp_lanes s)" and r: "claim_reserve cfg l t s = Some s'"
  shows "rinv cfg s'"
proof -
  define n where "n = claim_limit cfg l t s"
  have n: "0 < n" "n \<le> ln_size (rp_lanes s ! l) - ln_inflight (rp_lanes s ! l)" "n \<le> cf_TenantConcurrency cfg - tn_inflight (tenant_of t s)"
    and s': "s' = (inflight_add l t n s)\<lparr>rp_pc := Reserved l t n\<rparr>"
    using r by (auto simp: claim_reserve_def Let_def n_def [symmetric] split: if_splits) (auto simp: n_def claim_limit_def Let_def)
  show ?thesis using p l n unfolding s' by (intro rinv_add [OF I l]) auto
qed

lemma rinv_claimed:
  assumes I: "rinv cfg s" and p: "rp_pc s = Reserved l t limit"
    and r: "fst (Claim e (claim_request cfg (ln_kind (rp_lanes s ! l)) campaigns limit nw) td) = r"
  shows "rinv cfg (claim_result r l t limit s)"
proof -
  have pc: "l < length (rp_lanes s)" "0 < limit" using rinv_facts(1) [OF I] p by auto
  note ok = rinv_facts(2) [OF I pc(1), unfolded lane_ok_def] rinv_facts(3) [OF I, rule_format, of t]
  have new: "rinv cfg ((inflight_add l t (- n) s)\<lparr>rp_pc := q\<rparr>)"
    if "0 \<le> n" "\<forall>k. pending_lane q k = (if k = l then limit - n else 0)" "\<forall>u. pending_tenant q u = (if u = t then limit - n else 0)"
      "pc_ok (length (rp_lanes s)) q" for n q
    using p ok that by (intro rinv_add [OF I pc(1)]) auto
  show ?thesis
  proof (cases r)
    case (Inl err) then show ?thesis using new [of limit Idle] pc(2) by (simp add: claim_result_def)
  next
    case (Inr ds)
    have len: "int (length ds) \<le> limit"
      using Claim_length [of e "claim_request cfg (ln_kind (rp_lanes s ! l)) campaigns limit nw" td ds] r Inr pc(2) by (simp add: claim_request_def)
    have "rinv cfg (s\<lparr>rp_pc := Sending l t ds\<rparr>)" if "limit = int (length ds)" "ds \<noteq> []"
      using p ok that pc by (intro rinv_change [OF I pc(1), where la = "rp_lanes s ! l"]) (auto simp: rinv_facts(3) [OF I, rule_format])
    then show ?thesis using Inr len pc new [of "limit - int (length ds)" "if ds = [] then Idle else Sending l t ds"]
      by (cases "limit = int (length ds)") (auto simp: claim_result_def Let_def split: if_splits)
  qed
qed

lemma rinv_send:
  assumes I: "rinv cfg s" and p: "rp_pc s = Sending l t (d # ds)"
  shows "rinv cfg (send_job l t d ds s)" "rinv cfg (drop_job l t ds s)"
proof -
  have l: "l < length (rp_lanes s)" using rinv_facts(1) [OF I] p by auto
  note ok = rinv_facts(2) [OF I l, unfolded lane_ok_def] rinv_facts(3) [OF I, rule_format]
  show "rinv cfg (send_job l t d ds s)"
    by (rule rinv_change [OF I l, where la = "(rp_lanes s ! l)\<lparr>ln_jobs := ln_jobs (rp_lanes s ! l) @ [(t, d)]\<rparr>"])
      (use p ok l in \<open>auto simp: send_job_def after_job_def owned_def tenant_of_def\<close>)
  show "rinv cfg (drop_job l t ds s)"
    unfolding drop_job_def by (rule rinv_add [OF I l]) (use p l ok(1) ok(2) [of t] in \<open>auto simp: after_job_def\<close>)
qed

lemma rinv_work:
  assumes I: "rinv cfg s" and l: "l < length (rp_lanes s)" and j: "ln_jobs (rp_lanes s ! l) = j # js"
  shows "rinv cfg (take_job l j js s)"
  by (rule rinv_change [OF I l, where la = "(rp_lanes s ! l)\<lparr>ln_jobs := js, ln_running := j # ln_running (rp_lanes s ! l)\<rparr>"])
    (use l j rinv_facts(2) [OF I l, unfolded lane_ok_def] rinv_facts(3) [OF I] rinv_facts(1) [OF I] in
      \<open>auto simp: take_job_def owned_def tenant_of_def\<close>)

lemma rinv_finished:
  assumes I: "rinv cfg s" and l: "l < length (rp_lanes s)" and j: "j \<in> set (ln_running (rp_lanes s ! l))"
  shows "rinv cfg (done_job l j s)"
proof -
  obtain a b where ab: "ln_running (rp_lanes s ! l) = a @ j # b" "remove1 j (ln_running (rp_lanes s ! l)) = a @ b"
    using j by (metis remove1_split)
  have le: "tn_inflight (tenant_of u s) - 1 \<le> cf_TenantConcurrency cfg" for u using rinv_facts(3) [OF I, rule_format, of u] by simp
  show ?thesis
    by (rule rinv_change [OF I l, where la = "(rp_lanes s ! l)\<lparr>ln_running := a @ b, ln_inflight := ln_inflight (rp_lanes s ! l) - 1\<rparr>"])
      (use l ab le rinv_facts(2) [OF I l, unfolded lane_ok_def] rinv_facts(3) [OF I] rinv_facts(1) [OF I] in
        \<open>auto simp: done_job_def owned_def inflight_add_facts\<close>)
qed

lemma rinv_step: "rstep cfg s s' \<Longrightarrow> rinv cfg s \<Longrightarrow> rinv cfg s'"
  by (erule rstep.cases) (auto intro: rinv_reserve rinv_claimed rinv_send rinv_work rinv_finished)

lemma New_rinv: "New cfg = Inr s \<Longrightarrow> rinv (withDefaults cfg) s"
proof -
  assume N: "New cfg = Inr s"
  have lanes: "ln_inflight la = 0 \<and> ln_jobs la = [] \<and> ln_running la = [] \<and> 0 < ln_size la" if "la \<in> set (new_lanes c)" for la c
    using that by (auto simp: new_lanes_def split: option.splits if_splits)
  have s: "rp_pc s = Idle" "rp_tenants s = []" "rp_lanes s = new_lanes (withDefaults cfg)"
    using N by (auto simp: New_def Let_def split: if_splits)
  have "owned t la = 0" if "la \<in> set (rp_lanes s)" for t la using lanes that s by (auto simp: owned_def)
  then have "sum_list (map (owned t) (rp_lanes s)) = 0" for t by (simp add: sum_list_0 cong: map_cong)
  moreover have "0 \<le> cf_TenantConcurrency (withDefaults cfg)" by (simp add: withDefaults_def default_to_def)
  ultimately show ?thesis using lanes [OF nth_mem] s
    by (simp add: rinv_def lane_ok_def tenant_ok_def tenant_of_def new_tenant_def less_imp_le)
qed

lemma rreach_rinv: "rreach cfg s \<Longrightarrow> rinv (withDefaults cfg) s"
  by (induction rule: rreach.induct) (auto intro: New_rinv rinv_step)

lemma rinv_send_ready:
  assumes "rinv cfg s" "rp_pc s = Sending l t (d # ds)"
  shows "rstep cfg s (send_job l t d ds s)"
proof -
  have "l < length (rp_lanes s)" using rinv_facts(1) [OF assms(1)] assms(2) by simp
  from rinv_facts(2) [OF assms(1) this] show ?thesis using assms(2) by (intro rstep.send) (auto simp: lane_ok_def)
qed

text \<open>
  C16.  In every state a replica can reach, whatever the interleaving of its claim loop, its workers
  and a shutdown, and whatever each claim returned: the in-flight counter of a lane is exactly the
  jobs queued, running and reserved there and never exceeds the size of its worker pool; the
  counter of a tenant is exactly its jobs over all lanes and never exceeds the per-tenant cap; and
  a loop holding claimed deliveries can always queue the next one, so it never blocks on a channel.
\<close>

theorem replica_capacity:
  assumes "rreach cfg s"
  shows "(\<forall>l < length (rp_lanes s). lane_ok (rp_pc s) (rp_lanes s) l) \<and> (\<forall>t. tenant_ok (withDefaults cfg) s t) \<and>
    (\<forall>l t d ds. rp_pc s = Sending l t (d # ds) \<longrightarrow> rstep (withDefaults cfg) s (send_job l t d ds s))"
  using rreach_rinv [OF assms] rinv_send_ready by (auto simp: rinv_def)

text \<open>A replica of one bulk lane with room for two: after a claim has reserved both slots.\<close>

definition demo_cfg :: Config where
  "demo_cfg = \<lparr>cf_WorkerID = ''w1'', cf_Lanes = [(LaneBulk, 2)], cf_ClaimBatch = 0, cf_LeaseFor = 0, cf_PollInterval = 0,
    cf_CampaignRefresh = 0, cf_TenantConcurrency = 0, cf_TenantCacheTTL = 0, cf_HeartbeatInterval = 0, cf_WorkerTTL = 0,
    cf_ResultBatchSize = 0, cf_ResultFlushInterval = 0, cf_RenderTimeout = 0, cf_TransportFailThreshold = 0, cf_TransportProbeInterval = 0\<rparr>"

definition demo_state :: "int \<Rightarrow> pc \<Rightarrow> (string, tenantState) gomap \<Rightarrow> replica" where
  "demo_state n p ts = \<lparr>rp_lanes = [\<lparr>ln_kind = LaneBulk, ln_size = 2, ln_inflight = n, ln_jobs = [], ln_running = []\<rparr>],
    rp_tenants = ts, rp_order = [], rp_cursor = 0, rp_workers = 1, rp_pc = p\<rparr>"

definition demo_reserved :: replica where
  "demo_reserved = demo_state 2 (Reserved 0 ''t1'' 2) [(''t1'', \<lparr>tn_running = None, tn_inflight = 2, tn_workers = 0\<rparr>)]"

lemma demo_reach: "rreach demo_cfg demo_reserved"
proof (rule rreach.step)
  show "rreach demo_cfg (demo_state 0 Idle [])" by (rule rreach.start) code_simp
  show "rstep (withDefaults demo_cfg) (demo_state 0 Idle []) demo_reserved"
    by (rule rstep.reserve [where l = 0 and t = "''t1''"]) code_simp+
qed

theorem replica_capacity_witness:
  "rreach demo_cfg demo_reserved \<and> lane_ok (Reserved 0 ''t1'' 2) (rp_lanes demo_reserved) 0 \<and>
   tenant_ok (withDefaults demo_cfg) demo_reserved ''t1'' \<and> tn_inflight (tenant_of ''t1'' demo_reserved) = 2"
  using replica_capacity [OF demo_reach] demo_reach by (auto simp: demo_reserved_def demo_state_def tenant_of_def)

section \<open>Round robin\<close>

lemma pass_order_rotate: "pass_order s = rotate (rp_cursor s) (rp_order s)"
  by (rule nth_equalityI) (auto simp: pass_order_def Let_def nth_rotate)

lemma mset_rotate': "mset (rotate n xs) = mset xs"
proof (induction n)
  case (Suc n)
  have "mset (rotate1 ys) = mset ys" for ys :: "'a list" by (cases ys) auto
  then show ?case using Suc by simp
qed simp

lemma pass_cursor_iter:
  "rp_order s \<noteq> [] \<Longrightarrow> rp_order ((pass_cursor ^^ k) s) = rp_order s \<and>
    rotate (rp_cursor ((pass_cursor ^^ k) s)) (rp_order s) = rotate (rp_cursor s + k) (rp_order s)"
proof (induction k)
  case (Suc k)
  have "rotate ((c + 1) mod length xs) xs = rotate1 (rotate c xs)" for c and xs :: "string list"
    by (metis Suc_eq_plus1 rotate_Suc rotate_conv_mod)
  then show ?case using Suc by (simp add: pass_cursor_def)
qed simp

text \<open>
  C17.  No tenant starves behind another: every pass visits each tenant of the round once, and over
  any window of as many passes as there are tenants, each tenant is served first exactly once, in
  the order of the round.
\<close>

theorem round_robin:
  assumes "rp_order s \<noteq> []"
  shows "mset (pass_order ((pass_cursor ^^ k) s)) = mset (rp_order s) \<and>
    map (\<lambda>i. hd (pass_order ((pass_cursor ^^ (k + i)) s))) [0..<length (rp_order s)] = pass_order ((pass_cursor ^^ k) s)"
proof -
  let ?n = "length (rp_order s)"
  have r: "pass_order ((pass_cursor ^^ j) s) = rotate (rp_cursor s + j) (rp_order s)" for j
    using pass_cursor_iter [OF assms, of j] by (simp add: pass_order_rotate)
  have "map (\<lambda>i. hd (pass_order ((pass_cursor ^^ (k + i)) s))) [0..<?n] = pass_order ((pass_cursor ^^ k) s)"
    unfolding r using assms by (intro nth_equalityI) (simp_all add: hd_rotate_conv_nth nth_rotate add.assoc)
  then show ?thesis by (simp add: r mset_rotate')
qed

theorem round_robin_witness:
  "(let s = (demo_state 0 Idle [])\<lparr>rp_order := [''a'', ''b'', ''c''], rp_cursor := 1\<rparr>
    in map (\<lambda>i. hd (pass_order ((pass_cursor ^^ (0 + i)) s))) [0..<length (rp_order s)] = [''b'', ''c'', ''a''])"
  using round_robin [of "(demo_state 0 Idle [])\<lparr>rp_order := [''a'', ''b'', ''c''], rp_cursor := 1\<rparr>" 0]
  by (simp add: pass_order_def Let_def upt_rec)

section \<open>Flushing results\<close>

text \<open>
  A worker whose lease ran out commits late: delivery \<open>d1\<close> has meanwhile been sent by \<open>w2\<close>, the late
  result says it failed.  The commit is refused for this row, as it should be, but the event of the
  refused transition is enqueued all the same.
\<close>

definition late_data :: tenant_data where
  "late_data = newTenantData\<lparr>td_deliveries := [(''d1'', zero_delivery\<lparr>d_ID := ''d1'', d_Status := DeliverySent, d_LeaseOwner := ''w2''\<rparr>)]\<rparr>"

definition late_result :: DeliveryResult where
  "late_result = \<lparr>dr_DeliveryID = ''d1'', dr_LeaseOwner = ''w1'', dr_NewStatus = DeliveryFailed, dr_NextAttemptAt = 0,
    dr_ErrorClass = ErrorClassPermanent, dr_SMTPCode = 550, dr_Error = '''', dr_MessageID = '''', dr_IncrementAttempt = True, dr_Attempt = None\<rparr>"

lemma flush_event_of_refused_result:
  "(let e = \<lparr>e_closed = False, e_tenant = ''t'', e_clock = 5 * Second, e_newid = (\<lambda>_. ''ev1'')\<rparr>;
        buf = fst (batcher_add 100 late_result zero_delivery []);
        td = snd (flush (\<lambda>_. Some ''{}'') (Inr (DefaultTenantSettings '''' ''t'' 0)) e (5 * Second) buf late_data)
    in map (\<lambda>(i, d). (i, d_Status d)) (td_deliveries td) = [(''d1'', DeliverySent)] \<and>
       map (\<lambda>(i, ev). (i, oe_Type ev, oe_Status ev)) (td_outbox td) = [(''ev1'', ''delivery.failed'', OutboxPending)])"
  by code_simp

end
