(* ===== verification/Control_Campaign.thy ===== *)
theory Control_Campaign
  imports Mem_Repos Mem_Delivery
begin

text \<open>
  The campaign operations of the control plane, \<^verbatim>\<open>internal/control/campaign.go\<close>, with the campaign
  events of \<^verbatim>\<open>events.go\<close>.  Each operation is a sequence of calls on the store of one tenant; its
  result is the error, if any, and the tenant's data.  \<open>nw\<close> is what \<^verbatim>\<open>Control.now\<close> returns and
  \<open>marshal\<close> the JSON encoding of a payload, \<open>None\<close> if it fails.
\<close>

section \<open>Errors and events\<close>

datatype ctl_err = StoreErr store_err | ErrInvalidTransition string | ErrNoRecipients string | ErrNoSender string
  | ErrNoVersion string | MarshalErr

abbreviation EventCampaignStarted :: string where "EventCampaignStarted \<equiv> ''campaign.started''"
abbreviation EventCampaignPaused :: string where "EventCampaignPaused \<equiv> ''campaign.paused''"
abbreviation EventCampaignCompleted :: string where "EventCampaignCompleted \<equiv> ''campaign.completed''"
abbreviation EventCampaignCancelled :: string where "EventCampaignCancelled \<equiv> ''campaign.cancelled''"

record campaignEventPayload =
  ce_CampaignID :: string
  ce_Name :: string
  ce_Status :: CampaignStatus
  ce_VersionID :: string
  ce_SenderID :: string
  ce_OccurredAt :: go_time
  ce_ByStatus :: "(DeliveryStatus, int) gomap"

type_synonym encoder = "campaignEventPayload \<Rightarrow> string option"

definition campaign_payload :: "Campaign \<Rightarrow> go_time \<Rightarrow> (DeliveryStatus, int) gomap \<Rightarrow> campaignEventPayload" where
  "campaign_payload c nw byStatus =
    \<lparr>ce_CampaignID = c_ID c, ce_Name = c_Name c, ce_Status = c_Status c, ce_VersionID = c_VersionID c,
     ce_SenderID = c_SenderID c, ce_OccurredAt = nw, ce_ByStatus = byStatus\<rparr>"

definition pending_event :: "string \<Rightarrow> string \<Rightarrow> go_time \<Rightarrow> OutboxEvent" where
  "pending_event typ payload nw =
    \<lparr>oe_ID = '''', oe_TenantID = '''', oe_Type = typ, oe_Payload = payload, oe_Status = OutboxPending, oe_Attempts = 0,
     oe_NextAttemptAt = nw, oe_LeaseOwner = '''', oe_LeaseUntil = 0, oe_LastError = '''', oe_CreatedAt = nw, oe_DeliveredAt = 0\<rparr>"

definition lift_err :: "store_err option \<times> 's \<Rightarrow> ctl_err option \<times> 's" where
  "lift_err r = (map_option StoreErr (fst r), snd r)"

definition enqueueCampaignEvent ::
  "encoder \<Rightarrow> env \<Rightarrow> Campaign \<Rightarrow> string \<Rightarrow> go_time \<Rightarrow> (DeliveryStatus, int) gomap \<Rightarrow> tenant_data \<Rightarrow> ctl_err option \<times> tenant_data" where
  "enqueueCampaignEvent marshal e c typ nw byStatus s =
    (case marshal (campaign_payload c nw byStatus) of None \<Rightarrow> (Some MarshalErr, s)
     | Some payload \<Rightarrow> lift_err (Enqueue e [pending_event typ payload nw] s))"

section \<open>Counting\<close>

definition inflightStatuses :: "DeliveryStatus list" where
  "inflightStatuses = [DeliveryPending, DeliveryQueued, DeliveryLeased, DeliveryDeferred]"

definition splitCounts :: "(DeliveryStatus, int) gomap \<Rightarrow> int \<times> int" where
  "splitCounts counts =
    fold (\<lambda>(status, n) (tot, inflight). (tot + n, if status \<in> set inflightStatuses then inflight + n else inflight))
      counts (0, 0)"

section \<open>Operations\<close>

definition resolveCampaignVersion :: "env \<Rightarrow> Campaign \<Rightarrow> tenant_data \<Rightarrow> ctl_err + Campaign" where
  "resolveCampaignVersion e cam s =
    (if c_VersionID cam \<noteq> '''' then Inr cam
     else if c_TemplateID cam = '''' then Inl (ErrNoVersion (c_ID cam))
     else case tbl_Get e (td_templates s) (c_TemplateID cam) of
         Inl err \<Rightarrow> if err = ErrNotFound then Inl (ErrNoVersion (c_TemplateID cam)) else Inl (StoreErr err)
       | Inr tpl \<Rightarrow>
           if tp_PublishedVersionID tpl = '''' then Inl (ErrNoVersion (tp_ID tpl))
           else Inr (cam\<lparr>c_VersionID := tp_PublishedVersionID tpl\<rparr>))"

text \<open>What \<^verbatim>\<open>StartCampaign\<close> requires of a campaign beyond its status.\<close>

definition start_checks :: "env \<Rightarrow> Campaign \<Rightarrow> tenant_data \<Rightarrow> ctl_err option" where
  "start_checks e cam s =
    (if c_VersionID cam = '''' \<and> c_TemplateID cam = '''' then Some (ErrNoVersion (c_ID cam))
     else if c_SenderID cam = '''' then Some (ErrNoSender (c_ID cam))
     else case tbl_Get e (td_senders s) (c_SenderID cam) of
         Inl err \<Rightarrow> if err = ErrNotFound then Some (ErrNoSender (c_SenderID cam)) else Some (StoreErr err)
       | Inr _ \<Rightarrow>
           (case CountByStatus e (c_ID cam) s of Inl err \<Rightarrow> Some (StoreErr err)
            | Inr counts \<Rightarrow> if fst (splitCounts counts) = 0 then Some (ErrNoRecipients (c_ID cam)) else None))"

text \<open>The campaign row as \<^verbatim>\<open>StartCampaign\<close> writes it: scheduled for a future time, else running now.\<close>

definition start_row :: "env \<Rightarrow> go_time \<Rightarrow> go_time \<Rightarrow> Campaign \<Rightarrow> tenant_data \<Rightarrow> ctl_err + Campaign" where
  "start_row e nw start cam s =
    (if TruncateTime start \<noteq> 0 \<and> nw < TruncateTime start
     then Inr (cam\<lparr>c_Status := CampaignScheduled, c_ScheduleAt := TruncateTime start\<rparr>)
     else case resolveCampaignVersion e cam s of Inl err \<Rightarrow> Inl err
       | Inr cam \<Rightarrow> Inr (cam\<lparr>c_Status := CampaignRunning, c_StartedAt := nw\<rparr>))"

text \<open>Write the row and, when \<open>event\<close> names one, enqueue the event of the transition.\<close>

definition commit_campaign :: "encoder \<Rightarrow> env \<Rightarrow> go_time \<Rightarrow> Campaign \<Rightarrow> string option \<Rightarrow> tenant_data \<Rightarrow> ctl_err option \<times> tenant_data" where
  "commit_campaign marshal e nw cam event s =
    (case campaign_Update e cam s of
       (Some err, cam, s) \<Rightarrow> (Some (StoreErr err), s)
     | (None, cam, s) \<Rightarrow>
         (case event of None \<Rightarrow> (None, s) | Some typ \<Rightarrow> enqueueCampaignEvent marshal e cam typ nw [] s))"

definition StartCampaign :: "encoder \<Rightarrow> env \<Rightarrow> go_time \<Rightarrow> go_time \<Rightarrow> string \<Rightarrow> tenant_data \<Rightarrow> ctl_err option \<times> tenant_data" where
  "StartCampaign marshal e nw start i s =
    (case campaign_Get e i s of Inl err \<Rightarrow> (Some (StoreErr err), s)
     | Inr cam \<Rightarrow>
         if c_Status cam \<noteq> CampaignDraft then (Some (ErrInvalidTransition i), s)
         else case start_checks e cam s of Some err \<Rightarrow> (Some err, s)
         | None \<Rightarrow>
             (case start_row e nw start cam s of Inl err \<Rightarrow> (Some err, s)
              | Inr cam \<Rightarrow>
                  commit_campaign marshal e nw cam (if c_Status cam = CampaignRunning then Some EventCampaignStarted else None) s))"

definition PauseCampaign :: "encoder \<Rightarrow> env \<Rightarrow> go_time \<Rightarrow> string \<Rightarrow> tenant_data \<Rightarrow> ctl_err option \<times> tenant_data" where
  "PauseCampaign marshal e nw i s =
    (case campaign_Get e i s of Inl err \<Rightarrow> (Some (StoreErr err), s)
     | Inr cam \<Rightarrow>
         if c_Status cam \<noteq> CampaignRunning then (Some (ErrInvalidTransition i), s)
         else commit_campaign marshal e nw (cam\<lparr>c_Status := CampaignPaused\<rparr>) (Some EventCampaignPaused) s)"

definition ResumeCampaign :: "encoder \<Rightarrow> env \<Rightarrow> go_time \<Rightarrow> string \<Rightarrow> tenant_data \<Rightarrow> ctl_err option \<times> tenant_data" where
  "ResumeCampaign marshal e nw i s =
    (case campaign_Get e i s of Inl err \<Rightarrow> (Some (StoreErr err), s)
     | Inr cam \<Rightarrow>
         if c_Status cam \<noteq> CampaignPaused then (Some (ErrInvalidTransition i), s)
         else commit_campaign marshal e nw
                (cam\<lparr>c_Status := CampaignRunning, c_StartedAt := (if c_StartedAt cam = 0 then nw else c_StartedAt cam)\<rparr>)
                (Some EventCampaignStarted) s)"

definition CancelCampaign :: "encoder \<Rightarrow> env \<Rightarrow> go_time \<Rightarrow> string \<Rightarrow> tenant_data \<Rightarrow> ctl_err option \<times> tenant_data" where
  "CancelCampaign marshal e nw i s =
    (case campaign_Get e i s of Inl err \<Rightarrow> (Some (StoreErr err), s)
     | Inr cam \<Rightarrow>
         if c_Status cam \<notin> {CampaignDraft, CampaignScheduled, CampaignRunning, CampaignPaused}
         then (Some (ErrInvalidTransition i), s)
         else commit_campaign marshal e nw (cam\<lparr>c_Status := CampaignCancelled, c_CompletedAt := nw\<rparr>) (Some EventCampaignCancelled) s)"

section \<open>Retry\<close>

definition maxRetryChunks :: nat where "maxRetryChunks = 1000"

definition defaultRetryStatuses :: "DeliveryStatus list" where "defaultRetryStatuses = [DeliveryFailed]"

definition retry_filter :: "string \<Rightarrow> go_time \<Rightarrow> RetryFilter \<Rightarrow> RetryFilter" where
  "retry_filter i nw f =
    f\<lparr>rf_CampaignID := i, rf_Now := (if rf_Now f = 0 then nw else rf_Now f),
      rf_Statuses := (if length (rf_Statuses f) = 0 then defaultRetryStatuses else rf_Statuses f)\<rparr>"

text \<open>The chunks of one retry: the error, if any, the number of rows moved, and the data.\<close>

fun retry_chunks :: "nat \<Rightarrow> env \<Rightarrow> RetryFilter \<Rightarrow> int \<Rightarrow> int \<Rightarrow> tenant_data \<Rightarrow> store_err option \<times> int \<times> tenant_data" where
  "retry_chunks 0 e f chunk tot s = (None, tot, s)"
| "retry_chunks (Suc k) e f chunk tot s =
    (case Requeue e f chunk s of
       (Inl err, s) \<Rightarrow> (Some err, tot, s)
     | (Inr n, s) \<Rightarrow> if n < chunk then (None, tot + n, s) else retry_chunks k e f chunk (tot + n) s)"

definition RetryCampaign ::
  "encoder \<Rightarrow> int \<Rightarrow> env \<Rightarrow> go_time \<Rightarrow> string \<Rightarrow> RetryFilter \<Rightarrow> tenant_data \<Rightarrow> int \<times> ctl_err option \<times> tenant_data" where
  "RetryCampaign marshal chunk e nw i f s =
    (case campaign_Get e i s of Inl err \<Rightarrow> (0, Some (StoreErr err), s)
     | Inr cam \<Rightarrow>
         if c_Status cam \<notin> {CampaignRunning, CampaignPaused, CampaignCompleted} then (0, Some (ErrInvalidTransition i), s)
         else if rf_DeliveryIDs f = Some [] then (0, None, s)
         else case retry_chunks maxRetryChunks e (retry_filter i nw f) chunk 0 s of
             (Some err, tot, s) \<Rightarrow> (tot, Some (StoreErr err), s)
           | (None, tot, s) \<Rightarrow>
               if tot = 0 \<or> c_Status cam \<noteq> CampaignCompleted then (tot, None, s)
               else (tot, commit_campaign marshal e nw (cam\<lparr>c_Status := CampaignRunning, c_CompletedAt := 0\<rparr>) (Some EventCampaignStarted) s))"

end
