(* ===== verification/Control_Loops.thy ===== *)
theory Control_Loops
  imports Control_Campaign
begin

text \<open>
  The loops the control leader ticks for a tenant: scheduler, finalizer and canceller
  (\<^verbatim>\<open>internal/control/campaign_loops.go\<close>), lease reaper and retention (\<^verbatim>\<open>maintenance.go\<close>), the paged
  campaign walk they share (\<^verbatim>\<open>eachCampaign\<close> in \<^verbatim>\<open>loops.go\<close>) and the configuration (\<^verbatim>\<open>options.go\<close>).
  A tick makes many store calls; \<open>E k\<close> is the environment of those made for the \<open>k\<close>-th campaign.
\<close>

section \<open>Configuration\<close>

record Intervals =
  iv_Scheduler :: duration
  iv_Finalizer :: duration
  iv_Canceller :: duration
  iv_LeaseReaper :: duration
  iv_Retention :: duration
  iv_Outbox :: duration
  iv_OutboxSweep :: duration

record Batches =
  bt_CampaignPage :: int
  bt_CancelChunk :: int
  bt_RetryChunk :: int
  bt_LeaseReapLimit :: int
  bt_RetentionChunk :: int
  bt_RetentionMaxChunks :: int
  bt_StatsRefreshScan :: int
  bt_OutboxClaim :: int

record config =
  cg_owner :: string
  cg_leaderTTL :: duration
  cg_leaderRetry :: duration
  cg_intervals :: Intervals
  cg_batches :: Batches
  cg_outboxWorkers :: int
  cg_outboxLease :: duration
  cg_outboxBackoff :: "duration list"
  cg_outboxMaxAttempts :: int
  cg_largeCampaignRows :: int
  cg_largeCampaignEvery :: int
  cg_trackFlushEvery :: duration
  cg_trackFlushSize :: int
  cg_trackMaxBuffer :: int
  cg_trackingRefreshWindow :: duration
  cg_tenantsRefresh :: duration

definition defaultConfig :: "string \<Rightarrow> config" where
  "defaultConfig owner =
    \<lparr>cg_owner = owner, cg_leaderTTL = 30 * Second, cg_leaderRetry = 5 * Second,
     cg_intervals = \<lparr>iv_Scheduler = 5 * Second, iv_Finalizer = 10 * Second, iv_Canceller = 2 * Second,
       iv_LeaseReaper = 30 * Second, iv_Retention = Hour, iv_Outbox = Second, iv_OutboxSweep = 10 * Second\<rparr>,
     cg_batches = \<lparr>bt_CampaignPage = 200, bt_CancelChunk = 10000, bt_RetryChunk = 10000, bt_LeaseReapLimit = 5000,
       bt_RetentionChunk = 5000, bt_RetentionMaxChunks = 200, bt_StatsRefreshScan = 2000, bt_OutboxClaim = 100\<rparr>,
     cg_outboxWorkers = 8, cg_outboxLease = Minute,
     cg_outboxBackoff = [Minute, 5 * Minute, 30 * Minute, 2 * Hour, 12 * Hour], cg_outboxMaxAttempts = 10,
     cg_largeCampaignRows = 100000, cg_largeCampaignEvery = 6, cg_trackFlushEvery = Second, cg_trackFlushSize = 5000,
     cg_trackMaxBuffer = 100000, cg_trackingRefreshWindow = 14 * 24 * Hour, cg_tenantsRefresh = 30 * Second\<rparr>"

section \<open>The campaign walk\<close>

definition raced :: "store_err \<Rightarrow> bool" where
  "raced err \<longleftrightarrow> err = ErrConflict \<or> err = ErrNotFound"

type_synonym 's visitor = "env \<Rightarrow> Campaign \<Rightarrow> 's \<Rightarrow> ctl_err option \<times> 's"

text \<open>The callback on the items of a page, up to the first error.\<close>

fun visit_all :: "(nat \<Rightarrow> env) \<Rightarrow> 's visitor \<Rightarrow> nat \<Rightarrow> Campaign list \<Rightarrow> 's \<Rightarrow> ctl_err option \<times> nat \<times> 's" where
  "visit_all E f k [] st = (None, k, st)"
| "visit_all E f k (c # cs) st =
    (case f (E k) c st of (Some err, st) \<Rightarrow> (Some err, Suc k, st) | (None, st) \<Rightarrow> visit_all E f (Suc k) cs st)"

text \<open>
  The loop over the pages, which the callback may change while it runs.  \<open>tdata\<close> is the store the
  loop state holds.  The first argument bounds the number of pages; without it the loop ends
  because every page moves the cursor past at least one of finitely many campaigns.
\<close>

fun campaign_pages ::
  "nat \<Rightarrow> ('s \<Rightarrow> tenant_data) \<Rightarrow> (nat \<Rightarrow> env) \<Rightarrow> CampaignStatus list \<Rightarrow> 's visitor \<Rightarrow> nat \<Rightarrow> Page \<Rightarrow> 's
    \<Rightarrow> (ctl_err option \<times> 's) option" where
  "campaign_pages 0 tdata E statuses f k p st = None"
| "campaign_pages (Suc n) tdata E statuses f k p st =
    (case ListByStatus (E k) statuses p (tdata st) of Inl err \<Rightarrow> Some (Some (StoreErr err), st)
     | Inr r \<Rightarrow>
         (case visit_all E f k (res_Items r) st of (Some err, _, st) \<Rightarrow> Some (Some err, st)
          | (None, k, st) \<Rightarrow>
              if res_NextCursor r = '''' then Some (None, st)
              else campaign_pages n tdata E statuses f k (p\<lparr>pg_Cursor := res_NextCursor r\<rparr>) st))"

definition eachCampaign ::
  "('s \<Rightarrow> tenant_data) \<Rightarrow> (nat \<Rightarrow> env) \<Rightarrow> CampaignStatus list \<Rightarrow> int \<Rightarrow> 's visitor \<Rightarrow> 's \<Rightarrow> (ctl_err option \<times> 's) option" where
  "eachCampaign tdata E statuses pageSize f st =
    campaign_pages (Suc (length (td_campaigns (tdata st)))) tdata E statuses f 0 \<lparr>pg_Limit = pageSize, pg_Cursor = ''''\<rparr> st"

section \<open>Scheduler\<close>

definition scheduler_visit :: "encoder \<Rightarrow> go_time \<Rightarrow> tenant_data visitor" where
  "scheduler_visit marshal nw e c s =
    (if nw < c_ScheduleAt c then (None, s)
     else case resolveCampaignVersion e c s of Inl _ \<Rightarrow> (None, s)
     | Inr c \<Rightarrow>
         (case campaign_Update e (c\<lparr>c_Status := CampaignRunning, c_StartedAt := (if c_StartedAt c = 0 then nw else c_StartedAt c)\<rparr>) s of
            (Some err, _, s) \<Rightarrow> if raced err then (None, s) else (Some (StoreErr err), s)
          | (None, c, s) \<Rightarrow> (None, snd (enqueueCampaignEvent marshal e c EventCampaignStarted nw [] s))))"

definition scheduler_Tick :: "encoder \<Rightarrow> (nat \<Rightarrow> env) \<Rightarrow> int \<Rightarrow> go_time \<Rightarrow> tenant_data \<Rightarrow> (ctl_err option \<times> tenant_data) option" where
  "scheduler_Tick marshal E page nw s = eachCampaign id E [CampaignScheduled] page (scheduler_visit marshal nw) s"

section \<open>Finalizer\<close>

record finalizer =
  fz_td :: tenant_data
  fz_skips :: "(string, int) gomap"
  fz_live :: "string list"
  fz_refreshCursor :: string

definition unique_stats :: "TrackingCounts \<Rightarrow> CampaignStats \<Rightarrow> CampaignStats" where
  "unique_stats tc stats =
    stats\<lparr>cs_UniqueOpens := tc_UniqueOpens tc, cs_UniqueClicks := tc_UniqueClicks tc,
          cs_Unsubscribed := tc_Unsubscribed tc, cs_UnsubscribeClicked := tc_UnsubscribeClicked tc\<rparr>"

text \<open>The reading half of a visit: the counts and the stats computed from them.\<close>

definition finalizer_count ::
  "env \<Rightarrow> Campaign \<Rightarrow> go_time \<Rightarrow> tenant_data \<Rightarrow> store_err + ((DeliveryStatus, int) gomap \<times> CampaignStats)" where
  "finalizer_count e c nw s =
    (case CountByStatus e (c_ID c) s of Inl err \<Rightarrow> Inl err
     | Inr counts \<Rightarrow>
         (let stats = \<lparr>cs_ByStatus = counts, cs_UniqueOpens = 0, cs_UniqueClicks = 0, cs_Unsubscribed = 0,
                       cs_UnsubscribeClicked = 0, cs_ComputedAt = nw\<rparr>
          in Inr (counts, case CountUnique e (c_ID c) s of Inl _ \<Rightarrow> stats | Inr tc \<Rightarrow> unique_stats tc stats)))"

text \<open>The writing half: the cached stats and, if nothing is left in flight, completion.\<close>

definition finalizer_commit ::
  "encoder \<Rightarrow> go_time \<Rightarrow> env \<Rightarrow> Campaign \<Rightarrow> (DeliveryStatus, int) gomap \<Rightarrow> CampaignStats \<Rightarrow> finalizer \<Rightarrow> ctl_err option \<times> finalizer" where
  "finalizer_commit marshal nw e c counts stats st =
    (case UpdateStats e (c_ID c) stats (fz_td st) of
       (Some err, td) \<Rightarrow> if raced err then (None, st) else (Some (StoreErr err), st)
     | (None, td) \<Rightarrow>
         (let st = st\<lparr>fz_td := td\<rparr>; (tot, inflight) = splitCounts counts
          in if tot = 0 \<or> inflight > 0 then (None, st)
             else case campaign_Update e (c\<lparr>c_Stats := stats, c_Status := CampaignCompleted, c_CompletedAt := nw\<rparr>) td of
                 (Some err, _, td) \<Rightarrow> if raced err then (None, st) else (Some (StoreErr err), st)
               | (None, c, td) \<Rightarrow>
                   (None, st\<lparr>fz_skips := AList.delete (c_ID c) (fz_skips st),
                             fz_td := snd (enqueueCampaignEvent marshal e c EventCampaignCompleted nw counts td)\<rparr>)))"

definition skips_of :: "finalizer \<Rightarrow> string \<Rightarrow> int" where
  "skips_of st i = (case map_of (fz_skips st) i of None \<Rightarrow> 0 | Some n \<Rightarrow> n)"

definition next_skips :: "config \<Rightarrow> int \<Rightarrow> string \<Rightarrow> (string, int) gomap \<Rightarrow> (string, int) gomap" where
  "next_skips cfg tot i skips =
    (if tot > cg_largeCampaignRows cfg \<and> cg_largeCampaignEvery cfg > 1
     then AList.update i (cg_largeCampaignEvery cfg - 1) skips else AList.delete i skips)"

definition finalizer_visit :: "encoder \<Rightarrow> config \<Rightarrow> go_time \<Rightarrow> finalizer visitor" where
  "finalizer_visit marshal cfg nw e c st =
    (let st = st\<lparr>fz_live := c_ID c # fz_live st\<rparr>
     in if skips_of st (c_ID c) > 0
        then (None, st\<lparr>fz_skips := AList.update (c_ID c) (skips_of st (c_ID c) - 1) (fz_skips st)\<rparr>)
        else case finalizer_count e c nw (fz_td st) of Inl err \<Rightarrow> (Some (StoreErr err), st)
        | Inr (counts, stats) \<Rightarrow>
            finalizer_commit marshal nw e c counts stats
              (st\<lparr>fz_skips := next_skips cfg (fst (splitCounts counts)) (c_ID c) (fz_skips st)\<rparr>))"

definition tickRunning :: "encoder \<Rightarrow> config \<Rightarrow> (nat \<Rightarrow> env) \<Rightarrow> go_time \<Rightarrow> finalizer \<Rightarrow> (ctl_err option \<times> finalizer) option" where
  "tickRunning marshal cfg E nw st =
    map_option (\<lambda>(err, st). (err, st\<lparr>fz_skips := filter (\<lambda>(i, _). i \<in> set (fz_live st)) (fz_skips st)\<rparr>))
      (eachCampaign fz_td E [CampaignRunning] (bt_CampaignPage (cg_batches cfg)) (finalizer_visit marshal cfg nw)
         (st\<lparr>fz_live := []\<rparr>))"

text \<open>The second half of a tick: fresh tracking counts for the campaigns that completed recently.\<close>

abbreviation statsRefreshHot :: duration where "statsRefreshHot \<equiv> Hour"
abbreviation statsRefreshCold :: duration where "statsRefreshCold \<equiv> 10 * Minute"

definition statsRefreshDue :: "Campaign \<Rightarrow> go_time \<Rightarrow> duration \<Rightarrow> bool" where
  "statsRefreshDue c nw window =
    (let finished = (if c_CompletedAt c = 0 then c_UpdatedAt c else c_CompletedAt c)
     in if finished = 0 then False
        else if nw - finished > window then False
        else if nw - finished \<le> statsRefreshHot then True
        else if cs_ComputedAt (c_Stats c) = 0 then True
        else \<not> nw < cs_ComputedAt (c_Stats c) + statsRefreshCold)"

definition refreshOne :: "env \<Rightarrow> go_time \<Rightarrow> Campaign \<Rightarrow> tenant_data \<Rightarrow> store_err option \<times> tenant_data" where
  "refreshOne e nw c s =
    (case CountUnique e (c_ID c) s of Inl err \<Rightarrow> (Some err, s)
     | Inr tc \<Rightarrow>
         (case UpdateStats e (c_ID c) ((unique_stats tc (c_Stats c))\<lparr>cs_ComputedAt := nw\<rparr>) s of
            (Some err, s) \<Rightarrow> (if raced err then None else Some err, s)
          | (None, s) \<Rightarrow> (None, s)))"

fun refresh_items :: "(nat \<Rightarrow> env) \<Rightarrow> go_time \<Rightarrow> duration \<Rightarrow> nat \<Rightarrow> Campaign list \<Rightarrow> tenant_data \<Rightarrow> store_err option \<times> nat \<times> tenant_data" where
  "refresh_items E nw window k [] s = (None, k, s)"
| "refresh_items E nw window k (c # cs) s =
    (if \<not> statsRefreshDue c nw window then refresh_items E nw window (Suc k) cs s
     else case refreshOne (E k) nw c s of (Some err, s) \<Rightarrow> (Some err, Suc k, s)
       | (None, s) \<Rightarrow> refresh_items E nw window (Suc k) cs s)"

text \<open>The walk, as error, cursor to resume at, and data; it ends after \<open>scan\<close> campaigns or at the last page.\<close>

fun refresh_pages ::
  "nat \<Rightarrow> (nat \<Rightarrow> env) \<Rightarrow> go_time \<Rightarrow> duration \<Rightarrow> int \<Rightarrow> nat \<Rightarrow> Page \<Rightarrow> tenant_data \<Rightarrow> (store_err option \<times> string \<times> tenant_data) option" where
  "refresh_pages 0 E nw window scan k p s = None"
| "refresh_pages (Suc n) E nw window scan k p s =
    (if \<not> int k < scan then Some (None, pg_Cursor p, s)
     else case ListByStatus (E k) [CampaignCompleted] p s of Inl err \<Rightarrow> Some (Some err, '''', s)
     | Inr r \<Rightarrow>
         (case refresh_items E nw window k (res_Items r) s of (Some err, _, s) \<Rightarrow> Some (Some err, '''', s)
          | (None, k, s) \<Rightarrow>
              if res_NextCursor r = '''' then Some (None, '''', s)
              else refresh_pages n E nw window scan k (p\<lparr>pg_Cursor := res_NextCursor r\<rparr>) s))"

definition refreshTracking :: "config \<Rightarrow> (nat \<Rightarrow> env) \<Rightarrow> go_time \<Rightarrow> finalizer \<Rightarrow> (store_err option \<times> finalizer) option" where
  "refreshTracking cfg E nw st =
    (if cg_trackingRefreshWindow cfg \<le> 0 \<or> bt_StatsRefreshScan (cg_batches cfg) \<le> 0 then Some (None, st)
     else map_option (\<lambda>(err, cursor, td). (err, st\<lparr>fz_td := td, fz_refreshCursor := cursor\<rparr>))
       (refresh_pages (Suc (nat (bt_StatsRefreshScan (cg_batches cfg)))) E nw (cg_trackingRefreshWindow cfg)
          (bt_StatsRefreshScan (cg_batches cfg)) 0
          \<lparr>pg_Limit = bt_CampaignPage (cg_batches cfg), pg_Cursor = fz_refreshCursor st\<rparr> (fz_td st)))"

definition finalizer_Tick ::
  "encoder \<Rightarrow> config \<Rightarrow> (nat \<Rightarrow> env) \<Rightarrow> (nat \<Rightarrow> env) \<Rightarrow> go_time \<Rightarrow> finalizer \<Rightarrow> (ctl_err option \<times> finalizer) option" where
  "finalizer_Tick marshal cfg E E' nw st =
    (case tickRunning marshal cfg E nw st of None \<Rightarrow> None
     | Some (err, st) \<Rightarrow>
         map_option (\<lambda>(rerr, st). (if err = None then map_option StoreErr rerr else err, st)) (refreshTracking cfg E' nw st))"

section \<open>Canceller and lease reaper\<close>

definition cancellableStatuses :: "DeliveryStatus list" where
  "cancellableStatuses = [DeliveryPending, DeliveryQueued, DeliveryDeferred]"

definition canceller_visit :: "int \<Rightarrow> tenant_data visitor" where
  "canceller_visit chunk e cam s =
    (case BulkTransition e (c_ID cam) cancellableStatuses DeliveryCancelled chunk s of
       (Inl err, s) \<Rightarrow> (Some (StoreErr err), s) | (Inr n, s) \<Rightarrow> (None, s))"

definition canceller_Tick :: "(nat \<Rightarrow> env) \<Rightarrow> int \<Rightarrow> int \<Rightarrow> tenant_data \<Rightarrow> (ctl_err option \<times> tenant_data) option" where
  "canceller_Tick E page chunk s = eachCampaign id E [CampaignCancelled] page (canceller_visit chunk) s"

definition leaseReaper_Tick :: "env \<Rightarrow> int \<Rightarrow> go_time \<Rightarrow> tenant_data \<Rightarrow> store_err option \<times> tenant_data" where
  "leaseReaper_Tick e limit nw s =
    (case ReleaseExpiredLeases e nw limit s of (Inl err, s) \<Rightarrow> (Some err, s) | (Inr n, s) \<Rightarrow> (None, s))"

section \<open>Retention\<close>

text \<open>\<^verbatim>\<open>chunkedDelete\<close> with the number of calls it may make: the error, the rows deleted, and the data.\<close>

fun chunkedDelete ::
  "nat \<Rightarrow> (go_time \<Rightarrow> int \<Rightarrow> tenant_data \<Rightarrow> (store_err + int) \<times> tenant_data) \<Rightarrow> go_time \<Rightarrow> int \<Rightarrow> int \<Rightarrow> tenant_data
    \<Rightarrow> store_err option \<times> int \<times> tenant_data" where
  "chunkedDelete 0 del cutoff chunk tot s = (None, tot, s)"
| "chunkedDelete (Suc k) del cutoff chunk tot s =
    (case del cutoff chunk s of
       (Inl err, s) \<Rightarrow> (Some err, tot, s)
     | (Inr n, s) \<Rightarrow> if n < chunk then (None, tot + n, s) else chunkedDelete k del cutoff chunk (tot + n) s)"

definition run_delete ::
  "config \<Rightarrow> (go_time \<Rightarrow> int \<Rightarrow> tenant_data \<Rightarrow> (store_err + int) \<times> tenant_data) \<Rightarrow> go_time \<Rightarrow> tenant_data \<Rightarrow> ctl_err option \<times> tenant_data" where
  "run_delete cfg del cutoff s =
    (case chunkedDelete (nat (bt_RetentionMaxChunks (cg_batches cfg))) del cutoff (bt_RetentionChunk (cg_batches cfg)) 0 s of
       (err, _, s) \<Rightarrow> (map_option StoreErr err, s))"

definition retention_visit :: "config \<Rightarrow> go_time \<Rightarrow> tenant_data visitor" where
  "retention_visit cfg cutoff e c s =
    (let finishedAt = (if c_CompletedAt c = 0 then c_UpdatedAt c else c_CompletedAt c)
     in if \<not> finishedAt < cutoff then (None, s)
        else run_delete cfg (delivery_DeleteBefore e (c_ID c)) cutoff s)"

definition deleteCampaignDeliveries :: "config \<Rightarrow> (nat \<Rightarrow> env) \<Rightarrow> go_time \<Rightarrow> tenant_data \<Rightarrow> (ctl_err option \<times> tenant_data) option" where
  "deleteCampaignDeliveries cfg E cutoff s =
    eachCampaign id E [CampaignCompleted, CampaignCancelled] (bt_CampaignPage (cg_batches cfg)) (retention_visit cfg cutoff) s"

fun run_deletes ::
  "config \<Rightarrow> (go_time \<Rightarrow> int \<Rightarrow> tenant_data \<Rightarrow> (store_err + int) \<times> tenant_data) list \<Rightarrow> go_time \<Rightarrow> tenant_data \<Rightarrow> ctl_err option \<times> tenant_data" where
  "run_deletes cfg [] cutoff s = (None, s)"
| "run_deletes cfg (del # dels) cutoff s =
    (case run_delete cfg del cutoff s of (Some err, s) \<Rightarrow> (Some err, s) | (None, s) \<Rightarrow> run_deletes cfg dels cutoff s)"

definition deleteTenantWide :: "config \<Rightarrow> env \<Rightarrow> go_time \<Rightarrow> tenant_data \<Rightarrow> ctl_err option \<times> tenant_data" where
  "deleteTenantWide cfg e cutoff s = run_deletes cfg [tracking_DeleteBefore e, bounce_DeleteBefore e, outbox_DeleteBefore e] cutoff s"

definition retention_Tick ::
  "config \<Rightarrow> env \<Rightarrow> (nat \<Rightarrow> env) \<Rightarrow> string \<Rightarrow> string \<Rightarrow> go_time \<Rightarrow> tenant_data \<Rightarrow> (ctl_err option \<times> tenant_data) option" where
  "retention_Tick cfg e E rand tenant nw s =
    (case LoadTenantSettings e rand tenant nw s of
       (Inl err, s) \<Rightarrow> Some (Some (StoreErr err), s)
     | (Inr settings, s) \<Rightarrow>
         if ts_RetentionDays settings \<le> 0 then Some (None, s)
         else (let cutoff = nw - ts_RetentionDays settings * 24 * Hour
               in case deleteCampaignDeliveries cfg E cutoff s of
                    None \<Rightarrow> None
                  | Some (Some err, s) \<Rightarrow> Some (Some err, s)
                  | Some (None, s) \<Rightarrow>
                      Some (case run_delete cfg (suppression_DeleteBefore e) nw s of
                              (Some err, s) \<Rightarrow> (Some err, s)
                            | (None, s) \<Rightarrow> deleteTenantWide cfg e cutoff s)))"

end
