(* ===== verification/Control_Walk.thy ===== *)
theory Control_Walk
  imports Control_Loops
begin

text \<open>
  The paged campaign walk under a callback that changes rows as it goes.  The locale
  \<open>campaign_visitor\<close> is what the walk relies on from a callback: it adds and removes no campaign and
  changes no campaign but the one it is called on.  Under it the walk ends, and it is the same as
  calling the callback on the matching campaigns of the start, once each, in id order.
\<close>

section \<open>What a store call leaves of the campaigns\<close>

lemma update_same_keys: "map_of m k = Some v \<Longrightarrow> map fst (AList.update k w m) = map fst m"
  by (induction m) auto

lemma campaign_Update_frame:
  assumes "campaign_Update e c s = (err, c', s')"
  shows "map fst (td_campaigns s') = map fst (td_campaigns s)" "i \<noteq> c_ID c \<Longrightarrow> map_of (td_campaigns s') i = map_of (td_campaigns s) i"
    "s' = s\<lparr>td_campaigns := td_campaigns s'\<rparr>"
proof -
  obtain rows v where u: "tbl_Update campaign_meta e (td_campaigns s) (Some c) = (err, v, rows)" "s' = s\<lparr>td_campaigns := rows\<rparr>"
    using assms by (auto simp: campaign_Update_def split: prod.splits)
  have "(rows = td_campaigns s) \<or> (\<exists>cur w. map_of (td_campaigns s) (c_ID c) = Some cur \<and> rows = AList.update (c_ID c) w (td_campaigns s))"
  proof (cases err)
    case None
    with u(1) have "tbl_Update campaign_meta e (td_campaigns s) (Some c) = (None, v, rows)" by simp
    then show ?thesis by (rule campaigns.Update_ok) (auto simp: campaign_meta_def)
  next
    case (Some x) with u(1) campaigns.Update_fails show ?thesis by blast
  qed
  then show "map fst (td_campaigns s') = map fst (td_campaigns s)"
      "i \<noteq> c_ID c \<Longrightarrow> map_of (td_campaigns s') i = map_of (td_campaigns s) i"
    using u(2) by (auto simp: update_same_keys)
  show "s' = s\<lparr>td_campaigns := td_campaigns s'\<rparr>" using u(2) by simp
qed

lemma UpdateStats_frame:
  assumes "UpdateStats e i st s = (err, s')"
  shows "map fst (td_campaigns s') = map fst (td_campaigns s)" "k \<noteq> i \<Longrightarrow> map_of (td_campaigns s') k = map_of (td_campaigns s) k"
    "s' = s\<lparr>td_campaigns := td_campaigns s'\<rparr>"
  using assms by (auto simp: UpdateStats_def update_same_keys split: if_splits option.splits)

lemma event_campaigns [simp]: "td_campaigns (snd (enqueueCampaignEvent marshal e c typ nw by s)) = td_campaigns s"
  by (simp add: enqueueCampaignEvent_def lift_err_def Enqueue_def split: option.split)

lemma event_deliveries [simp]: "td_deliveries (snd (enqueueCampaignEvent marshal e c typ nw by s)) = td_deliveries s"
  by (simp add: enqueueCampaignEvent_def lift_err_def Enqueue_def split: option.split)

lemma delete_loop_campaigns [simp]: "td_campaigns (delete_loop ids s) = td_campaigns s"
  by (induction ids arbitrary: s) (auto simp: Let_def split: option.split)

lemma chunkedDelete_campaigns:
  assumes "\<And>t l s. td_campaigns (snd (del t l s)) = td_campaigns s"
  shows "td_campaigns (snd (snd (chunkedDelete n del cutoff chunk tot s))) = td_campaigns s"
proof (induction n arbitrary: tot s)
  case (Suc n) then show ?case using assms [of cutoff chunk s] by (auto split: prod.splits sum.splits)
qed simp

section \<open>The walk\<close>

definition campaigns_in :: "CampaignStatus list \<Rightarrow> tenant_data \<Rightarrow> Campaign list" where
  "campaigns_in statuses s =
    (let rows = td_campaigns s in rows_at rows (sort (keys_where (\<lambda>i c. i \<noteq> '''' \<and> list_ex (\<lambda>x. c_Status c = x) statuses) rows)))"

lemma visit_all_append:
  "visit_all E f k (xs @ ys) st =
    (case visit_all E f k xs st of (Some err, r) \<Rightarrow> (Some err, r) | (None, k, st) \<Rightarrow> visit_all E f k ys st)"
  by (induction xs arbitrary: k st) (auto split: prod.split option.split)

text \<open>
  What a walk does to an observation that only the visit of one campaign changes: that visit's
  effect if the campaign is among those visited, else nothing.
\<close>

lemma visit_all_other:
  assumes "visit_all E f k cs st = (err, k', st')" "\<And>e c' st. c_ID c' \<noteq> i \<Longrightarrow> obs (snd (f e c' st)) = obs st" "i \<notin> c_ID ` set cs"
  shows "obs st' = obs st"
  using assms(1,3)
proof (induction cs arbitrary: k st)
  case (Cons c cs)
  have "obs (snd (f (E k) c st)) = obs st" using Cons.prems(2) by (intro assms(2)) auto
  then show ?case using Cons by (fastforce split: prod.splits option.splits)
qed simp

lemma visit_all_one:
  assumes "visit_all E f k cs st = (None, k', st')" "\<And>e c' st. c_ID c' \<noteq> c_ID c \<Longrightarrow> obs (snd (f e c' st)) = obs st"
    "distinct (map c_ID cs)" "c \<in> set cs"
  obtains k0 st0 where "obs st0 = obs st" "obs st' = obs (snd (f (E k0) c st0))"
  using assms(1,3,4)
proof (induction cs arbitrary: k st thesis)
  case (Cons a cs)
  obtain err st1 where f: "f (E k) a st = (err, st1)" by fastforce
  with Cons.prems(2) have r: "visit_all E f (Suc k) cs st1 = (None, k', st')" by (simp split: option.splits)
  show ?case
  proof (cases "a = c")
    case True
    have "obs st' = obs st1"
      by (rule visit_all_other [OF r]) (use assms(2) Cons.prems(3) True in \<open>auto simp: image_iff\<close>)
    then show ?thesis using Cons.prems(1) [of st k] f True by simp
  next
    case False
    then have ne: "c_ID a \<noteq> c_ID c" "c \<in> set cs" using Cons.prems(3,4) by auto
    then have "obs st1 = obs st" using assms(2) [of a "E k" st] f by simp
    then show ?thesis using Cons.IH [OF _ r] Cons.prems(1,3) ne by (metis distinct.simps(2) list.simps(9))
  qed
qed simp

definition agree_above :: "string \<Rightarrow> (string, 'a) gomap \<Rightarrow> (string, 'a) gomap \<Rightarrow> bool" where
  "agree_above c m m' \<longleftrightarrow> map fst m' = map fst m \<and> (\<forall>i. c < i \<longrightarrow> map_of m' i = map_of m i)"

lemma keys_where_lookup: "distinct (map fst m) \<Longrightarrow> keys_where P m = filter (\<lambda>k. P k (the (map_of m k))) (map fst m)"
proof (induction m)
  case (Cons a m)
  obtain k v where a: "a = (k, v)" by (cases a)
  then have "keys_where P m = filter (\<lambda>j. P j (the (map_of (a # m) j))) (map fst m)"
    using Cons by (auto intro!: filter_cong)
  then show ?case using a by simp
qed simp

lemma agree_page_ids:
  assumes "agree_above c m m'" "distinct (map fst m)"
  shows "page_ids m' c keep = page_ids m c keep" "rows_at m' (page_ids m c keep) = rows_at m (page_ids m c keep)"
proof -
  have d: "distinct (map fst m')" "map fst m' = map fst m" using assms by (simp_all add: agree_above_def)
  have "filter (\<lambda>k. \<not> k \<le> c \<and> keep (the (map_of m' k))) (map fst m) = filter (\<lambda>k. \<not> k \<le> c \<and> keep (the (map_of m k))) (map fst m)"
    by (rule filter_cong) (use assms(1) in \<open>auto simp: agree_above_def\<close>)
  then show "page_ids m' c keep = page_ids m c keep"
    using keys_where_lookup [OF d(1)] keys_where_lookup [OF assms(2)] d(2) by (simp add: page_ids_def)
  show "rows_at m' (page_ids m c keep) = rows_at m (page_ids m c keep)"
    using assms(1) page_ids_mem [of _ m c keep] by (auto simp: agree_above_def)
qed

lemma paginate_agree:
  assumes "agree_above (pg_Cursor p) m m'" "distinct (map fst m)"
  shows "paginate m' p keep = paginate m p keep"
proof -
  note ids = agree_page_ids [OF assms, of keep]
  have "rows_at m' (take n (page_ids m (pg_Cursor p) keep)) = rows_at m (take n (page_ids m (pg_Cursor p) keep))" for n
    using ids(2) by (metis take_map)
  then show ?thesis
    using ids paginate_last [of m p keep] paginate_last [of m' p keep] paginate_more [of p m keep] paginate_more [of p m' keep]
    by (cases "pg_Limit (Normalize p) < int (length (page_ids m (pg_Cursor p) keep))") simp_all
qed

lemma paginate_done:
  assumes "distinct (map fst rows)" "res_NextCursor (paginate rows p keep) = ''''"
  shows "res_Items (paginate rows p keep) = rows_at rows (page_ids rows (pg_Cursor p) keep)"
  using walk_pages_all [OF assms(1), of p keep] assms(2) by (simp add: walk_pages.simps)

locale campaign_visitor =
  fixes tdata :: "'s \<Rightarrow> tenant_data" and f :: "'s visitor"
  assumes visit_keys: "map fst (td_campaigns (tdata (snd (f e c st)))) = map fst (td_campaigns (tdata st))"
    and visit_frame: "i \<noteq> c_ID c \<Longrightarrow> map_of (td_campaigns (tdata (snd (f e c st)))) i = map_of (td_campaigns (tdata st)) i"
begin

lemma visit_all_frame:
  assumes "visit_all E f k cs st = (err, k', st')"
  shows "map fst (td_campaigns (tdata st')) = map fst (td_campaigns (tdata st)) \<and>
    (\<forall>i. i \<notin> c_ID ` set cs \<longrightarrow> map_of (td_campaigns (tdata st')) i = map_of (td_campaigns (tdata st)) i)"
  using assms
proof (induction cs arbitrary: k st)
  case (Cons c cs)
  show ?case
    using Cons visit_keys [of "E k" c st] visit_frame [of _ c "E k" st] by (fastforce split: prod.splits option.splits)
qed simp

lemma campaign_pages_fold:
  assumes "distinct (map fst rows)" "\<forall>i c. map_of rows i = Some c \<longrightarrow> c_ID c = i" "\<forall>k. \<not> e_closed (E k)"
    "agree_above (pg_Cursor p) rows (td_campaigns (tdata st))"
    "length (page_ids rows (pg_Cursor p) (\<lambda>c. list_ex (\<lambda>x. c_Status c = x) statuses)) < n"
  shows "campaign_pages n tdata E statuses f k p st =
    Some (case visit_all E f k (rows_at rows (page_ids rows (pg_Cursor p) (\<lambda>c. list_ex (\<lambda>x. c_Status c = x) statuses))) st of
      (err, _, st') \<Rightarrow> (err, st'))"
  using assms(4,5)
proof (induction n arbitrary: k p st)
  case (Suc n)
  let ?keep = "\<lambda>c. list_ex (\<lambda>x. c_Status c = x) statuses"
  let ?r = "paginate rows p ?keep" and ?ids = "page_ids rows (pg_Cursor p) ?keep"
  have list: "ListByStatus (E k) statuses p (tdata st) = Inr ?r"
    using assms(3) paginate_agree [OF Suc.prems(1) assms(1)] by (simp add: ListByStatus_def listWhere_def)
  show ?case
  proof (cases "res_NextCursor ?r = ''''")
    case True
    then show ?thesis using paginate_done [OF assms(1) True] by (simp add: list split: prod.split option.split)
  next
    case False
    define L where "L = nat (pg_Limit (Normalize p))"
    note pc = paginate_cursor [OF False, folded L_def]
    let ?c = "res_NextCursor ?r"
    have next_ids: "page_ids rows ?c ?keep = drop L ?ids"
      using page_ids_next [OF assms(1) pc(5) refl] pc(1,2,3) by simp
    have split: "rows_at rows ?ids = rows_at rows (take L ?ids) @ rows_at rows (drop L ?ids)" by (simp flip: map_append)
    obtain err k1 st1 where v: "visit_all E f k (rows_at rows (take L ?ids)) st = (err, k1, st1)" by (metis prod_cases3)
    have le: "i \<le> ?c" if "i \<in> set (take L ?ids)" for i
    proof -
      obtain j where "j < L" "i = ?ids ! j" using \<open>i \<in> set (take L ?ids)\<close> by (auto simp: in_set_conv_nth)
      then show ?thesis using pc(1-3) sorted_nth_mono [of ?ids j "L - 1"] by (simp add: page_ids_def)
    qed
    have own: "c_ID (the (map_of rows i)) = i" if "i \<in> set ?ids" for i
      using page_ids_mem [OF that] assms(2) map_of_is_SomeI [OF assms(1)] by (metis option.sel)
    have "map_of (td_campaigns (tdata st1)) i = map_of rows i" if i: "?c < i" for i
    proof -
      have "i \<notin> c_ID ` set (rows_at rows (take L ?ids))"
      proof
        assume "i \<in> c_ID ` set (rows_at rows (take L ?ids))"
        then obtain j where "j \<in> set (take L ?ids)" "i = c_ID (the (map_of rows j))" by auto
        then show False using le [of j] own [of j] in_set_takeD [of j L ?ids] i by simp
      qed
      moreover have "pg_Cursor p < i" using pc(3,5) i by (simp add: less_trans)
      ultimately show ?thesis using visit_all_frame [OF v] Suc.prems(1) by (simp add: agree_above_def)
    qed
    then have "agree_above ?c rows (td_campaigns (tdata st1))"
      using Suc.prems(1) visit_all_frame [OF v] by (simp add: agree_above_def)
    moreover have less: "length (drop L ?ids) < n" using Suc.prems(2) pc(1,2) by simp
    ultimately have "campaign_pages n tdata E statuses f k1 (p\<lparr>pg_Cursor := ?c\<rparr>) st1 =
        Some (case visit_all E f k1 (rows_at rows (drop L ?ids)) st1 of (err, _, st') \<Rightarrow> (err, st'))"
      using Suc.IH [of "p\<lparr>pg_Cursor := ?c\<rparr>" st1 k1] less next_ids by simp
    then show ?thesis using False pc(3) v unfolding split visit_all_append
      by (simp add: list split: prod.split option.split)
  qed
qed simp

lemma eachCampaign_fold:
  assumes "tbl_inv campaign_meta (td_campaigns (tdata st))" "\<forall>k. \<not> e_closed (E k)"
  shows "eachCampaign tdata E statuses pageSize f st =
    Some (case visit_all E f 0 (campaigns_in statuses (tdata st)) st of (err, _, st') \<Rightarrow> (err, st'))"
proof -
  let ?rows = "td_campaigns (tdata st)"
  have d: "distinct (map fst ?rows)" "\<forall>i c. map_of ?rows i = Some c \<longrightarrow> c_ID c = i"
    using assms(1) by (auto simp: tbl_inv_def campaign_meta_def)
  have "length (keys_where P ?rows) \<le> length ?rows" for P
    by (simp add: keys_where_def)
  moreover have "page_ids ?rows '''' (\<lambda>c. list_ex (\<lambda>x. c_Status c = x) statuses) =
      sort (keys_where (\<lambda>i c. i \<noteq> '''' \<and> list_ex (\<lambda>x. c_Status c = x) statuses) ?rows)"
    by (simp add: page_ids_def)
  ultimately show ?thesis
    unfolding eachCampaign_def
    using campaign_pages_fold [OF d assms(2), of "\<lparr>pg_Limit = pageSize, pg_Cursor = ''''\<rparr>" st statuses "Suc (length ?rows)" 0]
    by (simp add: agree_above_def campaigns_in_def Let_def less_Suc_eq_le del: campaign_pages.simps)
qed

end

section \<open>The callbacks\<close>

lemma resolve_same:
  "resolveCampaignVersion e c s = Inr c' \<Longrightarrow> \<exists>v. v \<noteq> '''' \<and> c' = c\<lparr>c_VersionID := v\<rparr>"
  by (cases c) (auto simp: resolveCampaignVersion_def split: if_splits sum.splits)

text \<open>A visit that changes the campaigns by an \<^verbatim>\<open>Update\<close> of the visited row only.\<close>

definition row_update :: "string \<Rightarrow> tenant_data \<Rightarrow> tenant_data \<Rightarrow> bool" where
  "row_update i s s' \<longleftrightarrow> map fst (td_campaigns s') = map fst (td_campaigns s) \<and>
    (\<forall>j. j \<noteq> i \<longrightarrow> map_of (td_campaigns s') j = map_of (td_campaigns s) j)"

lemma row_update_intros:
  "td_campaigns s' = td_campaigns s \<Longrightarrow> row_update i s s'"
  "campaign_Update e c s = (err, c', s') \<Longrightarrow> c_ID c = i \<Longrightarrow> row_update i s s'"
  "UpdateStats e i stats s = (err, s') \<Longrightarrow> row_update i s s'"
  "row_update i s s1 \<Longrightarrow> row_update i s1 s' \<Longrightarrow> row_update i s s'"
  using campaign_Update_frame(1,2) [of e c s err c' s'] UpdateStats_frame(1,2) [of e i stats s err s']
  by (auto simp: row_update_def)

lemma scheduler_row_update: "row_update (c_ID c) s (snd (scheduler_visit marshal nw e c s))"
proof (cases "resolveCampaignVersion e c s")
  case (Inr c1)
  let ?c = "c1\<lparr>c_Status := CampaignRunning, c_StartedAt := (if c_StartedAt c1 = 0 then nw else c_StartedAt c1)\<rparr>"
  obtain err c2 s2 where u: "campaign_Update e ?c s = (err, c2, s2)" by (metis prod_cases3)
  have "row_update (c_ID c) s s2" using row_update_intros(2) [OF u] resolve_same [OF Inr] by auto
  then show ?thesis using Inr u
    by (auto simp: scheduler_visit_def row_update_intros(1) row_update_def split: option.split)
qed (simp add: scheduler_visit_def row_update_intros(1))

lemma finalizer_commit_row_update: "row_update (c_ID c) (fz_td st) (fz_td (snd (finalizer_commit marshal nw e c counts stats st)))"
proof -
  obtain err td where u: "UpdateStats e (c_ID c) stats (fz_td st) = (err, td)" by fastforce
  let ?c = "c\<lparr>c_Stats := stats, c_Status := CampaignCompleted, c_CompletedAt := nw\<rparr>"
  obtain err2 c2 td2 where v: "campaign_Update e ?c td = (err2, c2, td2)" by (metis prod_cases3)
  have a: "row_update (c_ID c) (fz_td st) td" by (rule row_update_intros(3) [OF u])
  have b: "row_update (c_ID c) td td2" by (rule row_update_intros(2) [OF v]) simp
  show ?thesis
    using a row_update_intros(4) [OF a b] u v
    by (auto simp: finalizer_commit_def Let_def row_update_intros(1) row_update_def split: option.split prod.split)
qed

lemma finalizer_row_update: "row_update (c_ID c) (fz_td st) (fz_td (snd (finalizer_visit marshal cfg nw e c st)))"
  using finalizer_commit_row_update [of c "st\<lparr>fz_live := l, fz_skips := m\<rparr>" for l m]
  by (auto simp: finalizer_visit_def Let_def row_update_intros(1) split: sum.split prod.split)

interpretation scheduler: campaign_visitor id "scheduler_visit marshal nw"
  using scheduler_row_update by unfold_locales (auto simp: row_update_def)

interpretation finalizer: campaign_visitor fz_td "finalizer_visit marshal cfg nw"
  using finalizer_row_update by unfold_locales (auto simp: row_update_def)

interpretation canceller: campaign_visitor id "canceller_visit chunk"
  by unfold_locales (auto simp: canceller_visit_def BulkTransition_def Let_def)

interpretation retention: campaign_visitor id "retention_visit cfg cutoff"
  by unfold_locales
    (simp_all add: retention_visit_def run_delete_def Let_def case_prod_beta chunkedDelete_campaigns delivery_DeleteBefore_def)

end
