(* ===== verification/Control_Dispatch.thy ===== *)
theory Control_Dispatch
  imports Control_Loops
begin

text \<open>
  The rest of the control plane: the outbox dispatcher (\<^verbatim>\<open>internal/control/outbox.go\<close>), the leader and
  its tenant sets (\<^verbatim>\<open>leader.go\<close>, \<^verbatim>\<open>loops.go\<close>) and the tracking buffer (\<^verbatim>\<open>tracking.go\<close>).
\<close>

section \<open>Outbox dispatcher\<close>

record HostEvent =
  he_ID :: string
  he_TenantID :: string
  he_Type :: string
  he_OccurredAt :: go_time
  he_Payload :: string

definition eventFromOutbox :: "OutboxEvent \<Rightarrow> HostEvent" where
  "eventFromOutbox ev =
    \<lparr>he_ID = oe_ID ev, he_TenantID = oe_TenantID ev, he_Type = oe_Type ev, he_OccurredAt = oe_CreatedAt ev, he_Payload = oe_Payload ev\<rparr>"

definition backoffFor :: "duration list \<Rightarrow> int \<Rightarrow> duration" where
  "backoffFor schedule n =
    (if length schedule = 0 then Minute
     else (let n = (if n < 1 then 1 else n); n = (if n > int (length schedule) then int (length schedule) else n)
           in schedule ! nat (n - 1)))"

definition maxOutboxErrLen :: nat where "maxOutboxErrLen = 1024"

text \<open>The suffix is the UTF-8 encoding of an ellipsis.\<close>

definition truncateErr :: "string \<Rightarrow> string" where
  "truncateErr msg = (if length msg > maxOutboxErrLen then take maxOutboxErrLen msg @ [CHR 0xE2, CHR 0x80, CHR 0xA6] else msg)"

text \<open>
  \<^verbatim>\<open>subscribed\<close>: the events to dispatch; the others are retired.  \<open>clock\<close> is the time \<^verbatim>\<open>MarkDelivered\<close>
  is called with.
\<close>

fun retire_unsubscribed :: "env \<Rightarrow> go_time \<Rightarrow> TenantSettings \<Rightarrow> OutboxEvent list \<Rightarrow> tenant_data \<Rightarrow> OutboxEvent list \<times> tenant_data" where
  "retire_unsubscribed e clock settings [] s = ([], s)"
| "retire_unsubscribed e clock settings (ev # evs) s =
    (if SubscribedTo (Some settings) (oe_Type ev)
     then (case retire_unsubscribed e clock settings evs s of (out, s) \<Rightarrow> (ev # out, s))
     else retire_unsubscribed e clock settings evs (snd (MarkDelivered e (oe_ID ev) (TruncateTime clock) s)))"

definition subscribed :: "env \<Rightarrow> go_time \<Rightarrow> string \<Rightarrow> string \<Rightarrow> go_time \<Rightarrow> OutboxEvent list \<Rightarrow> tenant_data \<Rightarrow> OutboxEvent list \<times> tenant_data" where
  "subscribed e clock rand tenant nw events s =
    (case LoadTenantSettings e rand tenant nw s of
       (Inl _, s) \<Rightarrow> (events, s) | (Inr settings, s) \<Rightarrow> retire_unsubscribed e clock settings events s)"

text \<open>One event; \<open>emit\<close> is the host's sink, with the text of its error.\<close>

definition dispatch :: "config \<Rightarrow> env \<Rightarrow> go_time \<Rightarrow> (HostEvent \<Rightarrow> string option) \<Rightarrow> go_time \<Rightarrow> OutboxEvent \<Rightarrow> tenant_data \<Rightarrow> tenant_data" where
  "dispatch cfg e clock emit nw ev s =
    (case emit (eventFromOutbox ev) of
       None \<Rightarrow> snd (MarkDelivered e (oe_ID ev) (TruncateTime clock) s)
     | Some err \<Rightarrow>
         (let attempt = oe_Attempts ev + 1;
              next = (if attempt < cg_outboxMaxAttempts cfg then nw + backoffFor (cg_outboxBackoff cfg) attempt else 0)
          in snd (MarkFailed e (oe_ID ev) next (truncateErr err) s)))"

text \<open>
  A tick.  The workers take the events from one channel; \<open>order\<close> is the order in which their
  dispatches happen to finish, any permutation of the events.
\<close>

definition outbox_Tick ::
  "config \<Rightarrow> env \<Rightarrow> go_time \<Rightarrow> (HostEvent \<Rightarrow> string option) \<Rightarrow> (OutboxEvent list \<Rightarrow> OutboxEvent list) \<Rightarrow> string \<Rightarrow> string \<Rightarrow> go_time
    \<Rightarrow> tenant_data \<Rightarrow> store_err option \<times> tenant_data" where
  "outbox_Tick cfg e clock emit order rand tenant nw s =
    (case ClaimPending e (bt_OutboxClaim (cg_batches cfg)) (cg_outboxLease cfg) (cg_owner cfg) nw s of
       (Inl err, s) \<Rightarrow> (Some err, s)
     | (Inr events, s) \<Rightarrow>
         if length events = 0 then (None, s)
         else (case subscribed e clock rand tenant nw events s of
                 (events, s) \<Rightarrow> (None, fold (dispatch cfg e clock emit nw) (order events) s)))"

section \<open>Tenant sets\<close>

record loopSpec =
  ls_name :: string
  ls_interval :: duration
  ls_linger :: int
  ls_allTenants :: bool
  ls_includeSystem :: bool

record tenantSet =
  tset_loops :: "string list"
  tset_linger :: "(string, int) gomap"

definition newTenantSet :: tenantSet where
  "newTenantSet = \<lparr>tset_loops = [], tset_linger = []\<rparr>"

definition outboxLingerTicks :: int where "outboxLingerTicks = 3"

definition loopSpecs :: "Intervals \<Rightarrow> bool \<Rightarrow> loopSpec list \<Rightarrow> loopSpec list" where
  "loopSpecs iv sink extra =
    [\<lparr>ls_name = ''scheduler'', ls_interval = iv_Scheduler iv, ls_linger = 0, ls_allTenants = False, ls_includeSystem = False\<rparr>,
     \<lparr>ls_name = ''finalizer'', ls_interval = iv_Finalizer iv, ls_linger = 0, ls_allTenants = True, ls_includeSystem = False\<rparr>,
     \<lparr>ls_name = ''canceller'', ls_interval = iv_Canceller iv, ls_linger = 0, ls_allTenants = False, ls_includeSystem = False\<rparr>,
     \<lparr>ls_name = ''lease-reaper'', ls_interval = iv_LeaseReaper iv, ls_linger = 0, ls_allTenants = False, ls_includeSystem = False\<rparr>,
     \<lparr>ls_name = ''retention'', ls_interval = iv_Retention iv, ls_linger = 0, ls_allTenants = True, ls_includeSystem = False\<rparr>] @
    (if sink then
      [\<lparr>ls_name = ''outbox'', ls_interval = iv_Outbox iv, ls_linger = outboxLingerTicks, ls_allTenants = False, ls_includeSystem = False\<rparr>,
       \<lparr>ls_name = ''outbox-sweep'', ls_interval = iv_OutboxSweep iv, ls_linger = 0, ls_allTenants = True, ls_includeSystem = False\<rparr>]
     else []) @ extra"

text \<open>The tenants a loop ticks now, before the lingering ones are added.\<close>

definition live_tenants :: "loopSpec \<Rightarrow> string list \<Rightarrow> string list \<Rightarrow> string list" where
  "live_tenants spec active known =
    remdups (active @ (if ls_includeSystem spec then [SystemTenantID] else []) @
      (if ls_allTenants spec then filter (\<lambda>t. t \<noteq> SystemTenantID) known else []))"

definition set_linger :: "loopSpec \<Rightarrow> string list \<Rightarrow> (string, int) gomap \<Rightarrow> (string, int) gomap" where
  "set_linger spec active m = (if ls_linger spec > 0 then fold (\<lambda>t. AList.update t (ls_linger spec)) active m else m)"

definition tick_ids :: "string list \<Rightarrow> (string, int) gomap \<Rightarrow> string list" where
  "tick_ids live linger = sort (live @ filter (\<lambda>t. t \<notin> set live) (map fst linger))"

text \<open>The bookkeeping after the ticks: tenants that went quiet and used up their grace window are dropped.\<close>

fun drop_quiet :: "string list \<Rightarrow> string list \<Rightarrow> tenantSet \<Rightarrow> tenantSet" where
  "drop_quiet live [] st = st"
| "drop_quiet live (t # ts) st =
    drop_quiet live ts
      (if t \<in> set live then st
       else (let left = (case map_of (tset_linger st) t of None \<Rightarrow> 0 | Some n \<Rightarrow> n)
             in if left > 1 then st\<lparr>tset_linger := AList.update t (left - 1) (tset_linger st)\<rparr>
                else st\<lparr>tset_linger := AList.delete t (tset_linger st), tset_loops := filter (\<lambda>x. x \<noteq> t) (tset_loops st)\<rparr>))"

text \<open>
  One round of a loop, as the tenants ticked, in order, and the set kept for the next round.
  \<open>active\<close> and \<open>known\<close> are the listings of the provider (the known one may come from the cache), and
  \<open>opens t\<close> is whether the store of tenant \<open>t\<close> can be opened.
\<close>

definition tickTenants :: "loopSpec \<Rightarrow> (store_err + string list) \<Rightarrow> string list \<Rightarrow> (string \<Rightarrow> bool) \<Rightarrow> tenantSet \<Rightarrow> string list \<times> tenantSet" where
  "tickTenants spec active known opens st =
    (case active of Inl _ \<Rightarrow> ([], st)
     | Inr tenants \<Rightarrow>
         (let linger = set_linger spec tenants (tset_linger st);
              live = live_tenants spec tenants known;
              ticked = filter (\<lambda>t. t \<in> set (tset_loops st) \<or> opens t) (tick_ids live linger);
              loops = tset_loops st @ filter (\<lambda>t. t \<notin> set (tset_loops st)) ticked
          in (ticked, drop_quiet live loops \<lparr>tset_loops = loops, tset_linger = linger\<rparr>)))"

section \<open>Known tenants\<close>

record known_cache =
  kc_known :: "string list"
  kc_knownAt :: go_time
  kc_knownErr :: "store_err option"

definition knownTenants :: "config \<Rightarrow> go_time \<Rightarrow> (store_err + string list) \<Rightarrow> known_cache \<Rightarrow> string list \<times> store_err option \<times> known_cache" where
  "knownTenants cfg nw tenants kc =
    (if kc_knownAt kc \<noteq> 0 \<and> nw - kc_knownAt kc < cg_tenantsRefresh cfg then (kc_known kc, kc_knownErr kc, kc)
     else (case tenants of
             Inl err \<Rightarrow> (kc_known kc, Some err, kc\<lparr>kc_knownAt := nw, kc_knownErr := Some err\<rparr>)
           | Inr ids \<Rightarrow> (ids, None, kc\<lparr>kc_known := ids, kc_knownAt := nw, kc_knownErr := None\<rparr>)))"

section \<open>Leader\<close>

text \<open>
  The replicas of one deployment around the lock row of the system tenant.  \<open>cl_leading\<close> are the
  replicas whose loops run, each with the end of the lease it was last granted; \<open>cl_now\<close> is the time.
\<close>

abbreviation LeaderLockName :: string where "LeaderLockName \<equiv> ''control-leader''"

record cluster =
  cl_store :: tenant_data
  cl_leading :: "(string, go_time) gomap"
  cl_now :: go_time

definition lease_end :: "duration \<Rightarrow> go_time \<Rightarrow> go_time" where
  "lease_end ttl nw = TruncateTime (TruncateTime nw + ttl)"

definition attempt :: "env \<Rightarrow> string \<Rightarrow> duration \<Rightarrow> cluster \<Rightarrow> cluster" where
  "attempt e owner ttl cl =
    (case lock_Acquire e LeaderLockName owner ttl (TruncateTime (cl_now cl)) (cl_store cl) of
       (Inr True, s) \<Rightarrow> cl\<lparr>cl_store := s, cl_leading := AList.update owner (lease_end ttl (cl_now cl)) (cl_leading cl)\<rparr>
     | (_, s) \<Rightarrow> cl\<lparr>cl_store := s\<rparr>)"

text \<open>The end of \<^verbatim>\<open>hold\<close>: the loops are stopped, then the lock is released.\<close>

definition stop_leading :: "env \<Rightarrow> string \<Rightarrow> cluster \<Rightarrow> cluster" where
  "stop_leading e owner cl =
    cl\<lparr>cl_leading := AList.delete owner (cl_leading cl), cl_store := snd (lock_Release e LeaderLockName owner (cl_store cl))\<rparr>"

definition renew :: "env \<Rightarrow> env \<Rightarrow> string \<Rightarrow> duration \<Rightarrow> cluster \<Rightarrow> cluster" where
  "renew e e' owner ttl cl =
    (case lock_Renew e LeaderLockName owner ttl (TruncateTime (cl_now cl)) (cl_store cl) of
       (Inr True, s) \<Rightarrow> cl\<lparr>cl_store := s, cl_leading := AList.update owner (lease_end ttl (cl_now cl)) (cl_leading cl)\<rparr>
     | (_, s) \<Rightarrow> stop_leading e' owner (cl\<lparr>cl_store := s\<rparr>))"

text \<open>Steps of the replicas, with time passing and replicas crashing without releasing.\<close>

inductive lstep :: "duration \<Rightarrow> cluster \<Rightarrow> cluster \<Rightarrow> bool" for ttl where
  time: "cl_now cl \<le> t \<Longrightarrow> lstep ttl cl (cl\<lparr>cl_now := t\<rparr>)"
| attempt: "map_of (cl_leading cl) owner = None \<Longrightarrow> lstep ttl cl (attempt e owner ttl cl)"
| renew: "map_of (cl_leading cl) owner \<noteq> None \<Longrightarrow> lstep ttl cl (renew e e' owner ttl cl)"
| stop: "map_of (cl_leading cl) owner \<noteq> None \<Longrightarrow> lstep ttl cl (stop_leading e owner cl)"
| crash: "lstep ttl cl (cl\<lparr>cl_leading := AList.delete owner (cl_leading cl)\<rparr>)"

inductive lreach :: "duration \<Rightarrow> cluster \<Rightarrow> bool" for ttl where
  start: "lreach ttl \<lparr>cl_store = s, cl_leading = [], cl_now = t\<rparr>"
| step: "lreach ttl cl \<Longrightarrow> lstep ttl cl cl' \<Longrightarrow> lreach ttl cl'"

section \<open>Tracking buffer\<close>

record TrackingBuffer =
  tb_flushSize :: int
  tb_maxBuffer :: int
  tb_buf :: "TrackingEvent list"
  tb_started :: bool
  tb_loopDone :: bool
  tb_closed :: bool
  tb_flushed :: int
  tb_dropped :: int
  tb_failed :: int

text \<open>
  \<^verbatim>\<open>Record\<close>, with the identifier and the time it may have to fill in; the flag says whether the
  flusher is woken.  Slicing the buffer beyond its length would panic; that needs a cap below one,
  which the options refuse.
\<close>

definition Record :: "string \<Rightarrow> go_time \<Rightarrow> TrackingEvent \<Rightarrow> TrackingBuffer \<Rightarrow> bool \<times> TrackingBuffer" where
  "Record newid clock ev b =
    (let ev = (if te_ID ev = '''' then ev\<lparr>te_ID := newid\<rparr> else ev);
         ev = (if te_CreatedAt ev = 0 then ev\<lparr>te_CreatedAt := TruncateTime clock\<rparr> else ev)
     in if tb_closed b then (False, b\<lparr>tb_dropped := tb_dropped b + 1\<rparr>)
        else (let over = int (length (tb_buf b)) - tb_maxBuffer b + 1;
                  b = (if over > 0 then b\<lparr>tb_buf := drop (nat over) (tb_buf b), tb_dropped := tb_dropped b + over\<rparr> else b);
                  b = b\<lparr>tb_buf := tb_buf b @ [ev]\<rparr>
              in (int (length (tb_buf b)) \<ge> tb_flushSize b, b)))"

text \<open>The setter an event calls, if any.\<close>

definition first_setter :: "TrackingKind \<Rightarrow> (env \<Rightarrow> string \<Rightarrow> go_time \<Rightarrow> tenant_data \<Rightarrow> (store_err + bool) \<times> tenant_data) option" where
  "first_setter k =
    (case k of TrackingOpen \<Rightarrow> Some SetFirstOpened | TrackingClick \<Rightarrow> Some SetFirstClicked
     | TrackingUnsubscribed \<Rightarrow> Some SetUnsubscribed | _ \<Rightarrow> None)"

fun derive_loop :: "env \<Rightarrow> (TrackingKind \<times> string) list \<Rightarrow> TrackingEvent list \<Rightarrow> tenant_data \<Rightarrow> tenant_data" where
  "derive_loop e seen [] s = s"
| "derive_loop e seen (ev # evs) s =
    (if te_SuspectedBot ev \<or> te_DeliveryID ev = '''' then derive_loop e seen evs s
     else case first_setter (te_Kind ev) of None \<Rightarrow> derive_loop e seen evs s
     | Some setf \<Rightarrow>
         if (te_Kind ev, te_DeliveryID ev) \<in> set seen then derive_loop e seen evs s
         else derive_loop e ((te_Kind ev, te_DeliveryID ev) # seen) evs (snd (setf e (te_DeliveryID ev) (te_CreatedAt ev) s)))"

definition deriveFirsts :: "env \<Rightarrow> TrackingEvent list \<Rightarrow> tenant_data \<Rightarrow> tenant_data" where
  "deriveFirsts e evs s = derive_loop e [] evs s"

text \<open>One tenant of a flush.  \<open>E t\<close> is \<open>None\<close> if the store of tenant \<open>t\<close> cannot be opened.\<close>

definition flush_tenant ::
  "(string \<Rightarrow> env option) \<Rightarrow> TrackingEvent list \<Rightarrow> string \<Rightarrow> TrackingBuffer \<times> (string \<Rightarrow> tenant_data) \<Rightarrow> TrackingBuffer \<times> (string \<Rightarrow> tenant_data)" where
  "flush_tenant E batch t = (\<lambda>(b, stores).
    (let events = filter (\<lambda>ev. te_TenantID ev = t) batch; n = int (length events)
     in case E t of None \<Rightarrow> (b\<lparr>tb_failed := tb_failed b + n\<rparr>, stores)
        | Some e \<Rightarrow>
            (case InsertEvents e events (stores t) of
               (Some _, _) \<Rightarrow> (b\<lparr>tb_failed := tb_failed b + n\<rparr>, stores)
             | (None, s) \<Rightarrow> (b\<lparr>tb_flushed := tb_flushed b + n\<rparr>, stores(t := deriveFirsts e events s)))))"

definition flush_buffer :: "(string \<Rightarrow> env option) \<Rightarrow> TrackingBuffer \<times> (string \<Rightarrow> tenant_data) \<Rightarrow> TrackingBuffer \<times> (string \<Rightarrow> tenant_data)" where
  "flush_buffer E = (\<lambda>(b, stores).
    (if length (tb_buf b) = 0 then (b, stores)
     else fold (flush_tenant E (tb_buf b)) (remdups (map te_TenantID (tb_buf b))) (b\<lparr>tb_buf := []\<rparr>, stores)))"

text \<open>
  The flusher: \<^verbatim>\<open>start\<close> launches it once, a tick or a wake of \<^verbatim>\<open>loop\<close> flushes, and a cancelled
  context ends it with the final flush.  \<^verbatim>\<open>Close\<close> flushes itself only if no flusher was started;
  otherwise it stops the flusher, whose final flush does it, or finds it already ended.
\<close>

definition start_buffer :: "TrackingBuffer \<Rightarrow> TrackingBuffer" where
  "start_buffer b = b\<lparr>tb_started := True\<rparr>"

definition loop_flush :: "(string \<Rightarrow> env option) \<Rightarrow> TrackingBuffer \<times> (string \<Rightarrow> tenant_data) \<Rightarrow> TrackingBuffer \<times> (string \<Rightarrow> tenant_data)" where
  "loop_flush E bs = (if tb_started (fst bs) \<and> \<not> tb_loopDone (fst bs) then flush_buffer E bs else bs)"

definition loop_exit :: "(string \<Rightarrow> env option) \<Rightarrow> TrackingBuffer \<times> (string \<Rightarrow> tenant_data) \<Rightarrow> TrackingBuffer \<times> (string \<Rightarrow> tenant_data)" where
  "loop_exit E bs =
    (if tb_started (fst bs) \<and> \<not> tb_loopDone (fst bs)
     then (case flush_buffer E bs of (b, stores) \<Rightarrow> (b\<lparr>tb_loopDone := True\<rparr>, stores))
     else bs)"

definition close_buffer :: "(string \<Rightarrow> env option) \<Rightarrow> TrackingBuffer \<times> (string \<Rightarrow> tenant_data) \<Rightarrow> TrackingBuffer \<times> (string \<Rightarrow> tenant_data)" where
  "close_buffer E = (\<lambda>(b, stores).
    (if tb_closed b then (b, stores)
     else if tb_started b then loop_exit E (b\<lparr>tb_closed := True\<rparr>, stores)
     else flush_buffer E (b\<lparr>tb_closed := True\<rparr>, stores)))"

text \<open>\<^verbatim>\<open>Stats\<close>: the number buffered, then the totals flushed, dropped and failed.\<close>

definition Stats :: "TrackingBuffer \<Rightarrow> int \<times> int \<times> int \<times> int" where
  "Stats b = (int (length (tb_buf b)), tb_flushed b, tb_dropped b, tb_failed b)"

end
