(* ===== verification/Dispatch_Thms.thy ===== *)
theory Dispatch_Thms
  imports Control_Dispatch Samples
begin

text \<open>
  Properties of the dispatcher, the leader and the tracking buffer: what a tick does to every event
  of the outbox, how long a quiet tenant is still ticked, that leases exclude each other, and that
  no tracking event is lost without being counted.
\<close>

section \<open>Leader\<close>

text \<open>A replica whose lease has not run out holds the lock row with that lease.\<close>

definition linv :: "cluster \<Rightarrow> bool" where
  "linv cl \<longleftrightarrow> (\<forall>owner x. map_of (cl_leading cl) owner = Some x \<longrightarrow> cl_now cl < x \<longrightarrow>
     (\<exists>l. map_of (td_locks (cl_store cl)) LeaderLockName = Some l \<and> lk_Owner l = owner \<and> lk_ExpiresAt l = x))"

lemma linv_attempt: "linv cl \<Longrightarrow> linv (attempt e owner ttl cl)"
proof -
  assume I: "linv cl"
  let ?l = "map_of (td_locks (cl_store cl)) LeaderLockName"
  have nw: "TruncateTime (cl_now cl) \<le> cl_now cl" by (rule TruncateTime_le)
  show ?thesis
  proof (cases ?l)
    case None
    with I show ?thesis by (auto simp: linv_def attempt_def lock_Acquire_def lease_end_def Let_def)
  next
    case (Some l)
    show ?thesis
    proof (cases "lk_Owner l \<noteq> owner \<and> TruncateTime (cl_now cl) < lk_ExpiresAt l")
      case True
      with Some I show ?thesis by (auto simp: linv_def attempt_def lock_Acquire_def Let_def)
    next
      case False
      then have "lk_Owner l = owner \<or> lk_ExpiresAt l \<le> cl_now cl" using nw by auto
      with Some False I show ?thesis
        by (auto simp: linv_def attempt_def lock_Acquire_def lease_end_def Let_def)
    qed
  qed
qed

lemma linv_stop: "linv cl \<Longrightarrow> linv (stop_leading e owner cl)"
  by (cases "map_of (td_locks (cl_store cl)) LeaderLockName")
    (auto simp: linv_def stop_leading_def lock_Release_def split: if_splits)

lemma linv_renew: "linv cl \<Longrightarrow> linv (renew e e' owner ttl cl)"
proof (cases "map_of (td_locks (cl_store cl)) LeaderLockName")
  case None
  assume "linv cl" then show ?thesis using None linv_stop [of cl e' owner] by (auto simp: renew_def lock_Renew_def Let_def)
next
  case (Some l)
  assume I: "linv cl"
  show ?thesis
  proof (cases "e_closed e \<or> lk_Owner l \<noteq> owner \<or> \<not> TruncateTime (cl_now cl) < lk_ExpiresAt l")
    case True
    then show ?thesis using Some linv_stop [OF I, of e' owner] by (auto simp: renew_def lock_Renew_def Let_def)
  next
    case False
    then show ?thesis using I Some by (auto simp: linv_def renew_def lock_Renew_def lease_end_def Let_def)
  qed
qed

lemma linv_step: "lstep ttl cl cl' \<Longrightarrow> linv cl \<Longrightarrow> linv cl'"
proof (induction rule: lstep.induct)
  case (time cl t) then show ?case by (fastforce simp: linv_def)
next
  case (crash cl owner) then show ?case by (auto simp: linv_def)
qed (auto intro: linv_attempt linv_renew linv_stop)

lemma lreach_linv: "lreach ttl cl \<Longrightarrow> linv cl"
proof (induction rule: lreach.induct)
  case (start s t) show ?case by (simp add: linv_def)
next
  case (step cl cl') then show ?case using linv_step by blast
qed

text \<open>
  C32.  Leadership is exclusive for the length of a lease: whatever attempts, renewals, shutdowns and
  crashes happened before, of the replicas whose loops run at most one holds a lease that has
  not run out, and it is the one the lock row names.
\<close>

theorem leader_exclusive:
  assumes "lreach ttl cl" "map_of (cl_leading cl) o1 = Some x1" "cl_now cl < x1"
  shows "(\<exists>l. map_of (td_locks (cl_store cl)) LeaderLockName = Some l \<and> lk_Owner l = o1) \<and>
    (\<forall>o2 x2. map_of (cl_leading cl) o2 = Some x2 \<longrightarrow> cl_now cl < x2 \<longrightarrow> o2 = o1)"
  using lreach_linv [OF assms(1)] assms(2,3) unfolding linv_def by (metis option.inject)

definition w_cluster :: "go_time \<Rightarrow> cluster" where
  "w_cluster t = \<lparr>cl_store = newTenantData, cl_leading = [], cl_now = t\<rparr>"

definition w_env :: env where
  "w_env = \<lparr>e_closed = False, e_tenant = ''_system'', e_clock = Second, e_newid = (\<lambda>n. replicate (n + 1) (CHR ''e''))\<rparr>"

lemma w_lreach: "lreach (30 * Second) (attempt w_env ''r1'' (30 * Second) (w_cluster Second))"
  unfolding w_cluster_def by (rule lreach.step [OF lreach.start lstep.attempt]) simp

theorem leader_exclusive_witness:
  "(let cl = attempt w_env ''r2'' (30 * Second) (attempt w_env ''r1'' (30 * Second) (w_cluster Second))
    in map_of (cl_leading cl) ''r1'' = Some (31 * Second) \<and> map_of (cl_leading cl) ''r2'' = None)"
proof -
  let ?cl = "attempt w_env ''r1'' (30 * Second) (w_cluster Second)"
  let ?cl2 = "attempt w_env ''r2'' (30 * Second) ?cl"
  have "map_of (cl_leading ?cl) ''r2'' = None" by code_simp
  then have "lreach (30 * Second) ?cl2" by (rule lreach.step [OF w_lreach lstep.attempt])
  moreover have m: "map_of (cl_leading ?cl2) ''r1'' = Some (31 * Second)" "cl_now ?cl2 = Second" by code_simp+
  ultimately have "x2 \<le> Second" if "map_of (cl_leading ?cl2) ''r2'' = Some x2" for x2
    using leader_exclusive [of "30 * Second" ?cl2 "''r1''" "31 * Second"] that by force
  moreover have "case map_of (cl_leading ?cl2) ''r2'' of None \<Rightarrow> True | Some x \<Rightarrow> Second < x" by code_simp
  ultimately show ?thesis using m(1) by (force simp: Let_def split: option.splits)
qed

text \<open>
  Beyond the lease it is not: a replica that was paused for longer than its lease still runs its
  loops when another has taken over, until its next renewal fails.
\<close>

lemma two_leaders:
  "(let cl = attempt w_env ''r1'' (30 * Second) (w_cluster Second);
        cl = attempt w_env ''r2'' (30 * Second) (cl\<lparr>cl_now := 32 * Second\<rparr>)
    in map fst (cl_leading cl) = [''r1'', ''r2'']) \<and>
   lreach (30 * Second) (attempt w_env ''r2'' (30 * Second) ((attempt w_env ''r1'' (30 * Second) (w_cluster Second))\<lparr>cl_now := 32 * Second\<rparr>))"
proof
  let ?cl = "(attempt w_env ''r1'' (30 * Second) (w_cluster Second))\<lparr>cl_now := 32 * Second\<rparr>"
  have "cl_now (attempt w_env ''r1'' (30 * Second) (w_cluster Second)) \<le> 32 * Second" by code_simp
  then have "lreach (30 * Second) ?cl" by (rule lreach.step [OF w_lreach lstep.time])
  then show "lreach (30 * Second) (attempt w_env ''r2'' (30 * Second) ?cl)"
    by (rule lreach.step [OF _ lstep.attempt]) code_simp
qed code_simp

section \<open>Tracking buffer\<close>

datatype buffer_call = CallRecord string go_time TrackingEvent | CallStart
  | CallFlush "string \<Rightarrow> env option" | CallCancel "string \<Rightarrow> env option" | CallClose "string \<Rightarrow> env option"

fun buffer_exec :: "buffer_call \<Rightarrow> TrackingBuffer \<times> (string \<Rightarrow> tenant_data) \<Rightarrow> TrackingBuffer \<times> (string \<Rightarrow> tenant_data)" where
  "buffer_exec (CallRecord i clock ev) (b, stores) = (snd (Record i clock ev b), stores)"
| "buffer_exec CallStart (b, stores) = (start_buffer b, stores)"
| "buffer_exec (CallFlush E) bs = loop_flush E bs"
| "buffer_exec (CallCancel E) bs = loop_exit E bs"
| "buffer_exec (CallClose E) bs = close_buffer E bs"

definition is_record :: "buffer_call \<Rightarrow> bool" where
  "is_record c \<longleftrightarrow> (case c of CallRecord _ _ _ \<Rightarrow> True | _ \<Rightarrow> False)"

definition accounted :: "TrackingBuffer \<Rightarrow> int" where
  "accounted b = int (length (tb_buf b)) + tb_flushed b + tb_dropped b + tb_failed b"

lemma Record_accounted:
  assumes "1 \<le> tb_maxBuffer b" "int (length (tb_buf b)) \<le> tb_maxBuffer b"
  shows "accounted (snd (Record i t ev b)) = accounted b + 1" "int (length (tb_buf (snd (Record i t ev b)))) \<le> tb_maxBuffer b"
    "tb_maxBuffer (snd (Record i t ev b)) = tb_maxBuffer b"
  using assms by (auto simp: Record_def accounted_def Let_def)

lemma flush_tenant_accounted:
  "accounted (fst (flush_tenant E batch t (b, st))) = accounted b + int (length (filter (\<lambda>ev. te_TenantID ev = t) batch))"
  "tb_buf (fst (flush_tenant E batch t (b, st))) = tb_buf b" "tb_maxBuffer (fst (flush_tenant E batch t (b, st))) = tb_maxBuffer b"
  by (auto simp: flush_tenant_def accounted_def Let_def split: option.split prod.split)

lemma flush_fold_accounted:
  "accounted (fst (fold (flush_tenant E batch) ts (b, st))) = accounted b + (\<Sum>t\<leftarrow>ts. int (length (filter (\<lambda>ev. te_TenantID ev = t) batch))) \<and>
   tb_buf (fst (fold (flush_tenant E batch) ts (b, st))) = tb_buf b \<and> tb_maxBuffer (fst (fold (flush_tenant E batch) ts (b, st))) = tb_maxBuffer b"
proof (induction ts arbitrary: b st)
  case (Cons t ts)
  then show ?case using flush_tenant_accounted [of E batch t b st]
    by (cases "flush_tenant E batch t (b, st)") simp
qed simp

lemma group_lengths: "(\<Sum>t\<leftarrow>remdups (map f xs). int (length (filter (\<lambda>x. f x = t) xs))) = int (length xs)"
proof -
  have "length (filter (\<lambda>x. f x = t) xs) = count_list (map f xs) t" for t by (induction xs) auto
  then show ?thesis
    using sum_count_set [of "map f xs" "set (map f xs)"] by (simp add: sum_list_distinct_conv_sum_set flip: of_nat_sum)
qed

lemma flush_accounted:
  "accounted (fst (flush_buffer E (b, st))) = accounted b"
  "tb_buf (fst (flush_buffer E (b, st))) = []" "tb_maxBuffer (fst (flush_buffer E (b, st))) = tb_maxBuffer b"
  using flush_fold_accounted [of E "tb_buf b" "remdups (map te_TenantID (tb_buf b))" "b\<lparr>tb_buf := []\<rparr>" st] group_lengths [of te_TenantID "tb_buf b"]
  by (auto simp: flush_buffer_def accounted_def)

text \<open>What every call keeps: the cap, and the count of what was recorded.\<close>

lemma buffer_exec_accounted:
  assumes "1 \<le> tb_maxBuffer b" "int (length (tb_buf b)) \<le> tb_maxBuffer b"
  shows "accounted (fst (buffer_exec c (b, st))) = accounted b + (if is_record c then 1 else 0) \<and>
    int (length (tb_buf (fst (buffer_exec c (b, st))))) \<le> tb_maxBuffer b \<and> tb_maxBuffer (fst (buffer_exec c (b, st))) = tb_maxBuffer b"
proof (cases c)
  case (CallRecord i t ev) then show ?thesis using Record_accounted [OF assms] by (simp add: is_record_def)
next
  case CallStart then show ?thesis using assms by (simp add: start_buffer_def is_record_def accounted_def)
next
  case (CallFlush E)
  then show ?thesis using assms flush_accounted [of E b st] by (simp add: loop_flush_def is_record_def)
next
  case (CallCancel E)
  then show ?thesis using assms flush_accounted [of E b st]
    by (cases "flush_buffer E (b, st)") (simp add: loop_exit_def is_record_def accounted_def)
next
  case (CallClose E)
  then show ?thesis using assms flush_accounted [of E "b\<lparr>tb_closed := True\<rparr>" st]
    by (cases "flush_buffer E (b\<lparr>tb_closed := True\<rparr>, st)") (simp add: close_buffer_def loop_exit_def is_record_def accounted_def)
qed

lemma buffer_run_accounted:
  assumes "1 \<le> tb_maxBuffer b" "int (length (tb_buf b)) \<le> tb_maxBuffer b"
  shows "accounted (fst (fold buffer_exec cs (b, st))) = accounted b + int (length (filter is_record cs)) \<and>
    int (length (tb_buf (fst (fold buffer_exec cs (b, st))))) \<le> tb_maxBuffer b"
  using assms
proof (induction cs arbitrary: b st)
  case (Cons x cs)
  obtain b' st' where r: "buffer_exec x (b, st) = (b', st')" by fastforce
  then show ?case using Cons.IH [of b' st'] Cons.prems buffer_exec_accounted [OF Cons.prems, of x st] by simp
qed simp

text \<open>
  C33.  No tracking event disappears uncounted: after any sequence of records, flusher ticks (with any
  stores failing to open or to write), a cancelled context and closes, the events ever recorded
  are exactly those the counters report as buffered, flushed, dropped and failed; and the
  buffer never exceeds its cap.
\<close>

theorem tracking_conserved:
  assumes "1 \<le> tb_maxBuffer b" "Stats b = (0, 0, 0, 0)"
  shows "(case Stats (fst (fold buffer_exec cs (b, stores))) of (buffered, flushed, dropped, failed) \<Rightarrow>
    int (length (filter is_record cs)) = buffered + flushed + dropped + failed \<and> buffered \<le> tb_maxBuffer b)"
  using buffer_run_accounted [of b cs stores] assms by (simp add: accounted_def Stats_def)

definition w_buffer :: TrackingBuffer where
  "w_buffer = \<lparr>tb_flushSize = 10, tb_maxBuffer = 1, tb_buf = [], tb_started = False, tb_loopDone = False, tb_closed = False, tb_flushed = 0, tb_dropped = 0, tb_failed = 0\<rparr>"

definition w_record :: buffer_call where
  "w_record = CallRecord ''e1'' Second \<lparr>te_ID = '''', te_TenantID = ''t'', te_DeliveryID = '''', te_CampaignID = '''',
     te_Kind = TrackingOpen, te_URL = '''', te_LinkNo = 0, te_UserAgent = '''', te_IPHash = '''', te_SuspectedBot = False, te_CreatedAt = 0\<rparr>"

definition w_calls :: "buffer_call list" where
  "w_calls = [CallStart, w_record, w_record, CallFlush (\<lambda>_. Some w_env), w_record, CallCancel (\<lambda>_. None)]"

theorem tracking_conserved_witness:
  "Stats (fst (fold buffer_exec w_calls (w_buffer, \<lambda>_. newTenantData))) = (0, 1, 1, 1)"
proof -
  let ?b = "fst (fold buffer_exec w_calls (w_buffer, \<lambda>_. newTenantData))"
  have "Stats w_buffer = (0, 0, 0, 0)" "tb_maxBuffer w_buffer = 1" "length (filter is_record w_calls) = 3"
    "tb_buf ?b = [] \<and> tb_flushed ?b = 1 \<and> tb_dropped ?b = 1" by code_simp+
  then show ?thesis using tracking_conserved [of w_buffer w_calls "\<lambda>_. newTenantData"] by (simp add: Stats_def)
qed

text \<open>
  Once a cancelled context has ended the flusher, an event recorded before \<^verbatim>\<open>Close\<close> is never
  written: \<^verbatim>\<open>Close\<close> finds the flusher ended and does not flush.
\<close>

lemma close_after_cancel_keeps_buffer:
  assumes "tb_started b" "tb_loopDone b"
  shows "tb_buf (fst (close_buffer E (b, stores))) = tb_buf b" "snd (close_buffer E (b, stores)) = stores"
  using assms by (auto simp: close_buffer_def loop_exit_def)

section \<open>Tenant sets\<close>

definition tset_inv :: "tenantSet \<Rightarrow> bool" where
  "tset_inv st \<longleftrightarrow> distinct (tset_loops st) \<and> distinct (map fst (tset_linger st))"

lemma drop_quiet_inv: "tset_inv st \<Longrightarrow> tset_inv (drop_quiet live ts st)"
  by (induction live ts st rule: drop_quiet.induct) (simp_all add: tset_inv_def Let_def distinct_delete distinct_update)

lemma drop_quiet_other:
  "t \<notin> set ts \<or> t \<in> set live \<Longrightarrow> map_of (tset_linger (drop_quiet live ts st)) t = map_of (tset_linger st) t \<and>
     (t \<in> set (tset_loops (drop_quiet live ts st)) \<longleftrightarrow> t \<in> set (tset_loops st))"
  by (induction live ts st rule: drop_quiet.induct) (auto simp: Let_def update_conv' delete_conv')

lemma drop_quiet_this:
  assumes "t \<in> set ts" "distinct ts" "t \<notin> set live" "map_of (tset_linger st) t = Some n" "t \<in> set (tset_loops st)"
  shows "map_of (tset_linger (drop_quiet live ts st)) t = (if n > 1 then Some (n - 1) else None) \<and>
     (t \<in> set (tset_loops (drop_quiet live ts st)) \<longleftrightarrow> n > 1)"
  using assms
proof (induction live ts st rule: drop_quiet.induct)
  case (2 live x ts st)
  show ?case
  proof (cases "x = t")
    case True
    with 2(3) have "t \<notin> set ts" by simp
    then show ?thesis using True 2 drop_quiet_other [of t ts live] by (auto simp: Let_def update_conv' delete_conv')
  next
    case False
    let ?st = "if x \<in> set live then st
       else (let left = (case map_of (tset_linger st) x of None \<Rightarrow> 0 | Some n \<Rightarrow> n)
             in if left > 1 then st\<lparr>tset_linger := AList.update x (left - 1) (tset_linger st)\<rparr>
                else st\<lparr>tset_linger := AList.delete x (tset_linger st), tset_loops := filter (\<lambda>y. y \<noteq> x) (tset_loops st)\<rparr>)"
    have "map_of (tset_linger ?st) t = Some n" "t \<in> set (tset_loops ?st)"
      using False 2(5,6) by (auto simp: Let_def update_conv' delete_conv')
    then show ?thesis using 2(1) 2(2-4) False by simp
  qed
qed simp

type_synonym tround = "(store_err + string list) \<times> string list \<times> (string \<Rightarrow> bool)"

definition tround_of :: "loopSpec \<Rightarrow> tround \<Rightarrow> tenantSet \<Rightarrow> tenantSet" where
  "tround_of spec = (\<lambda>(active, known, opens) st. snd (tickTenants spec active known opens st))"

fun ticked_rounds :: "loopSpec \<Rightarrow> tround list \<Rightarrow> tenantSet \<Rightarrow> string list list" where
  "ticked_rounds spec [] st = []"
| "ticked_rounds spec ((active, known, opens) # rs) st =
    fst (tickTenants spec active known opens st) # ticked_rounds spec rs (snd (tickTenants spec active known opens st))"

lemma set_linger_distinct: "distinct (map fst m) \<Longrightarrow> distinct (map fst (set_linger spec ts m))"
proof -
  have "distinct (map fst m) \<Longrightarrow> distinct (map fst (fold (\<lambda>t. AList.update t k) ts m))" for k
    by (induction ts arbitrary: m) (simp_all add: distinct_update)
  then show "distinct (map fst m) \<Longrightarrow> ?thesis" by (simp add: set_linger_def)
qed

lemma set_linger_map_of:
  "map_of (set_linger spec ts m) t = (if ls_linger spec > 0 \<and> t \<in> set ts then Some (ls_linger spec) else map_of m t)"
proof -
  have "map_of (fold (\<lambda>t. AList.update t k) ts m) t = (if t \<in> set ts then Some k else map_of m t)" for k
    by (induction ts arbitrary: m) (auto simp: update_conv')
  then show ?thesis by (simp add: set_linger_def)
qed

lemma tick_ids_distinct: "distinct (map fst m) \<Longrightarrow> distinct (tick_ids (live_tenants spec a k) m)"
  by (auto simp: tick_ids_def live_tenants_def)

lemma tickTenants_inv: "tset_inv st \<Longrightarrow> tset_inv (snd (tickTenants spec active known opens st))"
  by (cases active) (auto simp: tickTenants_def Let_def tset_inv_def intro!: drop_quiet_inv [unfolded tset_inv_def]
      set_linger_distinct tick_ids_distinct distinct_filter)

lemma trounds_inv: "tset_inv st \<Longrightarrow> tset_inv (fold (tround_of spec) rs st)"
  by (induction rs arbitrary: st) (auto simp: tround_of_def split: prod.split intro: tickTenants_inv)

text \<open>A round the tenant is active in, and one it is not.\<close>

lemma tick_active:
  assumes "0 < ls_linger spec" "t \<in> set tenants" "opens t" "st' = snd (tickTenants spec (Inr tenants) known opens st)"
  shows "map_of (tset_linger st') t = Some (ls_linger spec) \<and> t \<in> set (tset_loops st')"
proof -
  have "t \<in> set (live_tenants spec tenants known)" using assms by (simp add: live_tenants_def)
  then show ?thesis using assms
    by (simp add: tickTenants_def Let_def drop_quiet_other set_linger_map_of) (auto simp: tick_ids_def)
qed

lemma tick_lingering:
  assumes "\<not> ls_allTenants spec" "\<not> ls_includeSystem spec" "tset_inv st" "t \<notin> set tenants"
    and "map_of (tset_linger st) t = Some n" "t \<in> set (tset_loops st)"
  shows "t \<in> set (fst (tickTenants spec (Inr tenants) known opens st)) \<and>
    map_of (tset_linger (snd (tickTenants spec (Inr tenants) known opens st))) t = (if n > 1 then Some (n - 1) else None) \<and>
    (t \<in> set (tset_loops (snd (tickTenants spec (Inr tenants) known opens st))) \<longleftrightarrow> n > 1)"
proof -
  let ?lg = "set_linger spec tenants (tset_linger st)" and ?live = "live_tenants spec tenants known"
  let ?ticked = "filter (\<lambda>t. t \<in> set (tset_loops st) \<or> opens t) (tick_ids ?live ?lg)"
  let ?loops = "tset_loops st @ filter (\<lambda>t. t \<notin> set (tset_loops st)) ?ticked"
  have l: "t \<notin> set ?live" using assms(1,2,4) by (simp add: live_tenants_def)
  have m: "map_of ?lg t = Some n" using assms(4,5) by (simp add: set_linger_map_of)
  then have "t \<in> fst ` set ?lg" by (metis domI dom_map_of_conv_image_fst)
  then have "t \<in> set ?ticked" using l assms(6) by (simp add: tick_ids_def)
  moreover have "distinct ?loops" using assms(3) tick_ids_distinct [OF set_linger_distinct]
    by (auto simp: tset_inv_def)
  ultimately show ?thesis
    using drop_quiet_this [of t ?loops ?live "\<lparr>tset_loops = ?loops, tset_linger = ?lg\<rparr>" n] l m assms(6)
    by (simp add: tickTenants_def Let_def)
qed

text \<open>A tenant that is neither active nor lingering is not ticked and stays so.\<close>

lemma tick_quiet:
  assumes "\<not> ls_allTenants spec" "\<not> ls_includeSystem spec" "t \<notin> set tenants" "map_of (tset_linger st) t = None" "t \<notin> set (tset_loops st)"
  shows "t \<notin> set (fst (tickTenants spec (Inr tenants) known opens st)) \<and>
    map_of (tset_linger (snd (tickTenants spec (Inr tenants) known opens st))) t = None \<and>
    t \<notin> set (tset_loops (snd (tickTenants spec (Inr tenants) known opens st)))"
proof -
  have "map_of (set_linger spec tenants (tset_linger st)) t = None" using assms by (simp add: set_linger_map_of)
  moreover from this have "t \<notin> fst ` set (set_linger spec tenants (tset_linger st))" by (simp add: map_of_eq_None_iff)
  ultimately show ?thesis using assms
    by (simp add: tickTenants_def Let_def drop_quiet_other tick_ids_def live_tenants_def)
qed

lemma quiet_rounds:
  assumes "\<not> ls_allTenants spec" "\<not> ls_includeSystem spec" "\<forall>r\<in>set rs. \<exists>ts. fst r = Inr ts \<and> t \<notin> set ts"
    and "map_of (tset_linger st) t = None" "t \<notin> set (tset_loops st)" "k < length rs"
  shows "t \<notin> set (ticked_rounds spec rs st ! k)"
  using assms
proof (induction rs arbitrary: st k)
  case (Cons r rs)
  obtain ts known opens where r: "r = (Inr ts, known, opens)" "t \<notin> set ts" using Cons.prems(3) by (cases r) auto
  show ?case using tick_quiet [OF assms(1,2) r(2) Cons.prems(4,5), of known opens] Cons.IH Cons.prems r by (cases k) simp_all
qed simp

lemma lingering_rounds:
  assumes "\<not> ls_allTenants spec" "\<not> ls_includeSystem spec" "\<forall>r\<in>set rs. \<exists>ts. fst r = Inr ts \<and> t \<notin> set ts"
    and "tset_inv st" "map_of (tset_linger st) t = Some n" "n \<ge> 1" "t \<in> set (tset_loops st)" "k < length rs"
  shows "t \<in> set (ticked_rounds spec rs st ! k) \<longleftrightarrow> int k < n"
  using assms
proof (induction rs arbitrary: st k n)
  case (Cons r rs)
  obtain ts known opens where r: "r = (Inr ts, known, opens)" "t \<notin> set ts" using Cons.prems(3) by (cases r) auto
  let ?st = "snd (tickTenants spec (Inr ts) known opens st)"
  note step = tick_lingering [OF assms(1,2) Cons.prems(4) r(2) Cons.prems(5,7), of known opens]
  have inv: "tset_inv ?st" by (rule tickTenants_inv [OF Cons.prems(4)])
  show ?case
  proof (cases k)
    case 0 then show ?thesis using step r Cons.prems(6) by simp
  next
    case (Suc j)
    show ?thesis
    proof (cases "n > 1")
      case True then show ?thesis using Cons.IH [of ?st "n - 1" j] step inv Cons.prems r Suc by auto
    next
      case False
      then show ?thesis using quiet_rounds [OF assms(1,2), of rs t ?st j] step Cons.prems r Suc by auto
    qed
  qed
qed simp

text \<open>
  C34.  The grace window of a loop is exact: whatever rounds came before, a tenant that was active
  in one round and is active in none of the next is ticked in exactly \<^verbatim>\<open>linger\<close> more of them.
\<close>

theorem linger_window:
  assumes "0 < ls_linger spec" "\<not> ls_allTenants spec" "\<not> ls_includeSystem spec"
    and "t \<in> set tenants" "opens t"
    and "\<forall>r\<in>set rs. \<exists>ts. fst r = Inr ts \<and> t \<notin> set ts" "k < length rs"
  shows "t \<in> set (ticked_rounds spec rs
      (snd (tickTenants spec (Inr tenants) known opens (fold (tround_of spec) before newTenantSet))) ! k) \<longleftrightarrow> int k < ls_linger spec"
proof -
  let ?st = "fold (tround_of spec) before newTenantSet"
  have "tset_inv newTenantSet" by (simp add: tset_inv_def newTenantSet_def)
  then have "tset_inv (snd (tickTenants spec (Inr tenants) known opens ?st))" by (intro tickTenants_inv trounds_inv)
  then show ?thesis
    using lingering_rounds [OF assms(2,3,6), where k = k] tick_active [of spec t tenants opens _ known ?st, OF assms(1,4,5) refl] assms(1,7) by simp
qed

definition w_outbox_loop :: loopSpec where
  "w_outbox_loop = \<lparr>ls_name = ''outbox'', ls_interval = Second, ls_linger = outboxLingerTicks, ls_allTenants = False, ls_includeSystem = False\<rparr>"

theorem linger_window_witness:
  "ticked_rounds w_outbox_loop (replicate 4 (Inr [''b''], [], \<lambda>_. True))
     (snd (tickTenants w_outbox_loop (Inr [''a'', ''b'']) [] (\<lambda>_. True) newTenantSet)) ! 3 = [''b'']"
proof -
  let ?rs = "replicate 4 (Inr [''b''], [], \<lambda>_. True) :: tround list"
  let ?st = "snd (tickTenants w_outbox_loop (Inr [''a'', ''b'']) [] (\<lambda>_. True) newTenantSet)"
  have a: "''a'' \<notin> set (ticked_rounds w_outbox_loop ?rs ?st ! 3)"
    using linger_window [of w_outbox_loop "''a''" "[''a'', ''b'']" "\<lambda>_. True" ?rs 3 "[]" "[]"]
    by (simp add: w_outbox_loop_def outboxLingerTicks_def)
  have "ticked_rounds w_outbox_loop ?rs ?st ! 3 = filter (\<lambda>t. t \<noteq> ''a'') (ticked_rounds w_outbox_loop ?rs ?st ! 3)"
    by (rule filter_True [symmetric]) (use a in blast)
  also have "\<dots> = [''b'']" by code_simp
  finally show ?thesis .
qed

text \<open>A tenant whose store cannot be opened keeps its linger entry for ever: the drop walks the loops only.\<close>

lemma linger_leak:
  assumes "\<not> ls_allTenants spec" "\<not> ls_includeSystem spec" "map_of (tset_linger st) t = Some n" "t \<notin> set (tset_loops st)"
    and "\<forall>(active, known, opens)\<in>set rs. (\<exists>ts. active = Inr ts \<and> t \<notin> set ts) \<and> \<not> opens t"
  shows "map_of (tset_linger (fold (tround_of spec) rs st)) t = Some n"
  using assms
proof (induction rs arbitrary: st)
  case (Cons r rs)
  obtain ts known opens where r: "r = (Inr ts, known, opens)" "t \<notin> set ts" "\<not> opens t" using Cons.prems(5) by (cases r) auto
  have "map_of (tset_linger (tround_of spec r st)) t = Some n \<and> t \<notin> set (tset_loops (tround_of spec r st))"
    using r Cons.prems(3,4) by (simp add: tround_of_def tickTenants_def Let_def drop_quiet_other set_linger_map_of)
  then show ?case using Cons.IH [of "tround_of spec r st"] Cons.prems(1,2,5) by simp
qed simp

section \<open>Outbox\<close>

text \<open>
  What a tick makes of one claimed event: retired without being sent if the tenant is not
  subscribed to it, delivered if the sink took it, and otherwise failed once more, for good when
  the attempts are used up.
\<close>

definition outbox_outcome ::
  "config \<Rightarrow> go_time \<Rightarrow> (string \<Rightarrow> bool) \<Rightarrow> (HostEvent \<Rightarrow> string option) \<Rightarrow> go_time \<Rightarrow> OutboxEvent \<Rightarrow> OutboxEvent" where
  "outbox_outcome cfg clock wanted emit nw ev =
    (let done = ev\<lparr>oe_LeaseOwner := '''', oe_LeaseUntil := 0\<rparr>;
         sent = done\<lparr>oe_Status := OutboxDelivered, oe_DeliveredAt := TruncateTime clock\<rparr>
     in if \<not> wanted (oe_Type ev) then sent
        else case emit (eventFromOutbox ev) of None \<Rightarrow> sent
        | Some err \<Rightarrow>
            (let failed = done\<lparr>oe_Attempts := oe_Attempts ev + 1, oe_LastError := truncateErr err\<rparr>;
                 retry = nw + backoffFor (cg_outboxBackoff cfg) (oe_Attempts ev + 1)
             in if oe_Attempts ev + 1 < cg_outboxMaxAttempts cfg \<and> retry \<noteq> 0
                then failed\<lparr>oe_Status := OutboxPending, oe_NextAttemptAt := TruncateTime retry\<rparr>
                else failed\<lparr>oe_Status := OutboxFailed\<rparr>))"

definition outbox_wanted :: "store_err + TenantSettings \<Rightarrow> string \<Rightarrow> bool" where
  "outbox_wanted r ty = (case r of Inl _ \<Rightarrow> True | Inr settings \<Rightarrow> SubscribedTo (Some settings) ty)"

lemma outbox_change_map:
  "\<not> e_closed e \<Longrightarrow> map_of (td_outbox (snd (outbox_change e i f s))) j = (if j = i then map_option f (map_of (td_outbox s) i) else map_of (td_outbox s) j)"
  by (auto simp: outbox_change_def update_conv' split: option.split)

text \<open>A run of changes to distinct events changes each of them once.\<close>

definition outbox_run :: "env \<Rightarrow> (OutboxEvent \<Rightarrow> OutboxEvent \<Rightarrow> OutboxEvent) \<Rightarrow> OutboxEvent list \<Rightarrow> tenant_data \<Rightarrow> tenant_data" where
  "outbox_run e g evs s = fold (\<lambda>ev s. snd (outbox_change e (oe_ID ev) (g ev) s)) evs s"

lemma outbox_run_other:
  "\<not> e_closed e \<Longrightarrow> i \<notin> oe_ID ` set evs \<Longrightarrow> map_of (td_outbox (outbox_run e g evs s)) i = map_of (td_outbox s) i"
  by (induction evs arbitrary: s) (auto simp: outbox_run_def outbox_change_map)

lemma outbox_run_this:
  "\<not> e_closed e \<Longrightarrow> distinct (map oe_ID evs) \<Longrightarrow> ev \<in> set evs \<Longrightarrow>
     map_of (td_outbox (outbox_run e g evs s)) (oe_ID ev) = map_option (g ev) (map_of (td_outbox s) (oe_ID ev))"
proof (induction evs arbitrary: s)
  case (Cons x evs)
  let ?s = "snd (outbox_change e (oe_ID x) (g x) s)"
  have r: "outbox_run e g (x # evs) s = outbox_run e g evs ?s" by (simp add: outbox_run_def)
  show ?case
  proof (cases "oe_ID ev = oe_ID x")
    case True
    have "ev \<notin> set evs" using Cons.prems(2) True [symmetric] by auto
    then have "ev = x" using Cons.prems(3) by simp
    then show ?thesis using Cons.prems outbox_run_other [of e "oe_ID x" evs g ?s] r by (simp add: outbox_change_map)
  next
    case False
    then have "ev \<in> set evs" using Cons.prems by auto
    then show ?thesis using Cons False r by (simp add: outbox_change_map)
  qed
qed simp

definition sent_row :: "go_time \<Rightarrow> OutboxEvent \<Rightarrow> OutboxEvent" where
  "sent_row clock r = r\<lparr>oe_Status := OutboxDelivered, oe_DeliveredAt := TruncateTime (TruncateTime clock), oe_LeaseOwner := '''', oe_LeaseUntil := 0\<rparr>"

lemma retire_unsubscribed_run:
  "retire_unsubscribed e clock settings evs s =
    (filter (\<lambda>ev. SubscribedTo (Some settings) (oe_Type ev)) evs,
     outbox_run e (\<lambda>_. sent_row clock) (filter (\<lambda>ev. \<not> SubscribedTo (Some settings) (oe_Type ev)) evs) s)"
  by (induction e clock settings evs s rule: retire_unsubscribed.induct)
    (auto simp: outbox_run_def MarkDelivered_def sent_row_def [abs_def])

lemma LoadTenantSettings_outbox: "td_outbox (snd (LoadTenantSettings e rand tenant nw s)) = td_outbox s"
  by (auto simp: LoadTenantSettings_def settings_Get_def settings_Create_def Let_def split: option.split sum.split prod.split)

definition disp_row :: "config \<Rightarrow> go_time \<Rightarrow> (HostEvent \<Rightarrow> string option) \<Rightarrow> go_time \<Rightarrow> OutboxEvent \<Rightarrow> OutboxEvent \<Rightarrow> OutboxEvent" where
  "disp_row cfg clock emit nw ev r =
    (case emit (eventFromOutbox ev) of None \<Rightarrow> sent_row clock r
     | Some err \<Rightarrow>
        (let attempt = oe_Attempts ev + 1;
             next = (if attempt < cg_outboxMaxAttempts cfg then nw + backoffFor (cg_outboxBackoff cfg) attempt else 0);
             r = r\<lparr>oe_Attempts := oe_Attempts r + 1, oe_LastError := truncateErr err, oe_LeaseOwner := '''', oe_LeaseUntil := 0\<rparr>
         in if next = 0 then r\<lparr>oe_Status := OutboxFailed\<rparr>
            else r\<lparr>oe_Status := OutboxPending, oe_NextAttemptAt := TruncateTime next\<rparr>))"

lemma dispatch_run: "fold (dispatch cfg e clock emit nw) evs s = outbox_run e (disp_row cfg clock emit nw) evs s"
proof -
  have "dispatch cfg e clock emit nw ev s = snd (outbox_change e (oe_ID ev) (disp_row cfg clock emit nw ev) s)" for ev s
    by (cases "emit (eventFromOutbox ev)")
      (simp_all add: dispatch_def MarkDelivered_def MarkFailed_def disp_row_def [abs_def] sent_row_def [abs_def] Let_def)
  then have "dispatch cfg e clock emit nw = (\<lambda>ev s. snd (outbox_change e (oe_ID ev) (disp_row cfg clock emit nw ev) s))" by blast
  then show ?thesis by (simp add: outbox_run_def)
qed

lemma outcome_rows:
  "wanted (oe_Type ev) \<Longrightarrow> disp_row cfg clock emit nw (outbox_lease owner t ev) (outbox_lease owner t ev) = outbox_outcome cfg clock wanted emit nw ev"
  "\<not> wanted (oe_Type ev) \<Longrightarrow> sent_row clock (outbox_lease owner t ev) = outbox_outcome cfg clock wanted emit nw ev"
  by (auto simp: disp_row_def outbox_outcome_def sent_row_def outbox_lease_def eventFromOutbox_def Let_def split: option.split)

lemma ClaimPending_rows:
  assumes "distinct (map fst (td_outbox s))" "\<forall>i ev. map_of (td_outbox s) i = Some ev \<longrightarrow> oe_ID ev = i"
    and "ClaimPending e limit lease owner nw s = (Inr evs, s1)"
  shows "distinct (map oe_ID evs)" "i \<notin> oe_ID ` set evs \<Longrightarrow> map_of (td_outbox s1) i = map_of (td_outbox s) i"
    "ev \<in> set evs \<Longrightarrow> map_of (td_outbox s1) (oe_ID ev) = Some ev \<and>
       (\<exists>r. map_of (td_outbox s) (oe_ID ev) = Some r \<and> ev = outbox_lease owner (TruncateTime (TruncateTime nw + lease)) r)"
proof -
  define ids where "ids = chop limit (sort (keys_where (\<lambda>_. outbox_due (TruncateTime nw)) (td_outbox s)))"
  define f where "f = outbox_lease owner (TruncateTime (TruncateTime nw + lease))"
  have d: "distinct ids" "\<And>i. i \<in> set ids \<Longrightarrow> \<exists>r. map_of (td_outbox s) i = Some r"
    using assms(1) keys_where_eq [OF assms(1), of _ "\<lambda>_. outbox_due (TruncateTime nw)"]
      set_chop_subset [of limit "sort (keys_where (\<lambda>_. outbox_due (TruncateTime nw)) (td_outbox s))"]
    unfolding ids_def by (simp, force)
  have c: "evs = map (\<lambda>i. f (the (map_of (td_outbox s) i))) ids" "td_outbox s1 = alter_rows ids f (td_outbox s)"
    using assms(3) by (auto simp: ClaimPending_def Let_def ids_def f_def split: if_splits)
  have idf: "oe_ID (f (the (map_of (td_outbox s) i))) = i" if "i \<in> set ids" for i
    using d(2) [OF that] assms(2) by (auto simp: f_def outbox_lease_def)
  then have m: "map oe_ID evs = ids" by (simp add: c map_idI)
  then show "distinct (map oe_ID evs)" using d(1) by simp
  show "i \<notin> oe_ID ` set evs \<Longrightarrow> map_of (td_outbox s1) i = map_of (td_outbox s) i"
    using m by (metis c(2) list.set_map map_of_alter_rows)
  assume "ev \<in> set evs"
  then obtain i where i: "i \<in> set ids" "ev = f (the (map_of (td_outbox s) i))" using c(1) by auto
  then show "map_of (td_outbox s1) (oe_ID ev) = Some ev \<and>
       (\<exists>r. map_of (td_outbox s) (oe_ID ev) = Some r \<and> ev = outbox_lease owner (TruncateTime (TruncateTime nw + lease)) r)"
    using idf d(2) [OF i(1)] c(2) by (auto simp: f_def)
qed

text \<open>
  C31.  A tick of the dispatcher, whatever its workers' order: no row but the claimed ones changes, and
  each claimed one ends as its outcome says, without a lease: retired if the tenant does not want
  it, delivered if the sink took it, otherwise one attempt older and due after its backoff, or
  dead-lettered exactly when its attempts are used up.
\<close>

theorem outbox_tick:
  assumes "distinct (map fst (td_outbox s))" "\<forall>i ev. map_of (td_outbox s) i = Some ev \<longrightarrow> oe_ID ev = i"
    and "\<not> e_closed e" "\<And>evs. mset (order evs) = mset evs"
    and "ClaimPending e (bt_OutboxClaim (cg_batches cfg)) (cg_outboxLease cfg) (cg_owner cfg) nw s = (Inr evs, s1)"
  shows "map_of (td_outbox (snd (outbox_Tick cfg e clock emit order rand tenant nw s))) i =
    (if i \<in> oe_ID ` set evs
     then map_option (outbox_outcome cfg clock (outbox_wanted (fst (LoadTenantSettings e rand tenant nw s1))) emit nw) (map_of (td_outbox s) i)
     else map_of (td_outbox s) i)"
proof -
  define wanted where "wanted = outbox_wanted (fst (LoadTenantSettings e rand tenant nw s1))"
  define good where "good = filter (\<lambda>ev. wanted (oe_Type ev)) evs"
  define bad where "bad = filter (\<lambda>ev. \<not> wanted (oe_Type ev)) evs"
  define s2 where "s2 = snd (LoadTenantSettings e rand tenant nw s1)"
  note rows = ClaimPending_rows [OF assms(1,2,5)]
  have sub: "subscribed e clock rand tenant nw evs s1 = (good, outbox_run e (\<lambda>_. sent_row clock) bad s2)"
    by (cases "LoadTenantSettings e rand tenant nw s1"; cases "fst (LoadTenantSettings e rand tenant nw s1)")
      (auto simp: subscribed_def retire_unsubscribed_run outbox_wanted_def [abs_def] good_def bad_def wanted_def s2_def outbox_run_def)
  define s3 where "s3 = outbox_run e (\<lambda>_. sent_row clock) bad s2"
  have tick: "snd (outbox_Tick cfg e clock emit order rand tenant nw s) = (if evs = [] then s1 else outbox_run e (disp_row cfg clock emit nw) (order good) s3)"
    using assms(5) sub by (simp add: outbox_Tick_def dispatch_run s3_def)
  have od: "distinct (map oe_ID (order good))" "set (order good) = set good"
    using mset_eq_imp_distinct_iff [of "map oe_ID (order good)" "map oe_ID good"] mset_eq_setD [OF assms(4) [of good]] rows(1) assms(4) [of good]
    by (simp_all add: good_def distinct_map_filter)
  have s2: "td_outbox s2 = td_outbox s1" by (simp add: s2_def LoadTenantSettings_outbox)
  show ?thesis
  proof (cases "i \<in> oe_ID ` set evs")
    case False
    then have "i \<notin> oe_ID ` set (order good)" "i \<notin> oe_ID ` set bad" using od(2) by (auto simp: good_def bad_def)
    then show ?thesis using False tick rows(2) s2 by (simp add: outbox_run_other [OF assms(3)] s3_def)
  next
    case True
    then obtain ev where ev: "ev \<in> set evs" "i = oe_ID ev" by auto
    obtain r owner t where r: "map_of (td_outbox s1) i = Some ev" "map_of (td_outbox s) i = Some r" "ev = outbox_lease owner t r"
      using rows(3) [OF ev(1)] ev(2) by auto
    have ty: "oe_Type ev = oe_Type r" using r(3) by (simp add: outbox_lease_def)
    have other: "oe_ID ev \<notin> oe_ID ` (set evs - {ev})" using rows(1) ev(1) by (auto simp: distinct_map inj_on_def)
    show ?thesis
    proof (cases "wanted (oe_Type ev)")
      case True
      then have "ev \<in> set (order good)" "i \<notin> oe_ID ` set bad" using ev od(2) other by (auto simp: good_def bad_def)
      then have "map_of (td_outbox (outbox_run e (disp_row cfg clock emit nw) (order good) s3)) i = Some (disp_row cfg clock emit nw ev ev)"
        using outbox_run_this [OF assms(3) od(1)] outbox_run_other [OF assms(3)] r(1) s2 by (simp add: s3_def ev(2))
      then show ?thesis using tick ev r True ty outcome_rows(1) [of wanted r] by (auto simp: wanted_def)
    next
      case False
      then have "ev \<in> set bad" "i \<notin> oe_ID ` set (order good)" using ev od(2) other by (auto simp: good_def bad_def)
      moreover have "distinct (map oe_ID bad)" using rows(1) by (auto simp: bad_def distinct_map inj_on_def)
      ultimately have "map_of (td_outbox (outbox_run e (disp_row cfg clock emit nw) (order good) s3)) i = Some (sent_row clock ev)"
        using outbox_run_this [OF assms(3)] outbox_run_other [OF assms(3)] r(1) s2 by (simp add: s3_def ev(2))
      then show ?thesis using tick ev r False ty outcome_rows(2) [of wanted r] by (auto simp: wanted_def)
    qed
  qed
qed

definition w_event :: "string \<Rightarrow> int \<Rightarrow> OutboxEvent" where
  "w_event i n = \<lparr>oe_ID = i, oe_TenantID = ''t'', oe_Type = ''campaign.completed'', oe_Payload = '''', oe_Status = OutboxPending,
     oe_Attempts = n, oe_NextAttemptAt = Second, oe_LeaseOwner = '''', oe_LeaseUntil = 0, oe_LastError = '''',
     oe_CreatedAt = Second, oe_DeliveredAt = 0\<rparr>"

definition w_outbox :: tenant_data where
  "w_outbox = newTenantData\<lparr>td_outbox := [(''a'', w_event ''a'' 0), (''b'', w_event ''b'' 9)]\<rparr>"

definition w_tick :: "tenant_data" where
  "w_tick = snd (outbox_Tick (defaultConfig ''r1'') w_env (3 * Second) (\<lambda>_. Some ''refused'') rev ''r'' ''t'' (2 * Second) w_outbox)"

theorem outbox_tick_witness:
  "map_option oe_Status (map_of (td_outbox w_tick) ''a'') = Some OutboxPending \<and>
   map_option oe_Status (map_of (td_outbox w_tick) ''b'') = Some OutboxFailed"
proof -
  let ?cfg = "defaultConfig ''r1''"
  let ?c = "ClaimPending w_env (bt_OutboxClaim (cg_batches ?cfg)) (cg_outboxLease ?cfg) (cg_owner ?cfg) (2 * Second) w_outbox"
  obtain evs where evs: "fst ?c = Inr evs" "map oe_ID evs = [''a'', ''b'']"
  proof -
    have "case fst ?c of Inl _ \<Rightarrow> False | Inr evs \<Rightarrow> map oe_ID evs = [''a'', ''b'']" by code_simp
    then show ?thesis using that by (auto split: sum.splits)
  qed
  then have c: "?c = (Inr evs, snd ?c)" by (simp add: prod_eq_iff)
  have w: "\<forall>i ev. map_of (td_outbox w_outbox) i = Some ev \<longrightarrow> oe_ID ev = i"
    by (auto simp: w_outbox_def w_event_def split: if_splits)
  have d: "distinct (map fst (td_outbox w_outbox))" "\<not> e_closed w_env" by code_simp+
  have m: "''a'' \<in> oe_ID ` set evs" "''b'' \<in> oe_ID ` set evs" using evs(2) by (metis list.set_intros list.set_map)+
  let ?o = "\<lambda>i. map_option oe_Status (map_option (outbox_outcome ?cfg (3 * Second)
     (outbox_wanted (fst (LoadTenantSettings w_env ''r'' ''t'' (2 * Second) (snd ?c)))) (\<lambda>_. Some ''refused'') (2 * Second)) (map_of (td_outbox w_outbox) i))"
  have "map_option oe_Status (map_of (td_outbox w_tick) i) = ?o i" if "i \<in> oe_ID ` set evs" for i
    unfolding w_tick_def using outbox_tick [OF d(1) w d(2) _ c, of rev] that by simp
  moreover have "?o ''a'' = Some OutboxPending" "?o ''b'' = Some OutboxFailed" by code_simp+
  ultimately show ?thesis using m by simp
qed

end
