(* ===== verification/Go_Text.thy ===== *)
theory Go_Text
  imports Go_Strings
begin

text \<open>
  More of Go's \<^verbatim>\<open>strings\<close>, the headers of \<^verbatim>\<open>net/textproto\<close>, and the searches the two regular
  expressions of the bounce classifier make.
\<close>

section \<open>Splitting and trimming\<close>

text \<open>\<^verbatim>\<open>strings.Split\<close> at a separator of one byte: one more piece than separators.\<close>

fun SplitByte :: "char \<Rightarrow> string \<Rightarrow> string list" where
  "SplitByte c [] = [[]]"
| "SplitByte c (x # s) = (if x = c then [] # SplitByte c s else (x # hd (SplitByte c s)) # tl (SplitByte c s))"

definition Fields :: "string \<Rightarrow> string list" where
  "Fields s = filter (\<lambda>w. w \<noteq> '''') (SplitByte CHR '' '' (map (\<lambda>c. if is_space c then CHR '' '' else c) s))"

text \<open>\<^verbatim>\<open>strings.Trim\<close> with a set of bytes.\<close>

definition TrimSet :: "string \<Rightarrow> string \<Rightarrow> string" where
  "TrimSet s cutset = rev (dropWhile (\<lambda>c. c \<in> set cutset) (rev (dropWhile (\<lambda>c. c \<in> set cutset) s)))"

lemma SplitByte_nonempty [simp]: "SplitByte c s \<noteq> []"
  by (cases s) auto

lemma SplitByte_no_sep: "p \<in> set (SplitByte c s) \<Longrightarrow> c \<notin> set p"
proof (induction s arbitrary: p)
  case (Cons x s)
  then show ?case by (cases "SplitByte c s") (auto split: if_splits)
qed simp

lemma SplitByte_single: "c \<notin> set s \<Longrightarrow> SplitByte c s = [s]"
  by (induction s) auto

section \<open>Headers\<close>

text \<open>\<^verbatim>\<open>textproto.MIMEHeader\<close>: the values of each key, the key in canonical form.\<close>

type_synonym MIMEHeader = "(string, string list) gomap"

definition upper_char :: "char \<Rightarrow> char" where
  "upper_char c = (if is_lower c then char_of (byte c - 32) else c)"

fun canonical_at :: "bool \<Rightarrow> string \<Rightarrow> string" where
  "canonical_at up [] = []"
| "canonical_at up (c # s) = (if up then upper_char c else lower_char c) # canonical_at (c = CHR ''-'') s"

definition CanonicalKey :: "string \<Rightarrow> string" where
  "CanonicalKey k = canonical_at True k"

definition hdr_Get :: "MIMEHeader \<Rightarrow> string \<Rightarrow> string" where
  "hdr_Get h k = (case map_of h (CanonicalKey k) of Some (v # _) \<Rightarrow> v | _ \<Rightarrow> '''')"

lemma hdr_Get_Nil [simp]: "hdr_Get [] k = ''''"
  by (simp add: hdr_Get_def)

section \<open>Regular expressions\<close>

definition boundary_before :: "char option \<Rightarrow> bool" where
  "boundary_before prev \<longleftrightarrow> (case prev of None \<Rightarrow> True | Some c \<Rightarrow> \<not> is_word c)"

definition boundary_after :: "string \<Rightarrow> bool" where
  "boundary_after s \<longleftrightarrow> (case s of [] \<Rightarrow> True | c # _ \<Rightarrow> \<not> is_word c)"

text \<open>
  \<^verbatim>\<open>([45])\.(\d{1,3})\.(\d{1,3})\b\<close> at the start of a text.  Both groups are maximal runs of
  digits, since a shorter one would be followed by a digit.
\<close>

definition status_at :: "string \<Rightarrow> string option" where
  "status_at s =
    (case s of
       c # d # r \<Rightarrow>
         (let g2 = takeWhile is_digit r; r2 = dropWhile is_digit r;
              g3 = takeWhile is_digit (tl r2); r3 = dropWhile is_digit (tl r2)
          in if c \<in> {CHR ''4'', CHR ''5''} \<and> d = CHR ''.'' \<and> 1 \<le> length g2 \<and> length g2 \<le> 3 \<and> r2 \<noteq> [] \<and> hd r2 = CHR ''.'' \<and>
                1 \<le> length g3 \<and> length g3 \<le> 3 \<and> boundary_after r3
             then Some (c # CHR ''.'' # g2 @ CHR ''.'' # g3) else None)
     | _ \<Rightarrow> None)"

text \<open>The leftmost match of \<^verbatim>\<open>enhancedStatusRe\<close>; \<open>prev\<close> is the byte before the text.\<close>

fun find_status :: "char option \<Rightarrow> string \<Rightarrow> string" where
  "find_status prev [] = ''''"
| "find_status prev (c # s) =
    (case (if boundary_before prev then status_at (c # s) else None) of Some m \<Rightarrow> m | None \<Rightarrow> find_status (Some c) s)"

text \<open>
  \<^verbatim>\<open>(?m)(?:^|\s)([45]\d{2})(?:[ \-]|\b)\<close>: the first group of the leftmost match.  A space and a
  dash are no word characters, so the last group matches exactly at a word boundary.
\<close>

definition code_at :: "string \<Rightarrow> string option" where
  "code_at s =
    (case s of
       a # b # c # r \<Rightarrow>
         if a \<in> {CHR ''4'', CHR ''5''} \<and> is_digit b \<and> is_digit c \<and> boundary_after r then Some [a, b, c] else None
     | _ \<Rightarrow> None)"

definition re_space :: "char \<Rightarrow> bool" where
  "re_space c \<longleftrightarrow> c \<in> {CHR '' '', CHR 0x09, CHR 0x0A, CHR 0x0C, CHR 0x0D}"

definition line_start :: "char option \<Rightarrow> bool" where
  "line_start prev \<longleftrightarrow> (case prev of None \<Rightarrow> True | Some c \<Rightarrow> c = CHR 0x0A)"

fun find_code :: "char option \<Rightarrow> string \<Rightarrow> string option" where
  "find_code prev [] = None"
| "find_code prev (c # s) =
    (case (if line_start prev then code_at (c # s) else None) of Some m \<Rightarrow> Some m
     | None \<Rightarrow> (case (if re_space c then code_at s else None) of Some m \<Rightarrow> Some m | None \<Rightarrow> find_code (Some c) s))"

lemma status_at_shape: "status_at s = Some m \<Longrightarrow> \<exists>r. s = m @ r \<and> length m \<ge> 5 \<and> m ! 1 = CHR ''.'' \<and> hd m \<in> {CHR ''4'', CHR ''5''}"
proof -
  assume a: "status_at s = Some m"
  then obtain c d r where s: "s = c # d # r" by (auto simp: status_at_def split: list.splits)
  obtain x t where r2: "dropWhile is_digit r = x # t" using a s by (cases "dropWhile is_digit r") (auto simp: status_at_def)
  have m: "m = c # CHR ''.'' # takeWhile is_digit r @ CHR ''.'' # takeWhile is_digit t" "d = CHR ''.''" "x = CHR ''.''"
      "1 \<le> length (takeWhile is_digit r)" "1 \<le> length (takeWhile is_digit t)" "c \<in> {CHR ''4'', CHR ''5''}"
    using a s r2 by (simp_all add: status_at_def Let_def split: if_splits)
  have "r = takeWhile is_digit r @ x # takeWhile is_digit t @ dropWhile is_digit t"
    using r2 takeWhile_dropWhile_id [of is_digit r] by simp
  then have "s = m @ dropWhile is_digit t" using s m(1,2,3) by (metis append.assoc append_Cons)
  moreover have "length m \<ge> 5" using m(1,4,5) by simp
  moreover have "m ! 1 = CHR ''.''" "hd m \<in> {CHR ''4'', CHR ''5''}" using m(1,6) by simp_all
  ultimately show ?thesis by blast
qed

lemma find_status_shape:
  "find_status prev s \<noteq> '''' \<Longrightarrow> Contains s (find_status prev s) \<and> length (find_status prev s) \<ge> 5 \<and>
     find_status prev s ! 1 = CHR ''.'' \<and> hd (find_status prev s) \<in> {CHR ''4'', CHR ''5''}"
proof (induction prev s rule: find_status.induct)
  case (2 prev c s)
  show ?case
  proof (cases "if boundary_before prev then status_at (c # s) else None")
    case None
    then show ?thesis using 2 by simp
  next
    case (Some m)
    then have "status_at (c # s) = Some m" by (simp split: if_splits)
    from status_at_shape [OF this] obtain r where "c # s = m @ r" "length m \<ge> 5" "m ! 1 = CHR ''.''" "hd m \<in> {CHR ''4'', CHR ''5''}" by blast
    moreover from this(1) have "Contains (c # s) m" using Contains_iff [of "c # s" m] by (metis append_Nil)
    moreover have "find_status prev (c # s) = m" using Some by simp
    ultimately show ?thesis by (simp only:)
  qed
qed simp

end
