(* ===== verification/Bounce_Parse.thy ===== *)
theory Bounce_Parse
  imports Go_Text Tracking_Token Store_Types
begin

text \<open>
  \<^verbatim>\<open>internal/bounce/parse.go\<close> and \<^verbatim>\<open>classify.go\<close>: what a bounce mail says and which delivery it is
  about.  The parsers of \<^verbatim>\<open>net/mail\<close> and \<^verbatim>\<open>mime\<close> are the fields of a record every definition takes:
  the theorems hold for any parsers.
\<close>

section \<open>Types\<close>

datatype Confidence = ConfidenceNone | ConfidenceHigh | ConfidenceMedium | ConfidenceLow

record Correlation =
  co_DeliveryID :: string
  co_TenantID :: string
  co_Source :: string
  co_Verified :: bool

record Parsed =
  ps_Type :: BounceType
  ps_AutoReply :: bool
  ps_Action :: string
  ps_Status :: string
  ps_DiagnosticCode :: string
  ps_FinalRecipient :: string
  ps_ReportingMTA :: string
  ps_FeedbackType :: string
  ps_MessageID :: string
  ps_Subject :: string
  ps_Date :: go_time
  ps_Confidence :: Confidence
  ps_Correlation :: Correlation

abbreviation BounceSourceNone :: string where "BounceSourceNone \<equiv> ''''"
abbreviation BounceSourceVERP :: string where "BounceSourceVERP \<equiv> ''verp''"
abbreviation BounceSourceHeader :: string where "BounceSourceHeader \<equiv> ''header''"
abbreviation BounceSourceMessageID :: string where "BounceSourceMessageID \<equiv> ''message_id''"
abbreviation BounceSourceHeuristic :: string where "BounceSourceHeuristic \<equiv> ''heuristic''"

definition no_correlation :: Correlation where
  "no_correlation = \<lparr>co_DeliveryID = '''', co_TenantID = '''', co_Source = BounceSourceNone, co_Verified = False\<rparr>"

definition zero_parsed :: Parsed where
  "zero_parsed = \<lparr>ps_Type = BounceUnknown, ps_AutoReply = False, ps_Action = '''', ps_Status = '''', ps_DiagnosticCode = '''',
     ps_FinalRecipient = '''', ps_ReportingMTA = '''', ps_FeedbackType = '''', ps_MessageID = '''', ps_Subject = '''',
     ps_Date = 0, ps_Confidence = ConfidenceNone, ps_Correlation = no_correlation\<rparr>"

definition IsBounce :: "Parsed \<Rightarrow> bool" where
  "IsBounce p \<longleftrightarrow> \<not> ps_AutoReply p \<and> ps_Type p \<noteq> BounceUnknown"

definition maxDepth :: nat where "maxDepth = 8"

definition maxPartSize :: int where "maxPartSize = 1048576"

text \<open>\<^verbatim>\<open>io.LimitReader\<close>.\<close>

definition limited :: "string \<Rightarrow> string" where
  "limited r = (if int (length r) \<le> maxPartSize then r else take (nat maxPartSize) r)"

text \<open>
  The library parsers: \<^verbatim>\<open>mail.ReadMessage\<close>, \<^verbatim>\<open>mime.ParseMediaType\<close>, the parts \<^verbatim>\<open>multipart.Reader\<close>
  delivers before its first error, the readers that undo a transfer encoding, the results of
  successive calls of \<^verbatim>\<open>ReadMIMEHeader\<close> (with whether the call failed), \<^verbatim>\<open>mail.ParseAddress\<close>,
  \<^verbatim>\<open>mail.ParseDate\<close>, \<^verbatim>\<open>mime.WordDecoder\<close>.
\<close>

record mime_lib =
  ml_ReadMessage :: "string \<Rightarrow> (MIMEHeader \<times> string) option"
  ml_ParseMediaType :: "string \<Rightarrow> (string \<times> (string, string) gomap) option"
  ml_Parts :: "string \<Rightarrow> string \<Rightarrow> (MIMEHeader \<times> string) list"
  ml_Base64 :: "string \<Rightarrow> string"
  ml_QuotedPrintable :: "string \<Rightarrow> string"
  ml_ReadMIMEHeaders :: "string \<Rightarrow> (MIMEHeader \<times> bool) list"
  ml_ParseAddress :: "string \<Rightarrow> string option"
  ml_ParseDate :: "string \<Rightarrow> go_time option"
  ml_DecodeHeader :: "string \<Rightarrow> string option"

section \<open>Fields\<close>

definition fieldValue :: "string \<Rightarrow> string" where
  "fieldValue v =
    (let v = TrimSpace v
     in case split_first CHR '';'' v of
          Some (before, after) \<Rightarrow> if \<not> Contains before ''@'' then TrimSpace after else v
        | None \<Rightarrow> v)"

definition addressOnly :: "mime_lib \<Rightarrow> string \<Rightarrow> string" where
  "addressOnly lib v =
    (let v = TrimSpace (fieldValue v)
     in if v = '''' then ''''
        else case ml_ParseAddress lib v of Some a \<Rightarrow> a
        | None \<Rightarrow>
            (let v = TrimSet v ''<>'';
                 v = (case split_last CHR ''<'' v of Some (_, r) \<Rightarrow> TrimSet (CHR ''<'' # r) ''<>'' | None \<Rightarrow> v)
             in TrimSpace v))"

definition decodeHeader :: "mime_lib \<Rightarrow> string \<Rightarrow> string" where
  "decodeHeader lib v = (case ml_DecodeHeader lib v of Some out \<Rightarrow> out | None \<Rightarrow> v)"

definition contentType :: "mime_lib \<Rightarrow> MIMEHeader \<Rightarrow> string \<times> (string, string) gomap" where
  "contentType lib h =
    (let v = hdr_Get h ''Content-Type''
     in if v = '''' then (''text/plain'', [])
        else case ml_ParseMediaType lib v of Some (mediaType, params) \<Rightarrow> (ToLower mediaType, params)
        | None \<Rightarrow> (ToLower (TrimSpace (case split_first CHR '';'' v of Some (t, _) \<Rightarrow> t | None \<Rightarrow> v)), []))"

definition bounce_decodeBody :: "mime_lib \<Rightarrow> MIMEHeader \<Rightarrow> string \<Rightarrow> string" where
  "bounce_decodeBody lib h body =
    (let enc = ToLower (TrimSpace (hdr_Get h ''Content-Transfer-Encoding''))
     in if enc = ''base64'' then ml_Base64 lib body
        else if enc = ''quoted-printable'' then ml_QuotedPrintable lib body else body)"

fun until_err :: "(MIMEHeader \<times> bool) list \<Rightarrow> MIMEHeader list" where
  "until_err [] = []"
| "until_err ((h, failed) # rs) = (if h \<noteq> [] then [h] else []) @ (if failed then [] else until_err rs)"

definition readBlocks :: "mime_lib \<Rightarrow> string \<Rightarrow> MIMEHeader list" where
  "readBlocks lib r = until_err (ml_ReadMIMEHeaders lib (limited r))"

definition readHeaderOnly :: "mime_lib \<Rightarrow> string \<Rightarrow> MIMEHeader option" where
  "readHeaderOnly lib r =
    (case ml_ReadMIMEHeaders lib (limited r) of
       (h, failed) # _ \<Rightarrow> if h = [] \<and> failed then None else Some h
     | [] \<Rightarrow> None)"

section \<open>MIME walk\<close>

record collected =
  cl_top :: MIMEHeader
  cl_dsnPerMessage :: "MIMEHeader option"
  cl_dsnRecipients :: "MIMEHeader list"
  cl_feedback :: "MIMEHeader option"
  cl_original :: "MIMEHeader option"
  cl_text :: string
  cl_hasReport :: bool

definition leaf_part :: "mime_lib \<Rightarrow> string \<Rightarrow> MIMEHeader \<Rightarrow> string \<Rightarrow> collected \<Rightarrow> collected" where
  "leaf_part lib mediaType h body c =
    (if mediaType = ''message/delivery-status'' then
       (let c = c\<lparr>cl_hasReport := True\<rparr>
        in case readBlocks lib (bounce_decodeBody lib h body) of [] \<Rightarrow> c
           | b # bs \<Rightarrow> if cl_dsnPerMessage c = None
               then c\<lparr>cl_dsnPerMessage := Some b, cl_dsnRecipients := cl_dsnRecipients c @ bs\<rparr> else c)
     else if mediaType = ''message/feedback-report'' then
       (let c = c\<lparr>cl_hasReport := True\<rparr>
        in case readBlocks lib (bounce_decodeBody lib h body) of [] \<Rightarrow> c
           | b # bs \<Rightarrow> if cl_feedback c = None then c\<lparr>cl_feedback := Some b\<rparr> else c)
     else if mediaType \<in> {''message/rfc822'', ''text/rfc822-headers'', ''message/global'', ''message/global-headers''} then
       (if cl_original c \<noteq> None then c
        else case readHeaderOnly lib (bounce_decodeBody lib h body) of None \<Rightarrow> c | Some hdr \<Rightarrow> c\<lparr>cl_original := Some hdr\<rparr>)
     else if HasPrefix mediaType ''text/'' then
       (if int (length (cl_text c)) < maxPartSize
        then c\<lparr>cl_text := cl_text c @ [CHR 0x0A] @ limited (bounce_decodeBody lib h body)\<rparr> else c)
     else c)"

text \<open>\<open>n\<close> is the number of levels left; the walk stops below level \<^const>\<open>maxDepth\<close>.\<close>

primrec walk :: "nat \<Rightarrow> mime_lib \<Rightarrow> MIMEHeader \<Rightarrow> string \<Rightarrow> collected \<Rightarrow> collected" where
  "walk 0 lib h body c = c"
| "walk (Suc n) lib h body c =
    (case contentType lib h of (mediaType, params) \<Rightarrow>
       if HasPrefix mediaType ''multipart/'' then
         (let boundary = (case map_of params ''boundary'' of Some b \<Rightarrow> b | None \<Rightarrow> '''')
          in if boundary = '''' then c else fold (\<lambda>(ph, pbody). walk n lib ph pbody) (ml_Parts lib boundary body) c)
       else leaf_part lib mediaType h body c)"

definition block_action :: "MIMEHeader \<Rightarrow> string" where
  "block_action b = ToLower (fieldValue (hdr_Get b ''Action''))"

definition recipientBlock :: "collected \<Rightarrow> MIMEHeader option" where
  "recipientBlock c =
    (case find (\<lambda>b. block_action b = ''failed'') (cl_dsnRecipients c) of Some b \<Rightarrow> Some b
     | None \<Rightarrow>
        (case find (\<lambda>b. hdr_Get b ''Status'' \<noteq> '''' \<or> block_action b \<noteq> '''') (cl_dsnRecipients c) of Some b \<Rightarrow> Some b
         | None \<Rightarrow>
            (case cl_dsnRecipients c of b # _ \<Rightarrow> Some b
             | [] \<Rightarrow> (case cl_dsnPerMessage c of
                        Some b \<Rightarrow> if hdr_Get b ''Final-Recipient'' \<noteq> '''' then Some b else None
                      | None \<Rightarrow> None))))"

definition opt_Get :: "MIMEHeader option \<Rightarrow> string \<Rightarrow> string" where
  "opt_Get h k = (case h of None \<Rightarrow> '''' | Some h \<Rightarrow> hdr_Get h k)"

definition applyReport :: "mime_lib \<Rightarrow> collected \<Rightarrow> Parsed \<Rightarrow> Parsed" where
  "applyReport lib c p =
    (let p = (case recipientBlock c of None \<Rightarrow> p
              | Some rcpt \<Rightarrow>
                  (let fr = fieldValue (hdr_Get rcpt ''Final-Recipient'');
                       fr = (if fr = '''' then fieldValue (hdr_Get rcpt ''Original-Recipient'') else fr)
                   in p\<lparr>ps_Action := ToLower (fieldValue (hdr_Get rcpt ''Action'')),
                        ps_Status := TrimSpace (fieldValue (hdr_Get rcpt ''Status'')),
                        ps_DiagnosticCode := TrimSpace (hdr_Get rcpt ''Diagnostic-Code''), ps_FinalRecipient := fr\<rparr>));
         p = (case cl_feedback c of None \<Rightarrow> p
              | Some fb \<Rightarrow>
                  p\<lparr>ps_FeedbackType := ToLower (TrimSpace (hdr_Get fb ''Feedback-Type'')),
                    ps_FinalRecipient := (if ps_FinalRecipient p = '''' then addressOnly lib (hdr_Get fb ''Original-Rcpt-To'') else ps_FinalRecipient p)\<rparr>);
         p = (case cl_original c of None \<Rightarrow> p
              | Some og \<Rightarrow> p\<lparr>ps_MessageID := TrimSet (TrimSpace (hdr_Get og ''Message-Id'')) ''<>''\<rparr>)
     in p\<lparr>ps_FinalRecipient := addressOnly lib (ps_FinalRecipient p)\<rparr>)"

section \<open>Classification\<close>

definition softStatusPrefixes :: "string list" where
  "softStatusPrefixes = [''5.2.2'', ''5.2.3'', ''5.3.'', ''5.4.'', ''5.5.'', ''5.7.'']"

definition bounceSubjects :: "string list" where
  "bounceSubjects = [''undeliverable'', ''undelivered mail returned to sender'', ''returned mail'',
    ''delivery status notification (failure)'', ''delivery status notification (delay)'',
    ''mail delivery failed'', ''failure notice'', ''delivery failure'', ''message could not be delivered'',
    ''delivery has failed'', ''mail could not be delivered'', ''returned to sender'']"

definition hardPhrases :: "string list" where
  "hardPhrases = [''user unknown'', ''unknown user'', ''no such user'', ''no such recipient'',
    ''recipient address rejected'', ''does not exist'', ''doesn'' @ [CHR 0x27] @ ''t exist'', ''mailbox unavailable'',
    ''mailbox not found'', ''address not found'', ''no mailbox here'', ''invalid recipient'', ''unrouteable address'',
    ''account has been disabled'', ''account is disabled'', ''user is terminated'']"

definition softPhrases :: "string list" where
  "softPhrases = [''mailbox full'', ''over quota'', ''quota exceeded'', ''insufficient system storage'',
    ''try again later'', ''temporarily unavailable'', ''temporary failure'', ''greylist'', ''message too large'',
    ''deferred'', ''connection timed out'']"

definition complaintSubjects :: "string list" where
  "complaintSubjects = [''abuse report'', ''complaint about message'', ''spam report'', ''email feedback report'']"

text \<open>The last five are Korean, in UTF-8.\<close>

definition autoReplySubjects :: "string list" where
  "autoReplySubjects = [''out of office'', ''auto-reply'', ''autoreply'', ''automatic reply'', ''auto: '', ''vacation'',
    ''away from the office'', ''away from my'',
    [CHR 0xEB, CHR 0xB6, CHR 0x80, CHR 0xEC, CHR 0x9E, CHR 0xAC, CHR 0xEC, CHR 0xA4, CHR 0x91],
    [CHR 0xEC, CHR 0x9E, CHR 0x90, CHR 0xEB, CHR 0x8F, CHR 0x99, CHR 0xED, CHR 0x9A, CHR 0x8C, CHR 0xEC, CHR 0x8B, CHR 0xA0],
    [CHR 0xEC, CHR 0x9E, CHR 0x90, CHR 0xEB, CHR 0x8F, CHR 0x99, CHR 0x20, CHR 0xED, CHR 0x9A, CHR 0x8C, CHR 0xEC, CHR 0x8B, CHR 0xA0],
    [CHR 0xEC, CHR 0x9E, CHR 0x90, CHR 0xEB, CHR 0x8F, CHR 0x99, CHR 0xEC, CHR 0x9D, CHR 0x91, CHR 0xEB, CHR 0x8B, CHR 0xB5],
    [CHR 0xEC, CHR 0x9E, CHR 0x90, CHR 0xEB, CHR 0x8F, CHR 0x99, CHR 0x20, CHR 0xEC, CHR 0x9D, CHR 0x91, CHR 0xEB, CHR 0x8B, CHR 0xB5]]"

definition typeFromStatus :: "string \<Rightarrow> BounceType" where
  "typeFromStatus status =
    (let status = TrimSpace status
     in if length status < 3 \<or> status ! 1 \<noteq> CHR ''.'' then BounceUnknown
        else if status ! 0 = CHR ''4'' then BounceSoft
        else if status ! 0 = CHR ''5'' then (if hasAnyPrefix status softStatusPrefixes then BounceSoft else BounceHard)
        else BounceUnknown)"

definition statusFromText :: "string \<Rightarrow> BounceType" where
  "statusFromText text =
    (let m = find_status None text
     in if m \<noteq> '''' then typeFromStatus m
        else case find_code None text of
            Some code \<Rightarrow> if HasPrefix code ''4'' then BounceSoft else BounceHard
          | None \<Rightarrow> BounceUnknown)"

definition classifyFeedback :: "Parsed \<Rightarrow> Parsed" where
  "classifyFeedback p =
    (let p = p\<lparr>ps_Confidence := ConfidenceHigh\<rparr>
     in if ps_FeedbackType p = ''abuse'' \<or> ps_FeedbackType p = ''fraud'' then p\<lparr>ps_Type := BounceComplaint\<rparr>
        else if ps_FeedbackType p = '''' then p\<lparr>ps_Type := BounceComplaint, ps_Confidence := ConfidenceMedium\<rparr>
        else p\<lparr>ps_Type := BounceUnknown\<rparr>)"

definition classifyDSN :: "Parsed \<Rightarrow> Parsed" where
  "classifyDSN p =
    (let p = p\<lparr>ps_Confidence := ConfidenceHigh\<rparr>
     in if ps_Action p = ''delayed'' then p\<lparr>ps_Type := BounceSoft\<rparr>
        else if ps_Action p \<in> {''delivered'', ''relayed'', ''expanded''} then p\<lparr>ps_Type := BounceUnknown\<rparr>
        else if ps_Status p = '''' then p\<lparr>ps_Type := statusFromText (ps_DiagnosticCode p), ps_Confidence := ConfidenceMedium\<rparr>
        else (let p = p\<lparr>ps_Type := typeFromStatus (ps_Status p)\<rparr>
              in if ps_Type p = BounceUnknown then p\<lparr>ps_Confidence := ConfidenceMedium\<rparr> else p))"

definition isAutoReply :: "collected \<Rightarrow> string \<Rightarrow> bool" where
  "isAutoReply c subject =
    (let auto = ToLower (TrimSpace (hdr_Get (cl_top c) ''Auto-Submitted''))
     in if auto \<noteq> '''' \<and> auto \<noteq> ''no'' then True
        else if list_ex (\<lambda>h. hdr_Get (cl_top c) h \<noteq> '''') [''X-Autoreply'', ''X-Autorespond'', ''X-Vacation''] then True
        else if Contains (ToLower (hdr_Get (cl_top c) ''Precedence'')) ''auto_reply'' then True
        else containsAny subject autoReplySubjects)"

definition classifyHeuristic :: "collected \<Rightarrow> Parsed \<Rightarrow> Parsed" where
  "classifyHeuristic c p =
    (let subject = ToLower (ps_Subject p); body = ToLower (cl_text c)
     in if isAutoReply c subject then p\<lparr>ps_AutoReply := True, ps_Type := BounceUnknown, ps_Confidence := ConfidenceHigh\<rparr>
        else if containsAny subject complaintSubjects then p\<lparr>ps_Type := BounceComplaint, ps_Confidence := ConfidenceLow\<rparr>
        else if \<not> (containsAny subject bounceSubjects \<or> Contains (ToLower (hdr_Get (cl_top c) ''From'')) ''mailer-daemon'' \<or>
                   Contains (ToLower (hdr_Get (cl_top c) ''From'')) ''postmaster'')
        then p\<lparr>ps_Type := BounceUnknown, ps_Confidence := ConfidenceLow\<rparr>
        else (let t = statusFromText (cl_text c)
              in if t \<noteq> BounceUnknown
                 then p\<lparr>ps_Status := (if ps_Status p = '''' then find_status None (cl_text c) else ps_Status p),
                        ps_Type := (if containsAny body softPhrases \<and> t = BounceHard \<and> \<not> containsAny body hardPhrases then BounceSoft else t),
                        ps_Confidence := ConfidenceMedium\<rparr>
                 else p\<lparr>ps_Type := (if containsAny body hardPhrases then BounceHard
                                   else if containsAny body softPhrases then BounceSoft else BounceUnknown),
                        ps_Confidence := ConfidenceLow\<rparr>))"

definition bounce_classify :: "collected \<Rightarrow> Parsed \<Rightarrow> Parsed" where
  "bounce_classify c p =
    (if cl_feedback c \<noteq> None then classifyFeedback p
     else if cl_hasReport c then classifyDSN p
     else classifyHeuristic c p)"

section \<open>Correlation\<close>

definition verpHeaders :: "string list" where
  "verpHeaders = [''Return-Path'', ''To'', ''Delivered-To'', ''X-Original-To'', ''Envelope-To'']"

definition add_addresses :: "mime_lib \<Rightarrow> string \<Rightarrow> string list" where
  "add_addresses lib v = filter (\<lambda>a. a \<noteq> '''') (map (addressOnly lib) (SplitByte CHR '','' v))"

definition header_addresses :: "mime_lib \<Rightarrow> MIMEHeader \<Rightarrow> string list \<Rightarrow> string list" where
  "header_addresses lib h names = concat (map (\<lambda>n. let v = hdr_Get h n in if v \<noteq> '''' then add_addresses lib v else []) names)"

definition verpCandidates :: "mime_lib \<Rightarrow> collected \<Rightarrow> string list" where
  "verpCandidates lib c =
    header_addresses lib (cl_top c) verpHeaders @
    (case cl_dsnPerMessage c of None \<Rightarrow> []
     | Some m \<Rightarrow> add_addresses lib (hdr_Get m ''Original-Envelope-Id'') @ add_addresses lib (hdr_Get m ''X-Postfix-Sender'')) @
    (case recipientBlock c of None \<Rightarrow> []
     | Some r \<Rightarrow> add_addresses lib (hdr_Get r ''Final-Recipient'') @ add_addresses lib (hdr_Get r ''Original-Recipient'')) @
    (case cl_feedback c of None \<Rightarrow> [] | Some fb \<Rightarrow> add_addresses lib (hdr_Get fb ''Original-Mail-From'')) @
    (case cl_original c of None \<Rightarrow> []
     | Some og \<Rightarrow> header_addresses lib og [''Return-Path'', ''X-Original-To'', ''Delivered-To''])"

definition parseSendplaneID :: "string \<Rightarrow> (string \<times> string) option" where
  "parseSendplaneID v =
    (let v = TrimSpace v
     in if v = '''' then None
        else case split_first CHR ''/'' v of None \<Rightarrow> None
        | Some (tenant, delivery) \<Rightarrow> if TrimSpace delivery = '''' then None else Some (TrimSpace tenant, TrimSpace delivery))"

definition is_hex :: "char \<Rightarrow> bool" where
  "is_hex c \<longleftrightarrow> is_digit c \<or> (97 \<le> byte c \<and> byte c \<le> 102) \<or> (65 \<le> byte c \<and> byte c \<le> 70)"

definition isUUID :: "string \<Rightarrow> bool" where
  "isUUID s \<longleftrightarrow> length s = 36 \<and>
    list_all (\<lambda>i. if i \<in> {8, 13, 18, 23} then s ! i = CHR ''-'' else is_hex (s ! i)) [0..<36]"

definition deliveryIDFromMessageID :: "string \<Rightarrow> string" where
  "deliveryIDFromMessageID v =
    (case split_first CHR ''@'' (TrimSpace (TrimSet (TrimSpace v) ''<>'')) of None \<Rightarrow> ''''
     | Some (local, _) \<Rightarrow> if isUUID local then local else '''')"

definition messageIDCandidates :: "collected \<Rightarrow> string list" where
  "messageIDCandidates c =
    (case cl_original c of None \<Rightarrow> [] | Some og \<Rightarrow> [hdr_Get og ''Message-Id'']) @
    concat (map (\<lambda>n. let v = hdr_Get (cl_top c) n in if v \<noteq> '''' then Fields v else []) [''In-Reply-To'', ''References''])"

definition correlate :: "mime_lib \<Rightarrow> collected \<Rightarrow> SigningKey list \<Rightarrow> Correlation" where
  "correlate lib c keys =
    (case find (\<lambda>a. fst (ParseVERP a keys) \<noteq> '''') (verpCandidates lib c) of
       Some a \<Rightarrow> \<lparr>co_DeliveryID = fst (ParseVERP a keys), co_TenantID = '''', co_Source = BounceSourceVERP,
                  co_Verified = snd (ParseVERP a keys)\<rparr>
     | None \<Rightarrow>
        (case List.map_filter (\<lambda>h. parseSendplaneID (opt_Get h ''X-Sendplane-ID'')) [cl_original c, Some (cl_top c)] of
           (tenant, i) # _ \<Rightarrow> \<lparr>co_DeliveryID = i, co_TenantID = tenant, co_Source = BounceSourceHeader, co_Verified = True\<rparr>
         | [] \<Rightarrow>
            (case filter (\<lambda>i. i \<noteq> '''') (map deliveryIDFromMessageID (messageIDCandidates c)) of
               i # _ \<Rightarrow> \<lparr>co_DeliveryID = i, co_TenantID = '''', co_Source = BounceSourceMessageID, co_Verified = True\<rparr>
             | [] \<Rightarrow> no_correlation)))"

section \<open>Parsing\<close>

definition collect :: "mime_lib \<Rightarrow> MIMEHeader \<Rightarrow> string \<Rightarrow> collected" where
  "collect lib hdrs body =
    walk (maxDepth + 1) lib hdrs body
      \<lparr>cl_top = hdrs, cl_dsnPerMessage = None, cl_dsnRecipients = [], cl_feedback = None, cl_original = None, cl_text = '''', cl_hasReport = False\<rparr>"

definition ParseWithKeys :: "mime_lib \<Rightarrow> string \<Rightarrow> SigningKey list \<Rightarrow> Parsed option" where
  "ParseWithKeys lib raw keys =
    (case ml_ReadMessage lib raw of None \<Rightarrow> None
     | Some (hdrs, body) \<Rightarrow>
        (let c = collect lib hdrs body;
             p = zero_parsed\<lparr>ps_Subject := decodeHeader lib (hdr_Get hdrs ''Subject''),
                             ps_ReportingMTA := fieldValue (opt_Get (cl_dsnPerMessage c) ''Reporting-MTA''),
                             ps_Date := (case ml_ParseDate lib (hdr_Get hdrs ''Date'') of Some d \<Rightarrow> d | None \<Rightarrow> 0)\<rparr>;
             p = bounce_classify c (applyReport lib c p)
         in Some (p\<lparr>ps_Correlation := correlate lib c keys\<rparr>)))"

definition Parse :: "mime_lib \<Rightarrow> string \<Rightarrow> Parsed option" where
  "Parse lib raw = ParseWithKeys lib raw []"

end
