(* ===== verification/Store_Email.thy ===== *)
theory Store_Email
  imports Go_Text
begin

text \<open>
  \<^verbatim>\<open>store/email.go\<close>.  \<open>parse\<close> is the address part of what \<^verbatim>\<open>mail.ParseAddress\<close> returns and \<open>toASCII\<close> is
  the conversion of package \<^verbatim>\<open>idna\<close>; \<open>None\<close> is a refused address.
\<close>

definition NormalizeEmail :: "(string \<Rightarrow> string option) \<Rightarrow> (string \<Rightarrow> string option) \<Rightarrow> string \<Rightarrow> string option" where
  "NormalizeEmail parse toASCII s =
    (if CHR 0x0D \<in> set s \<or> CHR 0x0A \<in> set s then None
     else (let s = TrimSpace s
           in if s = '''' then None
              else case parse s of None \<Rightarrow> None
              | Some addr \<Rightarrow>
                  (case split_last CHR ''@'' addr of None \<Rightarrow> None
                   | Some (local, domain) \<Rightarrow>
                       if local = '''' \<or> domain = '''' then None
                       else map_option (\<lambda>ascii. ToLower local @ ''@'' @ ascii) (toASCII (ToLower domain)))))"

text \<open>
  A normalized address has a non-empty lower-case local part, and two addresses that differ only in
  case normalize alike if the parser keeps them apart only by case.
\<close>

lemma NormalizeEmail_shape:
  assumes "NormalizeEmail parse toASCII s = Some n"
  shows "\<exists>local domain ascii. n = ToLower local @ ''@'' @ ascii \<and> local \<noteq> '''' \<and> toASCII (ToLower domain) = Some ascii \<and>
    parse (TrimSpace s) = Some (local @ ''@'' @ domain)"
  using assms split_last_Some
  by (fastforce simp: NormalizeEmail_def Let_def split: if_splits option.splits)

end
