(* ===== verification/Bounce_Process.thy ===== *)
theory Bounce_Process
  imports Bounce_Parse Store_Email Sender_Process Control_Campaign
begin

text \<open>
  \<^verbatim>\<open>internal/bounce/process.go\<close> and \<^verbatim>\<open>platform.go\<close>: one message of a bounce mailbox turned into
  store writes.  The stores of all tenants are a function, since a bounce that came back through
  a shared transport also writes to the store of the system tenant, which may be the same one.
\<close>

section \<open>Outcome\<close>

abbreviation EventDeliveryBounced :: string where "EventDeliveryBounced \<equiv> ''delivery.bounced''"
abbreviation EventDeliveryComplained :: string where "EventDeliveryComplained \<equiv> ''delivery.complained''"

abbreviation SuppressionHardBounce :: string where "SuppressionHardBounce \<equiv> ''hard_bounce''"
abbreviation SuppressionComplaint :: string where "SuppressionComplaint \<equiv> ''complaint''"

abbreviation SkipAutoReply :: string where "SkipAutoReply \<equiv> ''auto_reply''"
abbreviation SkipNotABounce :: string where "SkipNotABounce \<equiv> ''not_a_bounce''"
abbreviation SkipNoCorrelation :: string where "SkipNoCorrelation \<equiv> ''no_correlation''"
abbreviation SkipWrongTenant :: string where "SkipWrongTenant \<equiv> ''wrong_tenant''"
abbreviation SkipUnknownDelivery :: string where "SkipUnknownDelivery \<equiv> ''unknown_delivery''"
abbreviation SkipUnverified :: string where "SkipUnverified \<equiv> ''unverified''"
abbreviation SkipDeliveryNotSent :: string where "SkipDeliveryNotSent \<equiv> ''delivery_not_sent''"
abbreviation SkipAlreadyTerminal :: string where "SkipAlreadyTerminal \<equiv> ''already_terminal''"
abbreviation SkipSoftBounce :: string where "SkipSoftBounce \<equiv> ''soft_bounce''"
abbreviation SkipNotTransitioned :: string where "SkipNotTransitioned \<equiv> ''not_transitioned''"

record Outcome =
  oc_Parsed :: Parsed
  oc_Recorded :: bool
  oc_EventID :: string
  oc_Processed :: bool
  oc_NewStatus :: DeliveryStatus
  oc_Suppressed :: bool
  oc_Unverified :: bool
  oc_Skipped :: string

definition zero_outcome :: Outcome where
  "zero_outcome = \<lparr>oc_Parsed = zero_parsed, oc_Recorded = False, oc_EventID = '''', oc_Processed = False,
     oc_NewStatus = DeliveryPending, oc_Suppressed = False, oc_Unverified = False, oc_Skipped = ''''\<rparr>"

record MailMessage =
  mm_ID :: string
  mm_Raw :: string
  mm_Received :: go_time

record bounceEventPayload =
  bp_DeliveryID :: string
  bp_CampaignID :: string
  bp_Status :: DeliveryStatus
  bp_Email :: string
  bp_EmailNorm :: string
  bp_Lane :: Lane
  bp_OccurredAt :: go_time
  bp_BounceType :: BounceType
  bp_BounceSource :: string
  bp_SMTPStatus :: string
  bp_DiagnosticCode :: string
  bp_Confidence :: Confidence
  bp_Suppressed :: bool

text \<open>
  A processor: its parsers and encoders, the cap on a retained message and whether it has a
  provider.  Then the circumstances of each store call of one message, the identifier of the
  recorded event and the random bytes default settings may need.
\<close>

record processor =
  pc_lib :: mime_lib
  pc_toASCII :: "string \<Rightarrow> string option"
  pc_marshal :: "bounceEventPayload \<Rightarrow> string option"
  pc_jsonString :: "string \<Rightarrow> string"
  pc_MaxRawBytes :: int
  pc_Provider :: bool

record handle_env =
  hv_settings :: env
  hv_get :: env
  hv_record :: env
  hv_mark :: env
  hv_suppress :: env
  hv_sender :: env
  hv_platform :: env
  hv_enqueue :: env
  hv_eventID :: string
  hv_rand :: string

datatype bounce_err = BounceStore string store_err | BounceMarshal | BounceNoProvider

type_synonym stores = "string \<Rightarrow> tenant_data"

type_synonym handled = "Outcome \<times> bounce_err option \<times> stores"

definition DefaultMaxRawBytes :: int where "DefaultMaxRawBytes = 256 * 1024"

definition NewProcessor :: "processor \<Rightarrow> processor" where
  "NewProcessor p = (if pc_MaxRawBytes p \<le> 0 then p\<lparr>pc_MaxRawBytes := DefaultMaxRawBytes\<rparr> else p)"

section \<open>Recording\<close>

definition receivedAt :: "MailMessage \<Rightarrow> Parsed \<Rightarrow> go_time \<Rightarrow> go_time" where
  "receivedAt msg parsed nw = (if mm_Received msg \<noteq> 0 then mm_Received msg else if ps_Date parsed \<noteq> 0 then ps_Date parsed else nw)"

definition rawJSON :: "processor \<Rightarrow> string \<Rightarrow> string" where
  "rawJSON p raw = pc_jsonString p (if pc_MaxRawBytes p > 0 \<and> int (length raw) > pc_MaxRawBytes p then take (nat (pc_MaxRawBytes p)) raw else raw)"

definition bounce_event :: "processor \<Rightarrow> string \<Rightarrow> TenantSettings \<Rightarrow> Parsed \<Rightarrow> MailMessage \<Rightarrow> Delivery option \<Rightarrow> go_time \<Rightarrow> BounceEvent" where
  "bounce_event p newid settings parsed msg d nw =
    (let c = ps_Correlation parsed
     in \<lparr>be_ID = newid, be_TenantID = '''', be_DeliveryID = co_DeliveryID c, be_Type = ps_Type parsed,
         be_Source = (if co_Source c = BounceSourceNone then BounceSourceHeuristic else co_Source c),
         be_Verified = co_Verified c,
         be_Recipient = (case d of Some d \<Rightarrow> if ps_FinalRecipient parsed = '''' then d_Email d else ps_FinalRecipient parsed
                         | None \<Rightarrow> ps_FinalRecipient parsed),
         be_EmailNorm = (case d of Some d \<Rightarrow> d_EmailNorm d
                         | None \<Rightarrow> if ps_FinalRecipient parsed \<noteq> ''''
                             then (case NormalizeEmail (ml_ParseAddress (pc_lib p)) (pc_toASCII p) (ps_FinalRecipient parsed) of Some n \<Rightarrow> n | None \<Rightarrow> '''')
                             else ''''),
         be_SMTPStatus = ps_Status parsed, be_DiagnosticCode = ps_DiagnosticCode parsed, be_MessageID = ps_MessageID parsed,
         be_Raw = (if ts_BounceRetainRaw settings then rawJSON p (mm_Raw msg) else ''''),
         be_ReceivedAt = receivedAt msg parsed nw, be_CreatedAt = nw\<rparr>)"

definition record_bounce ::
  "processor \<Rightarrow> handle_env \<Rightarrow> TenantSettings \<Rightarrow> string \<Rightarrow> MailMessage \<Rightarrow> Delivery option \<Rightarrow> go_time \<Rightarrow> Outcome \<Rightarrow> stores \<Rightarrow> handled" where
  "record_bounce p v settings t msg d nw out st =
    (let ev = bounce_event p (hv_eventID v) settings (oc_Parsed out) msg d nw
     in case tbl_Create bounce_meta (hv_record v) (td_bounces (st t)) (Some ev) of
          (Some err, _, _) \<Rightarrow> (out, Some (BounceStore ''record event'' err), st)
        | (None, _, rows) \<Rightarrow>
            (out\<lparr>oc_Recorded := True, oc_EventID := be_ID ev\<rparr>, None, st(t := (st t)\<lparr>td_bounces := rows\<rparr>)))"

section \<open>Suppression and events\<close>

definition bounce_suppression :: "Delivery \<Rightarrow> string \<Rightarrow> go_time \<Rightarrow> Suppression" where
  "bounce_suppression d reason nw =
    \<lparr>su_TenantID = '''', su_EmailNorm = d_EmailNorm d, su_Reason = reason, su_SourceDeliveryID = d_ID d, su_CreatedAt = nw, su_ExpiresAt = 0\<rparr>"

definition upsert_in :: "env \<Rightarrow> string \<Rightarrow> Suppression \<Rightarrow> stores \<Rightarrow> store_err option \<times> stores" where
  "upsert_in e t v st = (case suppression_Upsert e (Some v) (st t) of (err, _, s) \<Rightarrow> (err, st(t := s)))"

definition suppressPlatform ::
  "processor \<Rightarrow> handle_env \<Rightarrow> string \<Rightarrow> Delivery \<Rightarrow> string \<Rightarrow> go_time \<Rightarrow> stores \<Rightarrow> bounce_err option \<times> stores" where
  "suppressPlatform p v t d reason nw st =
    (if \<not> pc_Provider p \<or> d_SenderID d = '''' \<or> d_EmailNorm d = '''' then (None, st)
     else case tbl_Get (hv_sender v) (td_senders (st t)) (d_SenderID d) of
         Inl ErrNotFound \<Rightarrow> (None, st)
       | Inl err \<Rightarrow> (Some (BounceStore ''sender'' err), st)
       | Inr sender \<Rightarrow>
           if \<not> IsPlatformID (se_TransportID sender) then (None, st)
           else (case upsert_in (hv_platform v) SystemTenantID (bounce_suppression d reason nw) st of
                   (err, st) \<Rightarrow> (map_option (BounceStore ''platform suppress'') err, st)))"

definition bounce_payload :: "Delivery \<Rightarrow> Parsed \<Rightarrow> DeliveryStatus \<Rightarrow> bool \<Rightarrow> go_time \<Rightarrow> bounceEventPayload" where
  "bounce_payload d parsed status suppressed nw =
    \<lparr>bp_DeliveryID = d_ID d, bp_CampaignID = d_CampaignID d, bp_Status = status, bp_Email = d_Email d, bp_EmailNorm = d_EmailNorm d,
     bp_Lane = d_Lane d, bp_OccurredAt = nw, bp_BounceType = ps_Type parsed, bp_BounceSource = co_Source (ps_Correlation parsed),
     bp_SMTPStatus = ps_Status parsed, bp_DiagnosticCode = ps_DiagnosticCode parsed, bp_Confidence = ps_Confidence parsed,
     bp_Suppressed = suppressed\<rparr>"

definition bounce_enqueueEvent ::
  "processor \<Rightarrow> env \<Rightarrow> string \<Rightarrow> Delivery \<Rightarrow> Parsed \<Rightarrow> string \<Rightarrow> DeliveryStatus \<Rightarrow> bool \<Rightarrow> go_time \<Rightarrow> stores \<Rightarrow> bounce_err option \<times> stores" where
  "bounce_enqueueEvent p e t d parsed typ status suppressed nw st =
    (case pc_marshal p (bounce_payload d parsed status suppressed nw) of None \<Rightarrow> (Some BounceMarshal, st)
     | Some payload \<Rightarrow>
        (case Enqueue e [pending_event typ payload nw] (st t) of
           (err, s) \<Rightarrow> (map_option (BounceStore ''enqueue'') err, st(t := s))))"

section \<open>Handling\<close>

text \<open>What follows the committed transition: suppress the address, then emit the event.\<close>

definition after_transition ::
  "processor \<Rightarrow> handle_env \<Rightarrow> TenantSettings \<Rightarrow> string \<Rightarrow> Delivery \<Rightarrow> Parsed \<Rightarrow> go_time \<Rightarrow> Outcome \<Rightarrow> stores \<Rightarrow> handled" where
  "after_transition p v settings t d parsed nw out st =
    (let complaint = (ps_Type parsed = BounceComplaint);
         status = (if complaint then DeliveryComplained else DeliveryBounced);
         reason = (if complaint then SuppressionComplaint else SuppressionHardBounce);
         typ = (if complaint then EventDeliveryComplained else EventDeliveryBounced);
         own = (if d_Lane d \<noteq> LaneProbe \<and> ts_SuppressionEnabled settings
                then upsert_in (hv_suppress v) t (bounce_suppression d reason nw) st else (None, st))
     in case own of
          (Some err, st) \<Rightarrow> (out, Some (BounceStore ''suppress'' err), st)
        | (None, st) \<Rightarrow>
            (let out = out\<lparr>oc_Suppressed := (d_Lane d \<noteq> LaneProbe \<and> ts_SuppressionEnabled settings)\<rparr>
             in case (if d_Lane d \<noteq> LaneProbe then suppressPlatform p v t d reason nw st else (None, st)) of
                  (Some err, st) \<Rightarrow> (out, Some err, st)
                | (None, st) \<Rightarrow>
                    (case bounce_enqueueEvent p (hv_enqueue v) t d parsed typ status (oc_Suppressed out) nw st of
                       (err, st) \<Rightarrow> (out, err, st))))"

definition bounce_transition ::
  "processor \<Rightarrow> handle_env \<Rightarrow> TenantSettings \<Rightarrow> string \<Rightarrow> Delivery \<Rightarrow> Parsed \<Rightarrow> go_time \<Rightarrow> Outcome \<Rightarrow> stores \<Rightarrow> handled" where
  "bounce_transition p v settings t d parsed nw out st =
    (let complaint = (ps_Type parsed = BounceComplaint);
         status = (if complaint then DeliveryComplained else DeliveryBounced)
     in case (if complaint then MarkComplained else MarkBounced) (hv_mark v) (d_ID d) nw (st t) of
          (Inl err, s) \<Rightarrow> (out, Some (BounceStore ''mark'' err), st(t := s))
        | (Inr False, s) \<Rightarrow> (out\<lparr>oc_Skipped := SkipNotTransitioned\<rparr>, None, st(t := s))
        | (Inr True, s) \<Rightarrow>
            after_transition p v settings t d parsed nw (out\<lparr>oc_Processed := True, oc_NewStatus := status\<rparr>) (st(t := s)))"

text \<open>A message that is recorded with a reason for nothing more to happen.\<close>

definition record_skip ::
  "processor \<Rightarrow> handle_env \<Rightarrow> TenantSettings \<Rightarrow> string \<Rightarrow> MailMessage \<Rightarrow> Delivery option \<Rightarrow> go_time \<Rightarrow> string \<Rightarrow> Outcome \<Rightarrow> stores \<Rightarrow> handled" where
  "record_skip p v settings t msg d nw reason out st = record_bounce p v settings t msg d nw (out\<lparr>oc_Skipped := reason\<rparr>) st"

definition handle_delivery ::
  "processor \<Rightarrow> handle_env \<Rightarrow> TenantSettings \<Rightarrow> string \<Rightarrow> MailMessage \<Rightarrow> Delivery \<Rightarrow> Parsed \<Rightarrow> go_time \<Rightarrow> Outcome \<Rightarrow> stores \<Rightarrow> handled" where
  "handle_delivery p v settings t msg d parsed nw out st =
    (if \<not> co_Verified (ps_Correlation parsed) then
       record_skip p v settings t msg (Some d) nw SkipUnverified (out\<lparr>oc_Unverified := True\<rparr>) st
     else if d_Status d = DeliverySent then
       (case record_bounce p v settings t msg (Some d) nw out st of
          (out, Some err, st) \<Rightarrow> (out, Some err, st)
        | (out, None, st) \<Rightarrow>
            if ps_Type parsed = BounceSoft then (out\<lparr>oc_Skipped := SkipSoftBounce\<rparr>, None, st)
            else bounce_transition p v settings t d parsed nw out st)
     else if d_Status d \<in> {DeliveryBounced, DeliveryComplained} then
       (if ps_Type parsed = BounceSoft then record_skip p v settings t msg (Some d) nw SkipSoftBounce out st
        else (out\<lparr>oc_Skipped := SkipAlreadyTerminal\<rparr>, None, st))
     else (out\<lparr>oc_Skipped := SkipDeliveryNotSent\<rparr>, None, st))"

definition handle_parsed ::
  "processor \<Rightarrow> handle_env \<Rightarrow> TenantSettings \<Rightarrow> string \<Rightarrow> MailMessage \<Rightarrow> Parsed \<Rightarrow> go_time \<Rightarrow> stores \<Rightarrow> handled" where
  "handle_parsed p v settings t msg parsed nw st =
    (let out = zero_outcome\<lparr>oc_Parsed := parsed\<rparr>; c = ps_Correlation parsed
     in if ps_AutoReply parsed then (out\<lparr>oc_Skipped := SkipAutoReply\<rparr>, None, st)
        else if \<not> IsBounce parsed then (out\<lparr>oc_Skipped := SkipNotABounce\<rparr>, None, st)
        else if co_DeliveryID c = '''' then record_skip p v settings t msg None nw SkipNoCorrelation out st
        else if co_TenantID c \<noteq> '''' \<and> co_TenantID c \<noteq> t then (out\<lparr>oc_Skipped := SkipWrongTenant\<rparr>, None, st)
        else case delivery_Get (hv_get v) (co_DeliveryID c) (st t) of
            Inl ErrNotFound \<Rightarrow> record_skip p v settings t msg None nw SkipUnknownDelivery out st
          | Inl err \<Rightarrow> (out, Some (BounceStore ''load delivery'' err), st)
          | Inr d \<Rightarrow> handle_delivery p v settings t msg d parsed nw out st)"

definition Handle :: "processor \<Rightarrow> handle_env \<Rightarrow> go_time \<Rightarrow> string \<Rightarrow> MailMessage \<Rightarrow> stores \<Rightarrow> handled" where
  "Handle p v nw t msg st =
    (case LoadTenantSettings (hv_settings v) (hv_rand v) t nw (st t) of
       (Inl err, s) \<Rightarrow> (zero_outcome, Some (BounceStore ''tenant settings'' err), st(t := s))
     | (Inr settings, s) \<Rightarrow>
        (let st = st(t := s)
         in case ParseWithKeys (pc_lib p) (mm_Raw msg) (tk_SigningKeys (ts_Tracking settings)) of
              None \<Rightarrow> (zero_outcome\<lparr>oc_Skipped := SkipNotABounce\<rparr>, None, st)
            | Some parsed \<Rightarrow> handle_parsed p v settings t msg parsed nw st))"

section \<open>Shared mailboxes\<close>

text \<open>\<open>lookup\<close> is the \<^verbatim>\<open>LookupDeliveryTenant\<close> of the provider.\<close>

definition resolveTenant :: "processor \<Rightarrow> (string \<Rightarrow> store_err + string) \<Rightarrow> MailMessage \<Rightarrow> bounce_err + string" where
  "resolveTenant p lookup msg =
    (case Parse (pc_lib p) (mm_Raw msg) of None \<Rightarrow> Inr SystemTenantID
     | Some parsed \<Rightarrow>
        (let c = ps_Correlation parsed
         in if co_TenantID c \<noteq> '''' then Inr (co_TenantID c)
            else if co_DeliveryID c = '''' then Inr SystemTenantID
            else case lookup (co_DeliveryID c) of
                Inr t \<Rightarrow> Inr t
              | Inl ErrNotFound \<Rightarrow> Inr SystemTenantID
              | Inl err \<Rightarrow> Inl (BounceStore ''lookup delivery'' err)))"

text \<open>\<open>provider\<close> is the two operations of a provider, \<open>None\<close> for a nil one; \<open>opens\<close> is the error of \<^verbatim>\<open>ForTenant\<close>, if any.\<close>

definition HandlePlatform ::
  "processor \<Rightarrow> handle_env \<Rightarrow> go_time \<Rightarrow> ((string \<Rightarrow> store_err + string) \<times> (string \<Rightarrow> store_err option)) option
    \<Rightarrow> MailMessage \<Rightarrow> stores \<Rightarrow> handled" where
  "HandlePlatform p v nw provider msg st =
    (case provider of None \<Rightarrow> (zero_outcome, Some BounceNoProvider, st)
     | Some (lookup, opens) \<Rightarrow>
        (case resolveTenant p lookup msg of Inl err \<Rightarrow> (zero_outcome, Some err, st)
         | Inr t \<Rightarrow>
            (case opens t of Some err \<Rightarrow> (zero_outcome, Some (BounceStore ''store for tenant'' err), st)
             | None \<Rightarrow> Handle p v nw t msg st)))"

end
