(* ===== verification/Bounce_Thms.thy ===== *)
theory Bounce_Thms
  imports Bounce_Process Samples
begin

text \<open>
  What handling a bounce mail may and must do: no write without evidence, each bounce acted on
  once, and what is lost when a store call fails half way.
\<close>

section \<open>Frames\<close>

text \<open>The parts of the stores a bounce may only change with evidence.\<close>

definition same_core :: "stores \<Rightarrow> stores \<Rightarrow> bool" where
  "same_core st st' \<longleftrightarrow> (\<forall>u. td_deliveries (st' u) = td_deliveries (st u) \<and> td_suppressions (st' u) = td_suppressions (st u) \<and>
     td_outbox (st' u) = td_outbox (st u) \<and> td_senders (st' u) = td_senders (st u))"

lemma same_core_refl [simp]: "same_core st st"
  by (simp add: same_core_def)

lemma same_core_trans: "same_core a b \<Longrightarrow> same_core b c \<Longrightarrow> same_core a c"
  by (simp add: same_core_def)

lemma LoadTenantSettings_core: "same_core st (st(t := snd (LoadTenantSettings e rand tenant nw (st t))))"
  by (auto simp: same_core_def LoadTenantSettings_def settings_Get_def settings_Create_def Let_def split: option.split sum.split prod.split)

lemma record_bounce_core:
  "record_bounce p v settings t msg d nw out st = (out', err, st') \<Longrightarrow>
     same_core st st' \<and> oc_Processed out' = oc_Processed out \<and> oc_Parsed out' = oc_Parsed out \<and> (\<forall>u. td_settings (st' u) = td_settings (st u))"
  by (auto simp: record_bounce_def same_core_def Let_def split: prod.splits option.splits)

lemma record_skip_core:
  "record_skip p v settings t msg d nw reason out st = (out', err, st') \<Longrightarrow>
     same_core st st' \<and> oc_Processed out' = oc_Processed out \<and> (\<forall>u. td_settings (st' u) = td_settings (st u))"
  unfolding record_skip_def by (drule record_bounce_core) simp

definition recorded :: "stores \<Rightarrow> stores \<Rightarrow> bool" where
  "recorded st st' \<longleftrightarrow> same_core st st' \<and> (\<forall>u. td_settings (st' u) = td_settings (st u))"

section \<open>Evidence\<close>

text \<open>The delivery a message proves a hard bounce or a complaint for.\<close>

definition proves :: "string \<Rightarrow> Parsed \<Rightarrow> bool" where
  "proves t parsed \<longleftrightarrow> \<not> ps_AutoReply parsed \<and> ps_Type parsed \<in> {BounceHard, BounceComplaint} \<and>
     co_DeliveryID (ps_Correlation parsed) \<noteq> '''' \<and> co_TenantID (ps_Correlation parsed) \<in> {'''', t} \<and> co_Verified (ps_Correlation parsed)"

lemma handle_delivery_core:
  assumes "handle_delivery p v settings t msg d parsed nw out st = (out', err, st')" "oc_Processed out = False"
  shows "(same_core st st' \<and> \<not> oc_Processed out') \<or>
    (co_Verified (ps_Correlation parsed) \<and> ps_Type parsed \<noteq> BounceSoft \<and> d_Status d = DeliverySent \<and>
      (\<exists>out1 st1. recorded st st1 \<and> bounce_transition p v settings t d parsed nw out1 st1 = (out', err, st') \<and> \<not> oc_Processed out1))"
proof (cases "co_Verified (ps_Correlation parsed) \<and> d_Status d = DeliverySent")
  case False
  then show ?thesis using assms record_skip_core
    by (auto simp: handle_delivery_def split: if_splits)
next
  case True
  obtain out1 e1 st1 where r: "record_bounce p v settings t msg (Some d) nw out st = (out1, e1, st1)" by (metis prod.exhaust)
  note c = record_bounce_core [OF r]
  show ?thesis
  proof (cases "e1 = None \<and> ps_Type parsed \<noteq> BounceSoft")
    case False
    then show ?thesis using assms True r c by (auto simp: handle_delivery_def split: option.splits)
  next
    case tr: True
    then have "bounce_transition p v settings t d parsed nw out1 st1 = (out', err, st')"
      using assms(1) True r by (simp add: handle_delivery_def)
    then show ?thesis using True tr c assms(2) unfolding recorded_def by blast
  qed
qed

lemma handle_parsed_core:
  assumes "handle_parsed p v settings t msg parsed nw st = (out, err, st')"
  shows "(same_core st st' \<and> \<not> oc_Processed out) \<or>
    (proves t parsed \<and> (\<exists>d out1 st1. map_of (td_deliveries (st t)) (co_DeliveryID (ps_Correlation parsed)) = Some d \<and> d_Status d = DeliverySent \<and>
       recorded st st1 \<and> bounce_transition p v settings t d parsed nw out1 st1 = (out, err, st') \<and> \<not> oc_Processed out1))"
proof -
  let ?out = "zero_outcome\<lparr>oc_Parsed := parsed\<rparr>" and ?c = "ps_Correlation parsed"
  have z: "\<not> oc_Processed zero_outcome" by (simp add: zero_outcome_def)
  show ?thesis
  proof (cases "ps_AutoReply parsed \<or> \<not> IsBounce parsed \<or> co_DeliveryID ?c = '''' \<or> co_TenantID ?c \<noteq> '''' \<and> co_TenantID ?c \<noteq> t")
    case True
    then show ?thesis using assms z
      by (auto simp: handle_parsed_def Let_def dest!: record_skip_core split: if_splits)
  next
    case ok: False
    then have h: "(case delivery_Get (hv_get v) (co_DeliveryID ?c) (st t) of
            Inl ErrNotFound \<Rightarrow> record_skip p v settings t msg None nw SkipUnknownDelivery ?out st
          | Inl err \<Rightarrow> (?out, Some (BounceStore ''load delivery'' err), st)
          | Inr d \<Rightarrow> handle_delivery p v settings t msg d parsed nw ?out st) = (out, err, st')"
      using assms by (cases "co_TenantID ?c = ''''") (simp_all add: handle_parsed_def Let_def)
    show ?thesis
    proof (cases "delivery_Get (hv_get v) (co_DeliveryID ?c) (st t)")
      case (Inl er)
      then show ?thesis using h z by (cases er) (auto dest!: record_skip_core)
    next
      case (Inr d)
      then have d: "map_of (td_deliveries (st t)) (co_DeliveryID ?c) = Some d" by (auto simp: delivery_Get_def split: if_splits option.splits)
      have "handle_delivery p v settings t msg d parsed nw ?out st = (out, err, st')" using h Inr by simp
      from handle_delivery_core [OF this] z have "(same_core st st' \<and> \<not> oc_Processed out) \<or>
        (co_Verified ?c \<and> ps_Type parsed \<noteq> BounceSoft \<and> d_Status d = DeliverySent \<and>
          (\<exists>out1 st1. recorded st st1 \<and> bounce_transition p v settings t d parsed nw out1 st1 = (out, err, st') \<and> \<not> oc_Processed out1))" by simp
      moreover have "ps_Type parsed \<noteq> BounceSoft \<Longrightarrow> ps_Type parsed \<in> {BounceHard, BounceComplaint}"
        using ok by (cases "ps_Type parsed") (auto simp: IsBounce_def)
      ultimately show ?thesis using ok d unfolding proves_def by blast
    qed
  qed
qed

text \<open>A transition marks the delivery, or does nothing, and then suppresses and emits.\<close>

text \<open>What suppressing and emitting leave alone.\<close>

definition frame :: "string \<Rightarrow> string \<Rightarrow> stores \<Rightarrow> stores \<Rightarrow> bool" where
  "frame t em0 st st' \<longleftrightarrow> (\<forall>u. td_deliveries (st' u) = td_deliveries (st u) \<and> td_settings (st' u) = td_settings (st u) \<and>
     (\<forall>em. em \<noteq> em0 \<longrightarrow> map_of (td_suppressions (st' u)) em = map_of (td_suppressions (st u)) em) \<and>
     (u \<noteq> t \<longrightarrow> td_outbox (st' u) = td_outbox (st u)))"

lemma frame_refl [simp]: "frame t em0 st st"
  by (simp add: frame_def)

lemma frame_trans: "frame t em0 a b \<Longrightarrow> frame t em0 b c \<Longrightarrow> frame t em0 a c"
  by (simp add: frame_def)

lemma upsert_in_frame: "upsert_in e u v st = (err, st') \<Longrightarrow> frame t (su_EmailNorm v) st st'"
  by (auto simp: upsert_in_def frame_def suppression_Upsert_def Let_def update_conv' split: if_splits)

lemma suppressPlatform_frame: "suppressPlatform p v t d reason nw st = (err, st') \<Longrightarrow> frame t (d_EmailNorm d) st st'"
  using upsert_in_frame [of "hv_platform v" SystemTenantID "bounce_suppression d reason nw" st]
  by (auto simp: suppressPlatform_def bounce_suppression_def split: if_splits sum.splits store_err.splits prod.splits)

lemma enqueueEvent_frame: "bounce_enqueueEvent p e t d parsed typ status suppressed nw st = (err, st') \<Longrightarrow> frame t em0 st st'"
  by (auto simp: bounce_enqueueEvent_def frame_def Enqueue_def split: if_splits option.splits)

lemma after_transition_frame:
  assumes "after_transition p v settings t d parsed nw out st = (out', err, st')"
  shows "frame t (d_EmailNorm d) st st' \<and> oc_Processed out' = oc_Processed out"
proof -
  let ?c = "ps_Type parsed = BounceComplaint"
  let ?reason = "if ?c then SuppressionComplaint else SuppressionHardBounce"
  let ?own = "if d_Lane d \<noteq> LaneProbe \<and> ts_SuppressionEnabled settings then upsert_in (hv_suppress v) t (bounce_suppression d ?reason nw) st else (None, st)"
  obtain e1 st1 where 1: "?own = (e1, st1)" by fastforce
  then have f1: "frame t (d_EmailNorm d) st st1"
    using upsert_in_frame [of "hv_suppress v" t "bounce_suppression d ?reason nw" st] by (auto simp: bounce_suppression_def split: if_splits)
  let ?plat = "if d_Lane d \<noteq> LaneProbe then suppressPlatform p v t d ?reason nw st1 else (None, st1)"
  obtain e2 st2 where 2: "?plat = (e2, st2)" by fastforce
  then have f2: "frame t (d_EmailNorm d) st st2"
    using suppressPlatform_frame [of p v t d ?reason nw st1] f1 frame_trans by (auto split: if_splits)
  show ?thesis
  proof (cases "e1 = None \<and> e2 = None")
    case False
    then show ?thesis using assms 1 2 f1 f2 by (auto simp: after_transition_def Let_def split: option.splits)
  next
    case True
    then show ?thesis using assms 1 2 f2 frame_trans enqueueEvent_frame
      by (auto simp: after_transition_def Let_def split: prod.splits)
  qed
qed

definition bounce_status :: "Parsed \<Rightarrow> DeliveryStatus" where
  "bounce_status parsed = (if ps_Type parsed = BounceComplaint then DeliveryComplained else DeliveryBounced)"

definition marked :: "DeliveryStatus \<Rightarrow> go_time \<Rightarrow> Delivery \<Rightarrow> Delivery" where
  "marked to tm d = truncateDelivery (d\<lparr>d_Status := to, d_FinishedAt := tm, d_UpdatedAt := tm, d_LeaseOwner := '''', d_LeaseUntil := 0\<rparr>)"

text \<open>The whole effect of a bounce that is acted on.\<close>

definition acted_on :: "string \<Rightarrow> Delivery \<Rightarrow> DeliveryStatus \<Rightarrow> go_time \<Rightarrow> stores \<Rightarrow> stores \<Rightarrow> bool" where
  "acted_on t d status nw st st' \<longleftrightarrow>
    (\<forall>u i. map_of (td_deliveries (st' u)) i = (if u = t \<and> i = d_ID d then Some (marked status nw d) else map_of (td_deliveries (st u)) i)) \<and>
    (\<forall>u em. em \<noteq> d_EmailNorm d \<longrightarrow> map_of (td_suppressions (st' u)) em = map_of (td_suppressions (st u)) em) \<and>
    (\<forall>u. u \<noteq> t \<longrightarrow> td_outbox (st' u) = td_outbox (st u))"

lemma bounce_transition_effect:
  assumes "bounce_transition p v settings t d parsed nw out st = (out', err, st')" "\<not> oc_Processed out"
    and "map_of (td_deliveries (st t)) (d_ID d) = Some d" "d_Status d = DeliverySent"
  shows "(same_core st st' \<and> \<not> oc_Processed out') \<or>
    (oc_Processed out' \<and> acted_on t d (bounce_status parsed) nw st st' \<and> (\<forall>u. td_settings (st' u) = td_settings (st u)))"
proof (cases "e_closed (hv_mark v)")
  case True
  then have "(if ps_Type parsed = BounceComplaint then MarkComplained else MarkBounced) (hv_mark v) (d_ID d) nw (st t) = (Inl ErrClosed, st t)"
    by (simp add: MarkComplained_def MarkBounced_def markTerminal_def)
  then show ?thesis using assms(1,2) by (auto simp: bounce_transition_def Let_def)
next
  case False
  let ?s = "(st t)\<lparr>td_deliveries := AList.update (d_ID d) (marked (bounce_status parsed) nw d) (td_deliveries (st t))\<rparr>"
  have "(if ps_Type parsed = BounceComplaint then MarkComplained else MarkBounced) (hv_mark v) (d_ID d) nw (st t) = (Inr True, ?s)"
    using False assms(3,4) by (simp add: MarkComplained_def MarkBounced_def markTerminal_def marked_def bounce_status_def)
  then obtain out1 where a: "after_transition p v settings t d parsed nw out1 (st(t := ?s)) = (out', err, st')" "oc_Processed out1"
    using assms(1) by (auto simp: bounce_transition_def Let_def)
  from after_transition_frame [OF a(1)] a(2) show ?thesis by (auto simp: frame_def acted_on_def update_conv')
qed

text \<open>The first VERP address of the message, if it has one, carries a tag of one of the keys.\<close>

definition verp_ok :: "mime_lib \<Rightarrow> SigningKey list \<Rightarrow> string \<Rightarrow> bool" where
  "verp_ok lib keys raw =
    (case ml_ReadMessage lib raw of None \<Rightarrow> False
     | Some (h, body) \<Rightarrow>
        (case find (\<lambda>a. fst (ParseVERP a keys) \<noteq> '''') (verpCandidates lib (collect lib h body)) of None \<Rightarrow> True
         | Some a \<Rightarrow> snd (ParseVERP a keys)))"

lemma verified_verp_ok:
  "ParseWithKeys lib raw keys = Some parsed \<Longrightarrow> co_Verified (ps_Correlation parsed) \<Longrightarrow> verp_ok lib keys raw"
  by (auto simp: ParseWithKeys_def verp_ok_def Let_def correlate_def split: option.splits)

text \<open>A message either leaves the guarded parts alone or proves a bounce and is acted on.\<close>

lemma Handle_cases:
  assumes "Handle p v nw t msg st = (out, err, st')" "\<forall>i d. map_of (td_deliveries (st t)) i = Some d \<longrightarrow> d_ID d = i"
  shows "(same_core st st' \<and> \<not> oc_Processed out) \<or>
    (\<exists>settings s parsed d. LoadTenantSettings (hv_settings v) (hv_rand v) t nw (st t) = (Inr settings, s) \<and>
      ParseWithKeys (pc_lib p) (mm_Raw msg) (tk_SigningKeys (ts_Tracking settings)) = Some parsed \<and> proves t parsed \<and>
      map_of (td_deliveries (st t)) (co_DeliveryID (ps_Correlation parsed)) = Some d \<and> d_Status d = DeliverySent \<and>
      oc_Processed out \<and> acted_on t d (bounce_status parsed) nw st st' \<and> td_settings (st' t) = td_settings s)"
proof -
  obtain l s where l: "LoadTenantSettings (hv_settings v) (hv_rand v) t nw (st t) = (l, s)" by fastforce
  have c0: "same_core st (st(t := s))" using LoadTenantSettings_core [of st t "hv_settings v" "hv_rand v" t nw] l by simp
  have z: "\<not> oc_Processed zero_outcome" by (simp add: zero_outcome_def)
  show ?thesis
  proof (cases "\<exists>settings parsed. l = Inr settings \<and> ParseWithKeys (pc_lib p) (mm_Raw msg) (tk_SigningKeys (ts_Tracking settings)) = Some parsed")
    case False
    then show ?thesis using assms(1) l c0 z by (cases l) (auto simp: Handle_def Let_def split: option.splits)
  next
    case True
    then obtain settings parsed where sp: "l = Inr settings" "ParseWithKeys (pc_lib p) (mm_Raw msg) (tk_SigningKeys (ts_Tracking settings)) = Some parsed" by blast
    have hp: "handle_parsed p v settings t msg parsed nw (st(t := s)) = (out, err, st')" using assms(1) l sp by (simp add: Handle_def)
    show ?thesis
    proof (cases "same_core (st(t := s)) st' \<and> \<not> oc_Processed out")
      case True then show ?thesis using same_core_trans [OF c0] by blast
    next
      case False
      with handle_parsed_core [OF hp] obtain d out1 st1 where d: "proves t parsed"
        "map_of (td_deliveries s) (co_DeliveryID (ps_Correlation parsed)) = Some d" "d_Status d = DeliverySent"
        "recorded (st(t := s)) st1" "bounce_transition p v settings t d parsed nw out1 st1 = (out, err, st')" "\<not> oc_Processed out1" by auto
      have c1: "same_core st st1" "td_settings (st1 t) = td_settings s" using d(4) same_core_trans [OF c0] by (auto simp: recorded_def)
      have dt: "map_of (td_deliveries (st t)) (co_DeliveryID (ps_Correlation parsed)) = Some d"
        using d(2) c0 [unfolded same_core_def, rule_format, of t] by simp
      with assms(2) have "d_ID d = co_DeliveryID (ps_Correlation parsed)" by blast
      then have "map_of (td_deliveries (st1 t)) (d_ID d) = Some d" using dt c1 by (simp add: same_core_def)
      note eff = bounce_transition_effect [OF d(5,6) this d(3)]
      show ?thesis
      proof (cases "same_core st1 st' \<and> \<not> oc_Processed out")
        case True then show ?thesis using same_core_trans [OF c1(1)] by blast
      next
        case False
        with eff have "oc_Processed out" "acted_on t d (bounce_status parsed) nw st1 st'" "td_settings (st' t) = td_settings s" using c1(2) by auto
        moreover from this(2) have "acted_on t d (bounce_status parsed) nw st st'" using c1(1) by (simp add: acted_on_def same_core_def)
        ultimately show ?thesis using l sp d(1,3) dt by blast
      qed
    qed
  qed
qed

text \<open>
  C35.  No write without evidence.  If handling a message changes any delivery, suppression list or
  outbox of any tenant, then the message, read with the tenant's keys, is a hard bounce or a
  complaint and no automatic reply, names this tenant or none, does not carry a forged VERP
  address, and its delivery is one of this tenant that was sent; and then exactly that delivery
  is marked, no suppression entry but that of its address changes, and no other outbox.
\<close>

theorem bounce_evidence:
  assumes "Handle p v nw t msg st = (out, err, st')" "\<not> same_core st st'"
    and "\<forall>i d. map_of (td_deliveries (st t)) i = Some d \<longrightarrow> d_ID d = i"
  shows "\<exists>settings parsed d. fst (LoadTenantSettings (hv_settings v) (hv_rand v) t nw (st t)) = Inr settings \<and>
    ParseWithKeys (pc_lib p) (mm_Raw msg) (tk_SigningKeys (ts_Tracking settings)) = Some parsed \<and> proves t parsed \<and>
    verp_ok (pc_lib p) (tk_SigningKeys (ts_Tracking settings)) (mm_Raw msg) \<and>
    map_of (td_deliveries (st t)) (co_DeliveryID (ps_Correlation parsed)) = Some d \<and> d_Status d = DeliverySent \<and>
    oc_Processed out \<and> acted_on t d (bounce_status parsed) nw st st'"
  using Handle_cases [OF assms(1,3)] assms(2) verified_verp_ok by (fastforce simp: proves_def)

text \<open>A concrete mail: a report of a permanent failure of delivery \<^verbatim>\<open>d1\<close> of tenant \<^verbatim>\<open>t\<close>.\<close>

definition w_lib :: mime_lib where
  "w_lib = \<lparr>ml_ReadMessage = (\<lambda>raw. Some ([(''Content-Type'', [''message/delivery-status'']), (''X-Sendplane-Id'', [''t/d1''])], raw)),
     ml_ParseMediaType = (\<lambda>v. Some (v, [])), ml_Parts = (\<lambda>_ _. []), ml_Base64 = id, ml_QuotedPrintable = id,
     ml_ReadMIMEHeaders = (\<lambda>_. [([(''Reporting-Mta'', [''dns; mx''])], False), ([(''Action'', [''failed'']), (''Status'', [''5.1.1''])], True)]),
     ml_ParseAddress = Some, ml_ParseDate = (\<lambda>_. None), ml_DecodeHeader = Some\<rparr>"

definition w_proc :: processor where
  "w_proc = \<lparr>pc_lib = w_lib, pc_toASCII = Some, pc_marshal = (\<lambda>_. Some ''json''), pc_jsonString = id, pc_MaxRawBytes = 100, pc_Provider = True\<rparr>"

definition w_at :: "string \<Rightarrow> bool \<Rightarrow> env" where
  "w_at t down = \<lparr>e_closed = down, e_tenant = t, e_clock = 5 * Second, e_newid = (\<lambda>n. CHR ''u'' # replicate n (CHR ''x''))\<rparr>"

definition w_henv :: handle_env where
  "w_henv = \<lparr>hv_settings = w_at ''t'' False, hv_get = w_at ''t'' False, hv_record = w_at ''t'' False, hv_mark = w_at ''t'' False,
     hv_suppress = w_at ''t'' False, hv_sender = w_at ''t'' False, hv_platform = w_at ''_system'' False, hv_enqueue = w_at ''t'' False,
     hv_eventID = ''b1'', hv_rand = replicate 36 (CHR ''k'')\<rparr>"

definition w_bmsg :: MailMessage where "w_bmsg = \<lparr>mm_ID = ''1'', mm_Raw = ''report'', mm_Received = 0\<rparr>"

definition w_bstores :: stores where
  "w_bstores t = (if t = ''t'' then newTenantData\<lparr>td_deliveries :=
     [(''d1'', zero_delivery\<lparr>d_ID := ''d1'', d_EmailNorm := ''a@b'', d_Status := DeliverySent\<rparr>)]\<rparr> else newTenantData)"

definition w_handled :: handled where
  "w_handled = Handle w_proc w_henv (9 * Second) ''t'' w_bmsg w_bstores"

lemma w_handled_eval:
  "oc_Processed (fst w_handled)" "map_option d_Status (map_of (td_deliveries (snd (snd w_handled) ''t'')) ''d1'') = Some DeliveryBounced"
  "map fst (td_suppressions (snd (snd w_handled) ''t'')) = [''a@b'']"
proof -
  have "(case w_handled of (out, _, st) \<Rightarrow> (oc_Processed out, map_option d_Status (map_of (td_deliveries (st ''t'')) ''d1''), map fst (td_suppressions (st ''t'')))) =
    (True, Some DeliveryBounced, [''a@b''])" by code_simp
  then show "oc_Processed (fst w_handled)" "map_option d_Status (map_of (td_deliveries (snd (snd w_handled) ''t'')) ''d1'') = Some DeliveryBounced"
    "map fst (td_suppressions (snd (snd w_handled) ''t'')) = [''a@b'']" by (simp_all add: case_prod_beta)
qed

theorem bounce_evidence_witness:
  "oc_Processed (fst w_handled) \<and> map_option d_Status (map_of (td_deliveries (snd (snd w_handled) ''t'')) ''d1'') = Some DeliveryBounced \<and>
   map fst (td_suppressions (snd (snd w_handled) ''t'')) = [''a@b'']"
proof -
  have h: "Handle w_proc w_henv (9 * Second) ''t'' w_bmsg w_bstores = (fst w_handled, fst (snd w_handled), snd (snd w_handled))"
    by (simp add: w_handled_def)
  note r = w_handled_eval
  have "map_option d_Status (map_of (td_deliveries (w_bstores ''t'')) ''d1'') = Some DeliverySent" by (simp add: w_bstores_def)
  then have "td_deliveries (snd (snd w_handled) ''t'') \<noteq> td_deliveries (w_bstores ''t'')" using r(2) by auto
  then have "\<not> same_core w_bstores (snd (snd w_handled))" unfolding same_core_def by blast
  moreover have "\<forall>i d. map_of (td_deliveries (w_bstores ''t'')) i = Some d \<longrightarrow> d_ID d = i" by (simp add: w_bstores_def)
  ultimately show ?thesis using bounce_evidence [OF h] r by blast
qed

section \<open>Each bounce once\<close>

lemma Handle_settings:
  assumes "LoadTenantSettings (hv_settings v) (hv_rand v) t nw (st t) = (Inr settings, s)" "\<not> e_closed e2" "td_settings s' = td_settings s"
  shows "\<exists>settings'. LoadTenantSettings e2 r2 t nw2 s' = (Inr settings', s') \<and> ts_Tracking settings' = ts_Tracking settings"
  using assms
  by (auto simp: LoadTenantSettings_def settings_Get_def settings_Create_def truncate_settings_def Let_def split: if_splits option.splits)

text \<open>
  C36.  A bounce is acted on once: when the same message comes back after it was acted on, whether or
  not that run got through all its steps, at any time and with whatever identifiers, it is
  skipped as already handled and no store changes.
\<close>

theorem bounce_once:
  assumes "Handle p v nw t msg st = (out, err, st')" "oc_Processed out"
    and "\<forall>i d. map_of (td_deliveries (st t)) i = Some d \<longrightarrow> d_ID d = i"
    and "\<not> e_closed (hv_settings v2)" "\<not> e_closed (hv_get v2)"
  shows "\<exists>out2. Handle p v2 nw2 t msg st' = (out2, None, st') \<and> oc_Skipped out2 = SkipAlreadyTerminal \<and> \<not> oc_Recorded out2"
proof -
  obtain settings s parsed d where h: "LoadTenantSettings (hv_settings v) (hv_rand v) t nw (st t) = (Inr settings, s)"
    "ParseWithKeys (pc_lib p) (mm_Raw msg) (tk_SigningKeys (ts_Tracking settings)) = Some parsed" "proves t parsed"
    "map_of (td_deliveries (st t)) (co_DeliveryID (ps_Correlation parsed)) = Some d"
    "acted_on t d (bounce_status parsed) nw st st'" "td_settings (st' t) = td_settings s"
    using Handle_cases [OF assms(1,3)] assms(2) by blast
  obtain settings' where l: "LoadTenantSettings (hv_settings v2) (hv_rand v2) t nw2 (st' t) = (Inr settings', st' t)"
    "ts_Tracking settings' = ts_Tracking settings" using Handle_settings [of v t nw st settings s, OF h(1) assms(4) h(6)] by blast
  have "d_ID d = co_DeliveryID (ps_Correlation parsed)" using h(4) assms(3) by blast
  then have g: "delivery_Get (hv_get v2) (co_DeliveryID (ps_Correlation parsed)) (st' t) = Inr (marked (bounce_status parsed) nw d)"
    using h(5) assms(5) by (simp add: acted_on_def delivery_Get_def)
  have "d_Status (marked (bounce_status parsed) nw d) \<in> {DeliveryBounced, DeliveryComplained}"
    "d_Status (marked (bounce_status parsed) nw d) \<noteq> DeliverySent"
    by (simp_all add: marked_def truncateDelivery_def bounce_status_def)
  moreover have "co_Verified (ps_Correlation parsed)" "ps_Type parsed \<noteq> BounceSoft" "ps_Type parsed \<noteq> BounceUnknown"
    "\<not> ps_AutoReply parsed" "co_DeliveryID (ps_Correlation parsed) \<noteq> ''''"
    "co_TenantID (ps_Correlation parsed) = '''' \<or> co_TenantID (ps_Correlation parsed) = t" using h(3) by (auto simp: proves_def)
  ultimately have "handle_parsed p v2 settings' t msg parsed nw2 (st'(t := st' t)) =
      (zero_outcome\<lparr>oc_Parsed := parsed, oc_Skipped := SkipAlreadyTerminal\<rparr>, None, st')"
    using g by (auto simp: handle_parsed_def handle_delivery_def IsBounce_def Let_def)
  then show ?thesis using l h(2) by (simp add: Handle_def zero_outcome_def)
qed

theorem bounce_once_witness:
  "\<exists>out2. Handle w_proc w_henv (20 * Second) ''t'' w_bmsg (snd (snd w_handled)) = (out2, None, snd (snd w_handled)) \<and>
     oc_Skipped out2 = SkipAlreadyTerminal"
proof -
  have h: "Handle w_proc w_henv (9 * Second) ''t'' w_bmsg w_bstores = (fst w_handled, fst (snd w_handled), snd (snd w_handled))"
    by (simp add: w_handled_def)
  note w_handled_eval(1)
  moreover have "\<forall>i d. map_of (td_deliveries (w_bstores ''t'')) i = Some d \<longrightarrow> d_ID d = i" by (simp add: w_bstores_def)
  moreover have "\<not> e_closed (hv_settings w_henv)" "\<not> e_closed (hv_get w_henv)" by code_simp+
  ultimately show ?thesis using bounce_once [OF h, of w_henv "20 * Second"] by blast
qed

text \<open>
  The price: a run whose suppression write fails returns an error, so that the message is fetched
  again, but the second run skips it, and the address is never suppressed.
\<close>

definition w_failing :: handle_env where
  "w_failing = w_henv\<lparr>hv_suppress := w_at ''t'' True\<rparr>"

lemma bounce_suppression_lost:
  "(let (out, err, st) = Handle w_proc w_failing (9 * Second) ''t'' w_bmsg w_bstores;
        (out2, err2, st2) = Handle w_proc w_henv (20 * Second) ''t'' w_bmsg st
    in err = Some (BounceStore ''suppress'' ErrClosed) \<and> oc_Skipped out2 = SkipAlreadyTerminal \<and> err2 = None \<and>
       td_suppressions (st2 ''t'') = [] \<and> td_outbox (st2 ''t'') = [])"
  by code_simp

end
