(* ===== verification/Mailbox_Health.thy ===== *)
theory Mailbox_Health
  imports Control_Campaign Samples
begin

text \<open>
  \<^verbatim>\<open>internal/mbhealth\<close>: how an observation of a mailbox becomes its stored health and, when the
  verdict flips, an outbox event.
\<close>

section \<open>Model\<close>

abbreviation EventMailboxUnhealthy :: string where "EventMailboxUnhealthy \<equiv> ''mailbox.unhealthy''"
abbreviation EventMailboxRecovered :: string where "EventMailboxRecovered \<equiv> ''mailbox.recovered''"

datatype MailboxKind = KindProbe | KindBounce

definition FailuresForEvent :: int where "FailuresForEvent = 2"

record HealthMailbox =
  hm_ID :: string
  hm_Name :: string
  hm_Health :: MailboxHealth

record HealthOutcome =
  ho_OK :: bool
  ho_Stage :: string
  ho_Reason :: string

definition health_OK :: HealthOutcome where
  "health_OK = \<lparr>ho_OK = True, ho_Stage = '''', ho_Reason = ''''\<rparr>"

definition health_Fail :: "string \<Rightarrow> string \<Rightarrow> HealthOutcome" where
  "health_Fail stage reason = \<lparr>ho_OK = False, ho_Stage = stage, ho_Reason = reason\<rparr>"

definition Next :: "MailboxHealth \<Rightarrow> HealthOutcome \<Rightarrow> go_time \<Rightarrow> MailboxHealth" where
  "Next prev out nw =
    (let nw = TruncateTime nw
     in if ho_OK out
        then \<lparr>mh_Status = MailboxOK, mh_Stage = MailboxStageOK, mh_Reason = '''', mh_CheckedAt = nw, mh_LastOKAt = nw,
              mh_ConsecutiveFailures = 0\<rparr>
        else \<lparr>mh_Status = MailboxError, mh_Stage = ho_Stage out, mh_Reason = ho_Reason out, mh_CheckedAt = nw,
              mh_LastOKAt = mh_LastOKAt prev, mh_ConsecutiveFailures = mh_ConsecutiveFailures prev + 1\<rparr>)"

definition transition :: "MailboxHealth \<Rightarrow> MailboxHealth \<Rightarrow> string" where
  "transition prev next =
    (if mh_Status next = MailboxError \<and> mh_ConsecutiveFailures next = FailuresForEvent then EventMailboxUnhealthy
     else if mh_Status next = MailboxOK \<and> mh_Status prev = MailboxError \<and> mh_ConsecutiveFailures prev \<ge> FailuresForEvent
     then EventMailboxRecovered
     else '''')"

record mailboxEventPayload =
  mp_Kind :: MailboxKind
  mp_MailboxID :: string
  mp_Name :: string
  mp_Status :: MailboxStatus
  mp_Stage :: string
  mp_Reason :: string
  mp_Failures :: int
  mp_CheckedAt :: go_time
  mp_LastOKAt :: go_time
  mp_OccurredAt :: go_time

definition mailbox_payload :: "MailboxKind \<Rightarrow> HealthMailbox \<Rightarrow> MailboxHealth \<Rightarrow> go_time \<Rightarrow> mailboxEventPayload" where
  "mailbox_payload kind m next nw =
    \<lparr>mp_Kind = kind, mp_MailboxID = hm_ID m, mp_Name = hm_Name m, mp_Status = mh_Status next, mp_Stage = mh_Stage next,
     mp_Reason = mh_Reason next, mp_Failures = mh_ConsecutiveFailures next, mp_CheckedAt = mh_CheckedAt next,
     mp_LastOKAt = mh_LastOKAt next, mp_OccurredAt = TruncateTime nw\<rparr>"

text \<open>\<open>e\<close> and \<open>e'\<close> are the circumstances of the health write and of the enqueue.\<close>

definition RecordHealth ::
  "(mailboxEventPayload \<Rightarrow> string option) \<Rightarrow> env \<Rightarrow> env \<Rightarrow> MailboxKind \<Rightarrow> HealthMailbox \<Rightarrow> HealthOutcome \<Rightarrow> go_time
    \<Rightarrow> tenant_data \<Rightarrow> MailboxHealth \<times> ctl_err option \<times> tenant_data" where
  "RecordHealth marshal e e' kind m out nw s =
    (let next = Next (hm_Health m) out nw
     in case (case kind of KindProbe \<Rightarrow> probeMailbox_UpdateHealth e (hm_ID m) next s
              | KindBounce \<Rightarrow> bounceMailbox_UpdateHealth e (hm_ID m) next s) of
          (Some err, s) \<Rightarrow> (next, Some (StoreErr err), s)
        | (None, s) \<Rightarrow>
            (let typ = transition (hm_Health m) next
             in if typ = '''' then (next, None, s)
                else case marshal (mailbox_payload kind m next nw) of None \<Rightarrow> (next, Some MarshalErr, s)
                | Some payload \<Rightarrow> (next, lift_err (Enqueue e' [pending_event typ payload (TruncateTime nw)] s))))"

section \<open>Events alternate\<close>

text \<open>The healths and events of a sequence of observations of one mailbox.\<close>

fun health_run :: "MailboxHealth \<Rightarrow> (HealthOutcome \<times> go_time) list \<Rightarrow> MailboxHealth \<times> string list" where
  "health_run h [] = (h, [])"
| "health_run h ((out, nw) # os) =
    (case health_run (Next h out nw) os of
       (h', evs) \<Rightarrow> (h', (let typ = transition h (Next h out nw) in if typ = '''' then evs else typ # evs)))"

text \<open>An operator who reads the events knows whether the mailbox is reported down.\<close>

fun reported :: "bool \<Rightarrow> string list \<Rightarrow> bool option" where
  "reported down [] = Some down"
| "reported down (ev # evs) =
    (if ev = EventMailboxUnhealthy \<and> \<not> down then reported True evs
     else if ev = EventMailboxRecovered \<and> down then reported False evs else None)"

definition health_wf :: "MailboxHealth \<Rightarrow> bool" where
  "health_wf h \<longleftrightarrow> mh_ConsecutiveFailures h \<ge> 0 \<and> (mh_Status h = MailboxError \<longleftrightarrow> mh_ConsecutiveFailures h > 0)"

definition is_down :: "MailboxHealth \<Rightarrow> bool" where
  "is_down h \<longleftrightarrow> mh_ConsecutiveFailures h \<ge> FailuresForEvent"

lemma Next_wf: "health_wf h \<Longrightarrow> health_wf (Next h out nw)"
  by (auto simp: health_wf_def Next_def Let_def)

lemma transition_reports:
  "health_wf h \<Longrightarrow> (let t = transition h (Next h out nw) in
     reported (is_down h) (if t = '''' then evs else t # evs) = reported (is_down (Next h out nw)) evs)"
  by (cases "ho_OK out"; cases "mh_ConsecutiveFailures h \<ge> 2"; cases "mh_ConsecutiveFailures h = 1")
    (simp_all add: health_wf_def Next_def transition_def is_down_def FailuresForEvent_def Let_def)

text \<open>The number of failures at the end of a sequence of observations.\<close>

definition streak :: "(HealthOutcome \<times> go_time) list \<Rightarrow> int" where
  "streak os = int (length (takeWhile (\<lambda>x. \<not> ho_OK (fst x)) (rev os)))"

lemma streak_Cons:
  "streak (x # os) = (if list_ex (\<lambda>x. ho_OK (fst x)) os then streak os else streak os + (if ho_OK (fst x) then 0 else 1))"
proof (cases "list_ex (\<lambda>x. ho_OK (fst x)) os")
  case True
  then show ?thesis by (auto simp: streak_def takeWhile_append list_ex_iff)
next
  case False
  then have "takeWhile (\<lambda>x. \<not> ho_OK (fst x)) (rev os) = rev os" by (auto simp: takeWhile_eq_all_conv list_ex_iff)
  then have "int (length (takeWhile (\<lambda>x. \<not> ho_OK (fst x)) (rev os))) = int (length os)" by (metis length_rev)
  then show ?thesis using False by (auto simp: streak_def takeWhile_append list_ex_iff)
qed

lemma health_run_state:
  "health_wf h \<Longrightarrow> health_run h os = (h', evs) \<Longrightarrow> health_wf h' \<and> reported (is_down h) evs = Some (is_down h') \<and>
    mh_ConsecutiveFailures h' = (if list_ex (\<lambda>x. ho_OK (fst x)) os then streak os else mh_ConsecutiveFailures h + streak os)"
proof (induction os arbitrary: h h' evs)
  case (Cons x os)
  obtain out nw where x: "x = (out, nw)" by fastforce
  obtain h2 evs2 where r: "health_run (Next h out nw) os = (h2, evs2)" by fastforce
  note IH = Cons.IH [OF Next_wf [OF Cons.prems(1)] r]
  show ?case using IH streak_Cons [of x os] transition_reports [OF Cons.prems(1), of out nw evs2] Cons.prems(2) r x
    by (auto simp: Let_def Next_def)
qed (simp add: streak_def)

text \<open>
  C38.  For a mailbox first seen with a clean health, the events of any sequence of observations
  alternate, an outage first, and an outage is reported and not yet over exactly if the last
  two observations failed; the stored failure count is the current streak.
\<close>

theorem mailbox_events_alternate:
  assumes "mh_Status h \<noteq> MailboxError" "mh_ConsecutiveFailures h = 0" "health_run h os = (h', evs)"
  shows "reported False evs = Some (streak os \<ge> 2) \<and> mh_ConsecutiveFailures h' = streak os"
proof -
  have "health_wf h" "\<not> is_down h" using assms by (auto simp: health_wf_def is_down_def FailuresForEvent_def)
  then show ?thesis using health_run_state [of h os h' evs] assms by (simp add: is_down_def FailuresForEvent_def)
qed

definition w_health :: MailboxHealth where
  "w_health = \<lparr>mh_Status = MailboxUnknown, mh_Stage = '''', mh_Reason = '''', mh_CheckedAt = 0, mh_LastOKAt = 0, mh_ConsecutiveFailures = 0\<rparr>"

definition w_observations :: "(HealthOutcome \<times> go_time) list" where
  "w_observations = map (\<lambda>ok. (if ok then health_OK else health_Fail ''auth'' ''refused'', Second)) [False, True, False, False, False, True, False, False]"

theorem mailbox_events_alternate_witness:
  "snd (health_run w_health w_observations) = [EventMailboxUnhealthy, EventMailboxRecovered, EventMailboxUnhealthy] \<and>
   mh_ConsecutiveFailures (fst (health_run w_health w_observations)) = 2"
proof -
  have s: "streak w_observations = 2" and e: "snd (health_run w_health w_observations) = [EventMailboxUnhealthy, EventMailboxRecovered, EventMailboxUnhealthy]"
    by code_simp+
  have "mh_Status w_health \<noteq> MailboxError" "mh_ConsecutiveFailures w_health = 0" by (simp_all add: w_health_def)
  from mailbox_events_alternate [OF this prod.collapse [symmetric], of w_observations] s e show ?thesis by simp
qed

end
