(* ===== verification/Bounce_Poller.thy ===== *)
theory Bounce_Poller
  imports Bounce_Thms Mailbox_Health "HOL-Library.Sublist"
begin

text \<open>
  \<^verbatim>\<open>internal/bounce/poller.go\<close>: one pass over a mailbox under its lock, the list of workers, and the
  waits between passes.  The mailbox server is the list of answers it gives to the fetches of a
  pass; the session timeout makes the fetch behind the last one fail.
\<close>

section \<open>Configuration\<close>

record TenantMailbox =
  tm_TenantID :: string
  tm_MailboxID :: string
  tm_AfterProcess :: string
  tm_PollInterval :: duration
  tm_Platform :: bool

definition mailbox_key :: "TenantMailbox \<Rightarrow> string" where
  "mailbox_key m = tm_TenantID m @ ''/'' @ tm_MailboxID m"


record RunnerConfig =
  rc_Owner :: string
  rc_PollInterval :: duration
  rc_FetchBatch :: int
  rc_RefreshInterval :: duration
  rc_LockTTL :: duration
  rc_SessionTimeout :: duration
  rc_MaxBackoff :: duration
  rc_UseIdle :: bool

definition runner_withDefaults :: "RunnerConfig \<Rightarrow> RunnerConfig" where
  "runner_withDefaults c =
    c\<lparr>rc_PollInterval := (if rc_PollInterval c \<le> 0 then Minute else rc_PollInterval c),
      rc_FetchBatch := (if rc_FetchBatch c \<le> 0 then 50 else rc_FetchBatch c),
      rc_RefreshInterval := (if rc_RefreshInterval c \<le> 0 then 5 * Minute else rc_RefreshInterval c),
      rc_LockTTL := (if rc_LockTTL c \<le> 0 then 2 * Minute else rc_LockTTL c),
      rc_SessionTimeout := (if rc_SessionTimeout c \<le> 0 then 10 * Minute else rc_SessionTimeout c),
      rc_MaxBackoff := (if rc_MaxBackoff c \<le> 0 then 15 * Minute else rc_MaxBackoff c)\<rparr>"

text \<open>\<^verbatim>\<open>NewRunner\<close>; the flags say whether a provider and a source are configured.\<close>

definition NewRunner :: "bool \<Rightarrow> bool \<Rightarrow> RunnerConfig \<Rightarrow> RunnerConfig option" where
  "NewRunner provider source c =
    (if \<not> provider \<or> \<not> source \<or> rc_Owner c = '''' then None else Some (runner_withDefaults c))"

section \<open>Workers\<close>

text \<open>The keys of the workers after a refresh; a failed listing changes nothing.\<close>

definition wanted_boxes :: "TenantMailbox list \<Rightarrow> (string, TenantMailbox) gomap" where
  "wanted_boxes boxes =
    fold (\<lambda>b m. if tm_TenantID b = '''' \<or> tm_MailboxID b = '''' then m else AList.update (mailbox_key b) b m) boxes []"

definition refresh_workers :: "(string + TenantMailbox list) \<Rightarrow> string list \<Rightarrow> string list" where
  "refresh_workers listing workers =
    (case listing of Inl _ \<Rightarrow> workers
     | Inr boxes \<Rightarrow>
        (let want = map fst (wanted_boxes boxes); kept = filter (\<lambda>k. k \<in> set want) workers
         in kept @ filter (\<lambda>k. k \<notin> set kept) want))"

section \<open>Waiting\<close>

definition nextBackoff :: "duration \<Rightarrow> duration \<Rightarrow> duration \<Rightarrow> duration" where
  "nextBackoff current interval mx =
    (let current = (if current \<le> 0 then interval else current * 2) in if current > mx then mx else current)"

text \<open>The backoff after a pass and the wait before the next one; \<open>failed\<close> excludes a cancelled context.\<close>

definition poll_wait :: "RunnerConfig \<Rightarrow> TenantMailbox \<Rightarrow> bool \<Rightarrow> bool \<Rightarrow> duration \<Rightarrow> duration \<times> duration" where
  "poll_wait cfg box failed idled bo =
    (let interval = (if tm_PollInterval box \<le> 0 then rc_PollInterval cfg else tm_PollInterval box);
         bo = (if failed then nextBackoff bo interval (rc_MaxBackoff cfg) else 0)
     in (bo, if bo > 0 then bo else if idled then 0 else interval))"

section \<open>A pass\<close>

















section \<open>Properties\<close>





















end
