(* ===== verification/Spec2Isabelle.thy ===== *)
theory Spec2Isabelle
  imports Delivery_Thms Repos_Thms Policy_Thms Limiter_Thms Tracking_Thms Health_Thms Process_Thms Loop_Thms Control_Cycle Dispatch_Thms Bounce_Poller
begin

text \<open>
  Verification of sendplane, a multi-tenant bulk and transactional mail system written in Go.

  \<^bold>\<open>The program.\<close>  A \<^emph>\<open>store\<close> keeps everything a tenant owns: campaigns, one delivery row per
  recipient, templates, transports, suppressions, tracking events, an event outbox and locks.
  Replicas of the \<^emph>\<open>sender\<close> claim deliveries under a lease, render and send them over SMTP and
  commit the outcome.  One elected replica of the \<^emph>\<open>control plane\<close> starts, completes and cancels
  campaigns, reaps leases, applies retention and dispatches the outbox to the host.  Links and
  envelope senders carry \<^emph>\<open>signed tokens\<close> that bring opens, clicks, unsubscribes and bounces back to
  their delivery.

  \<^bold>\<open>Conventions.\<close>  A Go struct is a record whose fields carry a short prefix, an enum a datatype,
  a Go map an association list, a time the number of nanoseconds with 0 for the zero time, a
  float64 a rational, a string or byte slice a list of characters.  An error is a value
  (\<^verbatim>\<open>store_err\<close>, \<^verbatim>\<open>ctl_err\<close>, \<^verbatim>\<open>tok_err\<close>, ...); a result with an error is a sum or an option.  State is
  passed explicitly.  One store call runs under the provider's mutex, so it is one atomic
  function; its environment \<^verbatim>\<open>env\<close> holds what it reads from outside: whether the provider is
  closed, the tenant, the clock and fresh identifiers.  Code outside the repository (template
  engine, MIME composition, DKIM, SMTP replies, JSON encoding, the host's hooks) is an argument.

  \<^bold>\<open>Theories.\<close>

  \<^item> \<^verbatim>\<open>SP_Prelude\<close>: lists cut to a limit, slices sorted by a less function, association lists.
  \<^item> \<^verbatim>\<open>Store_Types\<close>: the types of \<^verbatim>\<open>store/*.go\<close>, with time truncation, page normalization and tenant
    settings.
  \<^item> \<^verbatim>\<open>Mem_Table\<close>, \<^verbatim>\<open>Mem_Store\<close>, \<^verbatim>\<open>Mem_Delivery\<close>, \<^verbatim>\<open>Mem_Repos\<close>: the in-memory store of \<^verbatim>\<open>store/memstore\<close>,
    every repository method.  The locale \<^verbatim>\<open>table_meta\<close> is the contract of a table's meta value; it
    is interpreted for every table.  \<^verbatim>\<open>Delivery_Props\<close> has the invariants of the delivery queue;
    \<^verbatim>\<open>Delivery_Thms\<close> and \<^verbatim>\<open>Repos_Thms\<close> the properties: claims are exclusive and ordered, nothing
    settled is sent again, commits are idempotent, leases and locks exclude each other, updates
    are optimistic, listings are complete, counts are exact.
  \<^item> \<^verbatim>\<open>Go_Strings\<close>, \<^verbatim>\<open>Go_Encoding\<close>, \<^verbatim>\<open>Go_Crypto\<close>: what the sources use of the Go library: string
    functions, varints, base64, SHA-256 and HMAC over 32-bit words.
  \<^item> \<^verbatim>\<open>Sender_Policy\<close>, \<^verbatim>\<open>Sender_Limiter\<close>, \<^verbatim>\<open>Sender_Health\<close>, \<^verbatim>\<open>Sender_Message\<close>, \<^verbatim>\<open>Sender_Process\<close>,
    \<^verbatim>\<open>Sender_Loop\<close>: \<^verbatim>\<open>internal/sender\<close>, from SMTP reply classification to the replica as a transition
    relation over its goroutines.  \<^verbatim>\<open>Policy_Thms\<close>, \<^verbatim>\<open>Limiter_Thms\<close>, \<^verbatim>\<open>Health_Thms\<close>, \<^verbatim>\<open>Process_Thms\<close>
    and \<^verbatim>\<open>Loop_Thms\<close> show the retry budget, the rate bound, the transport circuit, who is contacted
    and what is recorded, header safety, and that capacity is never exceeded.
  \<^item> \<^verbatim>\<open>Tracking_Token\<close>: \<^verbatim>\<open>internal/tracking\<close>; \<^verbatim>\<open>Tracking_Thms\<close> shows that tokens and addresses round
    trip and that a signature binds every field.
  \<^item> \<^verbatim>\<open>Control_Campaign\<close>, \<^verbatim>\<open>Control_Loops\<close>: the campaign operations and the leader's loops of
    \<^verbatim>\<open>internal/control\<close>.  In \<^verbatim>\<open>Control_Walk\<close> the locale \<^verbatim>\<open>campaign_visitor\<close> is what the paged campaign
    walk relies on from a callback; it is interpreted for all four loops.
  \<^item> \<^verbatim>\<open>Samples\<close>: zero values of the records, used by the concrete instances beside the properties.

  \<^bold>\<open>Bounds and fuel.\<close>  Functions are total.  Loops over pages of a changing table carry a bound on
  the number of pages that is one more than the number of rows; \<^verbatim>\<open>Control_Walk\<close> proves it is enough.
  The listing client \<^verbatim>\<open>walk_pages\<close> has a termination proof instead.  Bounds of the code itself
  (retry chunks, delete chunks, hex and varint lengths) are kept as they are.

  \<^bold>\<open>Not modelled.\<close>
  The PostgreSQL and MongoDB backends (their behaviour is that of the
  database engine), the HTTP layer (\<^verbatim>\<open>internal/api\<close>, mostly generated), the template and MIME
  libraries behind \<^verbatim>\<open>internal/render\<close>, the IMAP and POP3 clients, command line programs, test suites
  and the web console.  Context cancellation, logging, metrics and timers are left out of the
  modelled code; a cancelled context only ends a loop early.
\<close>

end
